(* ===== verification/Prelude.thy ===== *)
theory Prelude
  imports Main
begin

text \<open>
  Shared vocabulary of the development: the types the services pass around, the
  JavaScript idioms they use on them (\<open>??\<close>, truthiness, decimal printing, padding,
  rounding), the reading of a database table as a list of rows, and the generic lemmas
  the component theories lean on.

  Conventions used everywhere:
  \<^item> an instant (\<open>Date\<close>) is its \<open>getTime()\<close>, an \<open>int\<close> of milliseconds;
  \<^item> an amount of money is an \<open>int\<close> of paise;
  \<^item> \<open>null\<close> and \<open>undefined\<close> are \<open>None\<close>;
  \<^item> a Prisma table is the list of its rows, oldest first; a \<open>where\<close> clause is a
    predicate on rows, \<open>findFirst\<close>/\<open>findUnique\<close> is \<open>List.find\<close>, \<open>count\<close> the length of
    the filtered list, \<open>update\<close>/\<open>updateMany\<close> is \<open>update_rows\<close>;
  \<^item> an HTTP exception is the left side of a sum;
  \<^item> text is the list of its UTF-8 bytes.
\<close>

section \<open>Types\<close>

type_synonym org = string
type_synonym ms = int
type_synonym paise = int

section \<open>Lemma collections\<close>

named_theorems row_simps \<open>reading a table after an update of its rows\<close>
named_theorems js_simps \<open>evaluation of the JavaScript idioms\<close>

section \<open>JavaScript idioms\<close>

text \<open>\<open>a ?? b\<close> with both sides nullable, and with a definite fallback.\<close>

definition nullish :: "'a option \<Rightarrow> 'a option \<Rightarrow> 'a option" where
  "nullish a b = (case a of None \<Rightarrow> b | Some x \<Rightarrow> Some x)"

definition nullish_def_val :: "'a option \<Rightarrow> 'a \<Rightarrow> 'a" where
  "nullish_def_val a d = (case a of None \<Rightarrow> d | Some x \<Rightarrow> x)"

text \<open>\<open>!!s\<close> of a nullable string: neither missing nor empty.\<close>

definition truthy :: "string option \<Rightarrow> bool" where
  "truthy s = (case s of None \<Rightarrow> False | Some x \<Rightarrow> x \<noteq> [])"

lemma nullish_simps [simp, js_simps]:
  "nullish None b = b" "nullish (Some x) b = Some x"
  by (simp_all add: nullish_def)

lemma nullish_def_val_simps [simp, js_simps]:
  "nullish_def_val None d = d" "nullish_def_val (Some x) d = x"
  by (simp_all add: nullish_def_val_def)

lemma nullish_None_right [simp]: "nullish a None = a"
  by (cases a) simp_all

lemma nullish_None_iff [simp]: "nullish a b = None \<longleftrightarrow> a = None \<and> b = None"
  by (cases a) simp_all

lemma truthy_simps [simp, js_simps]:
  "truthy None = False" "truthy (Some x) = (x \<noteq> [])"
  by (simp_all add: truthy_def)

text \<open>
  \<open>Math.round(a / b)\<close> for a positive divisor: the nearest integer, halves upwards.
\<close>

definition js_round_div :: "int \<Rightarrow> int \<Rightarrow> int" where
  "js_round_div a b = (2 * a + b) div (2 * b)"

lemma js_round_div_bounds:
  assumes "0 < b"
  shows "2 * b * js_round_div a b \<le> 2 * a + b"
    and "2 * a - b < 2 * b * js_round_div a b"
proof -
  let ?q = "(2 * a + b) div (2 * b)" and ?r = "(2 * a + b) mod (2 * b)"
  have eq: "2 * b * ?q + ?r = 2 * a + b" by (rule mult_div_mod_eq)
  have "0 \<le> ?r" "?r < 2 * b" using assms by simp_all
  with eq show "2 * b * js_round_div a b \<le> 2 * a + b"
    and "2 * a - b < 2 * b * js_round_div a b"
    unfolding js_round_div_def by linarith+
qed

lemma js_round_div_nonneg: "0 < b \<Longrightarrow> 0 \<le> a \<Longrightarrow> 0 \<le> js_round_div a b"
  by (simp add: js_round_div_def pos_imp_zdiv_nonneg_iff)

lemma js_round_div_le:
  assumes "0 < b" "a \<le> k * b"
  shows "js_round_div a b \<le> k"
proof -
  have "2 * b * js_round_div a b < 2 * b * (k + 1)"
    using js_round_div_bounds(1) [OF assms(1), of a] assms by (simp add: algebra_simps)
  then have "js_round_div a b < k + 1"
    using assms(1) by (simp add: mult_less_cancel_left_pos)
  then show ?thesis by simp
qed

lemma mod_eq_near:
  assumes "(x::nat) mod n = y mod n" "x < y + 2 * n" "y < x + 2 * n"
  shows "x = y \<or> x = y + n \<or> y = x + n"
proof -
  define p q r where "p = x div n" and "q = y div n" and "r = x mod n"
  have x: "x = n * p + r" by (simp add: p_def r_def)
  have y: "y = n * q + r" by (simp add: q_def r_def assms(1))
  have "n * p < n * (q + 2)" "n * q < n * (p + 2)" using assms(2,3) x y by simp_all
  then have "p < q + 2" "q < p + 2" by (simp_all only: mult_less_cancel1)
  then consider "p = q" | "p = q + 1" | "q = p + 1" by linarith
  then show ?thesis using x y by cases simp_all
qed

lemma add_mod_cancel:
  assumes "(t::nat) + x = s + y" "s mod n = t mod n"
  shows "x mod n = y mod n"
proof -
  have "int s mod int n = int t mod int n" using assms(2) by (metis zmod_int)
  then have "int n dvd int s - int t" by (simp add: mod_eq_dvd_iff)
  moreover have "int s - int t = int x - int y" using assms(1) by linarith
  ultimately have "int x mod int n = int y mod int n" by (simp add: mod_eq_dvd_iff)
  then show ?thesis by (metis zmod_int of_nat_eq_iff)
qed

section \<open>Decimal strings\<close>

definition digit_char :: "nat \<Rightarrow> char" where
  "digit_char d = char_of (48 + d)"

definition is_digit :: "char \<Rightarrow> bool" where
  "is_digit c = (48 \<le> (of_char c :: nat) \<and> (of_char c :: nat) \<le> 57)"

definition is_upper :: "char \<Rightarrow> bool" where
  "is_upper c = (65 \<le> (of_char c :: nat) \<and> (of_char c :: nat) \<le> 90)"

definition digit_val :: "char \<Rightarrow> nat" where
  "digit_val c = of_char c - 48"

text \<open>\<open>String(n)\<close> of a natural number.\<close>

fun nat_str :: "nat \<Rightarrow> string" where
  "nat_str n = (if n < 10 then [digit_char n] else nat_str (n div 10) @ [digit_char (n mod 10)])"

declare nat_str.simps [simp del]

definition int_str :: "int \<Rightarrow> string" where
  "int_str n = (if n < 0 then ''-'' @ nat_str (nat (- n)) else nat_str (nat n))"

text \<open>Two characters of the messages that are not ASCII.\<close>

definition rupee_sign :: string where
  "rupee_sign = [CHR 0xE2, CHR 0x82, CHR 0xB9]"

definition em_dash :: string where
  "em_dash = [CHR 0xE2, CHR 0x80, CHR 0x94]"

text \<open>\<open>Number(s)\<close> of a string of digits.\<close>

definition str_nat :: "string \<Rightarrow> nat" where
  "str_nat s = foldl (\<lambda>acc c. 10 * acc + digit_val c) 0 s"

text \<open>\<open>s.padStart(w, c)\<close>.\<close>

definition pad_start :: "nat \<Rightarrow> char \<Rightarrow> string \<Rightarrow> string" where
  "pad_start w c s = replicate (w - length s) c @ s"

lemma of_char_digit_char: "d < 10 \<Longrightarrow> (of_char (digit_char d) :: nat) = 48 + d"
  by (simp add: digit_char_def of_char_of)

lemma digit_val_digit_char [simp]: "d < 10 \<Longrightarrow> digit_val (digit_char d) = d"
  by (simp add: digit_val_def of_char_digit_char)

lemma is_digit_digit_char [simp]: "d < 10 \<Longrightarrow> is_digit (digit_char d)"
  by (simp add: is_digit_def of_char_digit_char)

lemma str_nat_snoc: "str_nat (s @ [c]) = 10 * str_nat s + digit_val c"
  by (simp add: str_nat_def)

lemma str_nat_nat_str [simp]: "str_nat (nat_str n) = n"
proof (induction n rule: nat_str.induct)
  case (1 n)
  show ?case
  proof (cases "n < 10")
    case True
    then show ?thesis by (simp add: nat_str.simps [of n] str_nat_def)
  next
    case False
    then have "str_nat (nat_str n) = 10 * (n div 10) + n mod 10"
      using "1" by (simp add: nat_str.simps [of n] str_nat_snoc)
    then show ?thesis by simp
  qed
qed

lemma nat_str_digits: "list_all is_digit (nat_str n)"
proof (induction n rule: nat_str.induct)
  case (1 n)
  then show ?case by (cases "n < 10") (simp_all add: nat_str.simps [of n])
qed

lemma nat_str_inj: "nat_str m = nat_str n \<longleftrightarrow> m = n"
  using str_nat_nat_str by metis

lemma nat_str_nonempty [simp]: "nat_str n \<noteq> []"
  by (simp add: nat_str.simps [of n])

lemma str_nat_zeros: "str_nat (replicate k CHR ''0'' @ s) = str_nat s"
proof (induction k)
  case 0
  then show ?case by simp
next
  case (Suc k)
  then show ?case by (simp add: str_nat_def digit_val_def)
qed

lemma str_nat_pad_start [simp]: "str_nat (pad_start w CHR ''0'' s) = str_nat s"
  by (simp add: pad_start_def str_nat_zeros)

lemma length_pad_start [simp]: "length (pad_start w c s) = max w (length s)"
  by (simp add: pad_start_def)

lemma pad_start_digits: "list_all is_digit s \<Longrightarrow> list_all is_digit (pad_start w CHR ''0'' s)"
  by (auto simp: pad_start_def list_all_iff is_digit_def)

section \<open>Tables\<close>

definition update_rows :: "('r \<Rightarrow> bool) \<Rightarrow> ('r \<Rightarrow> 'r) \<Rightarrow> 'r list \<Rightarrow> 'r list" where
  "update_rows p f rows = map (\<lambda>r. if p r then f r else r) rows"

definition count_rows :: "('r \<Rightarrow> bool) \<Rightarrow> 'r list \<Rightarrow> nat" where
  "count_rows p rows = length (filter p rows)"

lemma length_update_rows [simp, row_simps]: "length (update_rows p f rows) = length rows"
  by (simp add: update_rows_def)

lemma update_rows_simps [simp, row_simps]:
  "update_rows p f [] = []"
  "update_rows p f (r # rows) = (if p r then f r else r) # update_rows p f rows"
  by (simp_all add: update_rows_def)

lemma set_update_rows [row_simps]:
  "set (update_rows p f rows) = (\<lambda>r. if p r then f r else r) ` set rows"
  by (simp add: update_rows_def)

lemma update_rows_append [row_simps]:
  "update_rows p f (xs @ ys) = update_rows p f xs @ update_rows p f ys"
  by (simp add: update_rows_def)

lemma map_key_update_rows [row_simps]:
  "(\<And>r. p r \<Longrightarrow> key (f r) = key r) \<Longrightarrow> map key (update_rows p f rows) = map key rows"
  by (simp add: update_rows_def)

lemma update_rows_all:
  "(\<And>r. r \<in> set rows \<Longrightarrow> P r) \<Longrightarrow> (\<And>r. r \<in> set rows \<Longrightarrow> p r \<Longrightarrow> P r \<Longrightarrow> Q (f r)) \<Longrightarrow>
   (\<And>r. P r \<Longrightarrow> \<not> p r \<Longrightarrow> Q r) \<Longrightarrow> r' \<in> set (update_rows p f rows) \<Longrightarrow> Q r'"
  by (auto simp: update_rows_def)

lemma update_rows_none: "\<forall>r \<in> set rows. \<not> p r \<Longrightarrow> update_rows p f rows = rows"
  by (induction rows) simp_all

lemma update_rows_cong:
  "(\<And>r. r \<in> set rows \<Longrightarrow> p r = q r) \<Longrightarrow> (\<And>r. r \<in> set rows \<Longrightarrow> q r \<Longrightarrow> f r = g r) \<Longrightarrow>
   update_rows p f rows = update_rows q g rows"
  by (simp add: update_rows_def)

lemma update_rows_twice:
  "(\<And>r. p r \<Longrightarrow> p (f r)) \<Longrightarrow>
   update_rows p g (update_rows p f rows) = update_rows p (\<lambda>r. g (f r)) rows"
  by (simp add: update_rows_def)

text \<open>A key that is unique picks out one row.\<close>

lemma unique_key_eq:
  "distinct (map key rows) \<Longrightarrow> r \<in> set rows \<Longrightarrow> s \<in> set rows \<Longrightarrow> key r = key s \<Longrightarrow> r = s"
  by (metis distinct_map inj_on_def)

text \<open>Changing the key of one row keeps keys apart when the new one is free.\<close>

lemma distinct_update_one:
  "distinct (map key rows) \<Longrightarrow> (\<And>r. r \<in> set rows \<Longrightarrow> p r \<Longrightarrow> r = r\<^sub>0) \<Longrightarrow>
   (\<And>r. r \<in> set rows \<Longrightarrow> \<not> p r \<Longrightarrow> key r \<noteq> key (f r\<^sub>0)) \<Longrightarrow>
   distinct (map key (update_rows p f rows))"
proof (induction rows)
  case (Cons a rows)
  show ?case
  proof (cases "p a")
    case True
    then have "a = r\<^sub>0" using Cons.prems(2) by simp
    have none: "\<forall>r \<in> set rows. \<not> p r"
    proof (intro ballI notI)
      fix r assume r: "r \<in> set rows" "p r"
      then have "r = a" using Cons.prems(2) [of r] \<open>a = r\<^sub>0\<close> by simp
      with r(1) Cons.prems(1) show False by simp
    qed
    have "key (f a) \<notin> key ` set rows"
    proof
      assume "key (f a) \<in> key ` set rows"
      then obtain r where "r \<in> set rows" "key r = key (f a)" by force
      then show False using Cons.prems(3) [of r] none \<open>a = r\<^sub>0\<close> by simp
    qed
    then show ?thesis using True Cons.prems(1) by (simp add: update_rows_none [OF none])
  next
    case False
    have "key a \<notin> key ` set (update_rows p f rows)"
    proof
      assume "key a \<in> key ` set (update_rows p f rows)"
      then obtain r where r: "r \<in> set rows" "key a = key (if p r then f r else r)"
        by (auto simp: update_rows_def)
      show False
      proof (cases "p r")
        case True
        then have "r = r\<^sub>0" using Cons.prems(2) [of r] r(1) by simp
        then show ?thesis using Cons.prems(3) [of a] False r True by simp
      next
        case not: False
        then show ?thesis using Cons.prems(1) r by force
      qed
    qed
    moreover have "distinct (map key (update_rows p f rows))"
      using Cons.prems by (intro Cons.IH) simp_all
    ultimately show ?thesis using False by simp
  qed
qed simp

text \<open>
  Finding a row by a key the update leaves alone finds the updated row.
\<close>

lemma find_update_rows [row_simps]:
  assumes "\<And>r. p r \<Longrightarrow> q (f r) = q r"
  shows "List.find q (update_rows p f rows) =
         map_option (\<lambda>r. if p r then f r else r) (List.find q rows)"
  using assms by (induction rows) auto

lemma find_append: "List.find p (xs @ ys) = nullish (List.find p xs) (List.find p ys)"
  by (induction xs) simp_all

lemma find_SomeD: "List.find p xs = Some x \<Longrightarrow> x \<in> set xs \<and> p x"
  by (induction xs) (auto split: if_splits)

lemma find_filter: "List.find p xs = (case filter p xs of [] \<Rightarrow> None | x # _ \<Rightarrow> Some x)"
  by (induction xs) auto

lemma find_eq_None: "List.find p xs = None \<longleftrightarrow> (\<forall>x \<in> set xs. \<not> p x)"
  by (induction xs) auto

lemma find_distinct_key:
  "distinct (map key rows) \<Longrightarrow> r \<in> set rows \<Longrightarrow> List.find (\<lambda>x. key x = key r) rows = Some r"
proof (induction rows)
  case Nil
  then show ?case by simp
next
  case (Cons a rows)
  then show ?case by (cases "key a = key r") (auto simp: image_iff)
qed

lemma sort_key_head:
  fixes k :: "'r \<Rightarrow> 'k::linorder"
  assumes "sort_key k rows = p # ps"
  shows "p \<in> set rows" "q \<in> set rows \<Longrightarrow> k p \<le> k q"
proof -
  have eq: "set rows = insert p (set ps)" using arg_cong [OF assms, of set] by simp
  then show "p \<in> set rows" by simp
  have "sorted (map k (p # ps))" using assms by (metis sorted_sort_key)
  with eq show "q \<in> set rows \<Longrightarrow> k p \<le> k q" by auto
qed

text \<open>
  \<open>findFirst\<close> with \<open>orderBy: { key: 'desc' }\<close>: a matching row with the largest key, the
  earliest of them when several tie.
\<close>

fun find_max :: "('r \<Rightarrow> bool) \<Rightarrow> ('r \<Rightarrow> int) \<Rightarrow> 'r list \<Rightarrow> 'r option" where
  "find_max p key [] = None"
| "find_max p key (r # rows) =
     (if p r then
        (case find_max p key rows of
           None \<Rightarrow> Some r
         | Some m \<Rightarrow> if key r < key m then Some m else Some r)
      else find_max p key rows)"

lemma find_max_None: "find_max p key rows = None \<longleftrightarrow> (\<forall>r \<in> set rows. \<not> p r)"
  by (induction rows) (auto split: if_splits option.splits)

lemma find_max_SomeD:
  "find_max p key rows = Some m \<Longrightarrow> m \<in> set rows \<and> p m \<and> (\<forall>r \<in> set rows. p r \<longrightarrow> key r \<le> key m)"
proof (induction rows arbitrary: m)
  case Nil
  then show ?case by simp
next
  case (Cons a rows)
  show ?case
  proof (cases "find_max p key rows")
    case None
    then have "\<forall>r \<in> set rows. \<not> p r" by (simp add: find_max_None)
    with None Cons.prems show ?thesis by (cases "p a") auto
  next
    case (Some x)
    with Cons.IH [OF Some] Cons.prems show ?thesis by (fastforce split: if_splits)
  qed
qed

section \<open>Exceptions over a state\<close>

text \<open>
  A service method that may throw: a function of the state that gives a result or an
  exception, and the state as it was left (effects before a throw stay).
\<close>

datatype http_exn =
    BadRequest string
  | NotFound string
  | Forbidden string
  | Unauthorized string
  | ServiceUnavailable string
  | PaymentRequired string
  | TooManyRequests string int
  | BadGateway string
  | UniqueViolation string
  | RuntimeError string

type_synonym ('s, 'a) svc = "'s \<Rightarrow> (http_exn + 'a) \<times> 's"

definition retE :: "'a \<Rightarrow> ('s, 'a) svc" where
  "retE x s = (Inr x, s)"

definition throwE :: "http_exn \<Rightarrow> ('s, 'a) svc" where
  "throwE e s = (Inl e, s)"

definition bindE :: "('s, 'a) svc \<Rightarrow> ('a \<Rightarrow> ('s, 'b) svc) \<Rightarrow> ('s, 'b) svc" where
  "bindE m f s = (case m s of (Inl e, s') \<Rightarrow> (Inl e, s') | (Inr x, s') \<Rightarrow> f x s')"

definition catchE :: "('s, 'a) svc \<Rightarrow> (http_exn \<Rightarrow> ('s, 'a) svc) \<Rightarrow> ('s, 'a) svc" where
  "catchE m h s = (case m s of (Inl e, s') \<Rightarrow> h e s' | (Inr x, s') \<Rightarrow> (Inr x, s'))"

definition getE :: "('s \<Rightarrow> 'a) \<Rightarrow> ('s, 'a) svc" where
  "getE f s = (Inr (f s), s)"

definition modE :: "('s \<Rightarrow> 's) \<Rightarrow> ('s, unit) svc" where
  "modE f s = (Inr (), f s)"

definition thenE :: "('s, 'a) svc \<Rightarrow> ('s, 'b) svc \<Rightarrow> ('s, 'b) svc" where
  "thenE m n = bindE m (\<lambda>_. n)"

text \<open>\<open>if (c) throw e;\<close>\<close>

definition refuse_if :: "bool \<Rightarrow> http_exn \<Rightarrow> ('s, unit) svc" where
  "refuse_if c e = (if c then throwE e else retE ())"

lemma svc_run [simp]:
  "retE x s = (Inr x, s)" "throwE e s = (Inl e, s)" "getE f s = (Inr (f s), s)" "modE g s = (Inr (), g s)"
  by (simp_all add: retE_def throwE_def getE_def modE_def)

lemma bindE_simps [simp]:
  "m s = (Inr x, s') \<Longrightarrow> bindE m f s = f x s'"
  "m s = (Inl e, s') \<Longrightarrow> bindE m f s = (Inl e, s')"
  by (simp_all add: bindE_def)

lemma bindE_prim [simp]:
  "bindE (retE x) f = f x" "bindE (throwE e) f = throwE e"
  "bindE (getE g) f s = f (g s) s" "bindE (modE h) k s = k () (h s)"
  by (simp_all add: bindE_def fun_eq_iff)

lemma thenE_simps [simp]:
  "thenE (retE x) n = n" "thenE (throwE e) n = throwE e" "thenE (modE h) n s = n (h s)"
  by (simp_all add: thenE_def)

lemma refuse_if_simps [simp]:
  "refuse_if True e = throwE e" "refuse_if False e = retE ()"
  by (simp_all add: refuse_if_def)

lemma bindE_Inr_iff:
  "bindE m f s = (Inr y, s') \<longleftrightarrow> (\<exists>x s1. m s = (Inr x, s1) \<and> f x s1 = (Inr y, s'))"
  by (auto simp: bindE_def split: prod.splits sum.splits)

lemma bindE_Inl_iff:
  "bindE m f s = (Inl e, s') \<longleftrightarrow>
     m s = (Inl e, s') \<or> (\<exists>x s1. m s = (Inr x, s1) \<and> f x s1 = (Inl e, s'))"
  by (auto simp: bindE_def split: prod.splits sum.splits)

lemma refuse_then_eq:
  "thenE (refuse_if c e) n s = (if c then (Inl e, s) else n s)"
  by simp

lemma thenE_Inr_iff:
  "thenE m n s = (Inr y, s') \<longleftrightarrow> (\<exists>x s1. m s = (Inr x, s1) \<and> n s1 = (Inr y, s'))"
  by (simp add: thenE_def bindE_Inr_iff)

lemmas svc_iffs = bindE_Inr_iff bindE_Inl_iff thenE_Inr_iff

text \<open>
  What every step of a method keeps, the method keeps, whether it returns or throws.
\<close>

definition keeps :: "('s \<Rightarrow> bool) \<Rightarrow> ('s, 'a) svc \<Rightarrow> bool" where
  "keeps I m = (\<forall>s. I s \<longrightarrow> I (snd (m s)))"

named_theorems keeps_intros \<open>steps that keep an invariant\<close>

lemma keepsI: "(\<And>s. I s \<Longrightarrow> I (snd (m s))) \<Longrightarrow> keeps I m"
  by (simp add: keeps_def)

lemma keepsD: "keeps I m \<Longrightarrow> I s \<Longrightarrow> m s = (r, s') \<Longrightarrow> I s'"
  by (auto simp: keeps_def dest: spec [of _ s])

lemma keeps_basic [keeps_intros]:
  "keeps I (retE x)" "keeps I (throwE e)" "keeps I (getE g)" "keeps I (refuse_if c e)"
  by (simp_all add: keeps_def refuse_if_def)

lemma keeps_modE [keeps_intros]: "(\<And>s. I s \<Longrightarrow> I (h s)) \<Longrightarrow> keeps I (modE h)"
  by (simp add: keeps_def)

lemma keeps_bindE [keeps_intros]:
  "keeps I m \<Longrightarrow> (\<And>x. keeps I (f x)) \<Longrightarrow> keeps I (bindE m f)"
  unfolding keeps_def bindE_def by (fastforce split: prod.splits sum.splits)

lemma keeps_thenE [keeps_intros]: "keeps I m \<Longrightarrow> keeps I n \<Longrightarrow> keeps I (thenE m n)"
  unfolding thenE_def by (intro keeps_bindE)

lemma keeps_catchE [keeps_intros]:
  "keeps I m \<Longrightarrow> (\<And>e. keeps I (h e)) \<Longrightarrow> keeps I (catchE m h)"
  unfolding keeps_def catchE_def by (fastforce split: prod.splits sum.splits)

lemma keeps_if [keeps_intros]:
  "(c \<Longrightarrow> keeps I m) \<Longrightarrow> (\<not> c \<Longrightarrow> keeps I n) \<Longrightarrow> keeps I (if c then m else n)"
  by simp

lemma keeps_option [keeps_intros]:
  "(x = None \<Longrightarrow> keeps I m) \<Longrightarrow> (\<And>y. x = Some y \<Longrightarrow> keeps I (f y)) \<Longrightarrow>
   keeps I (case x of None \<Rightarrow> m | Some y \<Rightarrow> f y)"
  by (cases x) simp_all

text \<open>\<open>for (const x of xs) await body(x);\<close>\<close>

fun forE :: "('x \<Rightarrow> ('s, unit) svc) \<Rightarrow> 'x list \<Rightarrow> ('s, unit) svc" where
  "forE body [] = retE ()"
| "forE body (x # xs) = thenE (body x) (forE body xs)"

lemma keeps_forE [keeps_intros]: "(\<And>x. x \<in> set xs \<Longrightarrow> keeps I (body x)) \<Longrightarrow> keeps I (forE body xs)"
  by (induction xs) (auto intro: keeps_intros)

end
