(* ===== verification/Gst.thy ===== *)
theory Gst
  imports Prelude
begin

text \<open>
  \<open>src/billing/gst.ts\<close>: state codes, the GSTIN check digit, and how the tax already
  charged divides into its heads. A code reaching this file has at most two characters
  (the DTO's \<open>MaxLength(2)\<close>, or \<open>slice(0, 2)\<close>), so the lookup in the frozen object only
  meets its own properties.
\<close>

section \<open>State codes\<close>

definition GST_STATES :: "(string \<times> string) list" where
  "GST_STATES =
   [(''01'', ''Jammu and Kashmir''), (''02'', ''Himachal Pradesh''), (''03'', ''Punjab''),
    (''04'', ''Chandigarh''), (''05'', ''Uttarakhand''), (''06'', ''Haryana''),
    (''07'', ''Delhi''), (''08'', ''Rajasthan''), (''09'', ''Uttar Pradesh''),
    (''10'', ''Bihar''), (''11'', ''Sikkim''), (''12'', ''Arunachal Pradesh''),
    (''13'', ''Nagaland''), (''14'', ''Manipur''), (''15'', ''Mizoram''),
    (''16'', ''Tripura''), (''17'', ''Meghalaya''), (''18'', ''Assam''),
    (''19'', ''West Bengal''), (''20'', ''Jharkhand''), (''21'', ''Odisha''),
    (''22'', ''Chhattisgarh''), (''23'', ''Madhya Pradesh''), (''24'', ''Gujarat''),
    (''25'', ''Daman and Diu''), (''26'', ''Dadra and Nagar Haveli and Daman and Diu''),
    (''27'', ''Maharashtra''), (''28'', ''Andhra Pradesh''), (''29'', ''Karnataka''),
    (''30'', ''Goa''), (''31'', ''Lakshadweep''), (''32'', ''Kerala''),
    (''33'', ''Tamil Nadu''), (''34'', ''Puducherry''),
    (''35'', ''Andaman and Nicobar Islands''), (''36'', ''Telangana''),
    (''37'', ''Andhra Pradesh''), (''38'', ''Ladakh''), (''97'', ''Other Territory'')]"

definition SUPERSEDED :: "string list" where
  "SUPERSEDED = [''25'', ''28'']"

text \<open>
  \<open>Object.entries\<close>: the properties whose key is an array index (a decimal numeral with
  no leading zero) come first, by value; the others follow in the order they were written.
\<close>

definition is_array_index :: "string \<Rightarrow> bool" where
  "is_array_index k = (k \<noteq> [] \<and> list_all is_digit k \<and> (hd k = CHR ''0'' \<longrightarrow> length k = 1))"

definition object_entries :: "(string \<times> 'v) list \<Rightarrow> (string \<times> 'v) list" where
  "object_entries ps =
     sort_key (\<lambda>p. str_nat (fst p)) (filter (\<lambda>p. is_array_index (fst p)) ps) @
     filter (\<lambda>p. \<not> is_array_index (fst p)) ps"

definition selectableStates :: "(string \<times> string) list" where
  "selectableStates = filter (\<lambda>p. fst p \<notin> set SUPERSEDED) (object_entries GST_STATES)"

definition stateName :: "string option \<Rightarrow> string option" where
  "stateName code =
     (case code of None \<Rightarrow> None | Some c \<Rightarrow> if c = [] then None else map_of GST_STATES c)"

definition placeOfSupplyLabel :: "string option \<Rightarrow> string option" where
  "placeOfSupplyLabel code =
     (case stateName code of
        None \<Rightarrow> None
      | Some nm \<Rightarrow>
          if truthy (Some nm) \<and> truthy code then Some (nm @ '' ('' @ the code @ '')'') else None)"

definition stateCodeOfGstin :: "string option \<Rightarrow> string option" where
  "stateCodeOfGstin gstin =
     (case gstin of
        None \<Rightarrow> None
      | Some g \<Rightarrow>
          if g = [] \<or> length g < 2 then None
          else let code = take 2 g in
               if truthy (map_of GST_STATES code) then Some code else None)"

section \<open>The check digit\<close>

definition ALPHABET :: string where
  "ALPHABET = ''0123456789ABCDEFGHIJKLMNOPQRSTUVWXYZ''"

text \<open>\<open>GSTIN_SHAPE\<close>, one character class per position.\<close>

definition alnum_upper :: "char \<Rightarrow> bool" where
  "alnum_upper c = (is_digit c \<or> is_upper c)"

definition GSTIN_SHAPE :: "(char \<Rightarrow> bool) list" where
  "GSTIN_SHAPE =
     replicate 2 is_digit @ replicate 5 is_upper @ replicate 4 is_digit @
     [is_upper, alnum_upper, (\<lambda>c. c = CHR ''Z''), alnum_upper]"

definition shape_test :: "(char \<Rightarrow> bool) list \<Rightarrow> string \<Rightarrow> bool" where
  "shape_test cls s = list_all2 (\<lambda>p c. p c) cls s"

text \<open>\<open>ALPHABET.indexOf(c)\<close>, \<open>None\<close> for \<open>-1\<close>.\<close>

fun index_from :: "nat \<Rightarrow> char \<Rightarrow> string \<Rightarrow> nat option" where
  "index_from i c [] = None"
| "index_from i c (x # xs) = (if x = c then Some i else index_from (Suc i) c xs)"

definition index_of :: "string \<Rightarrow> char \<Rightarrow> nat option" where
  "index_of s c = index_from 0 c s"

text \<open>One turn of the loop adds the folded product of the character at position \<open>i\<close>.\<close>

definition folded :: "nat \<Rightarrow> nat \<Rightarrow> nat" where
  "folded i v = (let product = v * (if i mod 2 = 0 then 1 else 2)
                 in product div 36 + product mod 36)"

fun check_sum :: "nat \<Rightarrow> nat \<Rightarrow> string \<Rightarrow> nat option" where
  "check_sum i acc [] = Some acc"
| "check_sum i acc (c # cs) =
     (case index_of ALPHABET c of
        None \<Rightarrow> None
      | Some v \<Rightarrow> check_sum (Suc i) (acc + folded i v) cs)"

definition gstinCheckDigit :: "string \<Rightarrow> string" where
  "gstinCheckDigit first14 =
     (case check_sum 0 0 first14 of
        None \<Rightarrow> []
      | Some s \<Rightarrow> [ALPHABET ! ((36 - s mod 36) mod 36)])"

definition isGstin :: "string option \<Rightarrow> bool" where
  "isGstin value =
     (case value of
        None \<Rightarrow> False
      | Some v \<Rightarrow>
          v \<noteq> [] \<and> shape_test GSTIN_SHAPE v \<and> truthy (map_of GST_STATES (take 2 v)) \<and>
          [v ! 14] = gstinCheckDigit (take 14 v))"

section \<open>Dividing the tax\<close>

record tax_split =
  cgstAmount :: int
  sgstAmount :: int
  igstAmount :: int
  interState :: bool

definition splitTax :: "int \<Rightarrow> string option \<Rightarrow> string option \<Rightarrow> tax_split" where
  "splitTax taxAmount sellerStateCode buyerStateCode =
     (if taxAmount \<le> 0 then
        \<lparr>cgstAmount = 0, sgstAmount = 0, igstAmount = 0, interState = False\<rparr>
      else if truthy sellerStateCode \<and> truthy buyerStateCode \<and> sellerStateCode \<noteq> buyerStateCode then
        \<lparr>cgstAmount = 0, sgstAmount = 0, igstAmount = taxAmount, interState = True\<rparr>
      else
        let cgst = taxAmount div 2 in
        \<lparr>cgstAmount = cgst, sgstAmount = taxAmount - cgst, igstAmount = 0, interState = False\<rparr>)"

section \<open>What the check digit catches\<close>

lemma folded_even: "even i \<Longrightarrow> v < 36 \<Longrightarrow> folded i v = v"
  by (simp add: folded_def Let_def even_iff_mod_2_eq_zero)

lemma folded_odd: "odd i \<Longrightarrow> v < 36 \<Longrightarrow> folded i v = (if v < 18 then 2 * v else 2 * v - 35)"
proof -
  assume "odd i" "v < 36"
  then have f: "folded i v = (v * 2) div 36 + (v * 2) mod 36"
    by (simp add: folded_def Let_def odd_iff_mod_2_eq_one)
  show ?thesis
  proof (cases "v < 18")
    case True
    with f show ?thesis by simp
  next
    case False
    with \<open>v < 36\<close> have "(v * 2) div 36 = 1" "(v * 2) mod 36 = v * 2 - 36"
      by (simp_all add: div_nat_eqI mod_nat_eqI)
    with f False show ?thesis by simp
  qed
qed

lemmas folded_simps = folded_even folded_odd

lemma folded_less: "v < 36 \<Longrightarrow> folded i v < 36"
  by (cases "even i") (auto simp: folded_simps)

lemma folded_inj: "a < 36 \<Longrightarrow> b < 36 \<Longrightarrow> folded i a = folded i b \<Longrightarrow> a = b"
  by (cases "even i") (auto simp: folded_simps split: if_splits, presburger+)

lemma folded_swap:
  assumes "a < 36" "b < 36"
    and eq: "(folded i a + folded (Suc i) b) mod 36 = (folded i b + folded (Suc i) a) mod 36"
  shows "a = b \<or> {a, b} = {0, 35}"
proof -
  have near: "folded i a + folded (Suc i) b = folded i b + folded (Suc i) a \<or>
      folded i a + folded (Suc i) b = folded i b + folded (Suc i) a + 36 \<or>
      folded i b + folded (Suc i) a = folded i a + folded (Suc i) b + 36"
    by (rule mod_eq_near [OF eq])
      (use assms folded_less [of a i] folded_less [of b i] folded_less [of a "Suc i"]
        folded_less [of b "Suc i"] in linarith)+
  show ?thesis
  proof (cases "even i")
    case True
    with near assms(1,2) show ?thesis
      by (simp add: folded_simps doubleton_eq_iff split: if_splits) arith+
  next
    case False
    with near assms(1,2) show ?thesis
      by (simp add: folded_simps doubleton_eq_iff split: if_splits) arith+
  qed
qed

lemma index_from_SomeD: "index_from i c xs = Some k \<Longrightarrow> i \<le> k \<and> k - i < length xs \<and> xs ! (k - i) = c"
proof (induction xs arbitrary: i)
  case Nil
  then show ?case by simp
next
  case (Cons x xs)
  show ?case
  proof (cases "x = c")
    case True
    with Cons.prems show ?thesis by simp
  next
    case False
    with Cons.prems have "index_from (Suc i) c xs = Some k" by simp
    from Cons.IH [OF this] have ih: "Suc i \<le> k" "k - Suc i < length xs" "xs ! (k - Suc i) = c"
      by simp_all
    then have "k - i = Suc (k - Suc i)" by simp
    with ih show ?thesis by simp
  qed
qed

lemma index_of_SomeD: "index_of s c = Some k \<Longrightarrow> k < length s \<and> s ! k = c"
  using index_from_SomeD [of 0 c s k] by (simp add: index_of_def)

lemma length_ALPHABET [simp]: "length ALPHABET = 36"
  by (simp add: ALPHABET_def)

lemma distinct_ALPHABET: "distinct ALPHABET"
  by (simp add: ALPHABET_def)

lemma index_of_ALPHABET_less: "index_of ALPHABET c = Some v \<Longrightarrow> v < 36"
  using index_of_SomeD [of ALPHABET c v] by simp

lemma index_of_ALPHABET_inj:
  "index_of ALPHABET c = Some v \<Longrightarrow> index_of ALPHABET d = Some v \<Longrightarrow> c = d"
  by (auto dest: index_of_SomeD)

lemma index_of_ALPHABET_0: "index_of ALPHABET c = Some 0 \<Longrightarrow> c = CHR ''0''"
  by (auto dest: index_of_SomeD simp: ALPHABET_def)

lemma index_of_ALPHABET_35: "index_of ALPHABET c = Some 35 \<Longrightarrow> c = CHR ''Z''"
  by (auto dest: index_of_SomeD simp: ALPHABET_def)

lemma check_sum_append:
  "check_sum i acc (xs @ ys) =
     (case check_sum i acc xs of None \<Rightarrow> None | Some s \<Rightarrow> check_sum (i + length xs) s ys)"
  by (induction xs arbitrary: i acc) (auto split: option.splits)

lemma check_sum_shift:
  "check_sum i (acc + d) ys = map_option (\<lambda>s. s + d) (check_sum i acc ys)"
proof (induction ys arbitrary: i acc)
  case Nil
  then show ?case by simp
next
  case (Cons y ys)
  have "check_sum (Suc i) (acc + d + folded i v) ys =
      map_option (\<lambda>s. s + d) (check_sum (Suc i) (acc + folded i v) ys)" for v
    using Cons.IH [of "Suc i" "acc + folded i v"] by (simp add: ac_simps)
  then show ?case by (simp split: option.splits)
qed

lemma check_char_inj: "(36 - s mod 36) mod 36 = (36 - t mod 36) mod (36::nat) \<longleftrightarrow> s mod 36 = t mod 36"
proof -
  have "(36 - a) mod 36 = (36 - b) mod (36::nat) \<longleftrightarrow> a = b" if "a < 36" "b < 36" for a b :: nat
    using that by (cases "a = 0"; cases "b = 0"; simp; linarith)
  then show ?thesis by simp
qed


text \<open>What the loop adds for one character, where the character is in the alphabet.\<close>

definition contrib :: "nat \<Rightarrow> char \<Rightarrow> nat" where
  "contrib i c = (case index_of ALPHABET c of None \<Rightarrow> 0 | Some v \<Rightarrow> folded i v)"

lemma check_sum_at:
  assumes "check_sum i acc xs = Some s" "k < length xs" "check_sum i acc (xs[k := c]) = Some t"
  shows "t + contrib (i + k) (xs ! k) = s + contrib (i + k) c"
  using assms
proof (induction xs arbitrary: i acc k)
  case Nil
  then show ?case by simp
next
  case (Cons x xs)
  from Cons.prems(1) obtain v where v: "index_of ALPHABET x = Some v"
    and s: "check_sum (Suc i) (acc + folded i v) xs = Some s" by (auto split: option.splits)
  show ?case
  proof (cases k)
    case 0
    with Cons.prems(3) obtain w where w: "index_of ALPHABET c = Some w"
      and t: "check_sum (Suc i) (acc + folded i w) xs = Some t" by (auto split: option.splits)
    from s obtain u where "check_sum (Suc i) acc xs = Some u" "s = u + folded i v"
      by (auto simp: check_sum_shift)
    with t have "t + folded i v = s + folded i w" by (auto simp: check_sum_shift)
    with 0 v w show ?thesis by (simp add: contrib_def)
  next
    case (Suc j)
    with Cons.prems(3) v have "check_sum (Suc i) (acc + folded i v) (xs[j := c]) = Some t" by simp
    with Cons.IH [OF s _ this] Cons.prems(2) Suc show ?thesis by simp
  qed
qed

lemma check_sum_alphabet:
  "check_sum i acc xs = Some s \<Longrightarrow> k < length xs \<Longrightarrow> \<exists>v < 36. index_of ALPHABET (xs ! k) = Some v"
proof (induction xs arbitrary: i acc k)
  case Nil
  then show ?case by simp
next
  case (Cons x xs)
  then show ?case by (cases k) (auto split: option.splits dest: index_of_ALPHABET_less)
qed

lemma shape_test_nth:
  "shape_test cls s \<Longrightarrow> k < length s \<Longrightarrow> (cls ! k) (s ! k)"
  by (simp add: shape_test_def list_all2_conv_all_nth)

lemma shape_test_length: "shape_test cls s \<Longrightarrow> length s = length cls"
  by (simp add: shape_test_def list_all2_lengthD)

lemma GSTIN_SHAPE_length [simp]: "length GSTIN_SHAPE = 15"
  by (simp add: GSTIN_SHAPE_def)

lemma isGstin_iff:
  "isGstin (Some v) \<longleftrightarrow>
     shape_test GSTIN_SHAPE v \<and> truthy (map_of GST_STATES (take 2 v)) \<and>
     (\<exists>s. check_sum 0 0 (take 14 v) = Some s \<and> v ! 14 = ALPHABET ! ((36 - s mod 36) mod 36))"
  by (auto simp: isGstin_def gstinCheckDigit_def shape_test_def GSTIN_SHAPE_def split: option.splits)

lemma isGstin_length: "isGstin (Some v) \<Longrightarrow> length v = 15"
  using shape_test_length [of GSTIN_SHAPE v] by (simp add: isGstin_iff)

lemma ALPHABET_nth_inj: "i < 36 \<Longrightarrow> j < 36 \<Longrightarrow> ALPHABET ! i = ALPHABET ! j \<longleftrightarrow> i = j"
  by (simp add: distinct_ALPHABET nth_eq_iff_index_eq)

lemma isGstin_same_check:
  assumes "isGstin (Some v)" "isGstin (Some w)" "v ! 14 = w ! 14"
    and "check_sum 0 0 (take 14 v) = Some s" "check_sum 0 0 (take 14 w) = Some t"
  shows "s mod 36 = t mod 36"
  using assms by (simp add: isGstin_iff ALPHABET_nth_inj check_char_inj)

text \<open>The check digit rejects every single wrong character: replacing any one of the
  first fourteen characters of a valid GSTIN by a different one gives a string that is not
  a GSTIN.\<close>
theorem gstin_substitution_detected:
  assumes "isGstin (Some v)" "i < 14" "c \<noteq> v ! i"
  shows "\<not> isGstin (Some (v[i := c]))"
proof
  assume changed: "isGstin (Some (v[i := c]))"
  have len: "length v = 15" by (rule isGstin_length [OF assms(1)])
  obtain s where s: "check_sum 0 0 (take 14 v) = Some s" using assms(1) by (auto simp: isGstin_iff)
  obtain t where t: "check_sum 0 0 ((take 14 v)[i := c]) = Some t"
    using changed assms(2) by (auto simp: isGstin_iff take_update_swap)
  have st: "s mod 36 = t mod 36"
    by (rule isGstin_same_check [OF assms(1) changed _ s]) (use t assms(2) in \<open>simp_all add: take_update_swap\<close>)
  have eq: "t + contrib i (v ! i) = s + contrib i c"
    using check_sum_at [OF s _ t] assms(2) len by simp
  obtain a where a: "a < 36" "index_of ALPHABET (v ! i) = Some a"
    using check_sum_alphabet [OF s, of i] assms(2) len by auto
  obtain b where b: "b < 36" "index_of ALPHABET c = Some b"
    using check_sum_alphabet [OF t, of i] assms(2) len by auto
  have "folded i a = folded i b"
    using mod_eq_near [OF st] eq a b folded_less [of a i] folded_less [of b i]
    by (auto simp: contrib_def)
  then have "a = b" by (rule folded_inj [OF a(1) b(1)])
  with a b assms(3) show False by (metis index_of_ALPHABET_inj)
qed

text \<open>
  No two neighbouring positions of the shape both admit a \<open>0\<close> and a \<open>Z\<close>.
\<close>

lemma shape_no_0_Z:
  "\<forall>i < 14. \<not> ((GSTIN_SHAPE ! i) CHR ''0'' \<and> (GSTIN_SHAPE ! i) CHR ''Z'' \<and>
             (GSTIN_SHAPE ! Suc i) CHR ''0'' \<and> (GSTIN_SHAPE ! Suc i) CHR ''Z'')"
  by (simp add: GSTIN_SHAPE_def is_digit_def is_upper_def alnum_upper_def
      numeral_eq_Suc less_Suc_eq nth_Cons')


lemma check_sum_Some_iff:
  "(\<exists>s. check_sum i acc xs = Some s) \<longleftrightarrow> (\<forall>c \<in> set xs. index_of ALPHABET c \<noteq> None)"
  by (induction xs arbitrary: i acc) (auto split: option.splits)

lemma contrib_swap:
  assumes "index_of ALPHABET c \<noteq> None" "index_of ALPHABET d \<noteq> None" "c \<noteq> d"
    and "(contrib i c + contrib (Suc i) d) mod 36 = (contrib i d + contrib (Suc i) c) mod 36"
  shows "{c, d} = {CHR ''0'', CHR ''Z''}"
proof -
  obtain a b where ab: "index_of ALPHABET c = Some a" "index_of ALPHABET d = Some b"
    using assms(1,2) by auto
  then have lt: "a < 36" "b < 36" by (auto dest: index_of_ALPHABET_less)
  have "a \<noteq> b" using ab assms(3) index_of_ALPHABET_inj by metis
  moreover have "a = b \<or> {a, b} = {0, 35}"
    using assms(4) ab by (intro folded_swap [OF lt]) (simp add: contrib_def)
  ultimately have "(a = 0 \<and> b = 35) \<or> (a = 35 \<and> b = 0)" by (simp add: doubleton_eq_iff)
  then show ?thesis
    using ab by (auto dest: index_of_ALPHABET_0 index_of_ALPHABET_35)
qed

lemma check_sum_swap:
  assumes "check_sum 0 0 xs = Some s" "Suc k < length xs"
    and "check_sum 0 0 (xs[k := xs ! Suc k, Suc k := xs ! k]) = Some t"
  shows "t + (contrib k (xs ! k) + contrib (Suc k) (xs ! Suc k)) =
         s + (contrib k (xs ! Suc k) + contrib (Suc k) (xs ! k))"
proof -
  have "\<forall>c \<in> set xs. index_of ALPHABET c \<noteq> None"
    using assms(1) check_sum_Some_iff by blast
  then have "\<forall>c \<in> set (xs[k := xs ! Suc k]). index_of ALPHABET c \<noteq> None"
    using assms(2) by (auto dest!: subsetD [OF set_update_subset_insert])
  then obtain u where u: "check_sum 0 0 (xs[k := xs ! Suc k]) = Some u"
    using check_sum_Some_iff by blast
  have "u + contrib k (xs ! k) = s + contrib k (xs ! Suc k)"
    using check_sum_at [OF assms(1) _ u] assms(2) by simp
  moreover have "t + contrib (Suc k) (xs ! Suc k) = u + contrib (Suc k) (xs ! k)"
    using check_sum_at [OF u _ assms(3)] assms(2) by simp
  ultimately show ?thesis by simp
qed

text \<open>The witnesses use the registration of the repository's own tests.\<close>

lemma sample_gstin: "isGstin (Some ''27AAPFU0939F1ZV'')"
  by code_simp

theorem gstin_substitution_detected_witness:
  "isGstin (Some ''27AAPFU0939F1ZV'') \<and> \<not> isGstin (Some (''27AAPFU0939F1ZV''[3 := CHR ''B'']))"
  using sample_gstin gstin_substitution_detected [OF sample_gstin, of 3 "CHR ''B''"] by simp

text \<open>The check digit rejects every transposition of two different neighbouring
  characters, the check digit itself included: the one pair of values the checksum cannot
  tell apart (0 and Z) is excluded by the shape.\<close>
theorem gstin_transposition_detected:
  assumes valid: "isGstin (Some v)" and i: "i < 14" and diff: "v ! i \<noteq> v ! Suc i"
  shows "\<not> isGstin (Some (v[i := v ! Suc i, Suc i := v ! i]))" (is "\<not> isGstin (Some ?w)")
proof
  assume changed: "isGstin (Some ?w)"
  have len: "length v = 15" by (rule isGstin_length [OF valid])
  have shapes: "shape_test GSTIN_SHAPE v" "shape_test GSTIN_SHAPE ?w"
    using valid changed by (simp_all add: isGstin_iff)
  have at: "(GSTIN_SHAPE ! i) (v ! i)" "(GSTIN_SHAPE ! Suc i) (v ! Suc i)"
    "(GSTIN_SHAPE ! i) (v ! Suc i)" "(GSTIN_SHAPE ! Suc i) (v ! i)"
    using shape_test_nth [OF shapes(1), of i] shape_test_nth [OF shapes(1), of "Suc i"]
      shape_test_nth [OF shapes(2), of i] shape_test_nth [OF shapes(2), of "Suc i"] i len
    by simp_all
  show False
  proof (cases "i = 13")
    case True
    have "GSTIN_SHAPE ! 13 = (\<lambda>c. c = CHR ''Z'')" by (simp add: GSTIN_SHAPE_def nth_append)
    with at True diff show False by simp
  next
    case False
    with i have i': "Suc i < 14" by simp
    obtain s where s: "check_sum 0 0 (take 14 v) = Some s" using valid by (auto simp: isGstin_iff)
    have tk: "take 14 ?w = (take 14 v)[i := v ! Suc i, Suc i := v ! i]"
      using i' by (simp add: take_update_swap)
    obtain t where t: "check_sum 0 0 (take 14 ?w) = Some t" using changed by (auto simp: isGstin_iff)
    have st: "s mod 36 = t mod 36"
      by (rule isGstin_same_check [OF valid changed _ s t]) (use i' in simp)
    have alpha: "index_of ALPHABET (v ! i) \<noteq> None" "index_of ALPHABET (v ! Suc i) \<noteq> None"
      using check_sum_alphabet [OF s, of i] check_sum_alphabet [OF s, of "Suc i"] i' len by auto
    have "t + (contrib i (v ! i) + contrib (Suc i) (v ! Suc i)) =
          s + (contrib i (v ! Suc i) + contrib (Suc i) (v ! i))"
      using check_sum_swap [OF s, of i t] t i' len by (simp add: tk)
    from add_mod_cancel [OF this st] have "(contrib i (v ! i) + contrib (Suc i) (v ! Suc i)) mod 36 =
        (contrib i (v ! Suc i) + contrib (Suc i) (v ! i)) mod 36" .
    from contrib_swap [OF alpha diff this] have "{v ! i, v ! Suc i} = {CHR ''0'', CHR ''Z''}" .
    with at shape_no_0_Z i show False by (auto simp: doubleton_eq_iff)
  qed
qed

theorem gstin_transposition_detected_witness:
  "\<not> isGstin (Some (''27AAPFU0939F1ZV''[7 := CHR ''9'', 8 := CHR ''0'']))"
proof -
  have "Suc 7 = (8::nat)" by simp
  then show ?thesis
    using gstin_transposition_detected [OF sample_gstin, of 7] by simp
qed

lemma ALPHABET_chars: "ALPHABET = map char_of ([48..<58] @ [65..<91] :: nat list)"
  by code_simp

lemma alnum_in_ALPHABET: "alnum_upper c \<Longrightarrow> c \<in> set ALPHABET"
proof -
  assume "alnum_upper c"
  then have "of_char c \<in> set ([48..<58] @ [65..<91] :: nat list)"
    unfolding set_append set_upt by (auto simp: alnum_upper_def is_digit_def is_upper_def)
  then have "char_of (of_char c :: nat) \<in> set ALPHABET"
    unfolding ALPHABET_chars set_map by (rule imageI)
  then show ?thesis by simp
qed

lemma ALPHABET_alnum: "i < 36 \<Longrightarrow> alnum_upper (ALPHABET ! i)"
proof -
  have "list_all alnum_upper ALPHABET" by code_simp
  then show "i < 36 \<Longrightarrow> alnum_upper (ALPHABET ! i)" by (simp add: list_all_length)
qed

lemma index_from_total: "c \<in> set xs \<Longrightarrow> index_from i c xs \<noteq> None"
  by (induction xs arbitrary: i) auto

lemma index_of_ALPHABET_total: "alnum_upper c \<Longrightarrow> index_of ALPHABET c \<noteq> None"
  using index_from_total [OF alnum_in_ALPHABET] by (simp add: index_of_def)

lemma shape_alnum: "shape_test (take 14 GSTIN_SHAPE) p \<Longrightarrow> c \<in> set p \<Longrightarrow> alnum_upper c"
proof -
  have "\<forall>q \<in> set (take 14 GSTIN_SHAPE). \<forall>c. q c \<longrightarrow> alnum_upper c"
    by (auto simp: GSTIN_SHAPE_def alnum_upper_def is_upper_def)
  then show "shape_test (take 14 GSTIN_SHAPE) p \<Longrightarrow> c \<in> set p \<Longrightarrow> alnum_upper c"
    unfolding shape_test_def by (metis in_set_conv_nth list_all2_conv_all_nth)
qed

lemma shape_snoc:
  "shape_test GSTIN_SHAPE (p @ [c]) \<longleftrightarrow> shape_test (take 14 GSTIN_SHAPE) p \<and> alnum_upper c"
proof -
  have "GSTIN_SHAPE = take 14 GSTIN_SHAPE @ [alnum_upper]" by (simp add: GSTIN_SHAPE_def)
  then have "shape_test GSTIN_SHAPE (p @ [c]) \<longleftrightarrow> shape_test (take 14 GSTIN_SHAPE @ [alnum_upper]) (p @ [c])"
    by simp
  also have "\<dots> \<longleftrightarrow> shape_test (take 14 GSTIN_SHAPE) p \<and> alnum_upper c"
  proof (cases "length p = 14")
    case True
    then show ?thesis by (simp add: shape_test_def list_all2_append)
  next
    case False
    then show ?thesis by (auto simp: shape_test_def dest!: list_all2_lengthD)
  qed
  finally show ?thesis .
qed

text \<open>C3: fourteen characters of the right shape in a known state are completed to a
  GSTIN by exactly one character, the one \<open>gstinCheckDigit\<close> returns.\<close>
theorem gstin_completion_unique:
  assumes "shape_test (take 14 GSTIN_SHAPE) p" "truthy (map_of GST_STATES (take 2 p))"
  shows "isGstin (Some (p @ [c])) \<longleftrightarrow> gstinCheckDigit p = [c]"
proof -
  have len: "length p = 14" using shape_test_length [OF assms(1)] by simp
  have "\<forall>c \<in> set p. index_of ALPHABET c \<noteq> None"
    using shape_alnum [OF assms(1)] index_of_ALPHABET_total by blast
  then obtain s where s: "check_sum 0 0 p = Some s" using check_sum_Some_iff by blast
  have "alnum_upper (ALPHABET ! ((36 - s mod 36) mod 36))"
    by (rule ALPHABET_alnum) simp
  then show ?thesis
    using assms len s by (auto simp: isGstin_iff gstinCheckDigit_def nth_append shape_snoc)
qed

theorem gstin_completion_unique_witness:
  "isGstin (Some (''29AAPFU0939F1Z'' @ ''R'')) \<longleftrightarrow> gstinCheckDigit ''29AAPFU0939F1Z'' = ''R''"
  by (rule gstin_completion_unique) code_simp+

text \<open>C1: splitting the tax loses and invents nothing, and charges the heads the two
  states call for. A positive tax goes to IGST alone exactly when both state codes are known
  and differ; in every other case IGST is nothing and the tax is halved, the odd paisa
  landing on SGST. The three heads are non-negative and sum to the tax charged.\<close>
theorem splitTax_exact:
  "let s = splitTax t seller buyer in
     cgstAmount s + sgstAmount s + igstAmount s = max 0 t \<and>
     0 \<le> cgstAmount s \<and> 0 \<le> sgstAmount s \<and> 0 \<le> igstAmount s \<and>
     interState s = (0 < t \<and> truthy seller \<and> truthy buyer \<and> seller \<noteq> buyer) \<and>
     (if interState s then igstAmount s = t \<and> cgstAmount s = 0 \<and> sgstAmount s = 0
      else igstAmount s = 0 \<and> (sgstAmount s = cgstAmount s \<or> sgstAmount s = cgstAmount s + 1))"
  by (auto simp: splitTax_def Let_def)

text \<open>The chooser's order is not the codes' numeric order: JavaScript lists
  array-index keys first, so the codes with a leading zero come last.\<close>
theorem selectableStates_order:
  "map fst selectableStates =
     map nat_str ([10..<25] @ [26, 27] @ [29..<39] @ [97]) @
     [''01'', ''02'', ''03'', ''04'', ''05'', ''06'', ''07'', ''08'', ''09'']"
  by code_simp

end
