(* ===== verification/Invoice_Number.thy ===== *)
theory Invoice_Number
  imports Gst
begin

text \<open>
  \<open>src/billing/invoice.number.ts\<close>: the Indian financial year an instant falls in and
  the printed document numbers. \<open>Intl.DateTimeFormat\<close> is modelled as the calendar of
  ECMA-262 (\<open>DayFromYear\<close>, \<open>YearFromTime\<close>, \<open>MonthFromTime\<close>) applied to the instant
  shifted by the zone's offset from UTC; the time-zone data itself is the parameter
  \<open>tz\<close>, which maps a zone name and an instant to that offset in milliseconds.
\<close>

section \<open>The calendar\<close>

type_synonym tzdata = "string \<Rightarrow> ms \<Rightarrow> int"

definition ms_per_day :: int where "ms_per_day = 86400000"

definition DayFromYear :: "int \<Rightarrow> int" where
  "DayFromYear y =
     365 * (y - 1970) + (y - 1969) div 4 - (y - 1901) div 100 + (y - 1601) div 400"

definition in_leap_year :: "int \<Rightarrow> bool" where
  "in_leap_year y = (y mod 4 = 0 \<and> (y mod 100 \<noteq> 0 \<or> y mod 400 = 0))"

text \<open>The largest year that has begun by day \<open>d\<close>, searched upwards from a year that has.\<close>

lemma div_succ:
  assumes "0 < (n::int)"
  shows "(x + 1) div n = x div n + (if (x + 1) mod n = 0 then 1 else 0)"
proof -
  define q r where "q = x div n" and "r = x mod n"
  have x: "x = n * q + r" and r: "0 \<le> r" "r < n"
    using assms by (simp_all add: q_def r_def)
  show ?thesis
  proof (cases "r = n - 1")
    case True
    then have "x + 1 = n * (q + 1)" using x by (simp add: algebra_simps)
    then have "(x + 1) div n = q + 1" "(x + 1) mod n = 0"
      using assms by (simp_all only: nonzero_mult_div_cancel_left mod_mult_self1_is_0)
    then show ?thesis by (simp add: q_def)
  next
    case False
    with x r have "x + 1 = n * q + (r + 1)" "0 \<le> r + 1" "r + 1 < n" by simp_all
    then have "(x + 1) div n = q" "(x + 1) mod n = r + 1"
      by (rule int_div_pos_eq, rule int_mod_pos_eq)
    then show ?thesis using r by (simp add: q_def)
  qed
qed

lemma leap_count_aux:
  assumes "a' = a + (if p then 1 else 0)" "b' = b + (if q then 1 else 0)"
    "c' = c + (if r then 1 else 0)" "r \<Longrightarrow> q" "q \<Longrightarrow> p"
  shows "365 * (x + 1) + a' - b' + c' =
         365 * x + a - b + c + (if p \<and> (\<not> q \<or> r) then 366 else 365 :: int)"
  using assms by auto

lemma year_length:
  "DayFromYear (y + 1) = DayFromYear y + (if in_leap_year y then 366 else 365)"
proof -
  have m: "(y - 1968) mod 4 = y mod 4" "(y - 1900) mod 100 = y mod 100" "(y - 1600) mod 400 = y mod 400"
    by (simp_all add: mod_eq_dvd_iff)
  have e: "y - 1969 + 1 = y - 1968" "y - 1901 + 1 = y - 1900" "y - 1601 + 1 = y - 1600" by simp_all
  have "(y - 1968) div 4 = (y - 1969) div 4 + (if y mod 4 = 0 then 1 else 0)"
    using div_succ [of 4 "y - 1969", OF zero_less_numeral] by (simp only: e m)
  moreover have "(y - 1900) div 100 = (y - 1901) div 100 + (if y mod 100 = 0 then 1 else 0)"
    using div_succ [of 100 "y - 1901", OF zero_less_numeral] by (simp only: e m)
  moreover have "(y - 1600) div 400 = (y - 1601) div 400 + (if y mod 400 = 0 then 1 else 0)"
    using div_succ [of 400 "y - 1601", OF zero_less_numeral] by (simp only: e m)
  moreover have "y mod 400 = 0 \<Longrightarrow> y mod 100 = 0" "y mod 100 = 0 \<Longrightarrow> y mod 4 = 0"
    using mod_mod_cancel [of 100 400 y] mod_mod_cancel [of 4 100 y] by simp_all
  ultimately have "365 * ((y - 1970) + 1) + (y - 1968) div 4 - (y - 1900) div 100 + (y - 1600) div 400 =
      365 * (y - 1970) + (y - 1969) div 4 - (y - 1901) div 100 + (y - 1601) div 400 +
      (if y mod 4 = 0 \<and> (y mod 100 \<noteq> 0 \<or> y mod 400 = 0) then 366 else 365)"
    by (intro leap_count_aux)
  moreover have "DayFromYear (y + 1) =
      365 * ((y - 1970) + 1) + (y - 1968) div 4 - (y - 1900) div 100 + (y - 1600) div 400"
    by (simp add: DayFromYear_def)
  ultimately show ?thesis by (simp only: DayFromYear_def in_leap_year_def)
qed

lemma DayFromYear_step: "DayFromYear y + 365 \<le> DayFromYear (y + 1)"
  by (simp add: year_length)

function year_search :: "int \<Rightarrow> int \<Rightarrow> int" where
  "year_search d y = (if DayFromYear (y + 1) \<le> d then year_search d (y + 1) else y)"
  by pat_completeness auto
termination
proof (relation "measure (\<lambda>(d, y). nat (d - DayFromYear y))", goal_cases)
  case 1
  then show ?case by simp
next
  case (2 d y)
  then show ?case using DayFromYear_step [of y] by simp
qed

declare year_search.simps [simp del]

definition year_from_day :: "int \<Rightarrow> int" where
  "year_from_day d = year_search d (1969 + (if 0 \<le> d then d div 366 else d div 365))"

text \<open>Days before each month of a common year, January first.\<close>

definition month_starts :: "int list" where
  "month_starts = [0, 31, 59, 90, 120, 151, 181, 212, 243, 273, 304, 334]"

definition month_start :: "bool \<Rightarrow> nat \<Rightarrow> int" where
  "month_start leap m = month_starts ! (m - 1) + (if leap \<and> 3 \<le> m then 1 else 0)"

text \<open>The number of months that have begun, so 1 for January.\<close>

definition month_from_day :: "int \<Rightarrow> nat" where
  "month_from_day d =
     (let y = year_from_day d; n = d - DayFromYear y in
      length (filter (\<lambda>m. month_start (in_leap_year y) m \<le> n) [1..<13]))"

section \<open>Numbers\<close>

definition localParts :: "tzdata \<Rightarrow> ms \<Rightarrow> string \<Rightarrow> int \<times> nat" where
  "localParts tz date timeZone =
     (let d = (date + tz timeZone date) div ms_per_day in (year_from_day d, month_from_day d))"

definition two :: "int \<Rightarrow> string" where
  "two year = pad_start 2 CHR ''0'' (nat_str (nat (year mod 100)))"

definition fy_start_year :: "tzdata \<Rightarrow> ms \<Rightarrow> string \<Rightarrow> int" where
  "fy_start_year tz date timeZone =
     (let (year, month) = localParts tz date timeZone in
      if 4 \<le> month then year else year - 1)"

definition financialYear :: "tzdata \<Rightarrow> ms \<Rightarrow> string \<Rightarrow> string" where
  "financialYear tz date timeZone =
     (let startYear = fy_start_year tz date timeZone in two startYear @ two (startYear + 1))"

definition financialYearLabel :: "string \<Rightarrow> string" where
  "financialYearLabel fy = ''20'' @ take 2 fy @ ''-'' @ drop 2 fy"

definition SEQUENCE_WIDTH :: nat where "SEQUENCE_WIDTH = 4"

definition documentNumber :: "string \<Rightarrow> string \<Rightarrow> string \<Rightarrow> nat \<Rightarrow> string" where
  "documentNumber kind series fy sequence =
     (let position = pad_start SEQUENCE_WIDTH CHR ''0'' (nat_str sequence) in
      kind @ ''-'' @ series @ ''-'' @ fy @ ''-'' @ position)"

definition invoiceNumber :: "string \<Rightarrow> string \<Rightarrow> nat \<Rightarrow> string" where
  "invoiceNumber series fy sequence = documentNumber ''INV'' series fy sequence"

definition receiptNumber :: "string \<Rightarrow> string \<Rightarrow> nat \<Rightarrow> string" where
  "receiptNumber series fy sequence = documentNumber ''RCT'' series fy sequence"

text \<open>
  The test of \<open>^KIND-[A-Z0-9]{2,8}-\d{4}-\d{4,}$\<close>. A hyphen is in neither character
  class, so the longest run of the series class is the only one a match can take.
\<close>

definition series_ok :: "string \<Rightarrow> bool" where
  "series_ok s = (2 \<le> length s \<and> length s \<le> 8 \<and> list_all alnum_upper s)"

fun after_hyphen :: "string \<Rightarrow> string option" where
  "after_hyphen [] = None"
| "after_hyphen (c # cs) = (if c = CHR ''-'' then Some cs else None)"

definition number_tail_ok :: "string \<Rightarrow> bool" where
  "number_tail_ok r =
     (4 \<le> length r \<and> list_all is_digit (take 4 r) \<and>
      (case after_hyphen (drop 4 r) of
         None \<Rightarrow> False
       | Some ds \<Rightarrow> 4 \<le> length ds \<and> list_all is_digit ds))"

definition isDocumentNumber :: "string \<Rightarrow> string \<Rightarrow> bool" where
  "isDocumentNumber kind value =
     (take (length kind) value = kind \<and>
      (case after_hyphen (drop (length kind) value) of
         None \<Rightarrow> False
       | Some r \<Rightarrow>
           series_ok (takeWhile alnum_upper r) \<and>
           (case after_hyphen (dropWhile alnum_upper r) of
              None \<Rightarrow> False
            | Some t \<Rightarrow> number_tail_ok t)))"

definition isInvoiceNumber :: "string \<Rightarrow> bool" where
  "isInvoiceNumber value = isDocumentNumber ''INV'' value"

definition isReceiptNumber :: "string \<Rightarrow> bool" where
  "isReceiptNumber value = isDocumentNumber ''RCT'' value"

section \<open>The calendar is a calendar\<close>

lemma DayFromYear_mono: "x \<le> y \<Longrightarrow> DayFromYear x \<le> DayFromYear y"
proof (induction y rule: int_ge_induct)
  case base
  show ?case by simp
next
  case (step y)
  then show ?case using DayFromYear_step [of y] by linarith
qed

lemma year_search_bounds:
  "DayFromYear y \<le> d \<Longrightarrow>
     DayFromYear (year_search d y) \<le> d \<and> d < DayFromYear (year_search d y + 1)"
proof (induction d y rule: year_search.induct)
  case (1 d y)
  then show ?case
    by (cases "DayFromYear (y + 1) \<le> d") (simp_all add: year_search.simps [of d y])
qed

lemma div_upper: "0 < n \<Longrightarrow> n * ((x::int) div n) \<le> x"
  by (metis mult_div_mod_eq le_add_same_cancel1 pos_mod_sign)

lemma div_lower: "0 < n \<Longrightarrow> (x::int) - n < n * (x div n)"
proof -
  assume "0 < n"
  then have "x mod n < n" by simp
  moreover have "n * (x div n) + x mod n = x" by simp
  ultimately show ?thesis by linarith
qed

lemma estimate_bound:
  assumes "4 * A \<le> k" "400 * C \<le> k + 368" "k + 68 - 100 < 100 * B" "0 \<le> m" "k \<le> (m::int)"
  shows "365 * (k - 1) + A - B + C \<le> 365 * k + m"
proof -
  have "k - 32 < 100 * B" using assms(3) by simp
  then have "400 * A - 400 * B + 400 * C \<le> 97 * k + 500" using assms(1,2) by linarith
  moreover have "97 * k \<le> 400 * m" using assms(4,5) by linarith
  ultimately have "A - B + C \<le> m + 365" by linarith
  then show ?thesis by simp
qed

lemma year_estimate: "DayFromYear (1969 + (if 0 \<le> d then d div 366 else d div 365)) \<le> d"
proof -
  define k where "k = (if 0 \<le> d then d div 366 else d div 365)"
  have k: "0 \<le> k \<and> 366 * k \<le> d \<or> k \<le> -1 \<and> 365 * k \<le> d"
    using div_upper [of 366 d] div_upper [of 365 d]
    by (cases "0 \<le> d") (simp_all add: k_def pos_imp_zdiv_nonneg_iff)
  have eq: "DayFromYear (1969 + k) = 365 * (k - 1) + k div 4 - (k + 68) div 100 + (k + 368) div 400"
    by (simp add: DayFromYear_def add.commute)
  have "DayFromYear (1969 + k) \<le> 365 * k + m" if "0 \<le> m" "k \<le> m" for m
    unfolding eq by (rule estimate_bound [OF _ _ _ that]) (simp_all add: div_upper div_lower)
  from this [of k] this [of 0] have "DayFromYear (1969 + k) \<le> d" using k by auto
  then show ?thesis by (simp add: k_def)
qed

lemma year_from_day_bounds:
  "DayFromYear (year_from_day d) \<le> d" "d < DayFromYear (year_from_day d + 1)"
  using year_search_bounds [OF year_estimate [of d]] by (simp_all add: year_from_day_def)

lemma year_from_day_iff: "year_from_day d = y \<longleftrightarrow> DayFromYear y \<le> d \<and> d < DayFromYear (y + 1)"
proof
  show "year_from_day d = y \<Longrightarrow> DayFromYear y \<le> d \<and> d < DayFromYear (y + 1)"
    using year_from_day_bounds by blast
next
  assume y: "DayFromYear y \<le> d \<and> d < DayFromYear (y + 1)"
  show "year_from_day d = y"
  proof (rule ccontr)
    assume "year_from_day d \<noteq> y"
    then consider "year_from_day d + 1 \<le> y" | "y + 1 \<le> year_from_day d" by linarith
    then show False
    proof cases
      case 1
      then show False using y year_from_day_bounds(2) [of d] DayFromYear_mono [OF 1] by linarith
    next
      case 2
      then show False using y year_from_day_bounds(1) [of d] DayFromYear_mono [OF 2] by linarith
    qed
  qed
qed

section \<open>The financial year\<close>

text \<open>1 April of a year, as a day number.\<close>

definition april1 :: "int \<Rightarrow> int" where
  "april1 y = DayFromYear y + month_start (in_leap_year y) 4"

lemma month_4_iff: "4 \<le> month_from_day d \<longleftrightarrow> april1 (year_from_day d) \<le> d"
proof -
  define n leap where "n = d - DayFromYear (year_from_day d)" and "leap = in_leap_year (year_from_day d)"
  have months: "[1..<13] = [1, 2, 3, 4, 5, 6, 7, 8, 9, 10, 11, 12::nat]" by (simp add: upt_rec)
  have "4 \<le> length (filter (\<lambda>m. month_start leap m \<le> n) [1..<13]) \<longleftrightarrow> month_start leap 4 \<le> n"
    unfolding months by (auto simp: month_start_def month_starts_def)
  then show ?thesis
    by (auto simp: month_from_day_def Let_def april1_def n_def leap_def)
qed

lemma april1_in_year: "DayFromYear y \<le> april1 y" "april1 y < DayFromYear (y + 1)"
  by (simp_all add: april1_def month_start_def month_starts_def year_length)

text \<open>The financial year is the one whose 1 April has come and whose successor's has
  not, counted in days of the zone's own calendar.\<close>
theorem fy_start_year_iff:
  "fy_start_year tz date zone = y \<longleftrightarrow>
     april1 y \<le> (date + tz zone date) div ms_per_day \<and>
     (date + tz zone date) div ms_per_day < april1 (y + 1)"
proof -
  define d where "d = (date + tz zone date) div ms_per_day"
  define z where "z = year_from_day d"
  have z: "DayFromYear z \<le> d" "d < DayFromYear (z + 1)"
    using year_from_day_bounds [of d] by (simp_all add: z_def)
  have start: "fy_start_year tz date zone = (if april1 z \<le> d then z else z - 1)"
    by (simp add: fy_start_year_def localParts_def Let_def month_4_iff d_def z_def)
  have mono: "x \<le> w \<Longrightarrow> april1 x \<le> april1 w" for x w
  proof -
    assume "x \<le> w"
    then consider "x = w" | "x + 1 \<le> w" by linarith
    then show ?thesis
      using april1_in_year [of x] april1_in_year [of w] DayFromYear_mono [of "x + 1" w] by cases auto
  qed
  define s where "s = fy_start_year tz date zone"
  have s: "april1 s \<le> d" "d < april1 (s + 1)"
    using z april1_in_year [of "z - 1"] april1_in_year [of "z + 1"]
    by (auto simp: s_def start)
  have "s = y \<longleftrightarrow> april1 y \<le> d \<and> d < april1 (y + 1)"
  proof
    assume h: "april1 y \<le> d \<and> d < april1 (y + 1)"
    show "s = y"
    proof (rule ccontr)
      assume "s \<noteq> y"
      then consider "s + 1 \<le> y" | "y + 1 \<le> s" by linarith
      then show False using h s mono by cases fastforce+
    qed
  qed (use s in simp)
  then show ?thesis by (simp add: s_def d_def)
qed

text \<open>03:00 IST on 1 April 2026, which is 21:30 UTC on 31 March: the new year's first invoice.\<close>

theorem fy_start_year_iff_witness:
  "fy_start_year (\<lambda>_ _. 19800000) 1774992600000 ''Asia/Kolkata'' = 2026 \<and>
   fy_start_year (\<lambda>_ _. 0) 1774992600000 ''UTC'' = 2025"
  unfolding fy_start_year_iff by code_simp

section \<open>The numbers\<close>

lemma nat_str_length_2: "n < 100 \<Longrightarrow> length (nat_str n) \<le> 2"
proof -
  assume "n < 100"
  then have "n div 10 < 10" by (simp add: less_mult_imp_div_less)
  then show ?thesis by (simp add: nat_str.simps [of n] nat_str.simps [of "n div 10"])
qed

lemma two_digits: "length (two y) = 2" "list_all is_digit (two y)"
  using nat_str_length_2 [of "nat (y mod 100)"]
  by (simp_all add: two_def pad_start_digits nat_str_digits nat_less_iff max_absorb1)

definition fy_ok :: "string \<Rightarrow> bool" where
  "fy_ok fy = (length fy = 4 \<and> list_all is_digit fy)"

lemma financialYear_ok: "fy_ok (financialYear tz date zone)"
  by (simp add: fy_ok_def financialYear_def Let_def two_digits)

lemma hyphen_not_alnum [simp]: "\<not> alnum_upper CHR ''-''"
  by (simp add: alnum_upper_def is_digit_def is_upper_def)

lemma takeWhile_series:
  "list_all alnum_upper s \<Longrightarrow> takeWhile alnum_upper (s @ CHR ''-'' # r) = s"
  "list_all alnum_upper s \<Longrightarrow> dropWhile alnum_upper (s @ CHR ''-'' # r) = CHR ''-'' # r"
  by (induction s) simp_all

lemma documentNumber_recognised:
  "series_ok series \<Longrightarrow> fy_ok fy \<Longrightarrow> isDocumentNumber kind (documentNumber kind series fy n)"
  by (simp add: isDocumentNumber_def documentNumber_def Let_def takeWhile_series series_ok_def
      number_tail_ok_def fy_ok_def SEQUENCE_WIDTH_def pad_start_digits nat_str_digits)

lemma documentNumber_inj:
  assumes "length k = length k'" "series_ok s" "series_ok s'" "fy_ok y" "fy_ok y'"
  shows "documentNumber k s y n = documentNumber k' s' y' n' \<longleftrightarrow> k = k' \<and> s = s' \<and> y = y' \<and> n = n'"
proof
  assume eq: "documentNumber k s y n = documentNumber k' s' y' n'"
  let ?p = "pad_start SEQUENCE_WIDTH CHR ''0'' (nat_str n)"
  let ?p' = "pad_start SEQUENCE_WIDTH CHR ''0'' (nat_str n')"
  from eq assms(1) have k: "k = k'"
    and r: "s @ CHR ''-'' # y @ CHR ''-'' # ?p = s' @ CHR ''-'' # y' @ CHR ''-'' # ?p'"
    by (simp_all add: documentNumber_def Let_def)
  from arg_cong [OF r, of "takeWhile alnum_upper"] assms(2,3) have s: "s = s'"
    by (simp add: takeWhile_series series_ok_def)
  with r assms(4,5) have "y = y'" "?p = ?p'" by (simp_all add: fy_ok_def)
  moreover from \<open>?p = ?p'\<close> have "str_nat ?p = str_nat ?p'" by simp
  then have "n = n'" by simp
  ultimately show "k = k' \<and> s = s' \<and> y = y' \<and> n = n'" using k s by simp
qed simp

text \<open>C2: a number this deployment prints is one its own routes accept, as a document of
  that kind and not of the other; however far the sequence grows.\<close>
theorem invoiceNumber_recognised:
  assumes "series_ok series"
  shows "isInvoiceNumber (invoiceNumber series (financialYear tz date zone) n) \<and>
         isReceiptNumber (receiptNumber series (financialYear tz date zone) n) \<and>
         \<not> isReceiptNumber (invoiceNumber series (financialYear tz date zone) n) \<and>
         \<not> isInvoiceNumber (receiptNumber series (financialYear tz date zone) n)"
  using assms documentNumber_recognised [OF assms financialYear_ok]
  by (simp add: isInvoiceNumber_def isReceiptNumber_def invoiceNumber_def receiptNumber_def)
    (simp add: isDocumentNumber_def documentNumber_def)

theorem invoiceNumber_recognised_witness:
  "isInvoiceNumber (invoiceNumber ''WAC'' (financialYear (\<lambda>_ _. 0) 0 ''UTC'') 10000)"
proof -
  have "series_ok ''WAC''" by code_simp
  from invoiceNumber_recognised [OF this] show ?thesis by blast
qed

text \<open>Two documents print the same number only if they are of the same kind, series,
  financial year and position: a sequence past 9999 grows rather than wrapping.\<close>
theorem invoice_numbers_never_collide:
  assumes "series_ok s" "series_ok s'"
  shows "(invoiceNumber s (financialYear tz d z) n = invoiceNumber s' (financialYear tz d' z') n' \<longleftrightarrow>
           s = s' \<and> financialYear tz d z = financialYear tz d' z' \<and> n = n') \<and>
         invoiceNumber s (financialYear tz d z) n \<noteq> receiptNumber s' (financialYear tz d' z') n'"
  using assms by (simp_all add: invoiceNumber_def receiptNumber_def documentNumber_inj financialYear_ok)

theorem invoice_numbers_never_collide_witness:
  "invoiceNumber ''WAC'' (financialYear (\<lambda>_ _. 0) 0 ''UTC'') 10000 \<noteq>
   invoiceNumber ''WAC'' (financialYear (\<lambda>_ _. 0) 0 ''UTC'') 1000"
proof -
  have "series_ok ''WAC''" by code_simp
  from invoice_numbers_never_collide [OF this this] show ?thesis by simp
qed

end
