(* ===== verification/Access_Interface.thy ===== *)
theory Access_Interface
  imports Prelude
begin

text \<open>
  The two contracts the paywall's cache rests on: a cache of yes/no answers that only
  forgets (provided by the Redis store), and a version per organisation that moves with
  whoever pays for it (provided by the organisation settings). Together they give the
  cache's own promise: after a payer's version is bumped, no answer stored before can be
  read for an organisation it pays for, provided that organisation's version never went back.
\<close>

locale answer_cache =
  fixes lookup :: "ms \<Rightarrow> string \<Rightarrow> 'c \<Rightarrow> bool option"
    and store :: "ms \<Rightarrow> string \<Rightarrow> bool \<Rightarrow> 'c \<Rightarrow> 'c"
    and ttl :: int
  assumes lookup_store_same: "now' < now + ttl \<Longrightarrow> lookup now' k (store now k b m) = Some b"
    and lookup_store_other: "k' \<noteq> k \<Longrightarrow> lookup now' k' (store now k b m) = lookup now' k' m"
    and lookup_forgets: "lookup now' k m = Some b \<Longrightarrow> now \<le> now' \<Longrightarrow> lookup now k m = Some b"

locale payer_versions =
  fixes payer :: "'d \<Rightarrow> org \<Rightarrow> org"
    and version :: "'d \<Rightarrow> org \<Rightarrow> nat"
    and bump :: "org \<Rightarrow> 'd \<Rightarrow> 'd"
    and invar :: "'d \<Rightarrow> bool"
  assumes invar_bump: "invar d \<Longrightarrow> invar (bump p d)"
    and payer_bump: "invar d \<Longrightarrow> payer (bump p d) x = payer d x"
    and version_bump: "invar d \<Longrightarrow>
      version (bump p d) x = (if payer d x = p then Suc (version d x) else version d x)"

locale versioned_cache = answer_cache lookup store ttl + payer_versions payer version bump invar
  for lookup :: "ms \<Rightarrow> string \<Rightarrow> 'c \<Rightarrow> bool option"
    and store :: "ms \<Rightarrow> string \<Rightarrow> bool \<Rightarrow> 'c \<Rightarrow> 'c"
    and ttl :: int
    and payer :: "'d \<Rightarrow> org \<Rightarrow> org"
    and version :: "'d \<Rightarrow> org \<Rightarrow> nat"
    and bump :: "org \<Rightarrow> 'd \<Rightarrow> 'd"
    and invar :: "'d \<Rightarrow> bool" +
  fixes key :: "org \<Rightarrow> string \<Rightarrow> nat \<Rightarrow> string"
    and plain :: "string \<Rightarrow> bool"
  assumes key_inj: "plain x \<Longrightarrow> plain x' \<Longrightarrow> plain w \<Longrightarrow> plain w' \<Longrightarrow>
    key x w v = key x' w' v' \<longleftrightarrow> x = x' \<and> w = w' \<and> v = v'"
begin

text \<open>Nothing is stored for an organisation under a version it has not reached.\<close>

definition fresh :: "org \<Rightarrow> 'd \<Rightarrow> 'c \<Rightarrow> bool" where
  "fresh x d m = (\<forall>w v now. plain w \<longrightarrow> version d x < v \<longrightarrow> lookup now (key x w v) m = None)"

lemma fresh_store:
  assumes "fresh x d m" "plain x" "plain y" "plain w"
  shows "fresh x d (store now (key y w (version d y)) b m)"
  using assms lookup_store_other unfolding fresh_def
  by (metis key_inj nat_less_le)

lemma fresh_bump:
  assumes "fresh x d m" "invar d"
  shows "fresh x (bump p d) m"
  using assms by (auto simp: fresh_def version_bump)

lemma fresh_mono:
  assumes "fresh x d m" "version d x \<le> version d' x" "\<And>now k. lookup now k m' = lookup now k m"
  shows "fresh x d' m'"
  using assms by (auto simp: fresh_def)

lemma bump_orphans:
  assumes "fresh x d m" "invar d" "payer d x = p" "plain w"
  shows "lookup now (key x w (version (bump p d) x)) m = None"
  using assms by (auto simp: fresh_def version_bump)

end

end
