(* ===== verification/Redis_Store.thy ===== *)
theory Redis_Store
  imports Access_Interface
begin

text \<open>
  \<open>src/redis/redis.service.ts\<close>: the keyed store behind every cache, lock and counter.
  The server is a map from keys to a value and an optional expiry instant; the commands
  the service uses (GET, SET with EX and NX, DEL, INCR, EXPIRE) are the documented ones.
  A value is what \<open>JSON.parse\<close> gives back for what \<open>JSON.stringify\<close> stored, so each kind
  of record the service keeps is a constructor; the service's own clock is the argument
  \<open>now\<close>.
\<close>

section \<open>What is stored\<close>

record org_grant =
  og_role :: string
  og_agencyOrgId :: "org option"

record sso_session =
  ss_ssoId :: string
  ss_email :: "string option"
  ss_firstName :: "string option"
  ss_lastName :: "string option"
  ss_username :: "string option"
  ss_emailVerified :: "bool option"
  ss_imageUrl :: "string option"
  ss_ssoCreatedAt :: "string option"
  ss_orgs :: "(string \<times> string \<times> string option) list"
  ss_grants :: "(org \<times> org_grant) list option"

text \<open>
  An API-key entry written before keys carried an account has no \<open>wabaId\<close> field at all
  (\<open>None\<close>), which is not the same as the field being null (\<open>Some None\<close>).
\<close>

record api_key_entry =
  ak_userId :: nat
  ak_ssoOrgId :: org
  ak_wabaId :: "string option option"
  ak_secretKey :: string

datatype rval =
    RState string
  | RSession sso_session
  | RUser nat string
  | RPair string
  | RPhone string string
  | RApiKey api_key_entry
  | RText string
  | RCount nat

type_synonym redis = "string \<Rightarrow> (rval \<times> ms option) option"

section \<open>Commands\<close>

definition r_get :: "ms \<Rightarrow> string \<Rightarrow> redis \<Rightarrow> rval option" where
  "r_get now k m =
     (case m k of
        None \<Rightarrow> None
      | Some (v, None) \<Rightarrow> Some v
      | Some (v, Some expiry) \<Rightarrow> if now < expiry then Some v else None)"

definition r_set :: "string \<Rightarrow> rval \<Rightarrow> redis \<Rightarrow> redis" where
  "r_set k v m = m(k \<mapsto> (v, None))"

definition r_set_ex :: "ms \<Rightarrow> string \<Rightarrow> rval \<Rightarrow> int \<Rightarrow> redis \<Rightarrow> redis" where
  "r_set_ex now k v ttl m = m(k \<mapsto> (v, Some (now + 1000 * ttl)))"

definition r_set_ex_nx :: "ms \<Rightarrow> string \<Rightarrow> rval \<Rightarrow> int \<Rightarrow> redis \<Rightarrow> bool \<times> redis" where
  "r_set_ex_nx now k v ttl m =
     (if r_get now k m = None then (True, r_set_ex now k v ttl m) else (False, m))"

definition r_del :: "string \<Rightarrow> redis \<Rightarrow> redis" where
  "r_del k m = m(k := None)"

text \<open>INCR keeps the expiry of a live counter, starts a missing one at 1 without any, and
  is an error (\<open>None\<close>) on a key of another type.\<close>

definition r_incr :: "ms \<Rightarrow> string \<Rightarrow> redis \<Rightarrow> (nat \<times> redis) option" where
  "r_incr now k m =
     (case r_get now k m of
        None \<Rightarrow> Some (1, m(k \<mapsto> (RCount 1, None)))
      | Some (RCount n) \<Rightarrow> Some (Suc n, m(k \<mapsto> (RCount (Suc n), snd (the (m k)))))
      | Some _ \<Rightarrow> None)"

definition r_expire :: "ms \<Rightarrow> string \<Rightarrow> int \<Rightarrow> redis \<Rightarrow> redis" where
  "r_expire now k ttl m =
     (case r_get now k m of
        None \<Rightarrow> m
      | Some v \<Rightarrow> m(k \<mapsto> (v, Some (now + 1000 * ttl))))"

section \<open>The service\<close>

definition stateKey :: "string \<Rightarrow> string" where "stateKey i = ''state:'' @ i"
definition sessionKey :: "string \<Rightarrow> string" where "sessionKey i = ''ssosession:'' @ i"
definition userKey :: "nat \<Rightarrow> string" where "userKey i = ''user:'' @ nat_str i"
definition userSsoKey :: "string \<Rightarrow> string" where "userSsoKey i = ''usersso:'' @ i"
definition refreshLockKey :: "string \<Rightarrow> string" where "refreshLockKey h = ''refreshlock:'' @ h"
definition refreshKey :: "string \<Rightarrow> string" where "refreshKey h = ''refresh:'' @ h"
definition orgNameKey :: "string \<Rightarrow> string" where "orgNameKey i = ''orgName:'' @ i"
definition phoneKey :: "string \<Rightarrow> string" where "phoneKey i = ''phone:'' @ i"
definition apiKeyKey :: "string \<Rightarrow> string" where "apiKeyKey i = ''apiKey:'' @ i"
definition subKey :: "string \<Rightarrow> string" where "subKey i = ''sub:'' @ i"
definition mediaKey :: "string \<Rightarrow> string" where "mediaKey i = ''media:'' @ i"

definition getState :: "ms \<Rightarrow> string \<Rightarrow> redis \<Rightarrow> string option" where
  "getState now stateId m =
     (case r_get now (stateKey stateId) m of Some (RState d) \<Rightarrow> Some d | _ \<Rightarrow> None)"

text \<open>\<open>uuid\<close> is the identifier \<open>uuidv7()\<close> returned.\<close>

definition createState :: "ms \<Rightarrow> string \<Rightarrow> redis \<Rightarrow> string \<times> redis" where
  "createState now uuid m = (uuid, r_set_ex now (stateKey uuid) (RState ''{}'') 300 m)"

definition updateState :: "ms \<Rightarrow> string \<Rightarrow> string \<Rightarrow> redis \<Rightarrow> string \<times> redis" where
  "updateState now stateId data m = (stateId, r_set_ex now (stateKey stateId) (RState data) 300 m)"

definition setSsoSession :: "ms \<Rightarrow> string \<Rightarrow> sso_session \<Rightarrow> int \<Rightarrow> redis \<Rightarrow> redis" where
  "setSsoSession now sessionId data ttlSeconds m =
     r_set_ex now (sessionKey sessionId) (RSession data) ttlSeconds m"

definition getSsoSession :: "ms \<Rightarrow> string \<Rightarrow> redis \<Rightarrow> sso_session option" where
  "getSsoSession now sessionId m =
     (case r_get now (sessionKey sessionId) m of Some (RSession d) \<Rightarrow> Some d | _ \<Rightarrow> None)"

definition deleteSsoSession :: "string \<Rightarrow> redis \<Rightarrow> redis" where
  "deleteSsoSession sessionId m = r_del (sessionKey sessionId) m"

definition getUserCache :: "ms \<Rightarrow> nat \<Rightarrow> redis \<Rightarrow> (nat \<times> string) option" where
  "getUserCache now userId m =
     (case r_get now (userKey userId) m of Some (RUser i s) \<Rightarrow> Some (i, s) | _ \<Rightarrow> None)"

definition setUserCache :: "ms \<Rightarrow> nat \<Rightarrow> nat \<times> string \<Rightarrow> redis \<Rightarrow> redis" where
  "setUserCache now userId user m =
     r_set_ex now (userKey userId) (RUser (fst user) (snd user)) 900 m"

definition invalidateUserCache :: "nat \<Rightarrow> redis \<Rightarrow> redis" where
  "invalidateUserCache userId m = r_del (userKey userId) m"

definition getUserBySsoCache :: "ms \<Rightarrow> string \<Rightarrow> redis \<Rightarrow> (nat \<times> string) option" where
  "getUserBySsoCache now ssoId m =
     (case r_get now (userSsoKey ssoId) m of Some (RUser i s) \<Rightarrow> Some (i, s) | _ \<Rightarrow> None)"

definition setUserBySsoCache :: "ms \<Rightarrow> string \<Rightarrow> nat \<times> string \<Rightarrow> redis \<Rightarrow> redis" where
  "setUserBySsoCache now ssoId user m =
     r_set_ex now (userSsoKey ssoId) (RUser (fst user) (snd user)) 900 m"

definition invalidateUserBySsoCache :: "string \<Rightarrow> redis \<Rightarrow> redis" where
  "invalidateUserBySsoCache ssoId m = r_del (userSsoKey ssoId) m"

definition takeRefreshLock :: "ms \<Rightarrow> string \<Rightarrow> int \<Rightarrow> redis \<Rightarrow> bool \<times> redis" where
  "takeRefreshLock now hash ttlSeconds m =
     r_set_ex_nx now (refreshLockKey hash) (RText ''1'') ttlSeconds m"

definition releaseRefreshLock :: "string \<Rightarrow> redis \<Rightarrow> redis" where
  "releaseRefreshLock hash m = r_del (refreshLockKey hash) m"

definition setRefreshResult :: "ms \<Rightarrow> string \<Rightarrow> string \<Rightarrow> int \<Rightarrow> redis \<Rightarrow> redis" where
  "setRefreshResult now hash data ttlSeconds m =
     r_set_ex now (refreshKey hash) (RPair data) ttlSeconds m"

definition getRefreshResult :: "ms \<Rightarrow> string \<Rightarrow> redis \<Rightarrow> string option" where
  "getRefreshResult now hash m =
     (case r_get now (refreshKey hash) m of Some (RPair d) \<Rightarrow> Some d | _ \<Rightarrow> None)"

definition setOrgName :: "ms \<Rightarrow> org \<Rightarrow> string \<Rightarrow> redis \<Rightarrow> redis" where
  "setOrgName now ssoOrgId name m =
     r_set_ex now (orgNameKey ssoOrgId) (RText name) (30 * 24 * 60 * 60) m"

definition getOrgName :: "ms \<Rightarrow> org \<Rightarrow> redis \<Rightarrow> string option" where
  "getOrgName now ssoOrgId m =
     (case r_get now (orgNameKey ssoOrgId) m of Some (RText s) \<Rightarrow> Some s | _ \<Rightarrow> None)"

definition setPhoneCache :: "string \<Rightarrow> string \<Rightarrow> string \<Rightarrow> redis \<Rightarrow> redis" where
  "setPhoneCache phoneNumberId wabaId encryptedAccessToken m =
     r_set (phoneKey phoneNumberId) (RPhone wabaId encryptedAccessToken) m"

definition getPhoneCache :: "ms \<Rightarrow> string \<Rightarrow> redis \<Rightarrow> (string \<times> string) option" where
  "getPhoneCache now phoneNumberId m =
     (case r_get now (phoneKey phoneNumberId) m of Some (RPhone w t) \<Rightarrow> Some (w, t) | _ \<Rightarrow> None)"

definition invalidatePhoneCache :: "string \<Rightarrow> redis \<Rightarrow> redis" where
  "invalidatePhoneCache phoneNumberId m = r_del (phoneKey phoneNumberId) m"

definition setApiKeyCache ::
  "string \<Rightarrow> nat \<Rightarrow> org \<Rightarrow> string \<Rightarrow> string option \<Rightarrow> redis \<Rightarrow> redis" where
  "setApiKeyCache accessKey userId ssoOrgId encryptedSecretKey wabaId m =
     r_set (apiKeyKey accessKey)
       (RApiKey \<lparr>ak_userId = userId, ak_ssoOrgId = ssoOrgId, ak_wabaId = Some wabaId,
                 ak_secretKey = encryptedSecretKey\<rparr>) m"

definition getApiKeyCache :: "ms \<Rightarrow> string \<Rightarrow> redis \<Rightarrow> api_key_entry option" where
  "getApiKeyCache now accessKey m =
     (case r_get now (apiKeyKey accessKey) m of
        Some (RApiKey e) \<Rightarrow> if ak_wabaId e = None then None else Some e
      | _ \<Rightarrow> None)"

definition deleteApiKeyCache :: "string \<Rightarrow> redis \<Rightarrow> redis" where
  "deleteApiKeyCache accessKey m = r_del (apiKeyKey accessKey) m"

definition rateKey :: "string \<Rightarrow> int \<Rightarrow> string" where
  "rateKey key bucket = ''ratelimit:'' @ key @ '':'' @ nat_str (nat bucket)"

definition countInWindow :: "ms \<Rightarrow> string \<Rightarrow> int \<Rightarrow> redis \<Rightarrow> (nat \<times> redis) option" where
  "countInWindow now key windowSeconds m =
     (let redisKey = rateKey key (now div 1000 div windowSeconds) in
      case r_incr now redisKey m of
        None \<Rightarrow> None
      | Some (count, m') \<Rightarrow>
          Some (count, if count = 1 then r_expire now redisKey (windowSeconds + 1) m' else m'))"

definition secondsUntilWindowEnds :: "ms \<Rightarrow> int \<Rightarrow> int" where
  "secondsUntilWindowEnds now windowSeconds =
     (let elapsed = (now div 1000) mod windowSeconds in max 1 (windowSeconds - elapsed))"

definition setSubscriptionAccess :: "ms \<Rightarrow> string \<Rightarrow> bool \<Rightarrow> int \<Rightarrow> redis \<Rightarrow> redis" where
  "setSubscriptionAccess now scope allowed ttlSeconds m =
     r_set_ex now (subKey scope) (RText (if allowed then ''1'' else ''0'')) ttlSeconds m"

definition getSubscriptionAccess :: "ms \<Rightarrow> string \<Rightarrow> redis \<Rightarrow> bool option" where
  "getSubscriptionAccess now scope m =
     (case r_get now (subKey scope) m of Some (RText s) \<Rightarrow> Some (s = ''1'') | _ \<Rightarrow> None)"

definition invalidateSubscriptionAccess :: "string \<Rightarrow> redis \<Rightarrow> redis" where
  "invalidateSubscriptionAccess scope m = r_del (subKey scope) m"

definition setMediaUrl :: "ms \<Rightarrow> string \<Rightarrow> string \<Rightarrow> int \<Rightarrow> redis \<Rightarrow> redis" where
  "setMediaUrl now mediaId url ttlSeconds m =
     r_set_ex now (mediaKey mediaId) (RText url) ttlSeconds m"

definition getMediaUrl :: "ms \<Rightarrow> string \<Rightarrow> redis \<Rightarrow> string option" where
  "getMediaUrl now mediaId m =
     (case r_get now (mediaKey mediaId) m of Some (RText s) \<Rightarrow> Some s | _ \<Rightarrow> None)"

lemmas redis_cmd_defs = r_get_def r_set_def r_set_ex_def r_set_ex_nx_def r_del_def r_incr_def r_expire_def

lemmas redis_key_defs = stateKey_def sessionKey_def userKey_def userSsoKey_def refreshLockKey_def
  refreshKey_def orgNameKey_def phoneKey_def apiKeyKey_def subKey_def mediaKey_def rateKey_def

section \<open>The subscription answers are an answer cache\<close>

lemma subKey_inj [simp]: "subKey a = subKey b \<longleftrightarrow> a = b"
  by (simp add: subKey_def)

interpretation sub_cache: answer_cache
  getSubscriptionAccess "\<lambda>now k b m. setSubscriptionAccess now k b 60 m" 60000
proof unfold_locales
  fix now now' :: ms and k :: string and b and m :: redis
  assume "now' < now + 60000"
  then show "getSubscriptionAccess now' k (setSubscriptionAccess now k b 60 m) = Some b"
    by (simp add: getSubscriptionAccess_def setSubscriptionAccess_def redis_cmd_defs)
next
  fix now now' :: ms and k k' :: string and b and m :: redis
  assume "k' \<noteq> k"
  then show "getSubscriptionAccess now' k' (setSubscriptionAccess now k b 60 m) =
      getSubscriptionAccess now' k' m"
    by (simp add: getSubscriptionAccess_def setSubscriptionAccess_def redis_cmd_defs)
next
  fix now now' :: ms and k :: string and b and m :: redis
  assume "getSubscriptionAccess now' k m = Some b" "now \<le> now'"
  then show "getSubscriptionAccess now k m = Some b"
    by (auto simp: getSubscriptionAccess_def redis_cmd_defs split: option.splits if_splits)
qed

section \<open>Entries the readers must not trust\<close>

text \<open>An API-key entry filled before keys carried an account is never handed out; an
  entry the service itself wrote always is, with the account it was scoped to.\<close>
theorem apiKeyCache_scoped:
  "(\<forall>e. getApiKeyCache now k m = Some e \<longrightarrow> ak_wabaId e \<noteq> None) \<and>
   getApiKeyCache now k (setApiKeyCache k u org sec waba m) =
     Some \<lparr>ak_userId = u, ak_ssoOrgId = org, ak_wabaId = Some waba, ak_secretKey = sec\<rparr>"
  by (auto simp: getApiKeyCache_def setApiKeyCache_def redis_cmd_defs
      split: option.splits rval.splits if_splits)

theorem apiKeyCache_scoped_witness:
  "ak_wabaId (the (getApiKeyCache 0 ''ak'' (setApiKeyCache ''ak'' 1 ''o'' ''s'' (Some ''w'') Map.empty)))
     \<noteq> None"
  using apiKeyCache_scoped [of 0 "''ak''" "setApiKeyCache ''ak'' 1 ''o'' ''s'' (Some ''w'') Map.empty"
      1 "''o''" "''s''" "Some ''w''"]
    apiKeyCache_scoped [of 0 "''ak''" Map.empty 1 "''o''" "''s''" "Some ''w''"]
  by simp

text \<open>The refresh lock is held by one caller at a time: once taken, nobody takes it
  again before its ten seconds are up, unless it is released.\<close>
theorem refreshLock_exclusive:
  assumes "takeRefreshLock now h 10 m = (True, m')" "now' < now + 10000"
  shows "takeRefreshLock now' h 10 m' = (False, m') \<and>
         fst (takeRefreshLock now' h 10 (releaseRefreshLock h m'))"
  using assms
  by (auto simp: takeRefreshLock_def releaseRefreshLock_def redis_cmd_defs split: if_splits)

theorem refreshLock_exclusive_witness:
  "\<not> fst (takeRefreshLock 9000 ''h'' 10 (snd (takeRefreshLock 0 ''h'' 10 Map.empty)))"
proof -
  have "takeRefreshLock 0 ''h'' 10 Map.empty = (True, snd (takeRefreshLock 0 ''h'' 10 Map.empty))"
    by (simp add: takeRefreshLock_def redis_cmd_defs)
  from refreshLock_exclusive [OF this, of 9000] show ?thesis by simp
qed

end
