(* ===== verification/Text.thy ===== *)
theory Text
  imports Prelude
begin

text \<open>
  The JavaScript string operations the services use. Case and white space are those of ASCII;
  lengths and cuts count UTF-16 code units, as JavaScript does, over the UTF-8 bytes the text
  is kept in.
\<close>

section \<open>Splitting, joining, case\<close>

text \<open>\<open>s.split(c)\<close>, \<open>parts.join(c)\<close>, \<open>endsWith\<close>, \<open>toLowerCase\<close>, \<open>toUpperCase\<close>, \<open>trim\<close>.\<close>

fun split_on :: "char \<Rightarrow> string \<Rightarrow> string list" where
  "split_on c [] = [[]]"
| "split_on c (x # xs) =
     (if x = c then [] # split_on c xs
      else (case split_on c xs of [] \<Rightarrow> [[x]] | p # ps \<Rightarrow> (x # p) # ps))"

fun join_with :: "char \<Rightarrow> string list \<Rightarrow> string" where
  "join_with c [] = []"
| "join_with c [p] = p"
| "join_with c (p # q # ps) = p @ c # join_with c (q # ps)"

definition ends_with :: "string \<Rightarrow> string \<Rightarrow> bool" where
  "ends_with suf s = (length suf \<le> length s \<and> drop (length s - length suf) s = suf)"

definition lower_char :: "char \<Rightarrow> char" where
  "lower_char c = (let n = (of_char c :: nat) in if 65 \<le> n \<and> n \<le> 90 then char_of (n + 32) else c)"

definition js_lower :: "string \<Rightarrow> string" where
  "js_lower s = map lower_char s"

definition js_space :: "char \<Rightarrow> bool" where
  "js_space c = (let n = (of_char c :: nat) in n = 32 \<or> 9 \<le> n \<and> n \<le> 13)"

definition js_trim :: "string \<Rightarrow> string" where
  "js_trim s = rev (dropWhile js_space (rev (dropWhile js_space s)))"

definition upper_char :: "char \<Rightarrow> char" where
  "upper_char c = (let n = (of_char c :: nat) in if 97 \<le> n \<and> n \<le> 122 then char_of (n - 32) else c)"

definition js_upper :: "string \<Rightarrow> string" where
  "js_upper s = map upper_char s"

text \<open>\<open>parts.join(sep)\<close> with a separator of any length, and \<open>includes\<close>.\<close>

fun join_text :: "string \<Rightarrow> string list \<Rightarrow> string" where
  "join_text sep [] = []"
| "join_text sep [p] = p"
| "join_text sep (p # q # ps) = p @ sep @ join_text sep (q # ps)"

fun contains_text :: "string \<Rightarrow> string \<Rightarrow> bool" where
  "contains_text needle [] = (needle = [])"
| "contains_text needle (c # cs) =
     (take (length needle) (c # cs) = needle \<or> contains_text needle cs)"

text \<open>\<open>s.replace(/x/g, y)\<close> for single characters.\<close>

definition replace_char :: "char \<Rightarrow> char \<Rightarrow> string \<Rightarrow> string" where
  "replace_char x y s = map (\<lambda>c. if c = x then y else c) s"

section \<open>Code units\<close>

text \<open>How many UTF-16 units a character adds, read off the first of its bytes; the bytes that
  continue a character add none.\<close>

definition code_units :: "char \<Rightarrow> nat" where
  "code_units c =
     (let n = (of_char c :: nat) in if n < 128 then 1 else if n < 192 then 0 else if n < 240 then 1 else 2)"

definition js_length :: "string \<Rightarrow> nat" where
  "js_length s = sum_list (map code_units s)"

text \<open>\<open>s.slice(0, n)\<close>. A cut through the middle of a surrogate pair drops the pair.\<close>

fun js_take :: "nat \<Rightarrow> string \<Rightarrow> string" where
  "js_take n [] = []"
| "js_take n (c # cs) =
     (if code_units c \<le> n then c # js_take (n - code_units c) cs else [])"

lemma js_length_simps [simp]:
  "js_length [] = 0" "js_length (c # cs) = code_units c + js_length cs"
  by (simp_all add: js_length_def)

lemma js_length_take: "js_length (js_take n s) \<le> n"
  by (induction n s rule: js_take.induct) auto

lemma js_take_all: "js_length s \<le> n \<Longrightarrow> js_take n s = s"
  by (induction n s rule: js_take.induct) auto

lemma js_take_prefix: "\<exists>r. s = js_take n s @ r"
  by (induction n s rule: js_take.induct) auto

section \<open>Splitting undoes joining\<close>

lemma split_on_nonempty [simp]: "split_on c s \<noteq> []"
  by (induction s) (auto split: list.splits)

lemma split_on_free: "c \<notin> set s \<Longrightarrow> split_on c s = [s]"
  by (induction s) auto

lemma split_on_append:
  "c \<notin> set s \<Longrightarrow> split_on c (s @ c # r) = s # split_on c r"
  by (induction s) auto

lemma split_join:
  "ps \<noteq> [] \<Longrightarrow> \<forall>p \<in> set ps. c \<notin> set p \<Longrightarrow> split_on c (join_with c ps) = ps"
  by (induction ps rule: join_with.induct) (auto simp: split_on_free split_on_append)

end
