(* ===== verification/Json.thy ===== *)
theory Json
  imports Text Invoice_Number
begin

text \<open>
  JSON values, as Meta's webhooks carry them and as the services post them on: what
  \<open>JSON.parse\<close> gives, how the handlers read it (every access narrowed, nothing asserted) and
  what \<open>JSON.stringify\<close> writes. Numbers are integers.
\<close>

datatype json =
    JNull
  | JBool bool
  | JNum int
  | JStr string
  | JArr "json list"
  | JObj "(string \<times> json) list"

section \<open>Reading\<close>

text \<open>\<open>undefined\<close> is \<open>None\<close>. A member of something that is not an object is undefined where the
  source writes \<open>?.\<close>, as it does on untrusted input.\<close>

definition j_get :: "string \<Rightarrow> json option \<Rightarrow> json option" where
  "j_get k v = (case v of Some (JObj fs) \<Rightarrow> map_of fs k | _ \<Rightarrow> None)"

definition j_at :: "nat \<Rightarrow> json option \<Rightarrow> json option" where
  "j_at i v = (case v of Some (JArr xs) \<Rightarrow> if i < length xs then Some (xs ! i) else None | _ \<Rightarrow> None)"

definition j_nullish :: "json option \<Rightarrow> bool" where
  "j_nullish v = (v = None \<or> v = Some JNull)"

text \<open>\<open>a ?? b\<close> on JSON values.\<close>

definition j_or :: "json option \<Rightarrow> json option \<Rightarrow> json option" where
  "j_or a b = (if j_nullish a then b else a)"

definition asObject :: "json option \<Rightarrow> json option" where
  "asObject v = (case v of Some (JObj fs) \<Rightarrow> v | Some (JArr xs) \<Rightarrow> v | _ \<Rightarrow> None)"

definition asArray :: "json option \<Rightarrow> json list" where
  "asArray v = (case v of Some (JArr xs) \<Rightarrow> xs | _ \<Rightarrow> [])"

definition asString :: "json option \<Rightarrow> string option" where
  "asString v = (case v of Some (JStr s) \<Rightarrow> if s = [] then None else Some s | _ \<Rightarrow> None)"

definition first_of :: "json list \<Rightarrow> json option" where
  "first_of xs = (case xs of [] \<Rightarrow> None | x # _ \<Rightarrow> Some x)"

section \<open>Writing\<close>

definition hex_lower :: "nat \<Rightarrow> char" where
  "hex_lower d = (if d < 10 then digit_char d else char_of (87 + d))"

definition json_escape :: "char \<Rightarrow> string" where
  "json_escape c =
     (let n = (of_char c :: nat) in
      if n = 34 then [CHR 0x5C, CHR 0x22]
      else if n = 92 then [CHR 0x5C, CHR 0x5C]
      else if n = 8 then [CHR 0x5C, CHR ''b'']
      else if n = 9 then [CHR 0x5C, CHR ''t'']
      else if n = 10 then [CHR 0x5C, CHR ''n'']
      else if n = 12 then [CHR 0x5C, CHR ''f'']
      else if n = 13 then [CHR 0x5C, CHR ''r'']
      else if n < 32 then [CHR 0x5C, CHR ''u'', CHR ''0'', CHR ''0'', hex_lower (n div 16), hex_lower (n mod 16)]
      else [c])"

definition json_string :: "string \<Rightarrow> string" where
  "json_string s = [CHR 0x22] @ concat (map json_escape s) @ [CHR 0x22]"

fun stringify :: "json \<Rightarrow> string" where
  "stringify JNull = ''null''"
| "stringify (JBool b) = (if b then ''true'' else ''false'')"
| "stringify (JNum n) = int_str n"
| "stringify (JStr s) = json_string s"
| "stringify (JArr xs) = ''['' @ join_text '','' (map stringify xs) @ '']''"
| "stringify (JObj fs) =
     ''{'' @ join_text '','' (map (\<lambda>kv. json_string (fst kv) @ '':'' @ stringify (snd kv)) fs) @ ''}''"

text \<open>\<open>String(v)\<close>: an object prints as its tag, an array as its elements.\<close>

fun j_String :: "json \<Rightarrow> string" where
  "j_String JNull = ''null''"
| "j_String (JBool b) = (if b then ''true'' else ''false'')"
| "j_String (JNum n) = int_str n"
| "j_String (JStr s) = s"
| "j_String (JArr xs) = join_text '','' (map (\<lambda>x. if x = JNull then '''' else j_String x) xs)"
| "j_String (JObj _) = ''[object Object]''"

text \<open>JavaScript's truth of a value.\<close>

definition j_truthy :: "json option \<Rightarrow> bool" where
  "j_truthy v = (case v of
      None \<Rightarrow> False | Some JNull \<Rightarrow> False | Some (JBool b) \<Rightarrow> b | Some (JNum n) \<Rightarrow> n \<noteq> 0
    | Some (JStr s) \<Rightarrow> s \<noteq> [] | Some _ \<Rightarrow> True)"

section \<open>Instants as text\<close>

text \<open>\<open>toISOString\<close>, for the years 0 to 9999.\<close>

definition toISOString :: "ms \<Rightarrow> string" where
  "toISOString t =
     (let d = t div ms_per_day; r = t mod ms_per_day; y = year_from_day d; m = month_from_day d;
          leap = in_leap_year y;
          day = d - DayFromYear y - month_start leap m + 1;
          two_digits = (\<lambda>n. pad_start 2 CHR ''0'' (nat_str (nat n)))
      in pad_start 4 CHR ''0'' (nat_str (nat y)) @ ''-'' @ two_digits (int m) @ ''-'' @ two_digits day @
         ''T'' @ two_digits (r div 3600000) @ '':'' @ two_digits (r div 60000 mod 60) @ '':'' @
         two_digits (r div 1000 mod 60) @ ''.'' @
         pad_start 3 CHR ''0'' (nat_str (nat (r mod 1000))) @ ''Z'')"

end
