(* ===== verification/Db.thy ===== *)
theory Db
  imports Redis_Store Json
begin

text \<open>
  The data the billing services share: the Prisma models of \<open>prisma/schema.prisma\<close> they
  read and write (a record per model, the columns the code uses), the entities Razorpay
  answers with (\<open>src/billing/razorpay.service.ts\<close>), and the state that holds all of it.
\<close>

section \<open>Prisma models\<close>

datatype sub_status =
    Created | Authenticated | Active | Pending | Halted | Cancelled | Completed | Expired | Superseded

record org_settings =
  os_org :: org
  os_agencyOrgId :: "org option"
  os_isAgency :: bool
  os_clientName :: "string option"
  os_gstin :: "string option"
  os_legalName :: "string option"
  os_billingAddress :: "string option"
  os_billingCity :: "string option"
  os_billingPostalCode :: "string option"
  os_stateCode :: "string option"
  os_payerVersion :: nat

record plan_row =
  pl_id :: nat
  pl_code :: string
  pl_name :: string
  pl_price :: "paise option"
  pl_currency :: string
  pl_unit :: string
  pl_active :: bool
  pl_ssoOrgId :: "org option"
  pl_ctaKind :: string
  pl_razorpayPlanId :: "string option"
  pl_includedWabas :: "int option"
  pl_includedPhoneNumbersPerWaba :: "int option"
  pl_includedClients :: "int option"
  pl_additionalWabaPrice :: "paise option"
  pl_additionalNumberPrice :: "paise option"
  pl_maxTeamMembers :: "int option"
  pl_maxWebhookEndpoints :: "int option"
  pl_maxApiKeysPerWaba :: "int option"
  pl_maxContacts :: "int option"
  pl_maxMessagesPerMinute :: "int option"
  pl_historyDays :: "int option"
  pl_rank :: int

record subscription =
  sub_id :: nat
  sub_wabaId :: "string option"
  sub_org :: org
  sub_customerId :: "string option"
  sub_mandate :: "string option"
  sub_planId :: string
  sub_planRefId :: "nat option"
  sub_pendingPlanRefId :: "nat option"
  sub_pendingPlanAt :: "ms option"
  sub_status :: sub_status
  sub_currentStart :: "ms option"
  sub_currentEnd :: "ms option"
  sub_cancelAtCycleEnd :: bool
  sub_cancelledAt :: "ms option"
  sub_shortUrl :: "string option"
  sub_pendingMandate :: "string option"
  sub_pendingShortUrl :: "string option"
  sub_payerOrgId :: "org option"
  sub_billingGroupId :: "nat option"
  sub_createdByUserId :: nat
  sub_createdAt :: ms

record billing_group =
  bg_id :: nat
  bg_agencyOrgId :: org
  bg_planRefId :: nat
  bg_customerId :: "string option"
  bg_mandate :: string
  bg_planId :: string
  bg_quantity :: int
  bg_status :: sub_status
  bg_currentStart :: "ms option"
  bg_currentEnd :: "ms option"
  bg_cancelAtCycleEnd :: bool
  bg_cancelledAt :: "ms option"
  bg_shortUrl :: "string option"
  bg_createdByUserId :: nat
  bg_createdAt :: ms

record payment_row =
  pay_id :: nat
  pay_subscriptionId :: "nat option"
  pay_billingGroupId :: "nat option"
  pay_razorpayPaymentId :: string
  pay_razorpayInvoiceId :: "string option"
  pay_amount :: paise
  pay_currency :: string
  pay_status :: string
  pay_method :: "string option"
  pay_methodDetail :: "string option"
  pay_paidAt :: "ms option"

record waba_org =
  wo_wabaId :: string
  wo_org :: org
  wo_userId :: nat
  wo_orgName :: "string option"

record waba_row =
  wb_wabaId :: string
  wb_name :: string
  wb_createdAt :: ms

record phone_number_row =
  pn_phoneNumberId :: string
  pn_wabaId :: string
  pn_platformType :: "string option"
  pn_displayPhoneNumber :: string
  pn_verifiedName :: string
  pn_nameStatus :: "string option"
  pn_qualityRating :: string

record contact_row =
  ct_id :: nat
  ct_org :: org
  ct_phone :: string
  ct_name :: "string option"
  ct_email :: "string option"
  ct_optedOut :: bool
  ct_optedOutAt :: "ms option"
  ct_metadata :: "json option"
  ct_createdAt :: ms
  ct_updatedAt :: ms

text \<open>What billing reads of the webhook endpoints and the API keys.\<close>

record endpoint_ref =
  er_org :: org
  er_wabaId :: string

record api_key_ref =
  kr_org :: org
  kr_wabaId :: "string option"
  kr_status :: bool

record event_row =
  ev_eventId :: string
  ev_event :: string
  ev_org :: "org option"
  ev_mandate :: "string option"

record user_row =
  us_id :: nat
  us_email :: "string option"
  us_firstName :: "string option"
  us_lastName :: "string option"

record invoice_line =
  il_org :: "org option"
  il_description :: string
  il_detail :: "string option"
  il_planCode :: "string option"
  il_planName :: "string option"
  il_quantity :: int
  il_unitAmount :: paise
  il_amount :: paise
  il_position :: nat

record invoice_row =
  in_id :: nat
  in_number :: string
  in_financialYear :: string
  in_sequence :: nat
  in_razorpayPaymentId :: string
  in_razorpayInvoiceId :: "string option"
  in_paymentId :: "nat option"
  in_org :: org
  in_billingGroupId :: "nat option"
  in_billedToName :: "string option"
  in_billedToEmail :: "string option"
  in_organisationName :: "string option"
  in_summary :: "string option"
  in_paymentMethod :: "string option"
  in_periodStart :: "ms option"
  in_periodEnd :: "ms option"
  in_subtotal :: paise
  in_taxAmount :: paise
  in_taxRateBps :: int
  in_taxLabel :: "string option"
  in_cgstAmount :: paise
  in_sgstAmount :: paise
  in_igstAmount :: paise
  in_billedToGstin :: "string option"
  in_billedToAddress :: "string option"
  in_placeOfSupply :: "string option"
  in_placeOfSupplyCode :: "string option"
  in_sacCode :: "string option"
  in_total :: paise
  in_currency :: string
  in_issuedAt :: ms
  in_paidAt :: "ms option"
  in_emailedAt :: "ms option"
  in_emailedTo :: "string option"
  in_lines :: "invoice_line list"

record receipt_row =
  re_id :: nat
  re_number :: string
  re_financialYear :: string
  re_sequence :: nat
  re_invoiceId :: nat
  re_razorpayPaymentId :: string
  re_org :: org
  re_billedToName :: "string option"
  re_billedToEmail :: "string option"
  re_organisationName :: "string option"
  re_summary :: "string option"
  re_amount :: paise
  re_currency :: string
  re_paymentMethod :: "string option"
  re_paymentReference :: "string option"
  re_issuedAt :: ms
  re_receivedAt :: "ms option"
  re_emailedAt :: "ms option"
  re_emailedTo :: "string option"

section \<open>Razorpay's entities\<close>

record rz_subscription =
  rz_id :: string
  rz_plan_id :: string
  rz_status :: string
  rz_current_start :: "int option"
  rz_current_end :: "int option"
  rz_short_url :: "string option"
  rz_notes :: "(string \<times> string) list"

record rz_plan =
  rp_id :: string
  rp_period :: string
  rp_interval :: int
  rp_amount :: paise
  rp_currency :: string
  rp_name :: "string option"

record rz_card =
  rc_network :: "string option"
  rc_last4 :: "string option"
  rc_issuer :: "string option"

record rz_payment =
  rpay_id :: string
  rpay_invoice_id :: "string option"
  rpay_amount :: "paise option"
  rpay_currency :: "string option"
  rpay_status :: "string option"
  rpay_method :: "string option"
  rpay_card :: "rz_card option"
  rpay_bank :: "string option"
  rpay_wallet :: "string option"
  rpay_vpa :: "string option"
  rpay_created_at :: "int option"

text \<open>A request to Razorpay's REST API, as the service sends it.\<close>

datatype rz_request =
    PostCustomer "string option" "string option" "(string \<times> string) list"
  | GetCustomers nat nat
  | PatchCustomer string "string option" "string option"
  | PostSubscription "string option" string "int option" "int option" "(string \<times> string) list"
  | PostAddon string string paise string int
  | PatchSubscriptionPlan string string bool
  | PatchSubscriptionQuantity string int bool
  | PostCancel string bool
  | PostPlan string paise string "string option" string int
  | GetPlan string
  | GetSubscription string

text \<open>An error answer: the description in its body, if it has one, and axios's own message.\<close>

record rz_error =
  rze_description :: "string option"
  rze_message :: string

text \<open>
  The service on the other side of the network: what it answers to each kind of request,
  which may depend on every request made so far.
\<close>

record rz_api =
  api_postCustomer :: "rz_request list \<Rightarrow> rz_request \<Rightarrow> rz_error + string"
  api_getCustomers :: "rz_request list \<Rightarrow> rz_request \<Rightarrow> rz_error + (string \<times> string option) list"
  api_patchCustomer :: "rz_request list \<Rightarrow> rz_request \<Rightarrow> rz_error + unit"
  api_subscription :: "rz_request list \<Rightarrow> rz_request \<Rightarrow> rz_error + rz_subscription"
  api_addon :: "rz_request list \<Rightarrow> rz_request \<Rightarrow> rz_error + string"
  api_plan :: "rz_request list \<Rightarrow> rz_request \<Rightarrow> rz_error + rz_plan"

section \<open>State and environment\<close>

datatype mail_event =
    MailCharged nat org ms
  | MailPaymentFailed nat org bool "ms option"
  | MailCancelled nat org "ms option"

text \<open>What the mail service is handed to send an invoice and its receipt; the PDFs are drawn
  from the rows and stand for their numbers.\<close>

record invoice_mail =
  im_email :: string
  im_name :: "string option"
  im_number :: string
  im_issuedAt :: ms
  im_organisationName :: "string option"
  im_summary :: "string option"
  im_total :: string
  im_periodEnd :: "ms option"
  im_receiptNumber :: "string option"

record world =
  w_settings :: "org_settings list"
  w_plans :: "plan_row list"
  w_subs :: "subscription list"
  w_groups :: "billing_group list"
  w_payments :: "payment_row list"
  w_events :: "event_row list"
  w_wabaOrgs :: "waba_org list"
  w_numbers :: "phone_number_row list"
  w_users :: "user_row list"
  w_redis :: redis
  w_rz_log :: "rz_request list"
  w_rz_plans :: "string \<Rightarrow> rz_plan option"
  w_mails :: "mail_event list"
  w_provisioned :: "string list"
  w_wabas :: "waba_row list"
  w_contacts :: "contact_row list"
  w_endpoints :: "endpoint_ref list"
  w_apiKeys :: "api_key_ref list"
  w_invoices :: "invoice_row list"
  w_receipts :: "receipt_row list"
  w_invoiceCounter :: "string \<Rightarrow> nat option"
  w_receiptCounter :: "string \<Rightarrow> nat option"
  w_documentMails :: "invoice_mail list"
  w_nextId :: nat

text \<open>
  What a call meets from outside: the clock, the Razorpay credentials and service, HMAC-SHA256,
  which Prisma statements fail where the code catches it, which accounts provisioning fails
  for, what the sign-in service answers about members and invitations, whether mail accepts
  an invoice (\<open>None\<close>: it throws), the time-zone database and the deployment's invoice settings
  (\<open>ic_taxRate\<close>: what \<open>Number\<close> reads, as numerator over a positive denominator; \<open>None\<close> when
  it is not finite).
\<close>

datatype sso_answer = SsoRaises | SsoOther | SsoArray nat

record invoice_config =
  ic_series :: "string option"
  ic_timezone :: "string option"
  ic_taxRate :: "(int \<times> int) option"
  ic_taxLabel :: "string option"
  ic_sellerGstin :: "string option"
  ic_sacCode :: "string option"

type_synonym tz_rules = "string \<Rightarrow> ms \<Rightarrow> int"

record env =
  e_now :: ms
  e_keyId :: "string option"
  e_keySecret :: "string option"
  e_api :: rz_api
  e_hmac :: "string \<Rightarrow> string \<Rightarrow> string"
  e_db_raises :: "string \<Rightarrow> bool"
  e_provision_fails :: "string \<Rightarrow> bool"
  e_members :: "org \<Rightarrow> string \<Rightarrow> sso_answer"
  e_invitations :: "org \<Rightarrow> string \<Rightarrow> sso_answer"
  e_mail_accepts :: "invoice_mail \<Rightarrow> bool option"
  e_tz :: tz_rules
  e_invoicing :: invoice_config

text \<open>\<open>isConfigured\<close>: the client is made when both credentials are there.\<close>

definition isConfigured :: "env \<Rightarrow> bool" where
  "isConfigured e = (truthy (e_keyId e) \<and> truthy (e_keySecret e))"

section \<open>Keys\<close>

text \<open>
  The unique constraints the migrations put on the tables: one settings row per
  organisation, one organisation-level subscription per organisation
  (\<open>Subscription_org_key\<close>), one per account and organisation, unique mandates.
\<close>

definition org_level :: "subscription \<Rightarrow> bool" where
  "org_level s = (sub_wabaId s = None)"

definition org_key_ok :: "subscription list \<Rightarrow> bool" where
  "org_key_ok subs = distinct (map sub_org (filter org_level subs))"

definition settings_key_ok :: "org_settings list \<Rightarrow> bool" where
  "settings_key_ok rows = distinct (map os_org rows)"

lemma org_key_ok_unique:
  "org_key_ok subs \<Longrightarrow> a \<in> set subs \<Longrightarrow> b \<in> set subs \<Longrightarrow> org_level a \<Longrightarrow> org_level b \<Longrightarrow>
   sub_org a = sub_org b \<Longrightarrow> a = b"
  unfolding org_key_ok_def distinct_map inj_on_def by auto

section \<open>A small deployment\<close>

text \<open>An empty database, one plan, one paid subscription and a provider that answers
  everything plainly: what the concrete instances of the development's theorems start from.\<close>

definition empty_world :: world where
  "empty_world =
     \<lparr>w_settings = [], w_plans = [], w_subs = [], w_groups = [], w_payments = [], w_events = [],
      w_wabaOrgs = [], w_numbers = [], w_users = [], w_redis = Map.empty, w_rz_log = [],
      w_rz_plans = Map.empty, w_mails = [], w_provisioned = [],
      w_wabas = [], w_contacts = [], w_endpoints = [], w_apiKeys = [], w_invoices = [],
      w_receipts = [], w_invoiceCounter = Map.empty, w_receiptCounter = Map.empty,
      w_documentMails = [], w_nextId = 1\<rparr>"

definition sample_plan :: plan_row where
  "sample_plan =
     \<lparr>pl_id = 1, pl_code = ''starter'', pl_name = ''Starter'', pl_price = Some 99900,
      pl_currency = ''INR'', pl_unit = ''/month'', pl_active = True, pl_ssoOrgId = None,
      pl_ctaKind = ''subscribe'', pl_razorpayPlanId = Some ''plan_starter'',
      pl_includedWabas = Some 1, pl_includedPhoneNumbersPerWaba = Some 1, pl_includedClients = Some 0,
      pl_additionalWabaPrice = Some 50000, pl_additionalNumberPrice = Some 20000,
      pl_maxTeamMembers = Some 2, pl_maxWebhookEndpoints = Some 1, pl_maxApiKeysPerWaba = Some 1,
      pl_maxContacts = Some 1000, pl_maxMessagesPerMinute = Some 60, pl_historyDays = Some 30,
      pl_rank = 1\<rparr>"

definition bigger_plan :: plan_row where
  "bigger_plan = sample_plan
     \<lparr>pl_id := 2, pl_code := ''growth'', pl_name := ''Growth'', pl_price := Some 249900,
      pl_razorpayPlanId := Some ''plan_growth'', pl_maxTeamMembers := Some 10, pl_rank := 2\<rparr>"

definition sample_sub :: "org \<Rightarrow> subscription" where
  "sample_sub me =
     \<lparr>sub_id = 7, sub_wabaId = None, sub_org = me, sub_customerId = Some ''cust_1'',
      sub_mandate = Some ''sub_1'', sub_planId = ''plan_starter'', sub_planRefId = Some 1,
      sub_pendingPlanRefId = None, sub_pendingPlanAt = None, sub_status = Active,
      sub_currentStart = Some 0, sub_currentEnd = Some 2592000000, sub_cancelAtCycleEnd = False,
      sub_cancelledAt = None, sub_shortUrl = None, sub_pendingMandate = None,
      sub_pendingShortUrl = None, sub_payerOrgId = None, sub_billingGroupId = None,
      sub_createdByUserId = 1, sub_createdAt = 0\<rparr>"

definition sample_number :: "string \<Rightarrow> string \<Rightarrow> phone_number_row" where
  "sample_number i wabaId =
     \<lparr>pn_phoneNumberId = i, pn_wabaId = wabaId, pn_platformType = Some ''CLOUD_API'',
      pn_displayPhoneNumber = ''+91 98220 10210'', pn_verifiedName = ''Acme'', pn_nameStatus = None,
      pn_qualityRating = ''GREEN''\<rparr>"

definition sample_world :: world where
  "sample_world = empty_world
     \<lparr>w_plans := [sample_plan, bigger_plan], w_subs := [sample_sub ''acme''],
      w_wabaOrgs := [\<lparr>wo_wabaId = ''waba1'', wo_org = ''acme'', wo_userId = 1, wo_orgName = Some ''Acme''\<rparr>], w_nextId := 100\<rparr>"

definition plain_api :: rz_api where
  "plain_api =
     \<lparr>api_postCustomer = (\<lambda>_ _. Inr ''cust_1''), api_getCustomers = (\<lambda>_ _. Inr []),
      api_patchCustomer = (\<lambda>_ _. Inr ()),
      api_subscription = (\<lambda>h _. Inr \<lparr>rz_id = ''sub_'' @ nat_str (length h + 2), rz_plan_id = ''plan_growth'',
        rz_status = ''created'', rz_current_start = None, rz_current_end = None,
        rz_short_url = Some ''https://rzp.io/x'', rz_notes = []\<rparr>),
      api_addon = (\<lambda>_ _. Inr ''addon_1''),
      api_plan = (\<lambda>_ _. Inr \<lparr>rp_id = ''plan_growth'', rp_period = ''monthly'', rp_interval = 1,
        rp_amount = 249900, rp_currency = ''INR'', rp_name = Some ''Growth''\<rparr>)\<rparr>"

definition sample_invoicing :: invoice_config where
  "sample_invoicing =
     \<lparr>ic_series = None, ic_timezone = None, ic_taxRate = Some (1800, 1), ic_taxLabel = None,
      ic_sellerGstin = Some ''29AAGCB7383J1Z4'', ic_sacCode = None\<rparr>"

definition sample_env :: env where
  "sample_env =
     \<lparr>e_now = 864000000, e_keyId = Some ''rzp_key'', e_keySecret = Some ''rzp_secret'',
      e_api = plain_api, e_hmac = (\<lambda>_ _. [CHR 0xAB, CHR 0xCD]), e_db_raises = (\<lambda>_. False),
      e_provision_fails = (\<lambda>_. False), e_members = (\<lambda>_ _. SsoArray 2),
      e_invitations = (\<lambda>_ _. SsoArray 1), e_mail_accepts = (\<lambda>_. Some True),
      e_tz = (\<lambda>_ _. 19800000), e_invoicing = sample_invoicing\<rparr>"

end
