(* ===== verification/Org_Settings.thy ===== *)
theory Org_Settings
  imports Gst Db Text
begin

text \<open>
  \<open>src/organisation-settings/organisation-settings.service.ts\<close>: who pays for an
  organisation, the version its cached answers are keyed on, and the tax identity on its
  invoices. The table has one row per organisation (\<open>ssoOrgId\<close> is its primary key) and
  rows are in order of creation.
\<close>

section \<open>Reading\<close>

text \<open>The columns \<open>get\<close> selects; an organisation with no row has the defaults.\<close>

record org_view =
  ov_ssoOrgId :: org
  ov_agencyOrgId :: "org option"
  ov_isAgency :: bool
  ov_clientName :: "string option"
  ov_payerVersion :: nat

definition DEFAULTS :: "org \<Rightarrow> org_view" where
  "DEFAULTS ssoOrgId =
     \<lparr>ov_ssoOrgId = ssoOrgId, ov_agencyOrgId = None, ov_isAgency = False, ov_clientName = None,
      ov_payerVersion = 0\<rparr>"

definition settings_row :: "org_settings list \<Rightarrow> org \<Rightarrow> org_settings option" where
  "settings_row rows ssoOrgId = List.find (\<lambda>r. os_org r = ssoOrgId) rows"

definition settings_get :: "org_settings list \<Rightarrow> org \<Rightarrow> org_view" where
  "settings_get rows ssoOrgId =
     (case settings_row rows ssoOrgId of
        None \<Rightarrow> DEFAULTS ssoOrgId
      | Some r \<Rightarrow>
          \<lparr>ov_ssoOrgId = os_org r, ov_agencyOrgId = os_agencyOrgId r, ov_isAgency = os_isAgency r,
           ov_clientName = os_clientName r, ov_payerVersion = os_payerVersion r\<rparr>)"

definition billingOrgFor :: "org_settings list \<Rightarrow> org \<Rightarrow> org" where
  "billingOrgFor rows ssoOrgId =
     nullish_def_val (ov_agencyOrgId (settings_get rows ssoOrgId)) ssoOrgId"

definition cacheVersionFor :: "org_settings list \<Rightarrow> org \<Rightarrow> nat" where
  "cacheVersionFor rows ssoOrgId =
     (let settings = settings_get rows ssoOrgId in
      if \<not> truthy (ov_agencyOrgId settings) then ov_payerVersion settings
      else ov_payerVersion (settings_get rows (the (ov_agencyOrgId settings))))"

definition clientsOf :: "org_settings list \<Rightarrow> org \<Rightarrow> org list" where
  "clientsOf rows agencyOrgId = map os_org (filter (\<lambda>r. os_agencyOrgId r = Some agencyOrgId) rows)"

definition clientRoster :: "org_settings list \<Rightarrow> org \<Rightarrow> (org \<times> string option) list" where
  "clientRoster rows agencyOrgId =
     map (\<lambda>r. (os_org r, os_clientName r)) (filter (\<lambda>r. os_agencyOrgId r = Some agencyOrgId) rows)"

definition billingScope :: "org_settings list \<Rightarrow> org \<Rightarrow> org list" where
  "billingScope rows ssoOrgId =
     (let payer = billingOrgFor rows ssoOrgId in payer # clientsOf rows payer)"

section \<open>Writing\<close>

definition blank_settings :: "org \<Rightarrow> org_settings" where
  "blank_settings ssoOrgId =
     \<lparr>os_org = ssoOrgId, os_agencyOrgId = None, os_isAgency = False, os_clientName = None,
      os_gstin = None, os_legalName = None, os_billingAddress = None, os_billingCity = None,
      os_billingPostalCode = None, os_stateCode = None, os_payerVersion = 0\<rparr>"

text \<open>\<open>upsert\<close> on the primary key: change the row there is, or append a new one.\<close>

definition upsert_settings ::
  "org \<Rightarrow> (org_settings \<Rightarrow> org_settings) \<Rightarrow> (org_settings \<Rightarrow> org_settings) \<Rightarrow>
   org_settings list \<Rightarrow> org_settings list" where
  "upsert_settings ssoOrgId create upd rows =
     (if settings_row rows ssoOrgId = None then rows @ [create (blank_settings ssoOrgId)]
      else update_rows (\<lambda>r. os_org r = ssoOrgId) upd rows)"

text \<open>\<open>raises\<close>: the statement failed, which is logged and swallowed.\<close>

definition bumpPayerVersion :: "bool \<Rightarrow> org \<Rightarrow> org_settings list \<Rightarrow> org_settings list" where
  "bumpPayerVersion raises ssoOrgId rows =
     (if raises then rows
      else upsert_settings ssoOrgId
             (\<lambda>r. r\<lparr>os_payerVersion := 1\<rparr>)
             (\<lambda>r. r\<lparr>os_payerVersion := os_payerVersion r + 1\<rparr>) rows)"

section \<open>Tax details\<close>

record tax_details =
  td_gstin :: "string option"
  td_legalName :: "string option"
  td_billingAddress :: "string option"
  td_billingCity :: "string option"
  td_billingPostalCode :: "string option"
  td_stateCode :: "string option"
  td_stateName :: "string option"

definition taxDetails :: "org_settings list \<Rightarrow> org \<Rightarrow> tax_details" where
  "taxDetails rows ssoOrgId =
     (let row = settings_row rows ssoOrgId;
          field = (\<lambda>f. case row of None \<Rightarrow> None | Some r \<Rightarrow> f r);
          stateCode = nullish (field os_stateCode) (stateCodeOfGstin (field os_gstin))
      in \<lparr>td_gstin = field os_gstin, td_legalName = field os_legalName,
          td_billingAddress = field os_billingAddress, td_billingCity = field os_billingCity,
          td_billingPostalCode = field os_billingPostalCode, td_stateCode = stateCode,
          td_stateName = stateName stateCode\<rparr>)"

text \<open>The service's \<open>clean\<close>.\<close>

definition clean :: "string option \<Rightarrow> string option" where
  "clean value =
     (case value of
        None \<Rightarrow> None
      | Some v \<Rightarrow> (let trimmed = js_trim v in if trimmed = [] then None else Some trimmed))"

record tax_input =
  ti_gstin :: "string option"
  ti_legalName :: "string option"
  ti_billingAddress :: "string option"
  ti_billingCity :: "string option"
  ti_billingPostalCode :: "string option"
  ti_stateCode :: "string option"

definition setTaxDetails ::
  "org_settings list \<Rightarrow> org \<Rightarrow> tax_input \<Rightarrow> http_exn + (tax_details \<times> org_settings list)" where
  "setTaxDetails rows ssoOrgId input =
     (let gstin = map_option js_upper (clean (ti_gstin input));
          chosen = clean (ti_stateCode input);
          fromGstin = stateCodeOfGstin gstin in
      if gstin \<noteq> None \<and> \<not> isGstin gstin then Inl (BadRequest
        (''That GSTIN is not valid. Check it against your registration certificate '' @ em_dash @
         '' one wrong character makes the whole number invalid.''))
      else if chosen \<noteq> None \<and> stateName chosen = None
        then Inl (BadRequest (the chosen @ '' is not a GST state code.''))
      else if chosen \<noteq> None \<and> fromGstin \<noteq> None \<and> chosen \<noteq> fromGstin
        then Inl (BadRequest
        (''Your GSTIN is registered in '' @ nullish_def_val (stateName fromGstin) ''null'' @
         '', but you have selected '' @ nullish_def_val (stateName chosen) ''null'' @
         ''. They have to agree '' @ em_dash @ '' the state decides how tax is charged.''))
      else
        let stateCode = nullish chosen fromGstin;
            data = (\<lambda>r. r\<lparr>os_gstin := gstin, os_legalName := clean (ti_legalName input),
                          os_billingAddress := clean (ti_billingAddress input),
                          os_billingCity := clean (ti_billingCity input),
                          os_billingPostalCode := clean (ti_billingPostalCode input),
                          os_stateCode := stateCode\<rparr>)
        in Inr (\<lparr>td_gstin = gstin, td_legalName = clean (ti_legalName input),
                 td_billingAddress = clean (ti_billingAddress input),
                 td_billingCity = clean (ti_billingCity input),
                 td_billingPostalCode = clean (ti_billingPostalCode input),
                 td_stateCode = stateCode, td_stateName = stateName stateCode\<rparr>,
                upsert_settings ssoOrgId data data rows))"

section \<open>Lookups after a write\<close>

lemma settings_row_upsert [row_simps]:
  assumes "\<And>r. os_org (create r) = os_org r" "\<And>r. os_org (upd r) = os_org r"
  shows "settings_row (upsert_settings k create upd rows) x =
     (if x = k then Some (case settings_row rows k of
                            None \<Rightarrow> create (blank_settings k) | Some r \<Rightarrow> upd r)
      else settings_row rows x)"
proof (cases "settings_row rows k")
  case None
  then show ?thesis
    using assms by (auto simp: upsert_settings_def settings_row_def find_append blank_settings_def)
next
  case (Some r)
  have "settings_row (update_rows (\<lambda>r. os_org r = k) upd rows) x =
      map_option (\<lambda>r. if os_org r = k then upd r else r) (settings_row rows x)"
    unfolding settings_row_def by (rule find_update_rows) (simp add: assms)
  moreover have "settings_row rows x = Some y \<Longrightarrow> os_org y = x" for y
    unfolding settings_row_def by (auto dest: find_SomeD)
  ultimately show ?thesis using Some
    by (cases "settings_row rows x") (auto simp: upsert_settings_def)
qed

lemma settings_key_upsert:
  assumes "settings_key_ok rows" "\<And>r. os_org (create r) = os_org r" "\<And>r. os_org (upd r) = os_org r"
  shows "settings_key_ok (upsert_settings k create upd rows)"
proof (cases "settings_row rows k")
  case None
  then have "k \<notin> os_org ` set rows" by (auto simp: settings_row_def find_eq_None)
  with None assms show ?thesis
    by (simp add: upsert_settings_def settings_key_ok_def blank_settings_def)
next
  case (Some r)
  have "map os_org (update_rows (\<lambda>r. os_org r = k) upd rows) = map os_org rows"
    by (rule map_key_update_rows) (simp add: assms)
  with Some assms(1) show ?thesis by (simp add: upsert_settings_def settings_key_ok_def)
qed

lemma settings_row_bump:
  "settings_row (bumpPayerVersion False p rows) x =
     (if x = p then Some (case settings_row rows p of
                            None \<Rightarrow> (blank_settings p)\<lparr>os_payerVersion := 1\<rparr>
                          | Some r \<Rightarrow> r\<lparr>os_payerVersion := os_payerVersion r + 1\<rparr>)
      else settings_row rows x)"
  by (cases "settings_row rows p") (simp_all add: bumpPayerVersion_def settings_row_upsert)

lemma settings_get_bump:
  "settings_get (bumpPayerVersion False p rows) x =
     (if x = p then (settings_get rows p)\<lparr>ov_payerVersion := Suc (ov_payerVersion (settings_get rows p))\<rparr>
      else settings_get rows x)"
  by (auto simp: settings_get_def settings_row_bump DEFAULTS_def blank_settings_def
      dest: find_SomeD split: option.splits)

section \<open>The settings version every cached answer\<close>

text \<open>No organisation is attached to the agency with the empty name.\<close>

definition agencies_named :: "org_settings list \<Rightarrow> bool" where
  "agencies_named rows = (\<forall>x. ov_agencyOrgId (settings_get rows x) \<noteq> Some [])"

interpretation org_versions: payer_versions billingOrgFor cacheVersionFor "bumpPayerVersion False" agencies_named
proof unfold_locales
  fix d p
  assume "agencies_named d"
  then show "agencies_named (bumpPayerVersion False p d)"
    by (simp add: agencies_named_def settings_get_bump)
next
  fix d p x
  show "billingOrgFor (bumpPayerVersion False p d) x = billingOrgFor d x"
    by (simp add: billingOrgFor_def settings_get_bump)
next
  fix d p x
  assume "agencies_named d"
  then have "ov_agencyOrgId (settings_get d x) \<noteq> Some []" by (simp add: agencies_named_def)
  then show "cacheVersionFor (bumpPayerVersion False p d) x =
      (if billingOrgFor d x = p then Suc (cacheVersionFor d x) else cacheVersionFor d x)"
    by (cases "ov_agencyOrgId (settings_get d x)")
      (auto simp: cacheVersionFor_def billingOrgFor_def settings_get_bump Let_def)
qed

section \<open>The tax identity stays consistent\<close>

lemma stateCodeOfGstin_valid: "isGstin (Some g) \<Longrightarrow> stateCodeOfGstin (Some g) = Some (take 2 g)"
proof -
  assume valid: "isGstin (Some g)"
  then have "length g = 15" by (rule isGstin_length)
  moreover have "truthy (map_of GST_STATES (take 2 g))" using valid by (simp add: isGstin_iff)
  moreover from \<open>length g = 15\<close> have "g \<noteq> []" by auto
  ultimately show ?thesis by (simp add: stateCodeOfGstin_def Let_def)
qed

lemma nullish_idem: "nullish (nullish a b) b = nullish a b"
  by (cases a; cases b) simp_all

text \<open>C3: a saved tax identity is read back as it was reported; its registration, when it
  has one, passes the check digit and names the very state that will decide the heads of
  tax; and nobody else's identity moves.\<close>
theorem setTaxDetails_consistent:
  assumes "setTaxDetails rows me inp = Inr (td, rows')"
  shows "taxDetails rows' me = td \<and>
    (td_gstin td = Some g \<longrightarrow> isGstin (Some g) \<and> td_stateCode td = Some (take 2 g)) \<and>
    (x \<noteq> me \<longrightarrow> taxDetails rows' x = taxDetails rows x)"
proof (intro conjI impI)
  define data where "data = (\<lambda>r::org_settings. r\<lparr>os_gstin := td_gstin td, os_legalName := td_legalName td,
      os_billingAddress := td_billingAddress td, os_billingCity := td_billingCity td,
      os_billingPostalCode := td_billingPostalCode td, os_stateCode := td_stateCode td\<rparr>)"
  have rows': "rows' = upsert_settings me data data rows"
    using assms by (auto simp: setTaxDetails_def Let_def data_def split: if_splits)
  have row: "settings_row rows' y =
      (if y = me then Some (data (nullish_def_val (settings_row rows me) (blank_settings me)))
       else settings_row rows y)" for y
    unfolding rows'
    by (cases "settings_row rows me") (simp_all add: settings_row_upsert data_def)
  show "taxDetails rows' x = taxDetails rows x" if "x \<noteq> me"
    using that by (simp add: taxDetails_def row)
  have td: "td_stateCode td = nullish (clean (ti_stateCode inp)) (stateCodeOfGstin (td_gstin td))"
    "td_stateName td = stateName (td_stateCode td)"
    using assms by (auto simp: setTaxDetails_def Let_def split: if_splits)
  show "taxDetails rows' me = td"
    by (simp add: taxDetails_def row Let_def data_def td nullish_idem)
  show "isGstin (Some g)" and "td_stateCode td = Some (take 2 g)" if g: "td_gstin td = Some g"
  proof -
    from g assms have valid: "isGstin (Some g)"
      by (auto simp: setTaxDetails_def Let_def split: if_splits)
    have "clean (ti_stateCode inp) = None \<or> clean (ti_stateCode inp) = stateCodeOfGstin (Some g)"
      using assms g stateCodeOfGstin_valid [OF valid]
      by (auto simp: setTaxDetails_def Let_def split: if_splits)
    then show "isGstin (Some g)" and "td_stateCode td = Some (take 2 g)"
      using valid g td(1) stateCodeOfGstin_valid [OF valid] by (auto simp: nullish_def split: option.splits)
  qed
qed

definition sample_tax_input :: tax_input where
  "sample_tax_input =
     \<lparr>ti_gstin = Some '' 27aapfu0939f1zv '', ti_legalName = None, ti_billingAddress = None,
      ti_billingCity = None, ti_billingPostalCode = None, ti_stateCode = None\<rparr>"

theorem setTaxDetails_consistent_witness:
  "case setTaxDetails [] ''org'' sample_tax_input of
     Inl _ \<Rightarrow> False
   | Inr (td, rows') \<Rightarrow> td_stateCode td = Some ''27'' \<and> taxDetails rows' ''org'' = td"
proof -
  have "case setTaxDetails [] ''org'' sample_tax_input of
      Inl _ \<Rightarrow> False | Inr (td, _) \<Rightarrow> td_gstin td = Some ''27AAPFU0939F1ZV''"
    by code_simp
  then obtain td rows' where eq: "setTaxDetails [] ''org'' sample_tax_input = Inr (td, rows')"
    and g: "td_gstin td = Some ''27AAPFU0939F1ZV''"
    by (auto split: sum.splits)
  show ?thesis
    using setTaxDetails_consistent [OF eq, of "''27AAPFU0939F1ZV''"] eq g by simp
qed

end
