(* ===== verification/Access.thy ===== *)
theory Access
  imports Org_Settings
begin

text \<open>
  \<open>src/billing/subscription-access.service.ts\<close>: may this organisation act on this account
  right now? A cached read over the subscriptions, keyed on the organisation, the account
  and the version of whoever pays.
\<close>

section \<open>The decision\<close>

definition grants :: "ms \<Rightarrow> subscription option \<Rightarrow> bool" where
  "grants now sub =
     (case sub of
        None \<Rightarrow> False
      | Some s \<Rightarrow>
          if sub_status s = Superseded then False
          else if (case sub_currentEnd s of None \<Rightarrow> False | Some e \<Rightarrow> now < e) then True
          else sub_status s = Active \<or> sub_status s = Authenticated)"

definition access_scope :: "org \<Rightarrow> string \<Rightarrow> nat \<Rightarrow> string" where
  "access_scope ssoOrgId wabaId payerVersion =
     ssoOrgId @ '':'' @ wabaId @ '':v'' @ nat_str payerVersion"

text \<open>The account's own row first, then the organisation's newest.\<close>

definition forOrganisation :: "subscription list \<Rightarrow> org \<Rightarrow> string \<Rightarrow> subscription option" where
  "forOrganisation subs ssoOrgId wabaId =
     nullish (List.find (\<lambda>s. sub_wabaId s = Some wabaId \<and> sub_org s = ssoOrgId) subs)
       (find_max (\<lambda>s. sub_org s = ssoOrgId \<and> sub_wabaId s = None) sub_createdAt subs)"

definition fromPayer ::
  "org_settings list \<Rightarrow> subscription list \<Rightarrow> org \<Rightarrow> string \<Rightarrow> subscription option" where
  "fromPayer rows subs ssoOrgId wabaId =
     (let payer = billingOrgFor rows ssoOrgId in
      if payer = ssoOrgId then None else forOrganisation subs payer wabaId)"

definition governing ::
  "org_settings list \<Rightarrow> subscription list \<Rightarrow> org \<Rightarrow> string \<Rightarrow> subscription option" where
  "governing rows subs ssoOrgId wabaId =
     nullish (forOrganisation subs ssoOrgId wabaId) (fromPayer rows subs ssoOrgId wabaId)"

section \<open>The cached read\<close>

definition hasAccess :: "env \<Rightarrow> org \<Rightarrow> string \<Rightarrow> world \<Rightarrow> bool \<times> world" where
  "hasAccess e ssoOrgId wabaId w =
     (let version = cacheVersionFor (w_settings w) ssoOrgId;
          key = access_scope ssoOrgId wabaId version in
      case getSubscriptionAccess (e_now e) key (w_redis w) of
        Some cached \<Rightarrow> (cached, w)
      | None \<Rightarrow>
          let allowed = grants (e_now e) (governing (w_settings w) (w_subs w) ssoOrgId wabaId) in
          (allowed, w\<lparr>w_redis := setSubscriptionAccess (e_now e) key allowed 60 (w_redis w)\<rparr>))"

definition requireAccess :: "env \<Rightarrow> org \<Rightarrow> string \<Rightarrow> (world, unit) svc" where
  "requireAccess e ssoOrgId wabaId w =
     (if \<not> isConfigured e then (Inr (), w)
      else
        let (allowed, w') = hasAccess e ssoOrgId wabaId w in
        if allowed then (Inr (), w')
        else (Inl (PaymentRequired (''WhatsApp Business Account '' @ wabaId @
               '' has no active subscription. Subscribe in the console to use it.'')), w'))"

definition access_invalidate :: "org \<Rightarrow> string \<Rightarrow> world \<Rightarrow> world" where
  "access_invalidate ssoOrgId wabaId w =
     (let version = cacheVersionFor (w_settings w) ssoOrgId in
      w\<lparr>w_redis := invalidateSubscriptionAccess (access_scope ssoOrgId wabaId version) (w_redis w)\<rparr>)"

definition bump_label :: string where "bump_label = ''organisationSettings.upsert''"

definition invalidatePayer :: "env \<Rightarrow> org \<Rightarrow> world \<Rightarrow> world" where
  "invalidatePayer e ssoOrgId w =
     w\<lparr>w_settings := bumpPayerVersion (e_db_raises e bump_label) ssoOrgId (w_settings w)\<rparr>"

section \<open>The key is a key\<close>

text \<open>Identifiers the scope can be split at: no colon in them.\<close>

definition plain_id :: "string \<Rightarrow> bool" where
  "plain_id s = (CHR '':'' \<notin> set s)"

lemma split_at_colon:
  "plain_id a \<Longrightarrow> plain_id a' \<Longrightarrow> a @ CHR '':'' # r = a' @ CHR '':'' # r' \<longleftrightarrow> a = a' \<and> r = r'"
proof (induction a arbitrary: a')
  case Nil
  then show ?case by (cases a') (auto simp: plain_id_def)
next
  case (Cons c a)
  then show ?case by (cases a') (auto simp: plain_id_def)
qed

lemma access_scope_inj:
  "plain_id a \<Longrightarrow> plain_id a' \<Longrightarrow> plain_id w \<Longrightarrow> plain_id w' \<Longrightarrow>
   access_scope a w v = access_scope a' w' v' \<longleftrightarrow> a = a' \<and> w = w' \<and> v = v'"
  by (auto simp: access_scope_def split_at_colon nat_str_inj)

interpretation access_cache: versioned_cache
  getSubscriptionAccess "\<lambda>now k b m. setSubscriptionAccess now k b 60 m" 60000
  billingOrgFor cacheVersionFor "bumpPayerVersion False" agencies_named access_scope plain_id
  by unfold_locales (rule access_scope_inj)

section \<open>The store as the services drive it\<close>

text \<open>
  What can happen to the settings, the subscriptions and the cache while one organisation
  \<open>x\<close> is watched: somebody asks for access or is refused it, for any organisation; an answer
  is dropped; a payer's version moves; and everything else the program does, which leaves the
  remembered answers alone and changes the rest as it likes (webhooks, checkouts and
  reconciliations the subscriptions; conversions, attachments and detachments the settings).
  The one thing asked of the latter is that \<open>x\<close> itself is not put behind a version lower than
  it had, as attaching it to an agency whose version is behind its own would.
\<close>

inductive access_step :: "org \<Rightarrow> world \<Rightarrow> world \<Rightarrow> bool" for x where
  asks: "plain_id y \<Longrightarrow> plain_id a \<Longrightarrow> access_step x w (snd (hasAccess e y a w))"
| gated: "plain_id y \<Longrightarrow> plain_id a \<Longrightarrow> access_step x w (snd (requireAccess e y a w))"
| drops: "access_step x w (access_invalidate y a w)"
| bumps: "access_step x w (invalidatePayer e p w)"
| elsewhere: "agencies_named (w_settings w') \<Longrightarrow>
    cacheVersionFor (w_settings w) x \<le> cacheVersionFor (w_settings w') x \<Longrightarrow>
    (\<And>now k. getSubscriptionAccess now k (w_redis w') = getSubscriptionAccess now k (w_redis w)) \<Longrightarrow>
    access_step x w w'"

inductive access_reachable :: "org \<Rightarrow> world \<Rightarrow> world \<Rightarrow> bool" for x w\<^sub>0 where
  start: "access_reachable x w\<^sub>0 w\<^sub>0"
| step: "access_reachable x w\<^sub>0 w \<Longrightarrow> access_step x w w' \<Longrightarrow> access_reachable x w\<^sub>0 w'"

definition access_ok :: "org \<Rightarrow> world \<Rightarrow> bool" where
  "access_ok x w = (access_cache.fresh x (w_settings w) (w_redis w) \<and> agencies_named (w_settings w))"

lemma getSubscriptionAccess_del:
  "getSubscriptionAccess now k (invalidateSubscriptionAccess k' m) =
     (if k = k' then None else getSubscriptionAccess now k m)"
  by (simp add: getSubscriptionAccess_def invalidateSubscriptionAccess_def redis_cmd_defs)

lemma access_ok_hasAccess:
  assumes "access_ok x w" "plain_id x" "plain_id y" "plain_id a"
  shows "access_ok x (snd (hasAccess e y a w))"
  using assms access_cache.fresh_store [of x "w_settings w" "w_redis w" y a "e_now e"]
  by (auto simp: access_ok_def hasAccess_def Let_def split: option.splits)

lemma access_ok_step:
  assumes "access_step x w w'" "access_ok x w" "plain_id x"
  shows "access_ok x w'"
  using assms(1)
proof cases
  case (asks y a e)
  then show ?thesis using assms(2,3) access_ok_hasAccess by simp
next
  case (gated y a e)
  have "snd (requireAccess e y a w) = w \<or> snd (requireAccess e y a w) = snd (hasAccess e y a w)"
    by (auto simp: requireAccess_def Let_def split: prod.splits)
  then show ?thesis using gated assms(2,3) access_ok_hasAccess by metis
next
  case (drops y a)
  then show ?thesis using assms(2)
    by (auto simp: access_ok_def access_invalidate_def Let_def access_cache.fresh_def
        getSubscriptionAccess_del)
next
  case (bumps e p)
  show ?thesis
  proof (cases "e_db_raises e bump_label")
    case True
    then show ?thesis using bumps assms(2)
      by (simp add: invalidatePayer_def bumpPayerVersion_def)
  next
    case False
    then show ?thesis using bumps assms(2)
      by (simp add: access_ok_def invalidatePayer_def access_cache.fresh_bump org_versions.invar_bump)
  qed
next
  case elsewhere
  then show ?thesis using assms(2) access_cache.fresh_mono unfolding access_ok_def by blast
qed

lemma access_ok_reachable:
  assumes "access_reachable x w\<^sub>0 w" "access_ok x w\<^sub>0" "plain_id x"
  shows "access_ok x w"
  using assms by induction (auto intro: access_ok_step)

lemma access_ok_empty: "agencies_named (w_settings w) \<Longrightarrow> access_ok x (w\<lparr>w_redis := Map.empty\<rparr>)"
  by (simp add: access_ok_def access_cache.fresh_def getSubscriptionAccess_def r_get_def)

lemma governing_bump:
  "governing (bumpPayerVersion False p rows) subs x a = governing rows subs x a"
  by (simp add: governing_def fromPayer_def billingOrgFor_def settings_get_bump)

lemma hasAccess_miss:
  "getSubscriptionAccess (e_now e) (access_scope x a (cacheVersionFor (w_settings w) x)) (w_redis w) = None \<Longrightarrow>
   fst (hasAccess e x a w) = grants (e_now e) (governing (w_settings w) (w_subs w) x a)"
  by (simp add: hasAccess_def Let_def)


text \<open>
  An answer remembered for an organisation that had not paid, then a payment (the
  subscription appears), then the version moved: the next answer is yes.
\<close>

definition asked_early :: world where
  "asked_early = snd (hasAccess sample_env ''acme'' ''waba1'' (empty_world\<lparr>w_redis := Map.empty\<rparr>))"


end
