(* ===== verification/Plan_Limits.thy ===== *)
theory Plan_Limits
  imports Org_Settings "HOL-Library.Product_Lexorder"
begin

text \<open>
  \<open>src/plans/plan-limits.service.ts\<close>: the numbers a plan puts on an organisation. Which
  plan answers (its own, its payer's, the entry tier), when an addition is refused, and
  which tier the refusal points at.
\<close>

section \<open>Limits\<close>

record effective_limits =
  el_planCode :: "string option"
  el_planName :: "string option"
  el_includedWabas :: "int option"
  el_includedPhoneNumbersPerWaba :: "int option"
  el_includedClients :: "int option"
  el_additionalWabaPrice :: "paise option"
  el_additionalNumberPrice :: "paise option"
  el_teamMembers :: "int option"
  el_webhookEndpoints :: "int option"
  el_apiKeysPerWaba :: "int option"
  el_contacts :: "int option"
  el_messagesPerMinute :: "int option"
  el_historyDays :: "int option"

datatype limit_field =
    MaxTeamMembers | MaxWebhookEndpoints | MaxApiKeysPerWaba | MaxContacts | IncludedClients

fun limit_column :: "limit_field \<Rightarrow> plan_row \<Rightarrow> int option" where
  "limit_column MaxTeamMembers p = pl_maxTeamMembers p"
| "limit_column MaxWebhookEndpoints p = pl_maxWebhookEndpoints p"
| "limit_column MaxApiKeysPerWaba p = pl_maxApiKeysPerWaba p"
| "limit_column MaxContacts p = pl_maxContacts p"
| "limit_column IncludedClients p = pl_includedClients p"

record plan_offer =
  of_code :: string
  of_name :: string
  of_price :: "paise option"
  of_currency :: string
  of_unit :: string
  of_value :: "int option"

definition LIVE_STATUSES :: "sub_status list" where
  "LIVE_STATUSES = [Active, Authenticated, Pending, Halted]"

definition NO_PLAN :: effective_limits where
  "NO_PLAN =
     \<lparr>el_planCode = None, el_planName = None, el_includedWabas = None,
      el_includedPhoneNumbersPerWaba = None, el_includedClients = None,
      el_additionalWabaPrice = None, el_additionalNumberPrice = None, el_teamMembers = None,
      el_webhookEndpoints = None, el_apiKeysPerWaba = None, el_contacts = None,
      el_messagesPerMinute = None, el_historyDays = None\<rparr>"

definition toLimits :: "plan_row \<Rightarrow> effective_limits" where
  "toLimits p =
     \<lparr>el_planCode = Some (pl_code p), el_planName = Some (pl_name p),
      el_includedWabas = pl_includedWabas p,
      el_includedPhoneNumbersPerWaba = pl_includedPhoneNumbersPerWaba p,
      el_includedClients = pl_includedClients p,
      el_additionalWabaPrice = pl_additionalWabaPrice p,
      el_additionalNumberPrice = pl_additionalNumberPrice p,
      el_teamMembers = pl_maxTeamMembers p, el_webhookEndpoints = pl_maxWebhookEndpoints p,
      el_apiKeysPerWaba = pl_maxApiKeysPerWaba p, el_contacts = pl_maxContacts p,
      el_messagesPerMinute = pl_maxMessagesPerMinute p, el_historyDays = pl_historyDays p\<rparr>"

section \<open>Which plan answers\<close>

definition plan_by_id :: "plan_row list \<Rightarrow> nat \<Rightarrow> plan_row option" where
  "plan_by_id plans i = List.find (\<lambda>p. pl_id p = i) plans"

definition plan_of_sub :: "plan_row list \<Rightarrow> subscription \<Rightarrow> plan_row option" where
  "plan_of_sub plans s = Option.bind (sub_planRefId s) (plan_by_id plans)"

definition subscribedPlans :: "world \<Rightarrow> org \<Rightarrow> plan_row list" where
  "subscribedPlans w ssoOrgId =
     List.map_filter (plan_of_sub (w_plans w))
       (filter (\<lambda>s. sub_org s = ssoOrgId \<and> sub_status s \<in> set LIVE_STATUSES \<and>
                     sub_planRefId s \<noteq> None) (w_subs w))"

text \<open>The best by rank: JavaScript's sort is stable, so the earliest of equals is first.\<close>

definition best_plan :: "plan_row list \<Rightarrow> effective_limits" where
  "best_plan plans = toLimits (hd (sort_key (\<lambda>p. - pl_rank p) plans))"

text \<open>\<open>orderBy: { price: 'asc' }\<close>: PostgreSQL puts missing prices last.\<close>

definition price_order :: "plan_row list \<Rightarrow> plan_row list" where
  "price_order = sort_key (\<lambda>p. (pl_price p = None, nullish_def_val (pl_price p) 0))"

definition entryLimits :: "world \<Rightarrow> effective_limits" where
  "entryLimits w =
     (case price_order (filter (\<lambda>p. pl_active p \<and> pl_price p \<noteq> None \<and> pl_ssoOrgId p = None) (w_plans w)) of
        [] \<Rightarrow> NO_PLAN
      | entry # _ \<Rightarrow> (toLimits entry)\<lparr>el_planCode := None, el_planName := None\<rparr>)"

definition limits_forOrg :: "world \<Rightarrow> org \<Rightarrow> effective_limits" where
  "limits_forOrg w ssoOrgId =
     (let own = subscribedPlans w ssoOrgId in
      if own \<noteq> [] then best_plan own
      else
        let payer = billingOrgFor (w_settings w) ssoOrgId;
            plans = (if payer = ssoOrgId then [] else subscribedPlans w payer) in
        if plans = [] then entryLimits w else best_plan plans)"

definition limits_forWaba :: "world \<Rightarrow> org \<Rightarrow> string \<Rightarrow> effective_limits" where
  "limits_forWaba w ssoOrgId wabaId =
     (let payer = billingOrgFor (w_settings w) ssoOrgId in
      case List.find (\<lambda>s. sub_wabaId s = Some wabaId \<and> sub_org s = payer) (w_subs w) of
        None \<Rightarrow> limits_forOrg w ssoOrgId
      | Some sub \<Rightarrow>
          (case plan_of_sub (w_plans w) sub of
             None \<Rightarrow> limits_forOrg w ssoOrgId
           | Some plan \<Rightarrow>
               if sub_status sub \<notin> set LIVE_STATUSES then limits_forOrg w ssoOrgId
               else toLimits plan))"

section \<open>The refusal and the way out\<close>

definition allows :: "int option \<Rightarrow> int \<Rightarrow> bool" where
  "allows ceiling need = (case ceiling of None \<Rightarrow> True | Some c \<Rightarrow> need \<le> c)"

definition plan_candidates :: "plan_row list \<Rightarrow> limit_field \<Rightarrow> int \<Rightarrow> plan_row list" where
  "plan_candidates plans field need =
     price_order (filter (\<lambda>p. pl_active p \<and> pl_ssoOrgId p = None \<and> pl_ctaKind p = ''subscribe'' \<and>
       pl_razorpayPlanId p \<noteq> None \<and> allows (limit_column field p) need) plans)"

definition offer_order :: "limit_field \<Rightarrow> plan_row list \<Rightarrow> plan_row list" where
  "offer_order field =
     sort_key (\<lambda>p. (if limit_column field p = None then 1 else 0 :: int, nullish_def_val (pl_price p) 0))"

definition lookUpPlanAllowing :: "plan_row list \<Rightarrow> limit_field \<Rightarrow> int \<Rightarrow> plan_offer option" where
  "lookUpPlanAllowing plans field need =
     (case offer_order field (plan_candidates plans field need) of
        [] \<Rightarrow> None
      | best # _ \<Rightarrow>
          Some \<lparr>of_code = pl_code best, of_name = pl_name best, of_price = pl_price best,
                of_currency = pl_currency best, of_unit = pl_unit best,
                of_value = limit_column field best\<rparr>)"

definition cheapestPlanAllowing :: "env \<Rightarrow> world \<Rightarrow> limit_field \<Rightarrow> int \<Rightarrow> plan_offer option" where
  "cheapestPlanAllowing e w field need =
     (if e_db_raises e ''plan.findMany'' then None else lookUpPlanAllowing (w_plans w) field need)"

text \<open>\<open>toLocaleString('en-IN', { maximumFractionDigits: 2 })\<close> of \<open>paise / 100\<close>: the last three
  digits are a group, those before them are grouped in pairs.\<close>

function group_pairs :: "string \<Rightarrow> string" where
  "group_pairs s =
     (if length s \<le> 2 then s
      else group_pairs (take (length s - 2) s) @ '','' @ drop (length s - 2) s)"
  by pat_completeness auto
termination by (relation "measure length") auto

declare group_pairs.simps [simp del]

definition group_indian :: "string \<Rightarrow> string" where
  "group_indian s =
     (if length s \<le> 3 then s
      else group_pairs (take (length s - 3) s) @ '','' @ drop (length s - 3) s)"

definition locale_amount :: "paise \<Rightarrow> string" where
  "locale_amount p =
     (let whole = nat \<bar>p\<bar> div 100; fraction = nat \<bar>p\<bar> mod 100 in
      (if p < 0 then ''-'' else '''') @ group_indian (nat_str whole) @
      (if fraction = 0 then ''''
       else if fraction mod 10 = 0 then ''.'' @ nat_str (fraction div 10)
       else ''.'' @ pad_start 2 CHR ''0'' (nat_str fraction)))"

definition formatAmount :: "paise \<Rightarrow> string \<Rightarrow> string" where
  "formatAmount p currency =
     (if js_upper currency = ''INR'' then rupee_sign @ locale_amount p
      else locale_amount p @ '' '' @ js_upper currency)"

definition plural :: "int \<Rightarrow> string \<Rightarrow> string" where
  "plural n noun = int_str n @ '' '' @ noun @ (if n = 1 then '''' else ''s'')"

definition wayOut :: "env \<Rightarrow> world \<Rightarrow> limit_field option \<Rightarrow> int \<Rightarrow> string \<Rightarrow> string" where
  "wayOut e w field need noun =
     (case Option.bind field (\<lambda>f. cheapestPlanAllowing e w f need) of
        None \<Rightarrow> ''Upgrade the plan or remove one before adding another.''
      | Some up \<Rightarrow>
          of_name up @
          (case of_price up of
             None \<Rightarrow> ''''
           | Some p \<Rightarrow> '' ('' @ formatAmount p (of_currency up) @ of_unit up @ '')'') @
          '' includes '' @
          (case of_value up of
             None \<Rightarrow> ''any number of '' @ noun @ ''s''
           | Some v \<Rightarrow> plural v noun) @
          '' '' @ em_dash @
          '' move to it from your subscription page, or remove one before adding another.'')"

definition assertWithin ::
  "env \<Rightarrow> effective_limits \<Rightarrow> int option \<Rightarrow> int \<Rightarrow> string \<Rightarrow> limit_field option \<Rightarrow> (world, unit) svc" where
  "assertWithin e limits limit current noun field w =
     (case limit of
        None \<Rightarrow> (Inr (), w)
      | Some l \<Rightarrow>
          if current < l then (Inr (), w)
          else
            let plan = (if truthy (el_planName limits)
                        then ''The '' @ the (el_planName limits) @ '' plan'' else ''Your plan'');
                held = plan @ '' includes '' @ plural l noun @ '', and you have '' @ int_str current @ ''.''
            in (Inl (BadRequest (held @ '' '' @ wayOut e w field (current + 1) noun)), w))"

section \<open>Whose plan it is\<close>

lemma best_plan_in:
  assumes "plans \<noteq> []"
  shows "\<exists>p \<in> set plans. best_plan plans = toLimits p \<and> (\<forall>q \<in> set plans. pl_rank q \<le> pl_rank p)"
proof -
  obtain p ps where s: "sort_key (\<lambda>p. - pl_rank p) plans = p # ps"
    using assms by (metis list.exhaust set_empty set_sort)
  have "\<forall>q \<in> set plans. pl_rank q \<le> pl_rank p" using sort_key_head(2) [OF s] by force
  with sort_key_head(1) [OF s] s show ?thesis by (auto simp: best_plan_def)
qed

definition held_to_best :: "world \<Rightarrow> org \<Rightarrow> org \<Rightarrow> bool" where
  "held_to_best w me holder =
     (\<exists>p \<in> set (subscribedPlans w holder). limits_forOrg w me = toLimits p \<and>
        (\<forall>q \<in> set (subscribedPlans w holder). pl_rank q \<le> pl_rank p))"

text \<open>An organisation with a live subscription is held to the best-ranked plan it
  holds itself, whatever its agency has; one without is held to the best its payer holds;
  and one for which nobody pays gets numbers but no plan's name.\<close>
theorem limits_own_first:
  "if subscribedPlans w me \<noteq> [] then held_to_best w me me
   else if subscribedPlans w (billingOrgFor (w_settings w) me) \<noteq> []
   then held_to_best w me (billingOrgFor (w_settings w) me)
   else el_planCode (limits_forOrg w me) = None"
proof -
  let ?payer = "billingOrgFor (w_settings w) me"
  have "held_to_best w me me" if "subscribedPlans w me \<noteq> []"
    using best_plan_in [OF that] that by (simp add: held_to_best_def limits_forOrg_def)
  moreover have "held_to_best w me ?payer" if "subscribedPlans w me = []" "subscribedPlans w ?payer \<noteq> []"
    using best_plan_in [OF that(2)] that
    by (cases "?payer = me") (simp_all add: held_to_best_def limits_forOrg_def)
  moreover have "el_planCode (limits_forOrg w me) = None"
    if "subscribedPlans w me = []" "subscribedPlans w ?payer = []"
    using that by (auto simp: limits_forOrg_def Let_def entryLimits_def NO_PLAN_def split: list.splits)
  ultimately show ?thesis by simp
qed

theorem limits_own_first_witness:
  "el_planName (limits_forOrg sample_world ''acme'') = Some ''Starter'' \<and>
   el_planName (limits_forOrg (sample_world\<lparr>w_settings := [(blank_settings ''client'')\<lparr>os_agencyOrgId := Some ''acme''\<rparr>]\<rparr>)
      ''client'') = Some ''Starter'' \<and>
   el_planName (limits_forOrg sample_world ''nobody'') = None"
proof (intro conjI)
  have only: "subscribedPlans sample_world ''acme'' = [sample_plan]" by code_simp
  show "el_planName (limits_forOrg sample_world ''acme'') = Some ''Starter''"
    using limits_own_first [of sample_world "''acme''"] only
    by (simp add: held_to_best_def toLimits_def sample_plan_def)
qed (code_simp, code_simp)

section \<open>The suggested tier\<close>

definition sellable :: "plan_row \<Rightarrow> bool" where
  "sellable p = (pl_active p \<and> pl_ssoOrgId p = None \<and> pl_ctaKind p = ''subscribe'' \<and>
     pl_razorpayPlanId p \<noteq> None)"

lemma set_plan_candidates:
  "set (plan_candidates plans field need) =
     {p \<in> set plans. sellable p \<and> allows (limit_column field p) need}"
  by (auto simp: plan_candidates_def price_order_def sellable_def)

text \<open>The smallest step up: no finite tier is passed over for an unlimited one, and among
  tiers of a kind none is cheaper.\<close>

definition smallest_step :: "plan_row list \<Rightarrow> limit_field \<Rightarrow> int \<Rightarrow> plan_row \<Rightarrow> bool" where
  "smallest_step plans field need p =
     (p \<in> set plans \<and> sellable p \<and> allows (limit_column field p) need \<and>
      (\<forall>q \<in> set plans. sellable q \<longrightarrow> allows (limit_column field q) need \<longrightarrow>
         (limit_column field p = None \<longrightarrow> limit_column field q = None) \<and>
         ((limit_column field q = None) = (limit_column field p = None) \<longrightarrow>
            nullish_def_val (pl_price p) 0 \<le> nullish_def_val (pl_price q) 0)))"

lemma lookUpPlanAllowing_best:
  assumes "lookUpPlanAllowing plans field need = Some off"
  shows "\<exists>p. smallest_step plans field need p \<and> of_code off = pl_code p \<and> of_value off = limit_column field p"
proof -
  let ?c = "plan_candidates plans field need"
  let ?k = "\<lambda>p. (if limit_column field p = None then 1 else 0 :: int, nullish_def_val (pl_price p) 0)"
  obtain p ps where "offer_order field ?c = p # ps"
    and off: "of_code off = pl_code p" "of_value off = limit_column field p"
    using assms by (auto simp: lookUpPlanAllowing_def split: list.splits)
  then have "sort_key ?k ?c = p # ps" by (simp add: offer_order_def)
  note p = sort_key_head(1) [OF this] and least = sort_key_head(2) [OF this]
  have "(limit_column field p = None \<longrightarrow> limit_column field q = None) \<and>
       ((limit_column field q = None) = (limit_column field p = None) \<longrightarrow>
          nullish_def_val (pl_price p) 0 \<le> nullish_def_val (pl_price q) 0)"
    if "q \<in> set plans" "sellable q" "allows (limit_column field q) need" for q
  proof -
    have "q \<in> set ?c" using that by (simp add: set_plan_candidates)
    then have "?k p \<le> ?k q" by (rule least)
    then show ?thesis by (auto simp: less_eq_prod_def split: if_splits)
  qed
  with p have "smallest_step plans field need p" by (simp add: smallest_step_def set_plan_candidates)
  with off show ?thesis by blast
qed

lemma assertWithin_iff:
  "fst (assertWithin e lims limit current noun field w) = Inr () \<longleftrightarrow> allows limit (current + 1)"
  by (auto simp: assertWithin_def allows_def Let_def split: option.splits)

text \<open>An addition is refused exactly when it would pass the ceiling; and a tier the
  refusal names is one on sale to everybody under which the very same addition is accepted,
  with the smallest step up first and the lowest price among steps of a kind.\<close>
theorem assertWithin_way_out:
  "(fst (assertWithin e lims limit current noun field w) = Inr () \<longleftrightarrow> allows limit (current + 1)) \<and>
   (cheapestPlanAllowing e w f (current + 1) = Some off \<longrightarrow>
      fst (assertWithin e lims (of_value off) current noun field w) = Inr () \<and>
      (\<exists>p. smallest_step (w_plans w) f (current + 1) p \<and> pl_code p = of_code off \<and>
         limit_column f p = of_value off))"
proof -
  have "allows (limit_column f p) need" if "smallest_step plans f need p" for plans need p
    using that by (simp add: smallest_step_def)
  then show ?thesis unfolding assertWithin_iff
    using lookUpPlanAllowing_best [of "w_plans w" f "current + 1" off]
    by (auto simp: cheapestPlanAllowing_def split: if_splits) metis+
qed

theorem assertWithin_way_out_witness:
  "fst (assertWithin sample_env (toLimits sample_plan) (Some 2) 2 ''team member'' (Some MaxTeamMembers) sample_world)
     \<noteq> Inr () \<and>
   fst (assertWithin sample_env (toLimits sample_plan) (Some 10) 2 ''team member'' None sample_world) = Inr ()"
proof
  show "fst (assertWithin sample_env (toLimits sample_plan) (Some 2) 2 ''team member''
      (Some MaxTeamMembers) sample_world) \<noteq> Inr ()"
    using assertWithin_way_out by (simp add: allows_def)
  have "case cheapestPlanAllowing sample_env sample_world MaxTeamMembers (2 + 1) of
      None \<Rightarrow> False | Some off \<Rightarrow> of_value off = Some 10" by code_simp
  then obtain off where off: "cheapestPlanAllowing sample_env sample_world MaxTeamMembers (2 + 1) = Some off"
    "of_value off = Some 10" by (auto split: option.splits)
  show "fst (assertWithin sample_env (toLimits sample_plan) (Some 10) 2 ''team member'' None sample_world) = Inr ()"
    using assertWithin_way_out [of sample_env _ _ 2 "''team member''" None sample_world] off by fastforce
qed

text \<open>
  "The cheapest tier that would take the addition" is not always what is named: a finite
  tier goes before an unlimited one whatever the two cost.
\<close>

lemma offer_not_cheapest:
  "map_option of_name (cheapestPlanAllowing sample_env
     (sample_world\<lparr>w_plans := [sample_plan\<lparr>pl_name := ''Cheap'', pl_maxContacts := None\<rparr>,
        bigger_plan\<lparr>pl_name := ''Dear'', pl_maxContacts := Some 5000\<rparr>]\<rparr>) MaxContacts 2000) = Some ''Dear'' \<and>
   the (pl_price sample_plan) < the (pl_price bigger_plan)"
  by (simp add: cheapestPlanAllowing_def lookUpPlanAllowing_def plan_candidates_def price_order_def
      offer_order_def sample_env_def sample_world_def sample_plan_def bigger_plan_def allows_def)

end
