(* ===== verification/Send_Rate.thy ===== *)
theory Send_Rate
  imports Plan_Limits
begin

text \<open>
  \<open>src/messaging/send-rate.guard.ts\<close>: how fast one API key may send. The counter is the
  Redis fixed-window counter of \<^theory_text>\<open>Redis_Store\<close>, the number is the plan's.
\<close>

definition WINDOW_SECONDS :: int where "WINDOW_SECONDS = 60"

text \<open>What the API-key middleware left on the request; \<open>sr_accessKey\<close> is the header when it
  is a single string.\<close>

record send_request =
  sr_authType :: "string option"
  sr_accessKey :: "string option"
  sr_orgId :: "string option"
  sr_apiKeyWabaId :: "string option"

definition canActivate :: "env \<Rightarrow> send_request \<Rightarrow> (world, bool) svc" where
  "canActivate e req w =
     (case sr_accessKey req of
        None \<Rightarrow> (Inr True, w)
      | Some accessKey \<Rightarrow>
          if sr_authType req \<noteq> Some ''apiKey'' then (Inr True, w)
          else if \<not> truthy (sr_orgId req) \<or> \<not> truthy (sr_apiKeyWabaId req) then (Inr True, w)
          else
            let limits = limits_forWaba w (the (sr_orgId req)) (the (sr_apiKeyWabaId req)) in
            case el_messagesPerMinute limits of
              None \<Rightarrow> (Inr True, w)
            | Some perMinute \<Rightarrow>
                (case (if e_db_raises e ''redis.incr'' then None
                       else countInWindow (e_now e) accessKey WINDOW_SECONDS (w_redis w)) of
                   None \<Rightarrow> (Inr True, w)
                 | Some (used, redis') \<Rightarrow>
                     let w' = w\<lparr>w_redis := redis'\<rparr> in
                     if int used \<le> perMinute then (Inr True, w')
                     else
                       let retryAfter = secondsUntilWindowEnds (e_now e) WINDOW_SECONDS;
                           plan = (if truthy (el_planName limits)
                                   then ''The '' @ the (el_planName limits) @ '' plan'' else ''Your plan'')
                       in (Inl (TooManyRequests
                             (plan @ '' allows '' @ int_str perMinute @
                              '' messages a minute on one API key. Try again in '' @ int_str retryAfter @
                              ''s, or upgrade the plan for a higher rate.'') retryAfter), w')))"

text \<open>Requests on one key, one after another at the given instants.\<close>

fun send_run :: "env \<Rightarrow> send_request \<Rightarrow> ms list \<Rightarrow> world \<Rightarrow> bool list" where
  "send_run e req [] w = []"
| "send_run e req (t # ts) w =
     (let (r, w') = canActivate (e\<lparr>e_now := t\<rparr>) req w in (r = Inr True) # send_run e req ts w')"

section \<open>One window\<close>

definition minute_of :: "ms \<Rightarrow> int" where
  "minute_of t = t div 1000 div WINDOW_SECONDS"

lemma same_minute: "minute_of t = minute_of t' \<Longrightarrow> t' < t + 61000"
  by (simp add: minute_of_def WINDOW_SECONDS_def)

lemma subscribedPlans_redis [simp]: "subscribedPlans (w\<lparr>w_redis := m\<rparr>) x = subscribedPlans w x"
  by (simp add: subscribedPlans_def)

lemma limits_forOrg_redis [simp]: "limits_forOrg (w\<lparr>w_redis := m\<rparr>) x = limits_forOrg w x"
  by (simp add: limits_forOrg_def entryLimits_def Let_def)

lemma limits_forWaba_redis [simp]: "limits_forWaba (w\<lparr>w_redis := m\<rparr>) x a = limits_forWaba w x a"
proof -
  have "w_subs (w\<lparr>w_redis := m\<rparr>) = w_subs w" "w_plans (w\<lparr>w_redis := m\<rparr>) = w_plans w"
    "w_settings (w\<lparr>w_redis := m\<rparr>) = w_settings w" by simp_all
  then show ?thesis unfolding limits_forWaba_def limits_forOrg_redis by presburger
qed

text \<open>A counter that holds \<open>n\<close> for the whole of the minute \<open>b\<close>.\<close>

definition counted :: "string \<Rightarrow> int \<Rightarrow> nat \<Rightarrow> redis \<Rightarrow> bool" where
  "counted key b n m =
     (if n = 0 then m (rateKey key b) = None
      else \<exists>expiry. m (rateKey key b) = Some (RCount n, Some expiry) \<and>
             (\<forall>t. minute_of t = b \<longrightarrow> t < expiry))"

lemma countInWindow_counted:
  assumes "counted key b n m" "minute_of t = b"
  shows "\<exists>m'. countInWindow t key WINDOW_SECONDS m = Some (Suc n, m') \<and> counted key b (Suc n) m'"
proof (cases "n = 0")
  case True
  have "t' < t + 61000" if "minute_of t' = b" for t' using same_minute assms(2) that by simp
  with True assms show ?thesis
    by (auto simp: counted_def countInWindow_def minute_of_def redis_cmd_defs WINDOW_SECONDS_def)
next
  case False
  with assms show ?thesis
    by (auto simp: counted_def countInWindow_def minute_of_def redis_cmd_defs)
qed

definition metered :: "send_request \<Rightarrow> world \<Rightarrow> int \<Rightarrow> bool" where
  "metered req w limit =
     (sr_authType req = Some ''apiKey'' \<and> sr_accessKey req \<noteq> None \<and> truthy (sr_orgId req) \<and>
      truthy (sr_apiKeyWabaId req) \<and>
      el_messagesPerMinute (limits_forWaba w (the (sr_orgId req)) (the (sr_apiKeyWabaId req))) = Some limit)"

lemma canActivate_counted:
  assumes "metered req w limit" "\<not> e_db_raises e ''redis.incr''" "minute_of (e_now e) = b"
    and "counted (the (sr_accessKey req)) b n (w_redis w)"
  shows "\<exists>m'. counted (the (sr_accessKey req)) b (Suc n) m' \<and> snd (canActivate e req w) = w\<lparr>w_redis := m'\<rparr> \<and>
    (fst (canActivate e req w) = Inr True \<longleftrightarrow> int (Suc n) \<le> limit)"
proof -
  obtain key where key: "sr_accessKey req = Some key" using assms(1) by (auto simp: metered_def)
  obtain m' where "countInWindow (e_now e) key WINDOW_SECONDS (w_redis w) = Some (Suc n, m')"
    and "counted key b (Suc n) m'"
    using countInWindow_counted [of key b n "w_redis w" "e_now e"] assms(3,4) key by auto
  then show ?thesis using assms(1,2) key
    by (intro exI [of _ m']) (simp add: canActivate_def metered_def Let_def)
qed

lemma send_run_counted:
  assumes "metered req w limit" "\<not> e_db_raises e ''redis.incr''" "\<forall>t \<in> set ts. minute_of t = b"
    and "counted (the (sr_accessKey req)) b n (w_redis w)"
  shows "send_run e req ts w = map (\<lambda>i. int i < limit) [n..<n + length ts]"
  using assms
proof (induction ts arbitrary: n w)
  case Nil
  then show ?case by simp
next
  case (Cons t ts)
  obtain r w' where c: "canActivate (e\<lparr>e_now := t\<rparr>) req w = (r, w')" by fastforce
  obtain m' where m': "counted (the (sr_accessKey req)) b (Suc n) m'" "w' = w\<lparr>w_redis := m'\<rparr>"
    "r = Inr True \<longleftrightarrow> int (Suc n) \<le> limit"
    using canActivate_counted [of req w limit "e\<lparr>e_now := t\<rparr>" b n] Cons.prems c by auto
  have "send_run e req ts w' = map (\<lambda>i. int i < limit) [Suc n..<Suc n + length ts]"
    using Cons.IH [of w' "Suc n"] Cons.prems m' by (simp add: metered_def)
  then show ?case using c m'(3)
    by (simp add: upt_conv_Cons del: upt_Suc) presburger
qed

text \<open>C5: within one clock minute an API key gets through exactly as many sends as its plan
  says, the first ones, however many are tried and whenever in the minute.\<close>
theorem send_rate_exact:
  assumes "metered req w limit" "\<not> e_db_raises e ''redis.incr''" "\<forall>t \<in> set ts. minute_of t = b"
    and "w_redis w (rateKey (the (sr_accessKey req)) b) = None"
  shows "send_run e req ts w = map (\<lambda>i. int i < limit) [0..<length ts]"
  using send_run_counted [OF assms(1-3), of 0] assms(4) by (simp add: counted_def)

definition sample_request :: send_request where
  "sample_request =
     \<lparr>sr_authType = Some ''apiKey'', sr_accessKey = Some ''ak'', sr_orgId = Some ''acme'',
      sr_apiKeyWabaId = Some ''waba1''\<rparr>"

theorem send_rate_exact_witness:
  "send_run sample_env sample_request [60000, 61000, 119999]
     (sample_world\<lparr>w_plans := [sample_plan\<lparr>pl_maxMessagesPerMinute := Some 2\<rparr>]\<rparr>) = [True, True, False]"
proof -
  let ?w = "sample_world\<lparr>w_plans := [sample_plan\<lparr>pl_maxMessagesPerMinute := Some 2\<rparr>]\<rparr>"
  have "metered sample_request ?w 2" by code_simp
  moreover have "w_redis ?w (rateKey (the (sr_accessKey sample_request)) 1) = None" by code_simp
  ultimately show ?thesis
    using send_rate_exact [of sample_request ?w 2 sample_env "[60000, 61000, 119999]" 1]
    by (simp add: sample_env_def minute_of_def WINDOW_SECONDS_def upt_rec)
qed

end
