(* ===== verification/Webhook_Url.thy ===== *)
theory Webhook_Url
  imports Text "HOL-Library.Word"
begin

text \<open>
  \<open>src/webhooks/webhook-url.util.ts\<close>: which callback URLs a customer may register. The URL
  parser is the platform's (\<open>new URL\<close>): what it makes of a text is the parameter \<open>parse\<close>.
\<close>

section \<open>Hexadecimal\<close>

definition is_hex :: "char \<Rightarrow> bool" where
  "is_hex c = (is_digit c \<or> (97 \<le> (of_char c :: nat) \<and> (of_char c :: nat) \<le> 102))"

definition hex_val :: "char \<Rightarrow> nat" where
  "hex_val c = (if is_digit c then digit_val c else of_char c - 87)"

definition parse_hex :: "string \<Rightarrow> nat" where
  "parse_hex s = foldl (\<lambda>acc c. 16 * acc + hex_val c) 0 s"

text \<open>\<open>n.toString(16)\<close>, as the URL parser writes a group of an IPv6 address.\<close>

definition hex_digit :: "nat \<Rightarrow> char" where
  "hex_digit d = (if d < 10 then digit_char d else char_of (87 + d))"

fun hex_str :: "nat \<Rightarrow> string" where
  "hex_str n = (if n < 16 then [hex_digit n] else hex_str (n div 16) @ [hex_digit (n mod 16)])"

declare hex_str.simps [simp del]

section \<open>Addresses\<close>

definition LOCAL_HOSTNAMES :: "string list" where
  "LOCAL_HOSTNAMES = [''localhost'', ''localhost.localdomain'', ''ip6-localhost'', ''ip6-loopback'']"

definition LOCAL_SUFFIXES :: "string list" where
  "LOCAL_SUFFIXES = [''.localhost'', ''.local'', ''.internal'', ''.cluster.local'']"

text \<open>\<open>/^\d{1,3}$/\<close>, and the octet it is when it is one.\<close>

definition decimal_part :: "string \<Rightarrow> bool" where
  "decimal_part s = (list_all is_digit s \<and> 1 \<le> length s \<and> length s \<le> 3)"

definition octet :: "string \<Rightarrow> nat option" where
  "octet part = (if decimal_part part then Some (str_nat part) else None)"

definition isPrivateIPv4 :: "string \<Rightarrow> bool" where
  "isPrivateIPv4 host =
     (let octets = map octet (split_on CHR ''.'' host) in
      case octets of
        [Some a, Some b, Some c, Some d] \<Rightarrow>
          if list_ex (\<lambda>n. 255 < n) [a, b, c, d] then False
          else a = 0 \<or> a = 10 \<or> a = 127 \<or> (a = 100 \<and> 64 \<le> b \<and> b \<le> 127) \<or> (a = 169 \<and> b = 254) \<or>
               (a = 172 \<and> 16 \<le> b \<and> b \<le> 31) \<or> (a = 192 \<and> b = 168) \<or>
               (a = 198 \<and> (b = 18 \<or> b = 19)) \<or> 224 \<le> a
      | _ \<Rightarrow> False)"

text \<open>\<open>host.replace(/^\[|\]$/g, '')\<close>.\<close>

definition strip_brackets :: "string \<Rightarrow> string" where
  "strip_brackets host =
     (let h = (case host of c # cs \<Rightarrow> if c = CHR ''['' then cs else host | [] \<Rightarrow> []) in
      if h \<noteq> [] \<and> last h = CHR '']'' then butlast h else h)"

definition unique_local :: "string \<Rightarrow> bool" where
  "unique_local s =
     (case s of
        a # b # c # d # e # _ \<Rightarrow>
          a = CHR ''f'' \<and> b \<in> set ''cd'' \<and> is_hex c \<and> is_hex d \<and> e = CHR '':''
      | _ \<Rightarrow> False)"

definition link_local :: "string \<Rightarrow> bool" where
  "link_local s =
     (case s of
        a # b # c # d # e # _ \<Rightarrow>
          a = CHR ''f'' \<and> b = CHR ''e'' \<and> c \<in> set ''89ab'' \<and> is_hex d \<and> e = CHR '':''
      | _ \<Rightarrow> False)"

text \<open>What follows \<open>::ffff:\<close>, when the address starts with it.\<close>

definition after_mapped :: "string \<Rightarrow> string option" where
  "after_mapped s = (if take 7 s = ''::ffff:'' then Some (drop 7 s) else None)"

definition mapped_dotted :: "string \<Rightarrow> string option" where
  "mapped_dotted s =
     (case after_mapped s of
        None \<Rightarrow> None
      | Some r \<Rightarrow>
          let parts = split_on CHR ''.'' r in
          if length parts = 4 \<and> list_all decimal_part parts then Some r else None)"

definition hextet :: "string \<Rightarrow> bool" where
  "hextet s = (list_all is_hex s \<and> 1 \<le> length s \<and> length s \<le> 4)"

definition mapped_hex :: "string \<Rightarrow> (string \<times> string) option" where
  "mapped_hex s =
     (case after_mapped s of
        None \<Rightarrow> None
      | Some r \<Rightarrow>
          (case split_on CHR '':'' r of
             [h, l] \<Rightarrow> if hextet h \<and> hextet l then Some (h, l) else None
           | _ \<Rightarrow> None))"

text \<open>JavaScript's \<open>>>\<close> and \<open>&\<close> work on 32-bit integers.\<close>

unbundle bit_operations_syntax

definition unpack_hextets :: "32 word \<Rightarrow> 32 word \<Rightarrow> string" where
  "unpack_hextets high low =
     join_with CHR ''.''
       (map (\<lambda>x. nat_str (unat x)) [drop_bit 8 high, high AND 0xff, drop_bit 8 low, low AND 0xff])"

definition isPrivateIPv6 :: "string \<Rightarrow> bool" where
  "isPrivateIPv6 host =
     (let address = js_lower (strip_brackets host) in
      if CHR '':'' \<notin> set address then False
      else if address = ''::'' \<or> address = ''::1'' then True
      else if unique_local address then True
      else if link_local address then True
      else
        case mapped_dotted address of
          Some quad \<Rightarrow> isPrivateIPv4 quad
        | None \<Rightarrow>
            (case mapped_hex address of
               Some (h, l) \<Rightarrow>
                 isPrivateIPv4 (unpack_hextets (of_nat (parse_hex h)) (of_nat (parse_hex l)))
             | None \<Rightarrow> False))"

section \<open>The check\<close>

record parsed_url =
  u_protocol :: string
  u_username :: string
  u_password :: string
  u_hostname :: string
  u_href :: string

definition local_host :: "string \<Rightarrow> bool" where
  "local_host host =
     (host \<in> set LOCAL_HOSTNAMES \<or> list_ex (\<lambda>suf. ends_with suf host) LOCAL_SUFFIXES \<or>
      isPrivateIPv4 host \<or> isPrivateIPv6 host)"

definition assertSafeWebhookUrl ::
  "(string \<Rightarrow> parsed_url option) \<Rightarrow> string \<Rightarrow> bool \<Rightarrow> http_exn + string" where
  "assertSafeWebhookUrl parse raw allowInsecure =
     (case parse raw of
        None \<Rightarrow> Inl (BadRequest ''Webhook URL is not a valid URL'')
      | Some url \<Rightarrow>
          if u_protocol url \<noteq> ''https:'' \<and> \<not> (allowInsecure \<and> u_protocol url = ''http:'')
          then Inl (BadRequest ''Webhook URL must use https://'')
          else if u_username url \<noteq> [] \<or> u_password url \<noteq> []
          then Inl (BadRequest (''Webhook URL must not contain credentials '' @ em_dash @
                 '' use a signing secret or a header-bearing gateway instead''))
          else
            let host = js_lower (u_hostname url) in
            if host = [] then Inl (BadRequest ''Webhook URL must have a hostname'')
            else if \<not> allowInsecure \<and> local_host host
            then Inl (BadRequest (''Webhook URL must be publicly reachable '' @ em_dash @
                   '' private, loopback and link-local addresses are refused''))
            else Inr (u_href url))"

section \<open>Quads as text\<close>

lemma dot_not_digit: "list_all is_digit s \<Longrightarrow> CHR ''.'' \<notin> set s"
  by (auto simp: list_all_iff is_digit_def)

lemma length_nat_str_octet: "n < 1000 \<Longrightarrow> length (nat_str n) \<le> 3"
  by (simp add: nat_str.simps [of n] nat_str.simps [of "n div 10"] nat_str.simps [of "n div 10 div 10"])

lemma octet_nat_str [simp]: "n < 1000 \<Longrightarrow> octet (nat_str n) = Some n"
  by (simp add: octet_def decimal_part_def nat_str_digits length_nat_str_octet Suc_le_eq)

lemma octets_of_join:
  "ns \<noteq> [] \<Longrightarrow> \<forall>n \<in> set ns. n < 1000 \<Longrightarrow>
   map octet (split_on CHR ''.'' (join_with CHR ''.'' (map nat_str ns))) = map Some ns"
  by (subst split_join) (auto simp: dot_not_digit nat_str_digits)

section \<open>The address blocks\<close>

text \<open>The text of a 32-bit address, and the registered blocks it may lie in, as
  prefix/length.\<close>

definition dotted_quad :: "32 word \<Rightarrow> string" where
  "dotted_quad x =
     join_with CHR ''.''
       (map (\<lambda>k. nat_str (unat (drop_bit k x AND 0xff))) [24, 16, 8, 0])"

definition in_block :: "32 word \<Rightarrow> 32 word \<Rightarrow> nat \<Rightarrow> bool" where
  "in_block x net len = (drop_bit (32 - len) x = drop_bit (32 - len) net)"

definition private_block :: "32 word \<Rightarrow> bool" where
  "private_block x =
     (in_block x 0x00000000 8 \<or> in_block x 0x0A000000 8 \<or> in_block x 0x7F000000 8 \<or>
      in_block x 0x64400000 10 \<or> in_block x 0xA9FE0000 16 \<or> in_block x 0xAC100000 12 \<or>
      in_block x 0xC0A80000 16 \<or> in_block x 0xC6120000 15 \<or> in_block x 0xE0000000 3)"

lemma unat_low_byte: "unat (y AND 0xff :: 32 word) = unat y mod 256"
proof -
  have "y AND 0xff = take_bit 8 y" by (simp only: take_bit_eq_mask mask_eq_exp_minus_1) simp
  then have "unat (y AND 0xff) = take_bit 8 (unat y)" by (simp only: unsigned_take_bit_eq)
  then show ?thesis by (simp add: take_bit_eq_mod)
qed

lemma unat_drop: "unat (drop_bit n x) = unat x div 2 ^ n" for x :: "32 word"
  by (simp only: unat_drop_bit_eq) (simp add: drop_bit_eq_div)

lemma in_block_iff: "in_block x net len \<longleftrightarrow> unat x div 2 ^ (32 - len) = unat net div 2 ^ (32 - len)"
  unfolding in_block_def by (metis unat_drop unsigned_word_eqI)

lemma isPrivateIPv4_octets:
  assumes "a < 256" "b < 256" "c < 256" "d < 256"
  shows "isPrivateIPv4 (join_with CHR ''.'' (map nat_str [a, b, c, d])) \<longleftrightarrow>
    a = 0 \<or> a = 10 \<or> a = 127 \<or> (a = 100 \<and> 64 \<le> b \<and> b \<le> 127) \<or> (a = 169 \<and> b = 254) \<or>
    (a = 172 \<and> 16 \<le> b \<and> b \<le> 31) \<or> (a = 192 \<and> b = 168) \<or> (a = 198 \<and> (b = 18 \<or> b = 19)) \<or> 224 \<le> a"
proof -
  have "map octet (split_on CHR ''.'' (join_with CHR ''.'' (map nat_str [a, b, c, d]))) =
      [Some a, Some b, Some c, Some d]"
    using assms by (subst octets_of_join) auto
  then show ?thesis using assms by (simp add: isPrivateIPv4_def)
qed

lemma dotted_quad_octets:
  fixes x :: "32 word"
  defines "n \<equiv> unat x"
  shows "dotted_quad x = join_with CHR ''.''
    (map nat_str [n div 16777216, n div 65536 mod 256, n div 256 mod 256, n mod 256])"
    and "n div 16777216 < 256"
proof -
  have "n < 2 ^ 32" unfolding n_def using unsigned_less [of x] by simp
  then show "n div 16777216 < 256" by simp
  then show "dotted_quad x = join_with CHR ''.''
      (map nat_str [n div 16777216, n div 65536 mod 256, n div 256 mod 256, n mod 256])"
    by (simp add: dotted_quad_def unat_low_byte unat_drop n_def)
qed

lemma div_range: "0 < d \<Longrightarrow> (x::nat) div d = q \<longleftrightarrow> q * d \<le> x \<and> x < q * d + d"
  using dividend_less_times_div [of d x] times_div_less_eq_dividend [of d x]
  by (auto intro: div_nat_eqI simp: mult.commute)

lemma byte_range:
  assumes "b < 256" "lo < 256" "hi \<le> 256"
  shows "256 * k + lo \<le> 256 * a + b \<and> 256 * a + b < 256 * k + hi \<longleftrightarrow> a = k \<and> lo \<le> b \<and> b < (hi::nat)"
proof (cases a k rule: linorder_cases)
  case less
  then have "256 * Suc a \<le> 256 * k" by (intro mult_le_mono2) simp
  with less assms show ?thesis by simp
next
  case greater
  then have "256 * Suc k \<le> 256 * a" by (intro mult_le_mono2) simp
  with greater assms show ?thesis by simp
qed simp

lemma block_ranges:
  fixes a b :: nat
  assumes "b < 256"
  shows "(256 * a + b) div 64 = 401 \<longleftrightarrow> a = 100 \<and> 64 \<le> b \<and> b \<le> 127"
    and "256 * a + b = 43518 \<longleftrightarrow> a = 169 \<and> b = 254"
    and "(256 * a + b) div 16 = 2753 \<longleftrightarrow> a = 172 \<and> 16 \<le> b \<and> b \<le> 31"
    and "256 * a + b = 49320 \<longleftrightarrow> a = 192 \<and> b = 168"
    and "(256 * a + b) div 2 = 25353 \<longleftrightarrow> a = 198 \<and> (b = 18 \<or> b = 19)"
proof -
  note r = byte_range [OF assms]
  show "(256 * a + b) div 64 = 401 \<longleftrightarrow> a = 100 \<and> 64 \<le> b \<and> b \<le> 127"
    using r [of 64 128 100 a] by (simp add: div_range less_Suc_eq_le [of b 127, simplified])
  show "256 * a + b = 43518 \<longleftrightarrow> a = 169 \<and> b = 254"
    using r [of 254 255 169 a] by auto
  show "(256 * a + b) div 16 = 2753 \<longleftrightarrow> a = 172 \<and> 16 \<le> b \<and> b \<le> 31"
    using r [of 16 32 172 a] by (simp add: div_range less_Suc_eq_le [of b 31, simplified])
  show "256 * a + b = 49320 \<longleftrightarrow> a = 192 \<and> b = 168"
    using r [of 168 169 192 a] by auto
  have "b = 18 \<or> b = 19 \<longleftrightarrow> 18 \<le> b \<and> b < 20" by auto
  then show "(256 * a + b) div 2 = 25353 \<longleftrightarrow> a = 198 \<and> (b = 18 \<or> b = 19)"
    using r [of 18 20 198 a] by (simp add: div_range)
qed

lemma isPrivateIPv4_blocks: "isPrivateIPv4 (dotted_quad x) = private_block x"
proof -
  define n c where "n = unat x" and "c = n div 65536"
  have a: "n div 16777216 = c div 256" by (simp add: c_def div_mult2_eq [symmetric])
  have d: "n div 4194304 = c div 64" "n div 1048576 = c div 16" "n div 131072 = c div 2"
    by (simp_all add: c_def div_mult2_eq [symmetric])
  have top: "n div 536870912 = 7 \<longleftrightarrow> 224 \<le> c div 256"
    using dotted_quad_octets(2) [of x] unfolding n_def [symmetric] c_def by auto
  note ranges = block_ranges [of "c mod 256" "c div 256", simplified]
  have "isPrivateIPv4 (dotted_quad x) \<longleftrightarrow>
      c div 256 = 0 \<or> c div 256 = 10 \<or> c div 256 = 127 \<or>
      c div 64 = 401 \<or> c = 43518 \<or> c div 16 = 2753 \<or> c = 49320 \<or> c div 2 = 25353 \<or> 224 \<le> c div 256"
    unfolding dotted_quad_octets(1) n_def [symmetric] ranges
    by (subst isPrivateIPv4_octets)
      (use dotted_quad_octets(2) [of x] in \<open>simp_all add: n_def [symmetric] c_def [symmetric] a\<close>)
  also have "\<dots> \<longleftrightarrow> private_block x"
    by (simp add: private_block_def in_block_iff n_def [symmetric] c_def [symmetric] a d top)
  finally show ?thesis .
qed

section \<open>The same addresses in IPv6 spelling\<close>

lemma is_hex_digit [simp]: "d < 16 \<Longrightarrow> is_hex (hex_digit d)"
  by (simp add: is_hex_def hex_digit_def of_char_of)

lemma hex_val_digit [simp]: "d < 16 \<Longrightarrow> hex_val (hex_digit d) = d"
  by (cases "d < 10") (simp_all add: hex_val_def hex_digit_def of_char_of is_digit_def digit_char_def digit_val_def)

lemma hex_str_hex: "list_all is_hex (hex_str n)"
proof (induction n rule: hex_str.induct)
  case (1 n)
  then show ?case by (cases "n < 16") (simp_all add: hex_str.simps [of n])
qed

lemma parse_hex_str [simp]: "parse_hex (hex_str n) = n"
proof (induction n rule: hex_str.induct)
  case (1 n)
  show ?case
  proof (cases "n < 16")
    case True
    then show ?thesis by (simp add: hex_str.simps [of n] parse_hex_def)
  next
    case False
    then have "parse_hex (hex_str n) = 16 * (n div 16) + n mod 16"
      using "1" by (simp add: hex_str.simps [of n] parse_hex_def)
    then show ?thesis by simp
  qed
qed

lemma length_hex_str: "n < 16 ^ Suc k \<Longrightarrow> length (hex_str n) \<le> Suc k"
proof (induction k arbitrary: n)
  case 0
  then show ?case by (simp add: hex_str.simps [of n])
next
  case (Suc k)
  then have "n div 16 < 16 ^ Suc k" by (simp add: less_mult_imp_div_less mult.commute)
  with Suc.IH show ?case by (simp add: hex_str.simps [of n])
qed

lemma hextet_hex_str: "n < 65536 \<Longrightarrow> hextet (hex_str n)"
  using hex_str_hex [of n] length_hex_str [of n 3]
  by (simp add: hextet_def) (simp add: hex_str.simps [of n] Suc_le_eq)

lemma lower_char_hex: "is_hex c \<Longrightarrow> lower_char c = c"
  by (auto simp: is_hex_def is_digit_def lower_char_def Let_def)

lemma js_lower_hex: "list_all is_hex s \<Longrightarrow> js_lower s = s"
  by (induction s) (simp_all add: js_lower_def lower_char_hex)

lemma is_hex_punctuation [simp]: "\<not> is_hex CHR '':''" "\<not> is_hex CHR ''.''" "\<not> is_hex CHR '']''"
  by (simp_all add: is_hex_def is_digit_def)

lemma not_in_hex: "list_all is_hex s \<Longrightarrow> \<not> is_hex c \<Longrightarrow> c \<notin> set s"
  by (auto simp: list_all_iff)

text \<open>What a dotted quad is made of.\<close>

lemma dotted_quad_parts:
  obtains a b c d where "a < 256" "b < 256" "c < 256" "d < 256"
    and "dotted_quad x = nat_str a @ ''.'' @ nat_str b @ ''.'' @ nat_str c @ ''.'' @ nat_str d"
  using dotted_quad_octets [of x]
  by (intro that [of "unat x div 16777216" "unat x div 65536 mod 256" "unat x div 256 mod 256"
        "unat x mod 256"]) simp_all

lemma dotted_quad_chars: "list_all (\<lambda>c. is_digit c \<or> c = CHR ''.'') (dotted_quad x)"
proof -
  have "list_all (\<lambda>c. is_digit c \<or> c = CHR ''.'') (nat_str n)" for n
    using nat_str_digits [of n] by (auto simp: list_all_iff)
  then show ?thesis by (rule_tac dotted_quad_parts [of x]) simp
qed

lemma dotted_quad_last: "is_digit (last (dotted_quad x))" and dotted_quad_nonempty: "dotted_quad x \<noteq> []"
proof -
  have "is_digit (last (nat_str n))" for n
    using nat_str_digits [of n] by (simp add: list_all_iff)
  then show "is_digit (last (dotted_quad x))" by (rule_tac dotted_quad_parts [of x]) simp
  show "dotted_quad x \<noteq> []" by (rule dotted_quad_parts [of x]) simp
qed

lemma dotted_quad_lower [simp]: "js_lower (dotted_quad x) = dotted_quad x"
proof -
  have "list_all (\<lambda>c. is_digit c \<or> c = CHR ''.'') s \<Longrightarrow> js_lower s = s" for s
    by (induction s) (auto simp: js_lower_def lower_char_def is_digit_def Let_def)
  then show ?thesis using dotted_quad_chars by simp
qed

lemma dotted_quad_no_colon: "CHR '':'' \<notin> set (dotted_quad x)"
  using dotted_quad_chars [of x] by (auto simp: list_all_iff is_digit_def)

lemma ends_with_last: "ends_with suf s \<Longrightarrow> suf \<noteq> [] \<Longrightarrow> last s = last suf"
  unfolding ends_with_def by (metis append_take_drop_id last_appendR)

lemma not_named_local:
  assumes "is_digit (last host) \<or> last host = CHR '']''"
  shows "host \<notin> set LOCAL_HOSTNAMES" "\<not> list_ex (\<lambda>suf. ends_with suf host) LOCAL_SUFFIXES"
proof -
  have "\<not> ends_with suf host" if "suf \<in> set (LOCAL_SUFFIXES @ LOCAL_HOSTNAMES)" for suf
    using ends_with_last [of suf host] that assms
    by (auto simp: LOCAL_SUFFIXES_def LOCAL_HOSTNAMES_def is_digit_def)
  moreover have "ends_with host host" by (simp add: ends_with_def)
  ultimately show "host \<notin> set LOCAL_HOSTNAMES" "\<not> list_ex (\<lambda>suf. ends_with suf host) LOCAL_SUFFIXES"
    by (auto simp: list_ex_iff)
qed

lemma strip_plain: "host \<noteq> [] \<Longrightarrow> hd host \<noteq> CHR ''['' \<Longrightarrow> last host \<noteq> CHR '']'' \<Longrightarrow> strip_brackets host = host"
  by (cases host) (simp_all add: strip_brackets_def)

lemma strip_bracketed: "strip_brackets (''['' @ s @ '']'') = s"
  by (simp add: strip_brackets_def)

lemma local_dotted: "local_host (dotted_quad x) = private_block x"
proof -
  have "hd (dotted_quad x) \<noteq> CHR ''[''"
    using dotted_quad_chars [of x] dotted_quad_nonempty [of x] by (cases "dotted_quad x") (auto simp: is_digit_def)
  moreover have "last (dotted_quad x) \<noteq> CHR '']''" using dotted_quad_last [of x] by (auto simp: is_digit_def)
  ultimately have "strip_brackets (dotted_quad x) = dotted_quad x"
    by (rule strip_plain [OF dotted_quad_nonempty])
  then have "\<not> isPrivateIPv6 (dotted_quad x)" by (simp add: isPrivateIPv6_def Let_def dotted_quad_no_colon)
  then show ?thesis
    unfolding local_host_def isPrivateIPv4_blocks using not_named_local [of "dotted_quad x"] dotted_quad_last by blast
qed

text \<open>An IPv4-mapped host as it can be typed, and as the parser rewrites it.\<close>

definition mapped_host :: "string \<Rightarrow> string" where
  "mapped_host s = ''[::ffff:'' @ s @ '']''"

definition hex_pair :: "32 word \<Rightarrow> string" where
  "hex_pair x = hex_str (unat x div 65536) @ '':'' @ hex_str (unat x mod 65536)"

lemma isPrivateIPv6_mapped:
  "isPrivateIPv6 (mapped_host s) =
     (case mapped_dotted (''::ffff:'' @ js_lower s) of
        Some quad \<Rightarrow> isPrivateIPv4 quad
      | None \<Rightarrow> (case mapped_hex (''::ffff:'' @ js_lower s) of
           Some (h, l) \<Rightarrow> isPrivateIPv4 (unpack_hextets (of_nat (parse_hex h)) (of_nat (parse_hex l)))
         | None \<Rightarrow> False))"
proof -
  have "js_lower (strip_brackets (mapped_host s)) = ''::ffff:'' @ js_lower s"
    using strip_bracketed [of "''::ffff:'' @ s"]
    by (simp add: mapped_host_def js_lower_def lower_char_def)
  moreover define t where "t = ''::ffff:'' @ js_lower s"
  ultimately have "js_lower (strip_brackets (mapped_host s)) = t" by simp
  moreover have "CHR '':'' \<in> set t" "t \<noteq> ''::''" "t \<noteq> ''::1''" "\<not> unique_local t" "\<not> link_local t"
    by (simp_all add: t_def unique_local_def link_local_def)
  ultimately show ?thesis unfolding t_def [symmetric] by (simp add: isPrivateIPv6_def Let_def)
qed

lemma mapped_dotted_quad: "mapped_dotted (''::ffff:'' @ dotted_quad x) = Some (dotted_quad x)"
proof (rule dotted_quad_parts [of x])
  fix a b c d assume *: "a < 256" "b < 256" "c < 256" "d < 256"
    and eq: "dotted_quad x = nat_str a @ ''.'' @ nat_str b @ ''.'' @ nat_str c @ ''.'' @ nat_str d"
  have "split_on CHR ''.'' (join_with CHR ''.'' (map nat_str [a, b, c, d])) = map nat_str [a, b, c, d]"
    by (rule split_join) (auto simp: dot_not_digit nat_str_digits)
  moreover have "dotted_quad x = join_with CHR ''.'' (map nat_str [a, b, c, d])" using eq by simp
  moreover have "n < 256 \<Longrightarrow> decimal_part (nat_str n)" for n
    by (simp add: decimal_part_def nat_str_digits length_nat_str_octet Suc_le_eq)
  ultimately show ?thesis using * by (simp add: mapped_dotted_def after_mapped_def)
qed

lemma unat_of_nat_small: "n < 65536 \<Longrightarrow> unat (of_nat n :: 32 word) = n"
  by (simp add: unat_of_nat take_bit_eq_mod)

lemma unpack_pair:
  "unpack_hextets (of_nat (unat x div 65536)) (of_nat (unat x mod 65536)) = dotted_quad x"
proof -
  have "unat x div 65536 < 65536" using dotted_quad_octets(2) [of x] by linarith
  moreover have "unat x mod 65536 div 256 = unat x div 256 mod 256"
    by (simp add: mod_mult2_eq [of "unat x" 256 256, simplified])
  moreover have "unat x mod 65536 mod 256 = unat x mod 256" by (simp add: mod_mod_cancel)
  ultimately show ?thesis
    by (simp add: unpack_hextets_def dotted_quad_octets(1) unat_low_byte unat_drop unat_of_nat_small
        div_mult2_eq [symmetric])
qed

lemma mapped_hex_pair:
  "mapped_dotted (''::ffff:'' @ hex_pair x) = None"
  "mapped_hex (''::ffff:'' @ hex_pair x) = Some (hex_str (unat x div 65536), hex_str (unat x mod 65536))"
  "js_lower (hex_pair x) = hex_pair x"
proof -
  have hex: "hextet (hex_str (unat x div 65536))" "hextet (hex_str (unat x mod 65536))"
    using dotted_quad_octets(2) [of x] by (simp_all add: hextet_hex_str)
  have free: "CHR ''.'' \<notin> set (hex_str n)" "CHR '':'' \<notin> set (hex_str n)" for n
    by (simp_all add: not_in_hex [OF hex_str_hex])
  then have "split_on CHR ''.'' (hex_pair x) = [hex_pair x]"
    by (intro split_on_free) (simp add: hex_pair_def)
  then show "mapped_dotted (''::ffff:'' @ hex_pair x) = None"
    by (simp add: mapped_dotted_def after_mapped_def)
  show "mapped_hex (''::ffff:'' @ hex_pair x) = Some (hex_str (unat x div 65536), hex_str (unat x mod 65536))"
    using hex free by (simp add: mapped_hex_def after_mapped_def hex_pair_def split_on_append split_on_free)
  show "js_lower (hex_pair x) = hex_pair x"
    using js_lower_hex [OF hex_str_hex] by (simp add: hex_pair_def js_lower_def lower_char_def)
qed

lemma not_quad_bracketed: "\<not> isPrivateIPv4 (CHR ''['' # s)"
proof -
  obtain p ps where "split_on CHR ''.'' (CHR ''['' # s) = (CHR ''['' # p) # ps"
    by (cases "split_on CHR ''.'' s") simp_all
  moreover have "octet (CHR ''['' # p) = None"
    by (simp add: octet_def decimal_part_def is_digit_def)
  ultimately show ?thesis by (simp add: isPrivateIPv4_def Let_def)
qed

lemma local_mapped:
  "local_host (mapped_host (dotted_quad x)) = private_block x"
  "local_host (mapped_host (hex_pair x)) = private_block x"
proof -
  have "\<not> isPrivateIPv4 (mapped_host s)" for s
    using not_quad_bracketed by (simp add: mapped_host_def)
  then have eq: "local_host (mapped_host s) = isPrivateIPv6 (mapped_host s)" for s
    using not_named_local [of "mapped_host s"] by (simp add: local_host_def mapped_host_def)
  show "local_host (mapped_host (dotted_quad x)) = private_block x"
    unfolding eq isPrivateIPv6_mapped dotted_quad_lower mapped_dotted_quad
    by (simp add: isPrivateIPv4_blocks)
  show "local_host (mapped_host (hex_pair x)) = private_block x"
    unfolding eq isPrivateIPv6_mapped mapped_hex_pair
    by (simp add: unpack_pair isPrivateIPv4_blocks)
qed

section \<open>What may be registered\<close>

lemmas host_eval = js_lower_def lower_char_def local_host_def LOCAL_HOSTNAMES_def LOCAL_SUFFIXES_def
  ends_with_def isPrivateIPv4_def octet_def decimal_part_def is_digit_def isPrivateIPv6_def strip_brackets_def

definition plain_https :: "parsed_url \<Rightarrow> bool" where
  "plain_https u = (u_protocol u = ''https:'' \<and> u_username u = [] \<and> u_password u = [])"

lemma assertSafe_host:
  assumes "parse raw = Some u" "plain_https u" "js_lower (u_hostname u) = host" "host \<noteq> []"
  shows "(\<exists>href. assertSafeWebhookUrl parse raw False = Inr href) \<longleftrightarrow> \<not> local_host host"
  using assms by (simp add: assertSafeWebhookUrl_def plain_https_def Let_def)

lemma mapped_host_lower:
  "js_lower (mapped_host (hex_pair x)) = mapped_host (hex_pair x)"
  "js_lower (mapped_host (dotted_quad x)) = mapped_host (dotted_quad x)"
  using mapped_hex_pair(3) [of x] dotted_quad_lower [of x]
  by (simp_all add: mapped_host_def js_lower_def lower_char_def)

text \<open>C6: a callback on an IPv4 address is registered exactly when the address lies outside
  the reserved blocks (this network, 10/8, loopback, carrier-grade NAT, link-local and cloud
  metadata, 172.16/12, 192.168/16, benchmarking, multicast and above), and writing the
  address as an IPv6 one, dotted or in hexadecimal, changes nothing.\<close>
theorem webhook_address_exact:
  assumes "parse raw = Some u" "plain_https u"
    and "u_hostname u \<in> {dotted_quad x, mapped_host (dotted_quad x), mapped_host (hex_pair x)}"
  shows "(\<exists>href. assertSafeWebhookUrl parse raw False = Inr href) \<longleftrightarrow> \<not> private_block x"
proof -
  have "mapped_host s \<noteq> []" for s by (simp add: mapped_host_def)
  then have "js_lower (u_hostname u) = u_hostname u \<and> u_hostname u \<noteq> [] \<and>
      local_host (u_hostname u) = private_block x"
    using assms(3) dotted_quad_nonempty by (elim insertE emptyE)
      (simp_all only: mapped_host_lower dotted_quad_lower local_dotted local_mapped, simp_all)
  then show ?thesis using assertSafe_host [of parse raw u "u_hostname u"] assms(1,2) by simp
qed

text \<open>An accepted callback is HTTPS, carries no credentials, names a host, is stored as
  the parser normalised it, and its host is none of the names of the machine itself nor a
  private or loopback address; in a deployment that allows insecure callbacks the credentials
  are still refused.\<close>
theorem webhook_url_accepted:
  assumes "assertSafeWebhookUrl parse raw insecure = Inr href"
  shows "\<exists>u. parse raw = Some u \<and> href = u_href u \<and> u_username u = [] \<and> u_password u = [] \<and>
    js_lower (u_hostname u) \<noteq> [] \<and>
    (\<not> insecure \<longrightarrow> u_protocol u = ''https:'' \<and> js_lower (u_hostname u) \<notin> set LOCAL_HOSTNAMES \<and>
       (\<forall>suf \<in> set LOCAL_SUFFIXES. \<not> ends_with suf (js_lower (u_hostname u))) \<and>
       \<not> isPrivateIPv4 (js_lower (u_hostname u)) \<and> \<not> isPrivateIPv6 (js_lower (u_hostname u)))"
  using assms
  by (auto simp: assertSafeWebhookUrl_def local_host_def list_ex_iff Let_def split: option.splits if_splits)

definition host_url :: "string \<Rightarrow> parsed_url" where
  "host_url host = \<lparr>u_protocol = ''https:'', u_username = [], u_password = [], u_hostname = host,
     u_href = ''https://'' @ host @ ''/''\<rparr>"

theorem webhook_address_exact_witness:
  "\<not> (\<exists>href. assertSafeWebhookUrl (\<lambda>_. Some (host_url ''[::ffff:a9fe:a9fe]'')) ''x'' False = Inr href) \<and>
   (\<exists>href. assertSafeWebhookUrl (\<lambda>_. Some (host_url ''8.8.8.8'')) ''x'' False = Inr href)"
proof
  have "hex_str 43518 = ''a9fe''"
    by (simp add: hex_str.simps [of 43518] hex_str.simps [of 2719] hex_str.simps [of 169]
        hex_str.simps [of 10] hex_digit_def digit_char_def char_of_def bit_Suc_0_iff)
  then have "mapped_host (hex_pair 0xA9FEA9FE) = ''[::ffff:a9fe:a9fe]''" "private_block 0xA9FEA9FE"
    by (simp_all add: mapped_host_def hex_pair_def private_block_def in_block_iff)
  then show "\<not> (\<exists>href. assertSafeWebhookUrl (\<lambda>_. Some (host_url ''[::ffff:a9fe:a9fe]'')) ''x'' False = Inr href)"
    using webhook_address_exact [of "\<lambda>_. Some (host_url ''[::ffff:a9fe:a9fe]'')" "''x''" _ "0xA9FEA9FE"]
    by (simp add: plain_https_def host_url_def)
  have "nat_str 8 = ''8''" by (simp add: nat_str.simps [of 8] digit_char_def char_of_def bit_Suc_0_iff)
  then have "dotted_quad 0x08080808 = ''8.8.8.8''" "\<not> private_block 0x08080808"
    by (simp_all add: dotted_quad_octets(1) private_block_def in_block_iff)
  then show "\<exists>href. assertSafeWebhookUrl (\<lambda>_. Some (host_url ''8.8.8.8'')) ''x'' False = Inr href"
    using webhook_address_exact [of "\<lambda>_. Some (host_url ''8.8.8.8'')" "''x''" _ "0x08080808"]
    by (simp add: plain_https_def host_url_def)
qed

definition sample_callback :: parsed_url where
  "sample_callback = host_url ''hooks.example.com''"

lemma sample_callback_ok:
  "assertSafeWebhookUrl (\<lambda>_. Some sample_callback) ''x'' False = Inr (u_href sample_callback)"
  by (simp add: assertSafeWebhookUrl_def sample_callback_def host_url_def host_eval Let_def)

theorem webhook_url_accepted_witness:
  "u_protocol sample_callback = ''https:'' \<and> \<not> isPrivateIPv6 (js_lower (u_hostname sample_callback))"
  using webhook_url_accepted [OF sample_callback_ok] by auto

text \<open>A fully qualified local name, with its closing dot, is not recognised.\<close>

lemma trailing_dot_passes:
  "assertSafeWebhookUrl (\<lambda>_. Some (host_url ''localhost.'')) ''https://localhost./'' False =
     Inr ''https://localhost./''"
  by (simp add: assertSafeWebhookUrl_def host_url_def host_eval Let_def)

end
