(* ===== verification/Event_Describer.thy ===== *)
theory Event_Describer
  imports Json
begin

text \<open>
  \<open>src/webhooks/event-describer.ts\<close>: the named parts of one raw Meta change. The payload is
  untrusted, so every access is narrowed; whatever arrives, the answer is a description.
\<close>

datatype event_kind = Inbound_Message | Status_Update | Template_Status | Account_Update

fun kind_name :: "event_kind \<Rightarrow> string" where
  "kind_name Inbound_Message = ''inbound_message''"
| "kind_name Status_Update = ''status_update''"
| "kind_name Template_Status = ''template_status''"
| "kind_name Account_Update = ''account_update''"

record described_event =
  de_kind :: event_kind
  de_title :: string
  de_detail :: "string option"
  de_status :: "string option"
  de_recipient :: "string option"
  de_messageId :: "string option"
  de_reason :: "string option"

definition plain_event :: "event_kind \<Rightarrow> string \<Rightarrow> described_event" where
  "plain_event kind title =
     \<lparr>de_kind = kind, de_title = title, de_detail = None, de_status = None, de_recipient = None,
      de_messageId = None, de_reason = None\<rparr>"

definition middle_dot :: string where "middle_dot = [CHR 0xC2, CHR 0xB7]"

definition ellipsis :: string where "ellipsis = [CHR 0xE2, CHR 0x80, CHR 0xA6]"

text \<open>\<open>s || undefined\<close>.\<close>

definition or_undefined :: "string \<Rightarrow> string option" where
  "or_undefined s = (if s = [] then None else Some s)"

definition humanise :: "string \<Rightarrow> string" where
  "humanise value =
     (let words = js_lower (replace_char CHR ''_'' CHR '' '' value) in
      case words of [] \<Rightarrow> [] | c # cs \<Rightarrow> upper_char c # cs)"

definition message_preview :: "json option \<Rightarrow> string option \<Rightarrow> string option" where
  "message_preview message senderName =
     (let body =
            nullish (asString (j_get ''body'' (asObject (j_get ''text'' message))))
           (nullish (asString (j_get ''text'' (asObject (j_get ''button'' message))))
           (nullish (asString (j_get ''title'' (asObject (j_get ''button_reply''
                      (asObject (j_get ''interactive'' message))))))
           (nullish (asString (j_get ''title'' (asObject (j_get ''list_reply''
                      (asObject (j_get ''interactive'' message))))))
           (nullish (asString (j_get ''caption'' (asObject (j_get ''image'' message))))
                    (asString (j_get ''caption'' (asObject (j_get ''video'' message))))))));
          preview = map_option (\<lambda>b. if 140 < js_length b then js_take 139 b @ ellipsis else b) body
      in or_undefined (join_text '': ''
           (filter (\<lambda>s. s \<noteq> []) (List.map_filter (\<lambda>x. x) [senderName, preview]))))"

definition describeStatus :: "json option \<Rightarrow> described_event" where
  "describeStatus status =
     (let state = asString (j_get ''status'' status);
          error = asObject (first_of (asArray (j_get ''errors'' status)));
          reason = (if error = None then None
                    else Some (join_text ('' '' @ em_dash @ '' '')
                      (List.map_filter (\<lambda>x. x)
                        [asString (j_get ''title'' error),
                         nullish (asString (j_get ''details'' (asObject (j_get ''error_data'' error))))
                                 (asString (j_get ''message'' error))])));
          category = asString (j_get ''type'' (asObject (j_get ''origin''
                       (asObject (j_get ''conversation'' status)))));
          billable = j_get ''billable'' (asObject (j_get ''pricing'' status));
          detail = map_option (\<lambda>c. if billable = Some (JBool False)
                                   then humanise c @ '' conversation '' @ middle_dot @ '' free''
                                   else humanise c @ '' conversation'') category
      in \<lparr>de_kind = Status_Update,
          de_title = (case state of Some s \<Rightarrow> ''Message '' @ s | None \<Rightarrow> ''Message status updated''),
          de_detail = detail, de_status = state,
          de_recipient = asString (j_get ''recipient_id'' status),
          de_messageId = asString (j_get ''id'' status),
          de_reason = Option.bind reason or_undefined\<rparr>)"

definition describeEvent :: "string \<Rightarrow> json option \<Rightarrow> described_event" where
  "describeEvent eventType payload =
     (let value = (case asObject payload of None \<Rightarrow> Some (JObj []) | v \<Rightarrow> v) in
      if eventType = ''messages'' then
        (case asObject (first_of (asArray (j_get ''statuses'' value))) of
           Some status \<Rightarrow> describeStatus (Some status)
         | None \<Rightarrow>
             (case asObject (first_of (asArray (j_get ''messages'' value))) of
                Some message \<Rightarrow>
                  let contact = asObject (first_of (asArray (j_get ''contacts'' value)));
                      senderName = asString (j_get ''name'' (asObject (j_get ''profile'' contact)));
                      type = nullish_def_val (asString (j_get ''type'' (Some message))) ''message''
                  in (plain_event Inbound_Message
                        (if type = ''text'' then ''Reply received'' else ''Inbound '' @ type))
                     \<lparr>de_recipient := asString (j_get ''from'' (Some message)),
                      de_messageId := asString (j_get ''id'' (Some message)),
                      de_detail := message_preview (Some message) senderName\<rparr>
              | None \<Rightarrow> plain_event Status_Update ''Message event''))
      else if eventType = ''message_template_status_update'' then
        (let event = asString (j_get ''event'' value); reason = asString (j_get ''reason'' value) in
         (plain_event Template_Status
            (case event of Some s \<Rightarrow> ''Template '' @ js_lower s | None \<Rightarrow> ''Template updated''))
         \<lparr>de_status := event,
          de_reason := (case reason of None \<Rightarrow> None
                        | Some r \<Rightarrow> if js_upper r \<noteq> ''NONE'' then Some r else None),
          de_detail := Some (join_text ('' '' @ middle_dot @ '' '')
            (List.map_filter (\<lambda>x. x) [asString (j_get ''message_template_name'' value),
               asString (j_get ''message_template_language'' value)]))\<rparr>)
      else if eventType = ''phone_number_quality_update'' then
        (let limit = asString (j_get ''current_limit'' value) in
         (plain_event Account_Update ''Number quality changed'')
         \<lparr>de_status := asString (j_get ''event'' value),
          de_recipient := asString (j_get ''display_phone_number'' value),
          de_detail := map_option (\<lambda>l. ''Messaging limit now '' @ humanise l) limit\<rparr>)
      else if eventType = ''phone_number_name_update'' then
        (plain_event Account_Update ''Display name review'')
        \<lparr>de_status := asString (j_get ''decision'' value),
         de_recipient := asString (j_get ''display_phone_number'' value),
         de_detail := asString (j_get ''requested_verified_name'' value)\<rparr>
      else if eventType = ''account_update'' then
        (let event = asString (j_get ''event'' value) in
         (plain_event Account_Update
            (case event of Some s \<Rightarrow> ''Account '' @ humanise s | None \<Rightarrow> ''Account updated''))
         \<lparr>de_status := event,
          de_detail := asString (j_get ''waba_ban_state'' (asObject (j_get ''ban_info'' value)))\<rparr>)
      else plain_event Account_Update (replace_char CHR ''_'' CHR '' '' eventType))"

text \<open>The description as the object that is stored and posted: absent fields leave no key.\<close>

definition described_json :: "described_event \<Rightarrow> (string \<times> json) list" where
  "described_json d =
     (let opt = (\<lambda>k v. case v of None \<Rightarrow> [] | Some s \<Rightarrow> [(k, JStr s)]) in
      [(''kind'', JStr (kind_name (de_kind d))), (''title'', JStr (de_title d))] @
      opt ''detail'' (de_detail d) @ opt ''status'' (de_status d) @
      opt ''recipient'' (de_recipient d) @ opt ''messageId'' (de_messageId d) @
      opt ''reason'' (de_reason d))"

section \<open>A description is always short and always of a kind one can subscribe to\<close>

lemma code_units_ellipsis [simp]: "js_length ellipsis = 1"
  by (simp add: ellipsis_def code_units_def)

lemma js_length_append [simp]: "js_length (a @ b) = js_length a + js_length b"
  by (simp add: js_length_def)

lemma message_preview_short:
  "message_preview message None = Some p \<Longrightarrow> js_length p \<le> 140"
  using js_length_take [of 139]
  by (auto simp: message_preview_def or_undefined_def Let_def List.map_filter_simps
      split: option.splits if_splits)

lemma describeEvent_kind:
  "de_kind (describeEvent ''messages'' p) \<in> {Inbound_Message, Status_Update}"
  "de_kind (describeEvent ''message_template_status_update'' p) = Template_Status"
  "t \<notin> {''messages'', ''message_template_status_update''} \<Longrightarrow> de_kind (describeEvent t p) = Account_Update"
  by (auto simp: describeEvent_def describeStatus_def plain_event_def Let_def split: option.splits)

end
