(* ===== verification/Dispatcher.thy ===== *)
theory Dispatcher
  imports Event_Describer
begin

text \<open>
  \<open>src/webhooks/webhook-dispatcher.service.ts\<close>: the outbox of customer webhooks. \<open>enqueue\<close>
  writes a row per listening endpoint; a sweep claims what is due by compare-and-set on a
  lease, posts it, and settles it as sent, due again, or given up on; an endpoint that is
  given up on ten times in a row is switched off.

  The clock runs: \<open>hw_clock\<close> is what \<open>Date.now()\<close> reads, and a post moves it on by however
  long the receiver took. The receiver, the cipher, the HMAC and what the database makes of
  a stored JSON object are parameters.
\<close>

section \<open>Constants\<close>

definition MAX_DELIVERY_RETRIES :: nat where "MAX_DELIVERY_RETRIES = 5"
definition BACKOFF_MINUTES :: "int list" where "BACKOFF_MINUTES = [1, 5, 15, 60, 180]"
definition LEASE_MINUTES :: int where "LEASE_MINUTES = 5"
definition SWEEP_BATCH :: nat where "SWEEP_BATCH = 100"
definition MAX_CONSECUTIVE_FAILURES :: nat where "MAX_CONSECUTIVE_FAILURES = 10"
definition MAX_ERROR_LENGTH :: nat where "MAX_ERROR_LENGTH = 500"
definition TEST_EVENT :: string where "TEST_EVENT = ''endpoint.test''"

section \<open>State\<close>

datatype hook_status = HPending | HSent | HFailed | HAbandoned

record hook_endpoint =
  he_id :: nat
  he_userId :: nat
  he_org :: org
  he_wabaId :: string
  he_url :: string
  he_label :: "string option"
  he_secret :: "string option"
  he_events :: "string list"
  he_status :: bool
  he_failureCount :: nat
  he_disabledAt :: "ms option"
  he_lastSuccessAt :: "ms option"
  he_createdAt :: ms

record hook_delivery =
  hd_id :: nat
  hd_endpointId :: nat
  hd_eventId :: "nat option"
  hd_eventType :: string
  hd_payload :: "(string \<times> json) list"
  hd_status :: hook_status
  hd_attempts :: nat
  hd_retryAt :: "ms option"
  hd_responseCode :: "int option"
  hd_error :: "string option"
  hd_durationMs :: "int option"
  hd_createdAt :: ms

record hook_post =
  hp_url :: string
  hp_body :: string
  hp_headers :: "(string \<times> string) list"

record hook_world =
  hw_endpoints :: "hook_endpoint list"
  hw_deliveries :: "hook_delivery list"
  hw_posts :: "(nat \<times> hook_post) list"
  hw_mails :: "(nat \<times> org \<times> string \<times> nat) list"
  hw_clock :: ms
  hw_nextId :: nat

text \<open>A receiver answers with a status and a body, or the transport fails; either takes time.\<close>

datatype receiver_answer =
    Responds int "json option" int
  | TransportFails string int

record hook_env =
  hk_receiver :: "hook_post \<Rightarrow> ms \<Rightarrow> receiver_answer"
  hk_decrypt :: "string \<Rightarrow> string option"
  hk_hmac :: "string \<Rightarrow> string \<Rightarrow> string"
  hk_stored :: "(string \<times> json) list \<Rightarrow> (string \<times> json) list"
  hk_raises :: "string \<Rightarrow> bool"

record delivery_outcome =
  do_success :: bool
  do_responseCode :: "int option"
  do_error :: "string option"
  do_durationMs :: int

record sweep_result =
  sr_attempted :: nat
  sr_sent :: nat
  sr_abandoned :: nat

definition nextRetryAt :: "nat \<Rightarrow> ms \<Rightarrow> ms option" where
  "nextRetryAt attempts now =
     (if 1 \<le> attempts \<and> attempts - 1 < length BACKOFF_MINUTES
      then Some (now + BACKOFF_MINUTES ! (attempts - 1) * 60000) else None)"

definition update_delivery ::
  "nat \<Rightarrow> (hook_delivery \<Rightarrow> hook_delivery) \<Rightarrow> hook_world \<Rightarrow> hook_world" where
  "update_delivery i f w = w\<lparr>hw_deliveries := update_rows (\<lambda>d. hd_id d = i) f (hw_deliveries w)\<rparr>"

definition update_endpoint ::
  "nat \<Rightarrow> (hook_endpoint \<Rightarrow> hook_endpoint) \<Rightarrow> hook_world \<Rightarrow> hook_world" where
  "update_endpoint i f w = w\<lparr>hw_endpoints := update_rows (\<lambda>p. he_id p = i) f (hw_endpoints w)\<rparr>"

definition delivery_by_id :: "hook_world \<Rightarrow> nat \<Rightarrow> hook_delivery option" where
  "delivery_by_id w i = List.find (\<lambda>d. hd_id d = i) (hw_deliveries w)"

definition endpoint_by_id :: "hook_world \<Rightarrow> nat \<Rightarrow> hook_endpoint option" where
  "endpoint_by_id w i = List.find (\<lambda>p. he_id p = i) (hw_endpoints w)"

section \<open>Queueing\<close>

definition listening :: "string \<Rightarrow> event_kind \<Rightarrow> hook_endpoint \<Rightarrow> bool" where
  "listening wabaId kind p =
     (he_wabaId p = wabaId \<and> he_status p \<and> (he_events p = [] \<or> kind_name kind \<in> set (he_events p)))"

definition new_delivery ::
  "hook_env \<Rightarrow> string \<Rightarrow> nat \<Rightarrow> string \<Rightarrow> described_event \<Rightarrow> json option \<Rightarrow> ms \<Rightarrow> nat \<Rightarrow> nat \<Rightarrow> hook_delivery" where
  "new_delivery e wabaId eventId eventType described raw occurredAt endpointId i =
     \<lparr>hd_id = i, hd_endpointId = endpointId, hd_eventId = Some eventId,
      hd_eventType = kind_name (de_kind described),
      hd_payload = hk_stored e
        [(''event'', JStr (kind_name (de_kind described))), (''wabaId'', JStr wabaId),
         (''occurredAt'', JStr (toISOString occurredAt)),
         (''data'', JObj (described_json described @ [(''metaField'', JStr eventType)] @
            (case raw of None \<Rightarrow> [] | Some v \<Rightarrow> [(''raw'', v)])))],
      hd_status = HPending, hd_attempts = 0, hd_retryAt = Some occurredAt,
      hd_responseCode = None, hd_error = None, hd_durationMs = None, hd_createdAt = occurredAt\<rparr>"

definition enqueue ::
  "hook_env \<Rightarrow> string \<Rightarrow> nat \<Rightarrow> string \<Rightarrow> described_event \<Rightarrow> json option \<Rightarrow> hook_world \<Rightarrow> hook_world" where
  "enqueue e wabaId eventId eventType described raw w =
     (if hk_raises e ''webhookEndpoint.findMany'' then w
      else
        let endpoints = filter (listening wabaId (de_kind described)) (hw_endpoints w) in
        if endpoints = [] then w
        else
          let occurredAt = hw_clock w in
          foldl (\<lambda>w endpoint.
              w\<lparr>hw_deliveries := hw_deliveries w @
                   [new_delivery e wabaId eventId eventType described raw occurredAt (he_id endpoint) (hw_nextId w)],
                hw_nextId := Suc (hw_nextId w)\<rparr>) w endpoints)"

section \<open>The HTTP call\<close>

definition hook_excerpt :: "json option \<Rightarrow> string option" where
  "hook_excerpt data =
     (case data of
        None \<Rightarrow> None
      | Some JNull \<Rightarrow> None
      | Some (JStr s) \<Rightarrow> if s = [] then None else Some (js_take MAX_ERROR_LENGTH s)
      | Some v \<Rightarrow> Some (js_take MAX_ERROR_LENGTH (stringify v)))"

definition readSecret :: "hook_env \<Rightarrow> hook_endpoint \<Rightarrow> string option" where
  "readSecret e endpoint =
     (case he_secret endpoint of
        None \<Rightarrow> None
      | Some s \<Rightarrow> if s = [] then None else hk_decrypt e s)"

definition hook_request :: "hook_env \<Rightarrow> hook_endpoint \<Rightarrow> nat \<Rightarrow> (string \<times> json) list \<Rightarrow> ms \<Rightarrow> hook_post" where
  "hook_request e endpoint deliveryId storedPayload now =
     (let body = stringify (JObj ((''id'', JNum (int deliveryId)) # storedPayload));
          timestamp = int_str (now div 1000);
          signature = (case readSecret e endpoint of
              None \<Rightarrow> []
            | Some secret \<Rightarrow> if secret = [] then []
                else [(''X-Drasken-Signature-256'', ''sha256='' @ hk_hmac e secret (timestamp @ ''.'' @ body))])
      in \<lparr>hp_url = he_url endpoint, hp_body = body,
          hp_headers = [(''Content-Type'', ''application/json''),
            (''User-Agent'', ''DraskenLabs-WhatsApp-Webhooks/1''),
            (''X-Drasken-Delivery-Id'', nat_str deliveryId),
            (''X-Drasken-Event'', case map_of storedPayload ''event'' of Some (JStr s) \<Rightarrow> s | _ \<Rightarrow> ''undefined''),
            (''X-Drasken-Timestamp'', timestamp)] @ signature\<rparr>)"

definition hook_post_to ::
  "hook_env \<Rightarrow> hook_endpoint \<Rightarrow> nat \<Rightarrow> (string \<times> json) list \<Rightarrow> hook_world \<Rightarrow> delivery_outcome \<times> hook_world" where
  "hook_post_to e endpoint deliveryId storedPayload w =
     (let request = hook_request e endpoint deliveryId storedPayload (hw_clock w);
          w' = w\<lparr>hw_posts := hw_posts w @ [(deliveryId, request)]\<rparr> in
      case hk_receiver e request (hw_clock w) of
        Responds status data duration \<Rightarrow>
          let success = (200 \<le> status \<and> status < 300) in
          (\<lparr>do_success = success, do_responseCode = Some status,
            do_error = (if success then None else hook_excerpt data), do_durationMs = duration\<rparr>,
           w'\<lparr>hw_clock := hw_clock w + duration\<rparr>)
      | TransportFails detail duration \<Rightarrow>
          (\<lparr>do_success = False, do_responseCode = None,
            do_error = Some (js_take MAX_ERROR_LENGTH detail), do_durationMs = duration\<rparr>,
           w'\<lparr>hw_clock := hw_clock w + duration\<rparr>))"

section \<open>Settling\<close>

definition settleSent :: "nat \<Rightarrow> nat \<Rightarrow> nat \<Rightarrow> delivery_outcome \<Rightarrow> hook_world \<Rightarrow> hook_world" where
  "settleSent deliveryId endpointId attempts outcome w =
     update_endpoint endpointId
       (\<lambda>p. p\<lparr>he_failureCount := 0, he_lastSuccessAt := Some (hw_clock w)\<rparr>)
       (update_delivery deliveryId
         (\<lambda>d. d\<lparr>hd_status := HSent, hd_attempts := attempts, hd_retryAt := None,
                hd_responseCode := do_responseCode outcome, hd_error := None,
                hd_durationMs := Some (do_durationMs outcome)\<rparr>) w)"

definition recordEndpointFailure :: "nat \<Rightarrow> hook_world \<Rightarrow> hook_world" where
  "recordEndpointFailure endpointId w =
     (let w1 = update_endpoint endpointId (\<lambda>p. p\<lparr>he_failureCount := he_failureCount p + 1\<rparr>) w in
      case endpoint_by_id w1 endpointId of
        None \<Rightarrow> w1
      | Some endpoint \<Rightarrow>
          if \<not> he_status endpoint \<or> he_failureCount endpoint < MAX_CONSECUTIVE_FAILURES then w1
          else
            let w2 = update_endpoint (he_id endpoint)
                       (\<lambda>p. p\<lparr>he_status := False, he_disabledAt := Some (hw_clock w)\<rparr>) w1
            in w2\<lparr>hw_mails := hw_mails w2 @
                 [(he_userId endpoint, he_org endpoint, he_url endpoint, he_failureCount endpoint)]\<rparr>)"

section \<open>Sweep\<close>

text \<open>What the sweep read of a row when it started.\<close>

record due_row =
  dr_id :: nat
  dr_attempts :: nat
  dr_status :: hook_status
  dr_endpointId :: nat

definition due :: "ms \<Rightarrow> hook_delivery \<Rightarrow> bool" where
  "due now d = (case hd_retryAt d of None \<Rightarrow> False | Some t \<Rightarrow> t \<le> now)"

text \<open>The compare-and-set: did the row still have the status it was read with, and was it
  still due?\<close>

definition claim_row :: "due_row \<Rightarrow> ms \<Rightarrow> hook_world \<Rightarrow> nat \<times> hook_world" where
  "claim_row row now w =
     (let match = (\<lambda>d. hd_id d = dr_id row \<and> hd_status d = dr_status row \<and> due now d) in
      (count_rows match (hw_deliveries w),
       w\<lparr>hw_deliveries := update_rows match
            (\<lambda>d. d\<lparr>hd_retryAt := Some (now + LEASE_MINUTES * 60000)\<rparr>) (hw_deliveries w)\<rparr>))"

definition settle_failed ::
  "hook_delivery \<Rightarrow> nat \<Rightarrow> delivery_outcome \<Rightarrow> ms \<Rightarrow> sweep_result \<Rightarrow> hook_world \<Rightarrow> sweep_result \<times> hook_world" where
  "settle_failed delivery attempts outcome now result w =
     (let outcome_fields = (\<lambda>d. d\<lparr>hd_attempts := attempts, hd_responseCode := do_responseCode outcome,
            hd_error := do_error outcome, hd_durationMs := Some (do_durationMs outcome)\<rparr>) in
      case (if MAX_DELIVERY_RETRIES < attempts then None else nextRetryAt attempts now) of
        None \<Rightarrow>
          (result\<lparr>sr_abandoned := Suc (sr_abandoned result)\<rparr>,
           recordEndpointFailure (hd_endpointId delivery)
             (update_delivery (hd_id delivery)
               (\<lambda>d. (outcome_fields d)\<lparr>hd_status := HAbandoned, hd_retryAt := None\<rparr>) w))
      | Some retryAt \<Rightarrow>
          (result,
           update_delivery (hd_id delivery)
             (\<lambda>d. (outcome_fields d)\<lparr>hd_status := HFailed, hd_retryAt := Some retryAt\<rparr>) w))"

definition attemptRow :: "hook_env \<Rightarrow> due_row \<Rightarrow> ms \<Rightarrow> sweep_result \<times> hook_world \<Rightarrow> sweep_result \<times> hook_world" where
  "attemptRow e row now rw =
     (let (result, w) = rw; (claimed, w1) = claim_row row now w in
      if claimed = 0 then (result, w1)
      else
        case delivery_by_id w1 (dr_id row) of
          None \<Rightarrow> (result, w1)
        | Some delivery \<Rightarrow>
            (case endpoint_by_id w1 (hd_endpointId delivery) of
               None \<Rightarrow> (result, w1)
             | Some endpoint \<Rightarrow>
                 if \<not> he_status endpoint then
                   (result\<lparr>sr_abandoned := Suc (sr_abandoned result)\<rparr>,
                    update_delivery (hd_id delivery)
                      (\<lambda>d. d\<lparr>hd_status := HAbandoned, hd_retryAt := None,
                             hd_error := Some ''Endpoint disabled''\<rparr>) w1)
                 else
                   let result1 = result\<lparr>sr_attempted := Suc (sr_attempted result)\<rparr>;
                       attempts = hd_attempts delivery + 1;
                       (outcome, w2) = hook_post_to e endpoint (hd_id delivery) (hd_payload delivery) w1
                   in if do_success outcome then
                        (result1\<lparr>sr_sent := Suc (sr_sent result1)\<rparr>,
                         settleSent (hd_id delivery) (hd_endpointId delivery) attempts outcome w2)
                      else settle_failed delivery attempts outcome now result1 w2))"

definition due_rows :: "ms \<Rightarrow> hook_delivery list \<Rightarrow> due_row list" where
  "due_rows now ds =
     map (\<lambda>d. \<lparr>dr_id = hd_id d, dr_attempts = hd_attempts d, dr_status = hd_status d,
               dr_endpointId = hd_endpointId d\<rparr>)
       (take SWEEP_BATCH
         (sort_key (\<lambda>d. the (hd_retryAt d))
           (filter (\<lambda>d. hd_status d \<in> {HPending, HFailed} \<and> due now d) ds)))"

definition sweep :: "hook_env \<Rightarrow> hook_world \<Rightarrow> sweep_result \<times> hook_world" where
  "sweep e w =
     (let now = hw_clock w in
      foldl (\<lambda>rw row. attemptRow e row now rw)
        (\<lparr>sr_attempted = 0, sr_sent = 0, sr_abandoned = 0\<rparr>, w) (due_rows now (hw_deliveries w)))"

section \<open>Test ping\<close>

definition sendTest :: "hook_env \<Rightarrow> hook_endpoint \<Rightarrow> hook_world \<Rightarrow> (delivery_outcome \<times> nat) \<times> hook_world" where
  "sendTest e endpoint w =
     (let now = hw_clock w; i = hw_nextId w;
          payload = hk_stored e
            [(''event'', JStr TEST_EVENT), (''wabaId'', JStr (he_wabaId endpoint)),
             (''occurredAt'', JStr (toISOString now)),
             (''data'', JObj [(''kind'', JStr ''account_update''), (''title'', JStr ''Test event''),
                (''detail'', JStr ''This is a test delivery from the WhatsApp Console. No customer sent anything.'')])];
          delivery = \<lparr>hd_id = i, hd_endpointId = he_id endpoint, hd_eventId = None,
             hd_eventType = TEST_EVENT, hd_payload = payload, hd_status = HPending, hd_attempts = 1,
             hd_retryAt = None, hd_responseCode = None, hd_error = None, hd_durationMs = None,
             hd_createdAt = now\<rparr>;
          w1 = w\<lparr>hw_deliveries := hw_deliveries w @ [delivery], hw_nextId := Suc i\<rparr>;
          (outcome, w2) = hook_post_to e endpoint i payload w1;
          w3 = update_delivery i
            (\<lambda>d. d\<lparr>hd_status := (if do_success outcome then HSent else HAbandoned), hd_retryAt := None,
                   hd_responseCode := do_responseCode outcome, hd_error := do_error outcome,
                   hd_durationMs := Some (do_durationMs outcome)\<rparr>) w2;
          w4 = (if do_success outcome
                then update_endpoint (he_id endpoint)
                       (\<lambda>p. p\<lparr>he_failureCount := 0, he_lastSuccessAt := Some (hw_clock w3)\<rparr>) w3
                else w3)
      in ((outcome, i), w4))"

end
