(* ===== verification/Endpoints.thy ===== *)
theory Endpoints
  imports Dispatcher Webhook_Url Send_Rate
begin

text \<open>
  \<open>src/webhooks/webhook-endpoints.service.ts\<close>: an organisation's own callbacks. Every method
  takes the caller's organisation and checks the row against it. The state is the outbox of
  \<^theory_text>\<open>Dispatcher\<close>; the accounts and plans are read from the billing database.
\<close>

section \<open>Requests and answers\<close>

record hooks_service =
  hx_world :: world
  hx_env :: env
  hx_parse :: "string \<Rightarrow> parsed_url option"
  hx_allowInsecureUrls :: bool
  hx_encrypt :: "string \<Rightarrow> string"
  hx_wabaName :: "string \<Rightarrow> string option"
  hx_hooks :: hook_env

record create_endpoint_dto =
  ce_url :: string
  ce_wabaId :: string
  ce_label :: "string option"
  ce_secret :: "string option"
  ce_events :: "string list option"

record update_endpoint_dto =
  ue_url :: "string option"
  ue_label :: "string option"
  ue_secret :: "string option"
  ue_events :: "string list option"
  ue_status :: "bool option"

record endpoint_dto =
  ed_id :: nat
  ed_url :: string
  ed_label :: "string option"
  ed_wabaId :: string
  ed_wabaName :: "string option"
  ed_events :: "string list"
  ed_status :: bool
  ed_hasSecret :: bool
  ed_failureCount :: nat
  ed_disabledAt :: "ms option"
  ed_lastSuccessAt :: "ms option"
  ed_createdAt :: ms

record delivery_dto =
  dd_id :: nat
  dd_eventType :: string
  dd_status :: hook_status
  dd_attempts :: nat
  dd_responseCode :: "int option"
  dd_error :: "string option"
  dd_durationMs :: "int option"
  dd_retryAt :: "ms option"
  dd_createdAt :: ms

record 'a page_of =
  pg_data :: "'a list"
  pg_total :: int
  pg_totalPages :: int
  pg_page :: int
  pg_limit :: int

record test_result =
  tr_success :: bool
  tr_responseCode :: "int option"
  tr_error :: "string option"
  tr_durationMs :: int
  tr_signed :: bool
  tr_deliveryId :: nat

definition endpoint_toDto :: "hooks_service \<Rightarrow> hook_endpoint \<Rightarrow> endpoint_dto" where
  "endpoint_toDto x p =
     \<lparr>ed_id = he_id p, ed_url = he_url p, ed_label = he_label p, ed_wabaId = he_wabaId p,
      ed_wabaName = hx_wabaName x (he_wabaId p), ed_events = he_events p, ed_status = he_status p,
      ed_hasSecret = truthy (he_secret p), ed_failureCount = he_failureCount p,
      ed_disabledAt = he_disabledAt p, ed_lastSuccessAt = he_lastSuccessAt p,
      ed_createdAt = he_createdAt p\<rparr>"

definition delivery_toDto :: "hook_delivery \<Rightarrow> delivery_dto" where
  "delivery_toDto d =
     \<lparr>dd_id = hd_id d, dd_eventType = hd_eventType d, dd_status = hd_status d,
      dd_attempts = hd_attempts d, dd_responseCode = hd_responseCode d, dd_error = hd_error d,
      dd_durationMs = hd_durationMs d, dd_retryAt = hd_retryAt d, dd_createdAt = hd_createdAt d\<rparr>"

definition ok_or :: "http_exn + 'a \<Rightarrow> ('s, 'a) svc" where
  "ok_or r = (case r of Inl e \<Rightarrow> throwE e | Inr x \<Rightarrow> retE x)"

section \<open>Methods\<close>

definition endpoint_owned :: "org \<Rightarrow> nat \<Rightarrow> (hook_world, hook_endpoint) svc" where
  "endpoint_owned ssoOrgId i w =
     (case endpoint_by_id w i of
        None \<Rightarrow> (Inl (NotFound ''Webhook endpoint not found''), w)
      | Some endpoint \<Rightarrow>
          if he_org endpoint \<noteq> ssoOrgId
          then (Inl (Forbidden ''Webhook endpoint does not belong to your organisation''), w)
          else (Inr endpoint, w))"

definition same_callback :: "org \<Rightarrow> string \<Rightarrow> string \<Rightarrow> hook_endpoint \<Rightarrow> bool" where
  "same_callback ssoOrgId wabaId url p = (he_org p = ssoOrgId \<and> he_wabaId p = wabaId \<and> he_url p = url)"

definition new_endpoint ::
  "hooks_service \<Rightarrow> nat \<Rightarrow> org \<Rightarrow> create_endpoint_dto \<Rightarrow> string \<Rightarrow> ms \<Rightarrow> nat \<Rightarrow> hook_endpoint" where
  "new_endpoint x userId ssoOrgId dto url now i =
     \<lparr>he_id = i, he_userId = userId, he_org = ssoOrgId, he_wabaId = ce_wabaId dto, he_url = url,
      he_label = clean (ce_label dto),
      he_secret = (if truthy (ce_secret dto) then Some (hx_encrypt x (the (ce_secret dto))) else None),
      he_events = nullish_def_val (ce_events dto) [], he_status = True, he_failureCount = 0,
      he_disabledAt = None, he_lastSuccessAt = None, he_createdAt = now\<rparr>"

definition endpoint_create ::
  "hooks_service \<Rightarrow> nat \<Rightarrow> org \<Rightarrow> create_endpoint_dto \<Rightarrow> (hook_world, endpoint_dto) svc" where
  "endpoint_create x userId ssoOrgId dto =
     thenE (refuse_if (\<not> list_ex (\<lambda>r. wo_wabaId r = ce_wabaId dto \<and> wo_org r = ssoOrgId)
                          (w_wabaOrgs (hx_world x)))
              (NotFound (''WABA '' @ ce_wabaId dto @ '' not found in this organisation'')))
     (bindE (ok_or (assertSafeWebhookUrl (hx_parse x) (ce_url dto) (hx_allowInsecureUrls x))) (\<lambda>url.
      bindE (getE (\<lambda>w. count_rows (\<lambda>p. he_org p = ssoOrgId \<and> he_wabaId p = ce_wabaId dto)
                          (hw_endpoints w))) (\<lambda>existing.
      let limits = limits_forWaba (hx_world x) ssoOrgId (ce_wabaId dto) in
      thenE (ok_or (fst (assertWithin (hx_env x) limits (el_webhookEndpoints limits) (int existing)
                           ''webhook endpoint'' (Some MaxWebhookEndpoints) (hx_world x))))
     (bindE (getE (\<lambda>w. list_ex (same_callback ssoOrgId (ce_wabaId dto) url) (hw_endpoints w))) (\<lambda>duplicate.
      thenE (refuse_if duplicate (BadRequest
        (''That URL is already registered for this account. Edit the existing endpoint instead '' @
         em_dash @ '' two identical endpoints would double every delivery.'')))
     (\<lambda>w. let created = new_endpoint x userId ssoOrgId dto url (hw_clock w) (hw_nextId w)
          in (Inr (endpoint_toDto x created),
              w\<lparr>hw_endpoints := hw_endpoints w @ [created], hw_nextId := Suc (hw_nextId w)\<rparr>)))))))"

definition endpoint_findAll :: "hooks_service \<Rightarrow> org \<Rightarrow> string option \<Rightarrow> hook_world \<Rightarrow> endpoint_dto list" where
  "endpoint_findAll x ssoOrgId wabaId w =
     map (endpoint_toDto x)
       (sort_key (\<lambda>p. - he_createdAt p)
         (filter (\<lambda>p. he_org p = ssoOrgId \<and> (truthy wabaId \<longrightarrow> Some (he_wabaId p) = wabaId))
           (hw_endpoints w)))"

text \<open>The new secret: \<open>Some None\<close> removes it, \<open>None\<close> leaves it alone.\<close>

definition rotated_secret :: "hooks_service \<Rightarrow> string option \<Rightarrow> http_exn + string option option" where
  "rotated_secret x secret =
     (case secret of
        None \<Rightarrow> Inr None
      | Some s \<Rightarrow>
          let trimmed = js_trim s in
          if trimmed = [] then Inr (Some None)
          else if js_length trimmed < 16
          then Inl (BadRequest ''A signing secret must be at least 16 characters. Send an empty string to remove it.'')
          else Inr (Some (Some (hx_encrypt x trimmed))))"

definition endpoint_changes ::
  "string option \<Rightarrow> string option option \<Rightarrow> update_endpoint_dto \<Rightarrow> hook_endpoint \<Rightarrow> hook_endpoint" where
  "endpoint_changes url secret dto p =
     (let p1 = (case url of None \<Rightarrow> p | Some u \<Rightarrow> p\<lparr>he_url := u\<rparr>);
          p2 = (case ue_label dto of None \<Rightarrow> p1 | Some l \<Rightarrow> p1\<lparr>he_label := clean (Some l)\<rparr>);
          p3 = (case secret of None \<Rightarrow> p2 | Some s \<Rightarrow> p2\<lparr>he_secret := s\<rparr>);
          p4 = (case ue_events dto of None \<Rightarrow> p3 | Some ev \<Rightarrow> p3\<lparr>he_events := ev\<rparr>)
      in case ue_status dto of
           None \<Rightarrow> p4
         | Some True \<Rightarrow> p4\<lparr>he_status := True, he_failureCount := 0, he_disabledAt := None\<rparr>
         | Some False \<Rightarrow> p4\<lparr>he_status := False\<rparr>)"

definition endpoint_update ::
  "hooks_service \<Rightarrow> org \<Rightarrow> nat \<Rightarrow> update_endpoint_dto \<Rightarrow> (hook_world, endpoint_dto) svc" where
  "endpoint_update x ssoOrgId i dto =
     bindE (endpoint_owned ssoOrgId i) (\<lambda>endpoint.
     bindE (case ue_url dto of
              None \<Rightarrow> retE None
            | Some u \<Rightarrow> bindE (ok_or (assertSafeWebhookUrl (hx_parse x) u (hx_allowInsecureUrls x)))
                          (\<lambda>v. retE (Some v))) (\<lambda>url.
     bindE (getE (\<lambda>w. truthy url \<and> url \<noteq> Some (he_url endpoint) \<and>
              list_ex (\<lambda>p. same_callback ssoOrgId (he_wabaId endpoint) (the url) p \<and> he_id p \<noteq> i)
                (hw_endpoints w))) (\<lambda>duplicate.
     thenE (refuse_if duplicate (BadRequest ''That URL is already registered for this account.''))
    (bindE (ok_or (rotated_secret x (ue_secret dto))) (\<lambda>secret.
     (\<lambda>w. let w' = update_endpoint i (endpoint_changes url secret dto) w in
          (Inr (endpoint_toDto x (endpoint_changes url secret dto endpoint)), w')))))))"

definition endpoint_remove :: "org \<Rightarrow> nat \<Rightarrow> (hook_world, unit) svc" where
  "endpoint_remove ssoOrgId i =
     bindE (endpoint_owned ssoOrgId i) (\<lambda>_.
     modE (\<lambda>w. w\<lparr>hw_endpoints := filter (\<lambda>p. he_id p \<noteq> i) (hw_endpoints w),
                 hw_deliveries := filter (\<lambda>d. hd_endpointId d \<noteq> i) (hw_deliveries w)\<rparr>))"

definition endpoint_test :: "hooks_service \<Rightarrow> org \<Rightarrow> nat \<Rightarrow> (hook_world, test_result) svc" where
  "endpoint_test x ssoOrgId i =
     bindE (endpoint_owned ssoOrgId i) (\<lambda>endpoint.
     thenE (refuse_if (\<not> he_status endpoint)
              (BadRequest ''This endpoint is disabled. Enable it before sending a test.''))
    (\<lambda>w. let ((outcome, deliveryId), w') = sendTest (hx_hooks x) endpoint w in
         (Inr \<lparr>tr_success = do_success outcome, tr_responseCode = do_responseCode outcome,
               tr_error = do_error outcome, tr_durationMs = do_durationMs outcome,
               tr_signed = truthy (he_secret endpoint), tr_deliveryId = deliveryId\<rparr>, w')))"

definition endpoint_deliveries ::
  "org \<Rightarrow> nat \<Rightarrow> int option \<Rightarrow> int option \<Rightarrow> (hook_world, delivery_dto page_of) svc" where
  "endpoint_deliveries ssoOrgId i page limit =
     bindE (endpoint_owned ssoOrgId i) (\<lambda>_.
     let page = max 1 (nullish_def_val page 1);
         limit = min 100 (max 1 (nullish_def_val limit 20)) in
     getE (\<lambda>w.
       let rows = sort_key (\<lambda>d. - hd_createdAt d) (filter (\<lambda>d. hd_endpointId d = i) (hw_deliveries w));
           total_rows = int (length rows)
       in \<lparr>pg_data = map delivery_toDto (take (nat limit) (drop (nat ((page - 1) * limit)) rows)),
           pg_total = total_rows, pg_totalPages = - ((- total_rows) div limit), pg_page = page,
           pg_limit = limit\<rparr>))"

definition endpoint_redeliver :: "org \<Rightarrow> nat \<Rightarrow> (hook_world, delivery_dto) svc" where
  "endpoint_redeliver ssoOrgId deliveryId w =
     (case List.find (\<lambda>d. hd_id d = deliveryId \<and>
              (case endpoint_by_id w (hd_endpointId d) of None \<Rightarrow> False | Some p \<Rightarrow> he_org p = ssoOrgId))
            (hw_deliveries w) of
        None \<Rightarrow> (Inl (NotFound ''Delivery not found''), w)
      | Some delivery \<Rightarrow>
          if \<not> he_status (the (endpoint_by_id w (hd_endpointId delivery)))
          then (Inl (BadRequest ''This endpoint is disabled. Enable it before redelivering.''), w)
          else if hd_status delivery = HPending \<or> hd_status delivery = HFailed
          then (Inl (BadRequest ''This delivery is already queued for another attempt.''), w)
          else
            let again = (\<lambda>d. d\<lparr>hd_status := HPending, hd_attempts := 0, hd_retryAt := Some (hw_clock w),
                              hd_responseCode := None, hd_error := None, hd_durationMs := None\<rparr>)
            in (Inr (delivery_toDto (again delivery)), update_delivery deliveryId again w))"

end
