(* ===== verification/Hook_Runs.thy ===== *)
theory Hook_Runs
  imports Endpoints
begin

text \<open>
  What holds of the outbox however its operations are interleaved: events queued, sweeps,
  test pings and the organisations' own edits, at whatever instants. Also what the lease
  promises two replicas sweeping at once, and what keeps one organisation out of another's
  endpoints.
\<close>

section \<open>Runs\<close>

text \<open>A URL the platform's parser accepts serialises to a text that is not empty.\<close>

definition parser_ok :: "hooks_service \<Rightarrow> bool" where
  "parser_ok x = (\<forall>raw u. hx_parse x raw = Some u \<longrightarrow> u_href u \<noteq> [])"

text \<open>\<open>again\<close>: may somebody ask for a settled delivery to be sent again?\<close>

inductive hook_step :: "bool \<Rightarrow> hook_world \<Rightarrow> hook_world \<Rightarrow> bool" for again where
  queued: "hook_step again w (enqueue e wabaId eventId eventType described raw w)"
| swept: "hook_step again w (snd (sweep e w))"
| created: "parser_ok x \<Longrightarrow> hook_step again w (snd (endpoint_create x u me dto w))"
| updated: "parser_ok x \<Longrightarrow> hook_step again w (snd (endpoint_update x me i dto' w))"
| removed: "hook_step again w (snd (endpoint_remove me i w))"
| tested: "hook_step again w (snd (endpoint_test x me i w))"
| redelivered: "again \<Longrightarrow> hook_step again w (snd (endpoint_redeliver me i w))"
| waited: "0 \<le> t \<Longrightarrow> hook_step again w (w\<lparr>hw_clock := hw_clock w + t\<rparr>)"

inductive_cases hook_stepE: "hook_step again w w'"

section \<open>The invariant\<close>

definition delivery_ok :: "hook_delivery \<Rightarrow> bool" where
  "delivery_ok d =
     (case hd_status d of
        HPending \<Rightarrow> hd_attempts d = 0 \<and> hd_retryAt d \<noteq> None
      | HFailed \<Rightarrow> 1 \<le> hd_attempts d \<and> hd_attempts d \<le> MAX_DELIVERY_RETRIES \<and> hd_retryAt d \<noteq> None
      | _ \<Rightarrow> hd_attempts d \<le> Suc MAX_DELIVERY_RETRIES \<and> hd_retryAt d = None)"

definition endpoint_ok :: "hook_endpoint \<Rightarrow> bool" where
  "endpoint_ok p = (he_status p \<longrightarrow> he_failureCount p < MAX_CONSECUTIVE_FAILURES)"

definition callback_key :: "hook_endpoint \<Rightarrow> org \<times> string \<times> string" where
  "callback_key p = (he_org p, he_wabaId p, he_url p)"

definition hooks_ok :: "hook_world \<Rightarrow> bool" where
  "hooks_ok w =
     (distinct (map hd_id (hw_deliveries w)) \<and> distinct (map he_id (hw_endpoints w)) \<and>
      distinct (map callback_key (hw_endpoints w)) \<and>
      (\<forall>d \<in> set (hw_deliveries w). delivery_ok d \<and> hd_id d < hw_nextId w) \<and>
      (\<forall>p \<in> set (hw_endpoints w). endpoint_ok p \<and> he_id p < hw_nextId w))"

text \<open>A run starts from endpoints in order and nothing queued.\<close>

inductive hook_run :: "bool \<Rightarrow> hook_world \<Rightarrow> bool" for again where
  start: "hooks_ok w \<Longrightarrow> hw_deliveries w = [] \<Longrightarrow> hw_posts w = [] \<Longrightarrow> hook_run again w"
| step: "hook_run again w \<Longrightarrow> hook_step again w w' \<Longrightarrow> hook_run again w'"

lemmas hook_state_defs = update_delivery_def update_endpoint_def delivery_by_id_def endpoint_by_id_def

lemma hooks_ok_cong:
  "hw_endpoints w' = hw_endpoints w \<Longrightarrow> hw_deliveries w' = hw_deliveries w \<Longrightarrow>
   hw_nextId w' = hw_nextId w \<Longrightarrow> hooks_ok w' = hooks_ok w"
  by (simp add: hooks_ok_def)

lemma hooks_ok_update_delivery:
  assumes "hooks_ok w"
    and "\<And>d. d \<in> set (hw_deliveries w) \<Longrightarrow> p d \<Longrightarrow> delivery_ok (f d)" "\<And>d. hd_id (f d) = hd_id d"
  shows "hooks_ok (w\<lparr>hw_deliveries := update_rows p f (hw_deliveries w)\<rparr>)"
proof -
  have "map hd_id (update_rows p f (hw_deliveries w)) = map hd_id (hw_deliveries w)"
    by (rule map_key_update_rows) (simp add: assms(3))
  then show ?thesis using assms by (auto simp: hooks_ok_def set_update_rows)
qed

lemma hooks_ok_update_endpoint:
  assumes "hooks_ok w"
    and "\<And>p. p \<in> set (hw_endpoints w) \<Longrightarrow> he_id p = i \<Longrightarrow> endpoint_ok (f p)"
    and "\<And>p. he_id (f p) = he_id p" "\<And>p. callback_key (f p) = callback_key p"
  shows "hooks_ok (update_endpoint i f w)"
proof -
  have "map he_id (update_rows (\<lambda>p. he_id p = i) f (hw_endpoints w)) = map he_id (hw_endpoints w)"
    "map callback_key (update_rows (\<lambda>p. he_id p = i) f (hw_endpoints w)) = map callback_key (hw_endpoints w)"
    by (rule map_key_update_rows, simp add: assms(3,4))+
  then show ?thesis using assms by (auto simp: hooks_ok_def update_endpoint_def set_update_rows)
qed

lemma hooks_ok_append_delivery:
  assumes "hooks_ok w" "hd_id d = hw_nextId w" "delivery_ok d"
  shows "hooks_ok (w\<lparr>hw_deliveries := hw_deliveries w @ [d], hw_nextId := Suc (hw_nextId w)\<rparr>)"
  using assms by (auto simp: hooks_ok_def)

lemma delivery_by_id_unique:
  "hooks_ok w \<Longrightarrow> d \<in> set (hw_deliveries w) \<Longrightarrow> delivery_by_id w (hd_id d) = Some d"
  by (simp add: hooks_ok_def delivery_by_id_def find_distinct_key)

section \<open>Each operation keeps it\<close>

lemma enqueue_keeps:
  assumes "hooks_ok w"
  shows "hooks_ok (enqueue e wabaId eventId eventType described raw w)"
proof -
  define add :: "ms \<Rightarrow> hook_world \<Rightarrow> hook_endpoint \<Rightarrow> hook_world" where "add now w p = w\<lparr>hw_deliveries := hw_deliveries w @
      [new_delivery e wabaId eventId eventType described raw now (he_id p) (hw_nextId w)],
      hw_nextId := Suc (hw_nextId w)\<rparr>" for now w p
  have "hooks_ok (add now w p)" if "hooks_ok w" for now w p
    unfolding add_def by (rule hooks_ok_append_delivery [OF that]) (simp_all add: new_delivery_def delivery_ok_def)
  then have "hooks_ok w \<Longrightarrow> hooks_ok (foldl (add now) w ps)" for now ps w
    by (induction ps arbitrary: w) simp_all
  then show ?thesis using assms by (simp add: enqueue_def Let_def add_def [abs_def])
qed

lemma hook_post_frame [simp]:
  "hw_endpoints (snd (hook_post_to e p i payload w)) = hw_endpoints w"
  "hw_deliveries (snd (hook_post_to e p i payload w)) = hw_deliveries w"
  "hw_nextId (snd (hook_post_to e p i payload w)) = hw_nextId w"
  "hw_posts (snd (hook_post_to e p i payload w)) =
     hw_posts w @ [(i, hook_request e p i payload (hw_clock w))]"
  by (simp_all add: hook_post_to_def Let_def split: receiver_answer.split)

lemma hooks_ok_post: "hooks_ok (snd (hook_post_to e p i payload w)) = hooks_ok w"
  by (rule hooks_ok_cong) simp_all

text \<open>What one give-up does to the endpoint it is counted against.\<close>

definition failed_once :: "ms \<Rightarrow> hook_endpoint \<Rightarrow> hook_endpoint" where
  "failed_once now p =
     (let p' = p\<lparr>he_failureCount := Suc (he_failureCount p)\<rparr> in
      if he_status p \<and> MAX_CONSECUTIVE_FAILURES \<le> Suc (he_failureCount p)
      then p'\<lparr>he_status := False, he_disabledAt := Some now\<rparr> else p')"

lemma failed_once_fields [simp]:
  "he_id (failed_once now p) = he_id p" "callback_key (failed_once now p) = callback_key p"
  "he_org (failed_once now p) = he_org p" "endpoint_ok (failed_once now p)"
  by (simp_all add: failed_once_def Let_def callback_key_def endpoint_ok_def not_le)

lemma recordEndpointFailure_frame [simp]:
  "hw_deliveries (recordEndpointFailure i w) = hw_deliveries w"
  "hw_nextId (recordEndpointFailure i w) = hw_nextId w"
  "hw_posts (recordEndpointFailure i w) = hw_posts w"
  by (simp_all add: recordEndpointFailure_def update_endpoint_def Let_def split: option.split)

lemma recordEndpointFailure_endpoints:
  assumes "distinct (map he_id (hw_endpoints w))"
  shows "hw_endpoints (recordEndpointFailure i w) =
    update_rows (\<lambda>p. he_id p = i) (failed_once (hw_clock w)) (hw_endpoints w)"
proof -
  let ?inc = "\<lambda>p. p\<lparr>he_failureCount := he_failureCount p + 1\<rparr>"
  have find: "endpoint_by_id (update_endpoint i ?inc w) i = map_option ?inc (endpoint_by_id w i)"
    unfolding endpoint_by_id_def update_endpoint_def
    by (simp add: find_update_rows) (auto simp: option.map_comp dest: find_SomeD intro!: option.map_cong)
  show ?thesis
  proof (cases "endpoint_by_id w i")
    case None
    then have "\<forall>p \<in> set (hw_endpoints w). he_id p \<noteq> i" by (simp add: endpoint_by_id_def find_eq_None)
    then show ?thesis using find None
      by (simp add: recordEndpointFailure_def Let_def update_endpoint_def update_rows_none)
  next
    case (Some p)
    then have p: "p \<in> set (hw_endpoints w)" "he_id p = i" by (auto simp: endpoint_by_id_def dest: find_SomeD)
    have same: "q = p" if "q \<in> set (hw_endpoints w)" "he_id q = i" for q
      using unique_key_eq [OF assms that(1) p(1)] that p by simp
    show ?thesis using Some find p(2)
      by (auto simp: recordEndpointFailure_def Let_def update_endpoint_def update_rows_twice
          intro!: update_rows_cong dest!: same) (auto simp: failed_once_def)
  qed
qed

lemma recordEndpointFailure_keeps:
  assumes "hooks_ok w"
  shows "hooks_ok (recordEndpointFailure i w)"
proof -
  have "hooks_ok (update_endpoint i (failed_once (hw_clock w)) w)"
    by (rule hooks_ok_update_endpoint [OF assms]) simp_all
  moreover have "hw_endpoints (recordEndpointFailure i w) =
      hw_endpoints (update_endpoint i (failed_once (hw_clock w)) w)"
    using assms by (simp add: recordEndpointFailure_endpoints hooks_ok_def update_endpoint_def)
  ultimately show ?thesis
    using hooks_ok_cong [of "recordEndpointFailure i w" "update_endpoint i (failed_once (hw_clock w)) w"]
    by (simp add: update_endpoint_def)
qed

section \<open>Every attempt is counted\<close>

definition posts_of :: "hook_world \<Rightarrow> nat \<Rightarrow> nat" where
  "posts_of w i = count_rows (\<lambda>p. fst p = i) (hw_posts w)"

definition tracked_ok :: "hook_world \<Rightarrow> bool" where
  "tracked_ok w =
     ((\<forall>d \<in> set (hw_deliveries w). posts_of w (hd_id d) = hd_attempts d) \<and>
      (\<forall>i \<ge> hw_nextId w. posts_of w i = 0))"

definition hooks_inv :: "bool \<Rightarrow> hook_world \<Rightarrow> bool" where
  "hooks_inv again w = (hooks_ok w \<and> (again \<or> tracked_ok w))"

lemma tracked_ok_rows:
  assumes "tracked_ok w" "hw_posts w' = hw_posts w" "hw_nextId w \<le> hw_nextId w'"
    and "\<And>d'. d' \<in> set (hw_deliveries w') \<Longrightarrow>
      (\<exists>d \<in> set (hw_deliveries w). hd_id d' = hd_id d \<and> hd_attempts d' = hd_attempts d) \<or>
      (hw_nextId w \<le> hd_id d' \<and> hd_attempts d' = 0)"
  shows "tracked_ok w'"
  using assms by (fastforce simp: tracked_ok_def posts_of_def)

lemma posts_of_snoc: "hw_posts w' = hw_posts w @ [(i, r)] \<Longrightarrow> posts_of w' j = posts_of w j + (if i = j then 1 else 0)"
  by (simp add: posts_of_def count_rows_def)

lemma tracked_ok_post:
  assumes "tracked_ok w" "d \<in> set (hw_deliveries w)" "hd_id d < hw_nextId w"
    and "hw_posts w' = hw_posts w @ [(hd_id d, r)]" "hw_nextId w' = hw_nextId w"
    and "hw_deliveries w' = update_rows (\<lambda>x. hd_id x = hd_id d) f (hw_deliveries w)"
    and "\<And>x. hd_id (f x) = hd_id x" "\<And>x. hd_attempts (f x) = Suc (hd_attempts d)"
  shows "tracked_ok w'"
proof -
  have posts: "posts_of w' i = posts_of w i + (if hd_id d = i then 1 else 0)" for i
    by (rule posts_of_snoc [OF assms(4)])
  have "posts_of w' (hd_id x') = hd_attempts x'" if mem: "x' \<in> set (hw_deliveries w')" for x'
  proof -
    obtain x where x: "x \<in> set (hw_deliveries w)" "x' = (if hd_id x = hd_id d then f x else x)"
      using mem unfolding assms(6) set_update_rows by blast
    have "posts_of w (hd_id d) = hd_attempts d" "posts_of w (hd_id x) = hd_attempts x"
      using assms(1,2) x(1) by (simp_all add: tracked_ok_def)
    then show ?thesis using x(2) assms(7,8) posts by simp
  qed
  moreover have "posts_of w' i = 0" if "hw_nextId w' \<le> i" for i
    using that assms(1,3,5) posts by (simp add: tracked_ok_def)
  ultimately show ?thesis by (simp add: tracked_ok_def)
qed

lemma tracked_ok_update:
  "tracked_ok w \<Longrightarrow> (\<And>x. hd_id (f x) = hd_id x \<and> hd_attempts (f x) = hd_attempts x) \<Longrightarrow>
   tracked_ok (w\<lparr>hw_deliveries := update_rows p f (hw_deliveries w)\<rparr>)"
  by (rule tracked_ok_rows [of w]) (auto simp: set_update_rows)

section \<open>A sweep\<close>

definition sweepable :: "due_row \<Rightarrow> bool" where
  "sweepable row = (dr_status row \<in> {HPending, HFailed})"

lemma claim_row_keeps:
  assumes "hooks_inv again w" "sweepable row" "claim_row row now w = (n, w1)"
  shows "hooks_inv again w1"
proof -
  let ?match = "\<lambda>d. hd_id d = dr_id row \<and> hd_status d = dr_status row \<and> due now d"
  let ?lease = "\<lambda>d. d\<lparr>hd_retryAt := Some (now + LEASE_MINUTES * 60000)\<rparr>"
  have w1: "w1 = w\<lparr>hw_deliveries := update_rows ?match ?lease (hw_deliveries w)\<rparr>"
    using assms(3) by (simp add: claim_row_def Let_def)
  have "hooks_ok w1" unfolding w1
    using assms(1,2) by (intro hooks_ok_update_delivery)
      (auto simp: hooks_inv_def hooks_ok_def delivery_ok_def sweepable_def)
  moreover have "again \<or> tracked_ok w1" unfolding w1
    using assms(1) by (auto simp: hooks_inv_def intro!: tracked_ok_update)
  ultimately show ?thesis by (simp add: hooks_inv_def)
qed

lemma claim_row_row:
  assumes "hooks_ok w" "claim_row row now w = (Suc n, w1)" "delivery_by_id w1 (dr_id row) = Some d"
  shows "\<exists>d0 \<in> set (hw_deliveries w). hd_id d0 = dr_id row \<and> hd_status d0 = dr_status row \<and> due now d0 \<and>
    d = d0\<lparr>hd_retryAt := Some (now + LEASE_MINUTES * 60000)\<rparr>"
proof -
  let ?match = "\<lambda>d. hd_id d = dr_id row \<and> hd_status d = dr_status row \<and> due now d"
  have "filter ?match (hw_deliveries w) \<noteq> []"
    and w1: "hw_deliveries w1 = update_rows ?match (\<lambda>d. d\<lparr>hd_retryAt := Some (now + LEASE_MINUTES * 60000)\<rparr>)
      (hw_deliveries w)"
    using assms(2) by (auto simp: claim_row_def Let_def count_rows_def)
  then obtain d0 where d0: "d0 \<in> set (hw_deliveries w)" "?match d0" by (auto simp: filter_empty_conv)
  obtain x where x: "x \<in> set (hw_deliveries w)"
    "d = (if ?match x then x\<lparr>hd_retryAt := Some (now + LEASE_MINUTES * 60000)\<rparr> else x)" "hd_id d = dr_id row"
    using assms(3) w1 by (auto simp: delivery_by_id_def set_update_rows dest!: find_SomeD split: if_splits)
  then have "hd_id x = hd_id d0" using d0 by (auto split: if_splits)
  then have "x = d0" using unique_key_eq [of hd_id "hw_deliveries w" x d0] assms(1) x(1) d0(1)
    by (simp add: hooks_ok_def)
  with x d0 show ?thesis by auto
qed

lemma settle_failed_keeps:
  assumes "hooks_ok w" "hd_attempts d \<le> MAX_DELIVERY_RETRIES"
  shows "hooks_ok (snd (settle_failed d (Suc (hd_attempts d)) outcome now r w))"
proof (cases "MAX_DELIVERY_RETRIES < Suc (hd_attempts d) \<or> nextRetryAt (Suc (hd_attempts d)) now = None")
  case True
  then have "snd (settle_failed d (Suc (hd_attempts d)) outcome now r w) =
      recordEndpointFailure (hd_endpointId d) (update_delivery (hd_id d)
        (\<lambda>x. x\<lparr>hd_attempts := Suc (hd_attempts d), hd_responseCode := do_responseCode outcome,
               hd_error := do_error outcome, hd_durationMs := Some (do_durationMs outcome),
               hd_status := HAbandoned, hd_retryAt := None\<rparr>) w)"
    by (auto simp: settle_failed_def Let_def split: option.split)
  then show ?thesis using assms unfolding update_delivery_def
    by (auto intro!: recordEndpointFailure_keeps hooks_ok_update_delivery simp: delivery_ok_def)
next
  case False
  then show ?thesis using assms unfolding settle_failed_def Let_def update_delivery_def
    by (auto intro!: hooks_ok_update_delivery simp: delivery_ok_def)
qed

lemma settle_failed_deliveries:
  "\<exists>f. hw_deliveries (snd (settle_failed d n outcome now r w)) =
         update_rows (\<lambda>x. hd_id x = hd_id d) f (hw_deliveries w) \<and>
       (\<forall>x. hd_id (f x) = hd_id x \<and> hd_attempts (f x) = n)"
  "hw_posts (snd (settle_failed d n outcome now r w)) = hw_posts w"
  "hw_nextId (snd (settle_failed d n outcome now r w)) = hw_nextId w"
  by (auto simp: settle_failed_def Let_def update_delivery_def split: option.split intro!: exI)

lemma settleSent_keeps:
  assumes "hooks_ok w" "n \<le> Suc MAX_DELIVERY_RETRIES"
  shows "hooks_ok (settleSent i j n outcome w)"
  unfolding settleSent_def
proof (rule hooks_ok_update_endpoint)
  show "hooks_ok (update_delivery i (\<lambda>d. d\<lparr>hd_status := HSent, hd_attempts := n, hd_retryAt := None,
      hd_responseCode := do_responseCode outcome, hd_error := None,
      hd_durationMs := Some (do_durationMs outcome)\<rparr>) w)"
    unfolding update_delivery_def
    by (rule hooks_ok_update_delivery [OF assms(1)]) (simp_all add: delivery_ok_def assms(2))
qed (simp_all add: endpoint_ok_def MAX_CONSECUTIVE_FAILURES_def callback_key_def)

lemma attemptRow_keeps:
  assumes inv: "hooks_inv again w" and row: "sweepable row"
  shows "hooks_inv again (snd (attemptRow e row now (r, w)))"
proof -
  obtain n w1 where c: "claim_row row now w = (n, w1)" by fastforce
  have w1: "hooks_inv again w1" by (rule claim_row_keeps [OF inv row c])
  show ?thesis
  proof (cases "n = 0 \<or> delivery_by_id w1 (dr_id row) = None")
    case True
    then show ?thesis using c w1 by (auto simp: attemptRow_def Let_def)
  next
    case False
    then obtain d m where d: "delivery_by_id w1 (dr_id row) = Some d" and m: "n = Suc m"
      by (cases n) auto
    then have in_w1: "d \<in> set (hw_deliveries w1)" "hd_id d = dr_id row"
      by (auto simp: delivery_by_id_def dest: find_SomeD)
    have "hd_status d = dr_status row"
      using claim_row_row [of w row now m w1 d] inv c m d by (auto simp: hooks_inv_def)
    then have att: "hd_attempts d \<le> MAX_DELIVERY_RETRIES"
      using w1 in_w1 row by (auto simp: hooks_inv_def hooks_ok_def delivery_ok_def sweepable_def)
    show ?thesis
    proof (cases "endpoint_by_id w1 (hd_endpointId d)")
      case None
      then show ?thesis using c m d w1 by (simp add: attemptRow_def Let_def)
    next
      case (Some p)
      show ?thesis
      proof (cases "he_status p")
        case False
        let ?off = "\<lambda>x. x\<lparr>hd_status := HAbandoned, hd_retryAt := None, hd_error := Some ''Endpoint disabled''\<rparr>"
        have "hooks_ok (update_delivery (hd_id d) ?off w1)" unfolding update_delivery_def
        proof (rule hooks_ok_update_delivery)
          fix x assume "x \<in> set (hw_deliveries w1)" "hd_id x = hd_id d"
          then have "x = d" using w1 in_w1 unique_key_eq [of hd_id "hw_deliveries w1" x d]
            by (simp add: hooks_inv_def hooks_ok_def)
          then show "delivery_ok (?off x)" using att by (simp add: delivery_ok_def)
        qed (use w1 in \<open>simp_all add: hooks_inv_def\<close>)
        moreover have "again \<or> tracked_ok (update_delivery (hd_id d) ?off w1)"
          using w1 by (auto simp: hooks_inv_def update_delivery_def intro!: tracked_ok_update)
        ultimately show ?thesis using c m d Some False
          by (simp add: attemptRow_def Let_def hooks_inv_def)
      next
        case True
        define w2 where "w2 = snd (hook_post_to e p (hd_id d) (hd_payload d) w1)"
        obtain out where post: "hook_post_to e p (hd_id d) (hd_payload d) w1 = (out, w2)"
          by (cases "hook_post_to e p (hd_id d) (hd_payload d) w1") (simp add: w2_def)
        have w2: "hooks_ok w2" using w1 by (simp add: w2_def hooks_ok_post hooks_inv_def)
        have lt: "hd_id d < hw_nextId w1" using w1 in_w1(1) by (auto simp: hooks_inv_def hooks_ok_def)
        define w3 where "w3 = (if do_success out then settleSent (hd_id d) (hd_endpointId d) (Suc (hd_attempts d)) out w2
            else snd (settle_failed d (Suc (hd_attempts d)) out now (r\<lparr>sr_attempted := Suc (sr_attempted r)\<rparr>) w2))"
        have res: "snd (attemptRow e row now (r, w)) = w3"
          using c m d Some True post by (simp add: attemptRow_def Let_def w3_def)
        have "hooks_ok w3" using w2 att by (simp add: w3_def settleSent_keeps settle_failed_keeps)
        moreover have "tracked_ok w3" if "tracked_ok w1"
        proof -
          obtain f where f: "hw_deliveries w3 = update_rows (\<lambda>x. hd_id x = hd_id d) f (hw_deliveries w1)"
            "\<And>x. hd_id (f x) = hd_id x" "\<And>x. hd_attempts (f x) = Suc (hd_attempts d)"
          proof (cases "do_success out")
            case True
            then show ?thesis
              using that by (auto simp: w3_def settleSent_def update_delivery_def update_endpoint_def w2_def)
          next
            case False
            then show ?thesis
              using that settle_failed_deliveries(1) [of d "Suc (hd_attempts d)" out now _ w2]
              by (fastforce simp: w3_def w2_def)
          qed
          have "hw_posts w3 = hw_posts w1 @ [(hd_id d, hook_request e p (hd_id d) (hd_payload d) (hw_clock w1))]"
            "hw_nextId w3 = hw_nextId w1"
            by (simp_all add: w3_def w2_def settle_failed_deliveries settleSent_def update_delivery_def update_endpoint_def)
          then show ?thesis by (rule tracked_ok_post [OF that in_w1(1) lt _ _ f])
        qed
        ultimately show ?thesis using w1 unfolding res by (auto simp: hooks_inv_def)
      qed
    qed
  qed
qed

lemma due_rows_sweepable: "row \<in> set (due_rows now ds) \<Longrightarrow> sweepable row"
  by (auto simp: due_rows_def sweepable_def dest!: in_set_takeD)

lemma sweep_keeps:
  assumes "hooks_inv again w"
  shows "hooks_inv again (snd (sweep e w))"
proof -
  have "hooks_inv again (snd rw) \<Longrightarrow> \<forall>row \<in> set rows. sweepable row \<Longrightarrow>
      hooks_inv again (snd (foldl (\<lambda>rw row. attemptRow e row now rw) rw rows))" for now rw rows
  proof (induction rows arbitrary: rw)
    case (Cons row rows)
    have "hooks_inv again (snd (attemptRow e row now rw))"
      using attemptRow_keeps [of again "snd rw" row e now "fst rw"] Cons.prems by simp
    then show ?case using Cons by simp
  qed simp
  then show ?thesis using assms due_rows_sweepable by (simp add: sweep_def Let_def)
qed

section \<open>The organisations' own operations\<close>

lemma enqueue_tracked:
  assumes "tracked_ok w"
  shows "tracked_ok (enqueue e wabaId eventId eventType described raw w)"
proof -
  define add :: "ms \<Rightarrow> hook_world \<Rightarrow> hook_endpoint \<Rightarrow> hook_world" where "add now w p = w\<lparr>hw_deliveries := hw_deliveries w @
      [new_delivery e wabaId eventId eventType described raw now (he_id p) (hw_nextId w)],
      hw_nextId := Suc (hw_nextId w)\<rparr>" for now w p
  have "tracked_ok (add now w p)" if "tracked_ok w" for now w p
    by (rule tracked_ok_rows [OF that]) (auto simp: add_def new_delivery_def)
  then have "tracked_ok w \<Longrightarrow> tracked_ok (foldl (add now) w ps)" for now ps w
    by (induction ps arbitrary: w) simp_all
  then show ?thesis using assms by (simp add: enqueue_def Let_def add_def [abs_def])
qed

lemma sendTest_shape:
  assumes "hooks_ok w"
  obtains d r where "hw_deliveries (snd (sendTest e p w)) = hw_deliveries w @ [d]"
    "hd_id d = hw_nextId w" "hd_endpointId d = he_id p" "hd_attempts d = 1" "hd_retryAt d = None" "hd_status d \<in> {HSent, HAbandoned}"
    "hw_nextId (snd (sendTest e p w)) = Suc (hw_nextId w)"
    "hw_posts (snd (sendTest e p w)) = hw_posts w @ [(hw_nextId w, r)]"
    "hw_endpoints (snd (sendTest e p w)) = hw_endpoints w \<or>
     (\<exists>t. hw_endpoints (snd (sendTest e p w)) =
        update_rows (\<lambda>q. he_id q = he_id p) (\<lambda>q. q\<lparr>he_failureCount := 0, he_lastSuccessAt := Some t\<rparr>) (hw_endpoints w))"
proof -
  let ?i = "hw_nextId w"
  define d0 where "d0 = \<lparr>hd_id = ?i, hd_endpointId = he_id p, hd_eventId = None,
    hd_eventType = TEST_EVENT, hd_payload = hk_stored e
            [(''event'', JStr TEST_EVENT), (''wabaId'', JStr (he_wabaId p)),
             (''occurredAt'', JStr (toISOString (hw_clock w))),
             (''data'', JObj [(''kind'', JStr ''account_update''), (''title'', JStr ''Test event''),
                (''detail'', JStr ''This is a test delivery from the WhatsApp Console. No customer sent anything.'')])],
    hd_status = HPending, hd_attempts = 1, hd_retryAt = None, hd_responseCode = None, hd_error = None,
    hd_durationMs = None, hd_createdAt = hw_clock w\<rparr>"
  define w1 where "w1 = w\<lparr>hw_deliveries := hw_deliveries w @ [d0], hw_nextId := Suc ?i\<rparr>"
  obtain out w2 where post: "hook_post_to e p ?i (hd_payload d0) w1 = (out, w2)" by fastforce
  then have w2: "w2 = snd (hook_post_to e p ?i (hd_payload d0) w1)" by simp
  define settle where "settle = (\<lambda>d. d\<lparr>hd_status := (if do_success out then HSent else HAbandoned),
    hd_retryAt := None, hd_responseCode := do_responseCode out, hd_error := do_error out,
    hd_durationMs := Some (do_durationMs out)\<rparr> :: hook_delivery)"
  have "\<forall>d \<in> set (hw_deliveries w). hd_id d \<noteq> ?i" using assms by (auto simp: hooks_ok_def)
  then have dels: "hw_deliveries (update_delivery ?i settle w2) = hw_deliveries w @ [settle d0]"
    by (simp add: update_delivery_def w2 w1_def update_rows_append update_rows_none d0_def)
  have eq: "snd (sendTest e p w) = (if do_success out then update_endpoint (he_id p)
       (\<lambda>q. q\<lparr>he_failureCount := 0, he_lastSuccessAt := Some (hw_clock (update_delivery ?i settle w2))\<rparr>)
       (update_delivery ?i settle w2) else update_delivery ?i settle w2)"
    using post unfolding sendTest_def Let_def w1_def d0_def settle_def by simp
  show thesis
  proof (rule that [of "settle d0" "hook_request e p ?i (hd_payload d0) (hw_clock w1)"])
    show "hw_deliveries (snd (sendTest e p w)) = hw_deliveries w @ [settle d0]"
      unfolding eq using dels by (simp add: update_endpoint_def)
  qed (simp_all add: eq settle_def d0_def update_endpoint_def update_delivery_def w2 w1_def, blast)
qed

lemma sendTest_keeps:
  assumes "hooks_inv again w"
  shows "hooks_inv again (snd (sendTest e p w))"
proof -
  have ok: "hooks_ok w" using assms by (simp add: hooks_inv_def)
  obtain d r where w': "hw_deliveries (snd (sendTest e p w)) = hw_deliveries w @ [d]"
    "hd_id d = hw_nextId w" "hd_endpointId d = he_id p" "hd_attempts d = 1" "hd_retryAt d = None" "hd_status d \<in> {HSent, HAbandoned}"
    "hw_nextId (snd (sendTest e p w)) = Suc (hw_nextId w)"
    "hw_posts (snd (sendTest e p w)) = hw_posts w @ [(hw_nextId w, r)]"
    "hw_endpoints (snd (sendTest e p w)) = hw_endpoints w \<or>
     (\<exists>t. hw_endpoints (snd (sendTest e p w)) =
        update_rows (\<lambda>q. he_id q = he_id p) (\<lambda>q. q\<lparr>he_failureCount := 0, he_lastSuccessAt := Some t\<rparr>) (hw_endpoints w))"
    by (rule sendTest_shape [OF ok])
  let ?w1 = "w\<lparr>hw_deliveries := hw_deliveries w @ [d], hw_nextId := Suc (hw_nextId w)\<rparr>"
  have w1: "hooks_ok ?w1"
    using w'(2-6) by (intro hooks_ok_append_delivery [OF ok]) (auto simp: delivery_ok_def)
  have "hooks_ok (snd (sendTest e p w))" using w'(9)
  proof (elim disjE exE)
    assume "hw_endpoints (snd (sendTest e p w)) = hw_endpoints w"
    then show ?thesis using w1 w' hooks_ok_cong [of "snd (sendTest e p w)" ?w1] by simp
  next
    fix t assume t: "hw_endpoints (snd (sendTest e p w)) = update_rows (\<lambda>q. he_id q = he_id p)
        (\<lambda>q. q\<lparr>he_failureCount := 0, he_lastSuccessAt := Some t\<rparr>) (hw_endpoints w)"
    have "hooks_ok (update_endpoint (he_id p) (\<lambda>q. q\<lparr>he_failureCount := 0, he_lastSuccessAt := Some t\<rparr>) ?w1)"
      by (rule hooks_ok_update_endpoint [OF w1])
        (simp_all add: endpoint_ok_def MAX_CONSECUTIVE_FAILURES_def callback_key_def)
    then show ?thesis using w' t
        hooks_ok_cong [of "snd (sendTest e p w)" "update_endpoint (he_id p)
          (\<lambda>q. q\<lparr>he_failureCount := 0, he_lastSuccessAt := Some t\<rparr>) ?w1"]
      by (simp add: update_endpoint_def)
  qed
  moreover have "tracked_ok (snd (sendTest e p w))" if "tracked_ok w"
  proof -
    have "posts_of (snd (sendTest e p w)) j = posts_of w j + (if hw_nextId w = j then 1 else 0)" for j
      by (rule posts_of_snoc [OF w'(8)])
    then show ?thesis using that ok w'(1-4,7) by (auto simp: tracked_ok_def hooks_ok_def)
  qed
  ultimately show ?thesis using assms by (auto simp: hooks_inv_def)
qed

lemma ok_or_simps [simp]: "ok_or (Inl e) = throwE e" "ok_or (Inr v) = retE v"
  by (simp_all add: ok_or_def)

lemmas svc_eval = thenE_def bindE_def refuse_if_def ok_or_def

lemma create_shape:
  assumes "endpoint_create x u me dto w = (r, w')"
  shows "w' = w \<or> (\<exists>url.
    w' = w\<lparr>hw_endpoints := hw_endpoints w @ [new_endpoint x u me dto url (hw_clock w) (hw_nextId w)],
           hw_nextId := Suc (hw_nextId w)\<rparr> \<and>
    (me, ce_wabaId dto, url) \<notin> callback_key ` set (hw_endpoints w))"
proof (cases "assertSafeWebhookUrl (hx_parse x) (ce_url dto) (hx_allowInsecureUrls x)")
  case (Inl e)
  then show ?thesis using assms by (auto simp: endpoint_create_def svc_eval split: if_splits)
next
  case (Inr url)
  then have "w' = w \<or> (w' = w\<lparr>hw_endpoints := hw_endpoints w @ [new_endpoint x u me dto url (hw_clock w) (hw_nextId w)],
           hw_nextId := Suc (hw_nextId w)\<rparr> \<and>
    (me, ce_wabaId dto, url) \<notin> callback_key ` set (hw_endpoints w))"
    using assms
    by (auto simp: endpoint_create_def svc_eval callback_key_def same_callback_def list_ex_iff Let_def
        split: sum.splits prod.splits if_splits)
  then show ?thesis by blast
qed

lemma new_endpoint_fields [simp]:
  "he_id (new_endpoint x u me dto url now i) = i" "he_org (new_endpoint x u me dto url now i) = me"
  "callback_key (new_endpoint x u me dto url now i) = (me, ce_wabaId dto, url)"
  "endpoint_ok (new_endpoint x u me dto url now i)"
  by (simp_all add: new_endpoint_def callback_key_def endpoint_ok_def MAX_CONSECUTIVE_FAILURES_def)

lemma owned_shape:
  "endpoint_owned me i w = (Inr p, w') \<Longrightarrow> w' = w \<and> endpoint_by_id w i = Some p \<and> he_org p = me"
  "endpoint_owned me i w = (Inl e, w') \<Longrightarrow> w' = w"
  by (auto simp: endpoint_owned_def split: option.splits if_splits)

lemma endpoint_changes_fields [simp]:
  "he_id (endpoint_changes url sec dto p) = he_id p" "he_org (endpoint_changes url sec dto p) = he_org p"
  "he_wabaId (endpoint_changes url sec dto p) = he_wabaId p"
  "he_url (endpoint_changes url sec dto p) = nullish_def_val url (he_url p)"
  by (simp_all add: endpoint_changes_def Let_def split: option.split bool.split)

lemma endpoint_changes_ok: "endpoint_ok p \<Longrightarrow> endpoint_ok (endpoint_changes url sec dto p)"
  by (auto simp: endpoint_changes_def Let_def endpoint_ok_def MAX_CONSECUTIVE_FAILURES_def
      split: option.split bool.split)

lemma assertSafe_href:
  "parser_ok x \<Longrightarrow> assertSafeWebhookUrl (hx_parse x) raw b = Inr url \<Longrightarrow> url \<noteq> []"
  by (auto simp: assertSafeWebhookUrl_def parser_ok_def Let_def split: option.splits if_splits)

lemma update_shape:
  assumes "endpoint_update x me i dto w = (r, w')" "parser_ok x"
  shows "w' = w \<or> (\<exists>p url sec. endpoint_by_id w i = Some p \<and> he_org p = me \<and>
    w' = update_endpoint i (endpoint_changes url sec dto) w \<and>
    (url \<noteq> None \<longrightarrow> the url \<noteq> he_url p \<longrightarrow>
       (\<forall>q \<in> set (hw_endpoints w). he_id q \<noteq> i \<longrightarrow> callback_key q \<noteq> (me, he_wabaId p, the url))))"
proof (cases "endpoint_owned me i w")
  case (Pair r0 w0)
  show ?thesis
  proof (cases r0)
    case (Inl e)
    then show ?thesis using Pair assms owned_shape(2) by (auto simp: endpoint_update_def svc_eval)
  next
    case (Inr p)
    then have p: "w0 = w" "endpoint_by_id w i = Some p" "he_org p = me"
      using Pair owned_shape(1) by auto
    show ?thesis
    proof (cases "ue_url dto")
      case None
      then show ?thesis using assms(1) Pair Inr p
        by (auto simp: endpoint_update_def svc_eval Let_def split: sum.splits if_splits)
    next
      case (Some u)
      show ?thesis
      proof (cases "assertSafeWebhookUrl (hx_parse x) u (hx_allowInsecureUrls x)")
        case (Inl e)
        then show ?thesis using assms(1) Pair Inr p Some by (auto simp: endpoint_update_def svc_eval)
      next
        case url: (Inr url)
        have "url \<noteq> []" by (rule assertSafe_href [OF assms(2) url])
        then show ?thesis using assms(1) Pair Inr p Some url
          by (auto simp: endpoint_update_def svc_eval Let_def list_ex_iff same_callback_def callback_key_def
              split: sum.splits if_splits)
      qed
    qed
  qed
qed

lemma created_keeps:
  assumes "hooks_inv again w" "parser_ok x"
  shows "hooks_inv again (snd (endpoint_create x u me dto w))"
proof -
  obtain r w' where eq: "endpoint_create x u me dto w = (r, w')" by fastforce
  show ?thesis using create_shape [OF eq]
  proof (elim disjE exE conjE)
    fix url
    let ?c = "new_endpoint x u me dto url (hw_clock w) (hw_nextId w)"
    assume w': "w' = w\<lparr>hw_endpoints := hw_endpoints w @ [?c], hw_nextId := Suc (hw_nextId w)\<rparr>"
      and c: "(me, ce_wabaId dto, url) \<notin> callback_key ` set (hw_endpoints w)"
    have "hooks_ok w'" using assms(1) c unfolding w' by (auto simp: hooks_inv_def hooks_ok_def)
    moreover have "tracked_ok w'" if "tracked_ok w"
      by (rule tracked_ok_rows [OF that]) (auto simp: w')
    ultimately show ?thesis using assms(1) eq by (auto simp: hooks_inv_def)
  qed (use assms eq in simp)
qed

lemma updated_keeps:
  assumes inv: "hooks_inv again w" and parser: "parser_ok x"
  shows "hooks_inv again (snd (endpoint_update x me i dto w))"
proof -
  obtain r w' where eq: "endpoint_update x me i dto w = (r, w')" by fastforce
  show ?thesis using update_shape [OF eq parser]
  proof (elim disjE exE conjE)
    fix p url sec
    let ?f = "endpoint_changes url sec dto"
    assume p: "endpoint_by_id w i = Some p" "he_org p = me" and w': "w' = update_endpoint i ?f w"
      and free: "url \<noteq> None \<longrightarrow> the url \<noteq> he_url p \<longrightarrow>
        (\<forall>q \<in> set (hw_endpoints w). he_id q \<noteq> i \<longrightarrow> callback_key q \<noteq> (me, he_wabaId p, the url))"
    have ok: "hooks_ok w" using inv by (simp add: hooks_inv_def)
    have p_in: "p \<in> set (hw_endpoints w)" "he_id p = i"
      using p(1) by (auto simp: endpoint_by_id_def dest: find_SomeD)
    have dist: "distinct (map he_id (hw_endpoints w))" "distinct (map callback_key (hw_endpoints w))"
      using ok by (simp_all add: hooks_ok_def)
    have mine: "q = p" if "q \<in> set (hw_endpoints w)" "he_id q = i" for q
      using unique_key_eq [OF dist(1) that(1) p_in(1)] that(2) p_in(2) by simp
    have "map he_id (update_rows (\<lambda>q. he_id q = i) ?f (hw_endpoints w)) = map he_id (hw_endpoints w)"
      by (rule map_key_update_rows) simp
    moreover have "distinct (map callback_key (update_rows (\<lambda>q. he_id q = i) ?f (hw_endpoints w)))"
    proof (rule distinct_update_one [of _ _ _ p])
      show "distinct (map callback_key (hw_endpoints w))" by (rule dist(2))
      fix q assume q: "q \<in> set (hw_endpoints w)" "he_id q \<noteq> i"
      then have "callback_key q \<noteq> callback_key p"
        using unique_key_eq [OF dist(2) q(1) p_in(1)] p_in(2) by auto
      then show "callback_key q \<noteq> callback_key (?f p)"
        using free q p(2) by (cases url) (auto simp: callback_key_def)
    qed (use mine in simp)
    ultimately have "hooks_ok w'" using ok unfolding w' hooks_ok_def update_endpoint_def
      by (auto simp: set_update_rows endpoint_changes_ok)
    moreover have "tracked_ok w'" if "tracked_ok w"
      by (rule tracked_ok_rows [OF that]) (auto simp: w' update_endpoint_def)
    ultimately show ?thesis using inv eq by (auto simp: hooks_inv_def)
  qed (use inv eq in simp)
qed

lemma removed_keeps:
  assumes "hooks_inv again w"
  shows "hooks_inv again (snd (endpoint_remove me i w))"
proof -
  let ?w' = "w\<lparr>hw_endpoints := filter (\<lambda>p. he_id p \<noteq> i) (hw_endpoints w),
    hw_deliveries := filter (\<lambda>d. hd_endpointId d \<noteq> i) (hw_deliveries w)\<rparr>"
  have "snd (endpoint_remove me i w) = w \<or> snd (endpoint_remove me i w) = ?w'"
    by (auto simp: endpoint_remove_def svc_eval dest: owned_shape split: prod.splits sum.splits)
  moreover have "hooks_ok ?w'" using assms by (auto simp: hooks_inv_def hooks_ok_def distinct_map_filter)
  moreover have "tracked_ok ?w'" if "tracked_ok w" by (rule tracked_ok_rows [OF that]) auto
  ultimately show ?thesis using assms by (auto simp: hooks_inv_def)
qed

lemma tested_keeps: "hooks_inv again w \<Longrightarrow> hooks_inv again (snd (endpoint_test x me i w))"
  using sendTest_keeps [of again w "hx_hooks x"]
  by (auto simp: endpoint_test_def svc_eval dest!: owned_shape split: prod.splits sum.splits if_splits)
    (metis snd_conv)

lemma redelivered_keeps:
  assumes "hooks_ok w"
  shows "hooks_ok (snd (endpoint_redeliver me i w))"
proof -
  let ?again = "\<lambda>d. d\<lparr>hd_status := HPending, hd_attempts := 0, hd_retryAt := Some (hw_clock w),
    hd_responseCode := None, hd_error := None, hd_durationMs := None\<rparr> :: hook_delivery"
  have "snd (endpoint_redeliver me i w) = w \<or> snd (endpoint_redeliver me i w) = update_delivery i ?again w"
    by (auto simp: endpoint_redeliver_def Let_def split: option.split)
  moreover have "hooks_ok (update_delivery i ?again w)" unfolding update_delivery_def
    by (rule hooks_ok_update_delivery [OF assms]) (simp_all add: delivery_ok_def)
  ultimately show ?thesis using assms by auto
qed

section \<open>Every run\<close>

lemma hook_step_keeps:
  assumes "hook_step again w w'" "hooks_inv again w"
  shows "hooks_inv again w'"
  using assms
proof cases
  case (queued e wabaId eventId eventType described raw)
  then show ?thesis using assms(2) enqueue_keeps enqueue_tracked by (auto simp: hooks_inv_def)
next
  case (redelivered me i)
  then show ?thesis using assms(2) redelivered_keeps by (auto simp: hooks_inv_def)
next
  case (waited t)
  then show ?thesis using assms(2) by (simp add: hooks_inv_def hooks_ok_def tracked_ok_def posts_of_def)
qed (use assms(2) in \<open>simp_all add: sweep_keeps created_keeps updated_keeps removed_keeps tested_keeps\<close>)

lemma hook_run_inv: "hook_run again w \<Longrightarrow> hooks_inv again w"
proof (induction rule: hook_run.induct)
  case (start w)
  then show ?case by (simp add: hooks_inv_def hooks_ok_def tracked_ok_def posts_of_def count_rows_def)
next
  case (step w w')
  then show ?case using hook_step_keeps by blast
qed



section \<open>A small outbox\<close>

definition quiet_hooks :: hook_world where
  "quiet_hooks =
     \<lparr>hw_endpoints = [\<lparr>he_id = 1, he_userId = 1, he_org = ''acme'', he_wabaId = ''waba1'',
        he_url = ''https://hooks.example.com/'', he_label = None, he_secret = None, he_events = [],
        he_status = True, he_failureCount = 0, he_disabledAt = None, he_lastSuccessAt = None, he_createdAt = 0\<rparr>],
      hw_deliveries = [], hw_posts = [], hw_mails = [], hw_clock = 0, hw_nextId = 2\<rparr>"

definition down_receiver :: hook_env where
  "down_receiver =
     \<lparr>hk_receiver = (\<lambda>_ _. TransportFails ''connect ECONNREFUSED'' 20), hk_decrypt = Some,
      hk_hmac = (\<lambda>_ s. s), hk_stored = (\<lambda>v. v), hk_raises = (\<lambda>_. False)\<rparr>"

definition one_queued :: hook_world where
  "one_queued = enqueue down_receiver ''waba1'' 5 ''messages'' (plain_event Status_Update ''Message event'') None quiet_hooks"

definition once_swept :: hook_world where
  "once_swept = snd (sweep down_receiver one_queued)"

lemma once_swept_run: "hook_run again once_swept"
proof -
  have "hooks_ok quiet_hooks"
    by (simp add: hooks_ok_def quiet_hooks_def endpoint_ok_def MAX_CONSECUTIVE_FAILURES_def)
  then have "hook_run again quiet_hooks" by (rule hook_run.start) (simp_all add: quiet_hooks_def)
  then have "hook_run again one_queued" unfolding one_queued_def by (rule hook_run.step) (rule hook_step.queued)
  then show ?thesis unfolding once_swept_def by (rule hook_run.step) (rule hook_step.swept)
qed

definition first_delivery :: hook_delivery where
  "first_delivery = new_delivery down_receiver ''waba1'' 5 ''messages''
     (plain_event Status_Update ''Message event'') None 0 1 2"

lemma first_delivery_fields [simp]:
  "hd_id first_delivery = 2" "hd_endpointId first_delivery = 1" "hd_status first_delivery = HPending"
  "hd_attempts first_delivery = 0" "hd_retryAt first_delivery = Some 0"
  by (simp_all add: first_delivery_def new_delivery_def)

lemma one_queued_eq:
  "one_queued = quiet_hooks\<lparr>hw_deliveries := [first_delivery], hw_nextId := 3\<rparr>"
  by (simp add: one_queued_def enqueue_def down_receiver_def quiet_hooks_def listening_def
      first_delivery_def Let_def)

lemma down_post:
  "hook_post_to down_receiver p i payload w =
     (\<lparr>do_success = False, do_responseCode = None,
       do_error = Some (js_take MAX_ERROR_LENGTH ''connect ECONNREFUSED''), do_durationMs = 20\<rparr>,
      w\<lparr>hw_posts := hw_posts w @ [(i, hook_request down_receiver p i payload (hw_clock w))],
        hw_clock := hw_clock w + 20\<rparr>)"
  by (simp add: hook_post_to_def down_receiver_def Let_def)

lemma once_swept_deliveries:
  "map (\<lambda>d. (hd_id d, hd_status d, hd_attempts d, hd_retryAt d)) (hw_deliveries once_swept) =
     [(2, HFailed, 1, Some 60000)]"
proof -
  have rows: "due_rows 0 (hw_deliveries one_queued) =
      [\<lparr>dr_id = 2, dr_attempts = 0, dr_status = HPending, dr_endpointId = 1\<rparr>]"
    by (simp add: one_queued_eq due_rows_def due_def SWEEP_BATCH_def)
  have clock: "hw_clock one_queued = 0" by (simp add: one_queued_eq quiet_hooks_def)
  have "claim_row \<lparr>dr_id = 2, dr_attempts = 0, dr_status = HPending, dr_endpointId = 1\<rparr> 0 one_queued =
      (1, one_queued\<lparr>hw_deliveries := [first_delivery\<lparr>hd_retryAt := Some 300000\<rparr>]\<rparr>)"
    by (simp add: claim_row_def one_queued_eq due_def count_rows_def LEASE_MINUTES_def Let_def)
  then show ?thesis unfolding once_swept_def sweep_def Let_def clock rows
    by (simp add: attemptRow_def delivery_by_id_def endpoint_by_id_def Let_def)
      (simp add: one_queued_eq quiet_hooks_def down_post settle_failed_def nextRetryAt_def
        update_delivery_def BACKOFF_MINUTES_def MAX_DELIVERY_RETRIES_def Let_def)
qed



section \<open>Queueing reaches exactly the listeners\<close>

lemma enqueue_fold:
  "hw_deliveries (foldl (\<lambda>w endpoint. w\<lparr>hw_deliveries := hw_deliveries w @
      [new_delivery e a i t d raw now (he_id endpoint) (hw_nextId w)], hw_nextId := Suc (hw_nextId w)\<rparr>) w ps) =
   hw_deliveries w @ map (\<lambda>(p, n). new_delivery e a i t d raw now (he_id p) n)
     (zip ps [hw_nextId w..<hw_nextId w + length ps])"
  by (induction ps arbitrary: w) (simp_all add: upt_conv_Cons del: upt_Suc)

text \<open>Queueing a change adds one pending delivery, due at once, for each enabled endpoint
  of that account that subscribed to its kind or to everything, and for no other.\<close>
theorem enqueue_fans_out:
  assumes "\<not> hk_raises e ''webhookEndpoint.findMany''"
  shows "\<exists>new. hw_deliveries (enqueue e a i t d raw w) = hw_deliveries w @ new \<and>
    map hd_endpointId new = map he_id (filter (\<lambda>p. he_wabaId p = a \<and> he_status p \<and>
      (he_events p = [] \<or> kind_name (de_kind d) \<in> set (he_events p))) (hw_endpoints w)) \<and>
    (\<forall>n \<in> set new. hd_status n = HPending \<and> hd_attempts n = 0 \<and> hd_retryAt n = Some (hw_clock w))"
proof -
  let ?ps = "filter (listening a (de_kind d)) (hw_endpoints w)"
  let ?new = "map (\<lambda>(p, n). new_delivery e a i t d raw (hw_clock w) (he_id p) n)
     (zip ?ps [hw_nextId w..<hw_nextId w + length ?ps])"
  have "hw_deliveries (enqueue e a i t d raw w) = hw_deliveries w @ ?new"
    using assms by (cases "?ps = []") (simp_all add: enqueue_def Let_def enqueue_fold)
  moreover have "map hd_endpointId ?new = map he_id (map fst (zip ?ps [hw_nextId w..<hw_nextId w + length ?ps]))"
    unfolding map_map by (rule map_cong [OF refl]) (auto simp: new_delivery_def)
  then have "map hd_endpointId ?new = map he_id ?ps" by simp
  moreover have "listening a (de_kind d) = (\<lambda>p. he_wabaId p = a \<and> he_status p \<and>
      (he_events p = [] \<or> kind_name (de_kind d) \<in> set (he_events p)))"
    by (simp add: listening_def fun_eq_iff)
  ultimately show ?thesis by (intro exI [of _ ?new]) (auto simp: new_delivery_def)
qed

theorem enqueue_fans_out_witness:
  "map hd_endpointId (hw_deliveries one_queued) = [1]"
proof -
  have "\<not> hk_raises down_receiver ''webhookEndpoint.findMany''" by (simp add: down_receiver_def)
  from enqueue_fans_out [OF this, of "''waba1''" 5 "''messages''"
      "plain_event Status_Update ''Message event''" None quiet_hooks]
  show ?thesis unfolding one_queued_def [symmetric] by (auto simp: quiet_hooks_def)
qed

section \<open>The lease\<close>

text \<open>Once a replica has claimed a delivery, no other replica whose sweep started less
  than five minutes after the claiming sweep did can claim it too.\<close>
theorem lease_exclusive:
  assumes "distinct (map hd_id (hw_deliveries w))" "claim_row row now w = (Suc n, w')"
    and "dr_id row' = dr_id row" "now' < now + 300000"
  shows "fst (claim_row row' now' w') = 0"
proof -
  let ?match = "\<lambda>d. hd_id d = dr_id row \<and> hd_status d = dr_status row \<and> due now d"
  have w': "hw_deliveries w' = update_rows ?match (\<lambda>d. d\<lparr>hd_retryAt := Some (now + 300000)\<rparr>) (hw_deliveries w)"
    and "filter ?match (hw_deliveries w) \<noteq> []"
    using assms(2) by (auto simp: claim_row_def Let_def LEASE_MINUTES_def count_rows_def)
  then obtain d where d: "d \<in> set (hw_deliveries w)" "?match d" by (auto simp: filter_empty_conv)
  have "\<not> (hd_id x = dr_id row \<and> due now' x)" if x: "x \<in> set (hw_deliveries w')" for x
  proof
    assume due: "hd_id x = dr_id row \<and> due now' x"
    obtain y where y: "y \<in> set (hw_deliveries w)"
      "x = (if ?match y then y\<lparr>hd_retryAt := Some (now + 300000)\<rparr> else y)"
      using x unfolding w' set_update_rows by blast
    then have "hd_id y = hd_id d" using due d by (auto split: if_splits)
    then have "y = d" using unique_key_eq [OF assms(1) y(1) d(1)] by simp
    then show False using y(2) d(2) due assms(4) by (simp add: due_def)
  qed
  then show ?thesis using assms(3)
    by (auto simp: claim_row_def Let_def count_rows_def filter_empty_conv)
qed

text \<open>
  The lease runs from the start of the claiming sweep, not from the claim. A sweep that has
  been running for five minutes when it reaches a row claims it with a lease that has
  already run out, and a second sweep can claim the row while the first is posting it.
\<close>

definition sample_delivery :: hook_delivery where
  "sample_delivery =
     \<lparr>hd_id = 1, hd_endpointId = 1, hd_eventId = None, hd_eventType = ''status_update'', hd_payload = [],
      hd_status = HPending, hd_attempts = 0, hd_retryAt = Some 0, hd_responseCode = None,
      hd_error = None, hd_durationMs = None, hd_createdAt = 0\<rparr>"

definition sample_hooks :: hook_world where
  "sample_hooks = quiet_hooks\<lparr>hw_deliveries := [sample_delivery]\<rparr>"

definition sample_row :: due_row where
  "sample_row = \<lparr>dr_id = 1, dr_attempts = 0, dr_status = HPending, dr_endpointId = 1\<rparr>"

lemma late_claim_is_shared:
  "fst (claim_row sample_row 0 sample_hooks) = 1 \<and>
   fst (claim_row sample_row 310000 (snd (claim_row sample_row 0 sample_hooks))) = 1"
  by (simp add: claim_row_def sample_row_def sample_hooks_def sample_delivery_def due_def
      LEASE_MINUTES_def count_rows_def Let_def)

theorem lease_exclusive_witness:
  "fst (claim_row sample_row 200000 (snd (claim_row sample_row 0 sample_hooks))) = 0"
proof -
  have "claim_row sample_row 0 sample_hooks = (Suc 0, snd (claim_row sample_row 0 sample_hooks))"
    by (simp add: claim_row_def sample_row_def sample_hooks_def sample_delivery_def due_def count_rows_def Let_def)
  from lease_exclusive [OF _ this] show ?thesis by (simp add: sample_hooks_def)
qed

section \<open>Every delivery settles\<close>

definition row_of :: "hook_delivery \<Rightarrow> due_row" where
  "row_of d = \<lparr>dr_id = hd_id d, dr_attempts = hd_attempts d, dr_status = hd_status d,
               dr_endpointId = hd_endpointId d\<rparr>"

lemma delivery_by_id_update:
  assumes "\<And>x. hd_id (f x) = hd_id x"
  shows "delivery_by_id (w\<lparr>hw_deliveries := update_rows (\<lambda>x. hd_id x = i) f (hw_deliveries w)\<rparr>) i =
    map_option f (delivery_by_id w i)"
proof -
  have "delivery_by_id w i = Some x \<Longrightarrow> hd_id x = i" for x by (auto simp: delivery_by_id_def dest: find_SomeD)
  then show ?thesis unfolding delivery_by_id_def
    by (simp add: find_update_rows assms) (cases "List.find (\<lambda>d. hd_id d = i) (hw_deliveries w)"; simp)
qed

lemma claim_row_mine:
  assumes "hooks_ok w" "d \<in> set (hw_deliveries w)" "due now d"
  shows "\<exists>m w1. claim_row (row_of d) now w = (Suc m, w1) \<and>
    delivery_by_id w1 (hd_id d) = Some (d\<lparr>hd_retryAt := Some (now + LEASE_MINUTES * 60000)\<rparr>) \<and>
    hw_endpoints w1 = hw_endpoints w"
proof -
  let ?match = "\<lambda>x. hd_id x = hd_id d \<and> hd_status x = hd_status d \<and> due now x"
  let ?lease = "\<lambda>x. x\<lparr>hd_retryAt := Some (now + LEASE_MINUTES * 60000)\<rparr>"
  have "filter ?match (hw_deliveries w) \<noteq> []" using assms(2,3) by (auto simp: filter_empty_conv)
  moreover have "List.find (\<lambda>x. hd_id x = hd_id d) (update_rows ?match ?lease (hw_deliveries w)) =
      map_option (\<lambda>x. if ?match x then ?lease x else x) (List.find (\<lambda>x. hd_id x = hd_id d) (hw_deliveries w))"
    by (rule find_update_rows) simp
  moreover have "List.find (\<lambda>x. hd_id x = hd_id d) (hw_deliveries w) = Some d"
    using delivery_by_id_unique [OF assms(1,2)] by (simp add: delivery_by_id_def)
  ultimately show ?thesis using assms(3)
    by (cases "length (filter ?match (hw_deliveries w))")
      (simp_all add: claim_row_def row_of_def count_rows_def delivery_by_id_def Let_def)
qed

text \<open>What one attempt makes of the delivery it claims.\<close>

definition moved_on :: "hook_delivery \<Rightarrow> ms \<Rightarrow> hook_delivery \<Rightarrow> bool" where
  "moved_on d now d' =
     (hd_id d' = hd_id d \<and> hd_endpointId d' = hd_endpointId d \<and>
      (hd_retryAt d' = None \<or>
       hd_attempts d < MAX_DELIVERY_RETRIES \<and> hd_attempts d' = Suc (hd_attempts d) \<and> hd_status d' = HFailed \<and>
       hd_retryAt d' = Some (now + BACKOFF_MINUTES ! hd_attempts d * 60000)))"

lemma attemptRow_moves_on:
  assumes ok: "hooks_ok w" and d: "d \<in> set (hw_deliveries w)" "due now d"
    and p: "endpoint_by_id w (hd_endpointId d) = Some p"
  shows "\<exists>d'. delivery_by_id (snd (attemptRow e (row_of d) now (r, w))) (hd_id d) = Some d' \<and> moved_on d now d'"
proof -
  let ?d1 = "d\<lparr>hd_retryAt := Some (now + LEASE_MINUTES * 60000)\<rparr>"
  obtain m w1 where c: "claim_row (row_of d) now w = (Suc m, w1)" "delivery_by_id w1 (hd_id d) = Some ?d1"
    "endpoint_by_id w1 (hd_endpointId d) = Some p"
    using claim_row_mine [OF ok d] p by (auto simp: endpoint_by_id_def)
  obtain out w2 where post: "hook_post_to e p (hd_id d) (hd_payload d) w1 = (out, w2)" by fastforce
  then have w2: "delivery_by_id w2 (hd_id d) = Some ?d1"
    using c(2) hook_post_frame(2) [of e p "hd_id d" "hd_payload d" w1] by (simp add: delivery_by_id_def)
  have upd: "delivery_by_id (update_delivery (hd_id d) f w') (hd_id d) = Some (f ?d1)"
    if "delivery_by_id w' (hd_id d) = Some ?d1" "\<And>x. hd_id (f x) = hd_id x" for f w'
    unfolding update_delivery_def by (subst delivery_by_id_update) (simp_all add: that)
  show ?thesis
  proof (cases "he_status p \<and> \<not> do_success out")
    case False
    then show ?thesis using c post w2
      by (auto simp: attemptRow_def row_of_def Let_def settleSent_def upd moved_on_def)
        (simp_all add: update_endpoint_def delivery_by_id_def upd [unfolded delivery_by_id_def])
  next
    case True
    have "snd (settle_failed ?d1 (Suc (hd_attempts d)) out now r' w2) =
        snd (attemptRow e (row_of d) now (r, w))" if "r' = r\<lparr>sr_attempted := Suc (sr_attempted r)\<rparr>" for r'
      using c post True that by (simp add: attemptRow_def row_of_def Let_def)
    moreover have "\<exists>d'. delivery_by_id (snd (settle_failed ?d1 (Suc (hd_attempts d)) out now r' w2)) (hd_id d) = Some d' \<and>
        moved_on d now d'" for r'
    proof (cases "MAX_DELIVERY_RETRIES < Suc (hd_attempts d)")
      case True
      then show ?thesis
        by (simp add: settle_failed_def Let_def)
          (simp add: delivery_by_id_def upd [OF w2, unfolded delivery_by_id_def] moved_on_def)
    next
      case False
      then have "nextRetryAt (Suc (hd_attempts d)) now = Some (now + BACKOFF_MINUTES ! hd_attempts d * 60000)"
        by (simp add: nextRetryAt_def BACKOFF_MINUTES_def MAX_DELIVERY_RETRIES_def)
      with False show ?thesis by (simp add: settle_failed_def Let_def upd [OF w2] moved_on_def)
    qed
    ultimately show ?thesis by metis
  qed
qed

text \<open>The attempts on one delivery at given instants, each taken when the delivery is due.\<close>

definition attempt_at :: "hook_env \<Rightarrow> nat \<Rightarrow> hook_world \<Rightarrow> ms \<Rightarrow> hook_world" where
  "attempt_at e i w now =
     (case delivery_by_id w i of
        None \<Rightarrow> w
      | Some d \<Rightarrow>
          if due now d
          then snd (attemptRow e (row_of d) now (\<lparr>sr_attempted = 0, sr_sent = 0, sr_abandoned = 0\<rparr>, w))
          else w)"

lemma settle_failed_endpoint_ids:
  "distinct (map he_id (hw_endpoints w)) \<Longrightarrow>
   map he_id (hw_endpoints (snd (settle_failed d n out now r w))) = map he_id (hw_endpoints w)"
  by (auto simp: settle_failed_def Let_def recordEndpointFailure_endpoints update_delivery_def
      map_key_update_rows split: option.split)

lemma attemptRow_endpoint_ids:
  assumes "hooks_ok w"
  shows "map he_id (hw_endpoints (snd (attemptRow e row now (r, w)))) = map he_id (hw_endpoints w)"
proof -
  obtain n w1 where c: "claim_row row now w = (n, w1)" by fastforce
  then have e1: "hw_endpoints w1 = hw_endpoints w" by (auto simp: claim_row_def Let_def)
  have dist: "distinct (map he_id (hw_endpoints w))" using assms by (simp add: hooks_ok_def)
  show ?thesis
  proof (cases "delivery_by_id w1 (dr_id row)")
    case None
    then show ?thesis using c e1 by (simp add: attemptRow_def Let_def)
  next
    case d: (Some d)
    show ?thesis
    proof (cases "endpoint_by_id w1 (hd_endpointId d)")
      case None
      then show ?thesis using c e1 d by (simp add: attemptRow_def Let_def)
    next
      case p: (Some p)
      obtain out w2 where post: "hook_post_to e p (hd_id d) (hd_payload d) w1 = (out, w2)" by fastforce
      then have e2: "hw_endpoints w2 = hw_endpoints w"
        using hook_post_frame(1) [of e p "hd_id d" "hd_payload d" w1] e1 by simp
      have sent: "map he_id (hw_endpoints (settleSent i j n' out w2)) = map he_id (hw_endpoints w)" for i j n'
        by (simp add: settleSent_def update_endpoint_def update_delivery_def map_key_update_rows e2)
      have failed: "map he_id (hw_endpoints (snd (settle_failed d n' out now r' w2))) = map he_id (hw_endpoints w)" for n' r'
        using settle_failed_endpoint_ids [of w2] e2 dist by simp
      show ?thesis using c e1 d p post sent failed
        by (simp add: attemptRow_def Let_def update_delivery_def)
    qed
  qed
qed

lemma attempt_at_settled:
  "delivery_by_id w i = Some d \<Longrightarrow> hd_retryAt d = None \<Longrightarrow> foldl (attempt_at e i) w ts = w"
  by (induction ts) (simp_all add: attempt_at_def due_def)

lemma backoff_le: "a < MAX_DELIVERY_RETRIES \<Longrightarrow> BACKOFF_MINUTES ! a * 60000 \<le> 10800000"
  by (auto simp: MAX_DELIVERY_RETRIES_def BACKOFF_MINUTES_def less_Suc_eq numeral_eq_Suc)

text \<open>C9: six attempts settle a delivery for good, whatever the receiver answers and whatever
  becomes of its endpoint, provided the attempts are three hours apart, the longest backoff;
  it ends as sent or given up, and is never due again.\<close>
theorem attempts_settle:
  assumes "hooks_ok w" "d \<in> set (hw_deliveries w)" "hd_endpointId d \<in> he_id ` set (hw_endpoints w)"
    and "sorted_wrt (\<lambda>s t. s + 10800000 \<le> t) ts" "\<forall>t \<in> set ts. due t d"
    and "6 \<le> length ts + hd_attempts d"
  shows "\<exists>d'. delivery_by_id (foldl (attempt_at e (hd_id d)) w ts) (hd_id d) = Some d' \<and>
    hd_retryAt d' = None \<and> hd_status d' \<in> {HSent, HAbandoned}"
  using assms
proof (induction ts arbitrary: w d)
  case Nil
  then have "delivery_ok d" by (simp add: hooks_ok_def)
  then show ?case using Nil delivery_by_id_unique [OF Nil(1,2)]
    by (cases "hd_status d") (auto simp: delivery_ok_def MAX_DELIVERY_RETRIES_def)
next
  case (Cons t ts)
  let ?w' = "attempt_at e (hd_id d) w t"
  have due: "due t d" using Cons.prems(5) by simp
  have sweepable: "sweepable (row_of d)"
    using Cons.prems(1,2) due by (cases "hd_status d") (auto simp: hooks_ok_def delivery_ok_def due_def row_of_def sweepable_def)
  obtain p where p: "endpoint_by_id w (hd_endpointId d) = Some p"
    using Cons.prems(3) by (cases "endpoint_by_id w (hd_endpointId d)") (auto simp: endpoint_by_id_def find_eq_None)
  have eq: "?w' = snd (attemptRow e (row_of d) t (\<lparr>sr_attempted = 0, sr_sent = 0, sr_abandoned = 0\<rparr>, w))"
    using delivery_by_id_unique [OF Cons.prems(1,2)] due by (simp add: attempt_at_def)
  obtain d' where d': "delivery_by_id ?w' (hd_id d) = Some d'" "moved_on d t d'"
    using attemptRow_moves_on [OF Cons.prems(1,2) due p] unfolding eq by blast
  have ok: "hooks_ok ?w'"
    using attemptRow_keeps [of True w "row_of d"] Cons.prems(1) sweepable unfolding eq by (simp add: hooks_inv_def)
  have in': "d' \<in> set (hw_deliveries ?w')" using d'(1) by (auto simp: delivery_by_id_def dest: find_SomeD)
  then have "delivery_ok d'" using ok by (simp add: hooks_ok_def)
  show ?case
  proof (cases "hd_retryAt d' = None")
    case True
    then show ?thesis using attempt_at_settled [OF d'(1) True] d'(1) \<open>delivery_ok d'\<close>
      by (cases "hd_status d'") (auto simp: delivery_ok_def)
  next
    case False
    then have a: "hd_attempts d < MAX_DELIVERY_RETRIES" "hd_attempts d' = Suc (hd_attempts d)"
      "hd_retryAt d' = Some (t + BACKOFF_MINUTES ! hd_attempts d * 60000)"
      and same: "hd_id d' = hd_id d" "hd_endpointId d' = hd_endpointId d"
      using d'(2) by (auto simp: moved_on_def)
    have "\<forall>t' \<in> set ts. due t' d'"
      using Cons.prems(4) a(3) backoff_le [OF a(1)] by (fastforce simp: due_def)
    moreover have "hd_endpointId d' \<in> he_id ` set (hw_endpoints ?w')"
    proof -
      have "he_id ` set (hw_endpoints ?w') = he_id ` set (hw_endpoints w)"
        using attemptRow_endpoint_ids [OF Cons.prems(1)] unfolding eq by (metis list.set_map)
      then show ?thesis using Cons.prems(3) same by simp
    qed
    ultimately show ?thesis
      using Cons.IH [of ?w' d'] ok in' Cons.prems(4,6) a(2) same(1) by simp
  qed
qed

theorem attempts_settle_witness:
  "\<exists>d'. delivery_by_id (foldl (attempt_at down_receiver 2) one_queued
       [0, 10800000, 21600000, 32400000, 43200000, 54000000]) 2 = Some d' \<and> hd_retryAt d' = None"
proof -
  have "hooks_ok one_queued"
    by (simp add: hooks_ok_def one_queued_eq quiet_hooks_def endpoint_ok_def delivery_ok_def
        MAX_CONSECUTIVE_FAILURES_def)
  moreover have "first_delivery \<in> set (hw_deliveries one_queued)" by (simp add: one_queued_eq)
  ultimately show ?thesis
    using attempts_settle [of one_queued first_delivery
        "[0, 10800000, 21600000, 32400000, 43200000, 54000000]" down_receiver]
    by (fastforce simp: one_queued_eq quiet_hooks_def due_def)
qed

section \<open>One organisation's endpoints are out of another's reach\<close>

datatype endpoint_command =
    Create_Endpoint nat create_endpoint_dto
  | Update_Endpoint nat update_endpoint_dto
  | Remove_Endpoint nat
  | Test_Endpoint nat
  | Redeliver nat

fun run_command :: "hooks_service \<Rightarrow> org \<Rightarrow> endpoint_command \<Rightarrow> hook_world \<Rightarrow> hook_world" where
  "run_command x me (Create_Endpoint u dto) w = snd (endpoint_create x u me dto w)"
| "run_command x me (Update_Endpoint i dto) w = snd (endpoint_update x me i dto w)"
| "run_command x me (Remove_Endpoint i) w = snd (endpoint_remove me i w)"
| "run_command x me (Test_Endpoint i) w = snd (endpoint_test x me i w)"
| "run_command x me (Redeliver i) w = snd (endpoint_redeliver me i w)"

definition foreign_endpoints :: "org \<Rightarrow> hook_world \<Rightarrow> hook_endpoint list" where
  "foreign_endpoints me w = filter (\<lambda>p. he_org p \<noteq> me) (hw_endpoints w)"

definition foreign_deliveries :: "org \<Rightarrow> hook_world \<Rightarrow> hook_delivery list" where
  "foreign_deliveries me w =
     filter (\<lambda>d. \<exists>p \<in> set (foreign_endpoints me w). he_id p = hd_endpointId d) (hw_deliveries w)"

lemma filter_update_rows:
  "(\<And>r. r \<in> set rows \<Longrightarrow> p r \<Longrightarrow> \<not> Q r \<and> \<not> Q (f r)) \<Longrightarrow> filter Q (update_rows p f rows) = filter Q rows"
  by (induction rows) auto

lemma foreign_update:
  assumes "hooks_ok w" "endpoint_by_id w i = Some p" "he_org p = me" "\<And>q. he_org (f q) = he_org q"
  shows "foreign_endpoints me (update_endpoint i f w) = foreign_endpoints me w"
proof -
  have p: "p \<in> set (hw_endpoints w)" "he_id p = i"
    using assms(2) by (auto simp: endpoint_by_id_def dest: find_SomeD)
  have "q = p" if "q \<in> set (hw_endpoints w)" "he_id q = i" for q
    using unique_key_eq [of he_id "hw_endpoints w" q p] assms(1) that p by (simp add: hooks_ok_def)
  then show ?thesis using assms(3,4)
    unfolding foreign_endpoints_def update_endpoint_def by (simp, intro filter_update_rows) auto
qed

lemma foreign_deliveries_cong:
  "foreign_endpoints me w' = foreign_endpoints me w \<Longrightarrow> hw_deliveries w' = hw_deliveries w \<Longrightarrow>
   foreign_deliveries me w' = foreign_deliveries me w"
  by (simp add: foreign_deliveries_def)

lemma own_not_foreign:
  assumes "hooks_ok w" "endpoint_by_id w i = Some p" "he_org p = me" "q \<in> set (foreign_endpoints me w)"
  shows "he_id q \<noteq> i"
  using assms unique_key_eq [of he_id "hw_endpoints w" q p]
  by (auto simp: foreign_endpoints_def endpoint_by_id_def hooks_ok_def dest!: find_SomeD)

lemma isolated_test:
  assumes ok: "hooks_ok w" and p: "endpoint_by_id w i = Some p" "he_org p = me"
  shows "foreign_endpoints me (snd (sendTest e p w)) = foreign_endpoints me w \<and>
    foreign_deliveries me (snd (sendTest e p w)) = foreign_deliveries me w"
proof -
  let ?w' = "snd (sendTest e p w)"
  have id: "he_id p = i" using p(1) by (auto simp: endpoint_by_id_def dest: find_SomeD)
  obtain d r where w': "hw_deliveries ?w' = hw_deliveries w @ [d]" "hd_endpointId d = he_id p"
    and ends: "hw_endpoints ?w' = hw_endpoints w \<or>
     (\<exists>t. hw_endpoints ?w' =
        update_rows (\<lambda>q. he_id q = he_id p) (\<lambda>q. q\<lparr>he_failureCount := 0, he_lastSuccessAt := Some t\<rparr>) (hw_endpoints w))"
    using sendTest_shape [OF ok] by metis
  have "foreign_endpoints me ?w' = foreign_endpoints me w"
    using ends foreign_update [OF ok p] id by (auto simp: foreign_endpoints_def update_endpoint_def)
  moreover have "\<not> (\<exists>q \<in> set (foreign_endpoints me w). he_id q = hd_endpointId d)"
    using own_not_foreign [OF ok p] w'(2) id by auto
  ultimately show ?thesis using w'(1) by (simp add: foreign_deliveries_def)
qed

lemma isolated_redeliver:
  assumes ok: "hooks_ok w"
  shows "foreign_deliveries me (snd (endpoint_redeliver me i w)) = foreign_deliveries me w"
proof -
  let ?mine = "\<lambda>d. hd_id d = i \<and>
    (case endpoint_by_id w (hd_endpointId d) of None \<Rightarrow> False | Some p \<Rightarrow> he_org p = me)"
  show ?thesis
  proof (cases "List.find ?mine (hw_deliveries w)")
    case None
    then show ?thesis by (simp add: endpoint_redeliver_def)
  next
    case (Some d)
    then obtain p where d: "d \<in> set (hw_deliveries w)" "hd_id d = i"
      and p: "endpoint_by_id w (hd_endpointId d) = Some p" "he_org p = me"
      by (auto dest!: find_SomeD split: option.splits)
    have only: "x = d" if "x \<in> set (hw_deliveries w)" "hd_id x = i" for x
      using unique_key_eq [of hd_id "hw_deliveries w" x d] ok that d by (simp add: hooks_ok_def)
    have "filter (\<lambda>x. \<exists>q \<in> set (foreign_endpoints me w). he_id q = hd_endpointId x)
        (update_rows (\<lambda>x. hd_id x = i) f (hw_deliveries w)) =
      filter (\<lambda>x. \<exists>q \<in> set (foreign_endpoints me w). he_id q = hd_endpointId x) (hw_deliveries w)"
      if "\<And>x. hd_endpointId (f x) = hd_endpointId x" for f
      by (rule filter_update_rows) (use only own_not_foreign [OF ok p] that in auto)
    then show ?thesis using Some
      by (auto simp: endpoint_redeliver_def Let_def foreign_deliveries_def foreign_endpoints_def update_delivery_def)
  qed
qed

text \<open>C10: nothing one organisation asks of the endpoint service, whatever identifiers it names,
  changes another organisation's endpoints or any delivery queued for them.\<close>
theorem endpoints_isolated:
  assumes "hooks_ok w" "parser_ok x"
  shows "foreign_endpoints me (run_command x me c w) = foreign_endpoints me w \<and>
         foreign_deliveries me (run_command x me c w) = foreign_deliveries me w"
proof (cases c)
  case (Create_Endpoint u dto)
  obtain r w' where eq: "endpoint_create x u me dto w = (r, w')" by fastforce
  from create_shape [OF eq] have "foreign_endpoints me w' = foreign_endpoints me w"
    "hw_deliveries w' = hw_deliveries w"
    by (auto simp: foreign_endpoints_def)
  then show ?thesis using eq Create_Endpoint foreign_deliveries_cong [of me w' w] by simp
next
  case (Update_Endpoint i dto)
  obtain r w' where eq: "endpoint_update x me i dto w = (r, w')" by fastforce
  from update_shape [OF eq assms(2)] have "foreign_endpoints me w' = foreign_endpoints me w"
    "hw_deliveries w' = hw_deliveries w"
    using foreign_update [OF assms(1)] by (auto simp: update_endpoint_def)
  then show ?thesis using eq Update_Endpoint foreign_deliveries_cong [of me w' w] by simp
next
  case (Remove_Endpoint i)
  let ?w' = "w\<lparr>hw_endpoints := filter (\<lambda>p. he_id p \<noteq> i) (hw_endpoints w),
    hw_deliveries := filter (\<lambda>d. hd_endpointId d \<noteq> i) (hw_deliveries w)\<rparr>"
  have "snd (endpoint_remove me i w) = w \<or>
      (\<exists>p. endpoint_by_id w i = Some p \<and> he_org p = me \<and> snd (endpoint_remove me i w) = ?w')"
    by (auto simp: endpoint_remove_def svc_eval dest: owned_shape split: prod.splits sum.splits)
  moreover have "foreign_endpoints me ?w' = foreign_endpoints me w \<and> foreign_deliveries me ?w' = foreign_deliveries me w"
    if "endpoint_by_id w i = Some p" "he_org p = me" for p
  proof -
    have other: "he_id q \<noteq> i" if "q \<in> set (foreign_endpoints me w)" for q
      by (rule own_not_foreign [OF assms(1) \<open>endpoint_by_id w i = Some p\<close> \<open>he_org p = me\<close> that])
    have "foreign_endpoints me ?w' = filter (\<lambda>p. he_id p \<noteq> i) (foreign_endpoints me w)"
      by (simp add: foreign_endpoints_def conj_commute)
    also have "\<dots> = foreign_endpoints me w" using other by (simp add: filter_id_conv)
    finally have ends: "foreign_endpoints me ?w' = foreign_endpoints me w" .
    moreover have "foreign_deliveries me ?w' = foreign_deliveries me w"
      unfolding foreign_deliveries_def ends using other by (auto intro!: filter_cong simp: conj_commute)
    ultimately show ?thesis by simp
  qed
  ultimately show ?thesis using Remove_Endpoint by auto
next
  case (Test_Endpoint i)
  have "snd (endpoint_test x me i w) = w \<or> (\<exists>p. endpoint_by_id w i = Some p \<and> he_org p = me \<and>
      snd (endpoint_test x me i w) = snd (sendTest (hx_hooks x) p w))"
    by (auto simp: endpoint_test_def svc_eval dest!: owned_shape split: prod.splits sum.splits if_splits)
  then show ?thesis using Test_Endpoint isolated_test [OF assms(1)] by auto
next
  case (Redeliver i)
  have "hw_endpoints (snd (endpoint_redeliver me i w)) = hw_endpoints w"
    by (auto simp: endpoint_redeliver_def Let_def update_delivery_def split: option.split)
  then show ?thesis using Redeliver isolated_redeliver [OF assms(1)] by (simp add: foreign_endpoints_def)
qed

definition sample_service :: hooks_service where
  "sample_service =
     \<lparr>hx_world = sample_world, hx_env = sample_env, hx_parse = (\<lambda>_. Some (host_url ''hooks.example.com'')),
      hx_allowInsecureUrls = False, hx_encrypt = (\<lambda>s. s), hx_wabaName = (\<lambda>_. None), hx_hooks = down_receiver\<rparr>"

theorem endpoints_isolated_witness:
  "foreign_endpoints ''mallory'' (run_command sample_service ''mallory'' (Remove_Endpoint 1) one_queued) \<noteq> [] \<and>
   foreign_deliveries ''mallory'' (run_command sample_service ''mallory'' (Remove_Endpoint 1) one_queued) =
     [first_delivery]"
proof -
  have "hooks_ok one_queued"
    by (simp add: hooks_ok_def one_queued_eq quiet_hooks_def endpoint_ok_def delivery_ok_def
        MAX_CONSECUTIVE_FAILURES_def)
  moreover have "parser_ok sample_service" by (simp add: parser_ok_def sample_service_def host_url_def)
  ultimately have iso: "foreign_endpoints ''mallory'' (run_command sample_service ''mallory'' (Remove_Endpoint 1) one_queued) =
      foreign_endpoints ''mallory'' one_queued"
    "foreign_deliveries ''mallory'' (run_command sample_service ''mallory'' (Remove_Endpoint 1) one_queued) =
      foreign_deliveries ''mallory'' one_queued"
    using endpoints_isolated by blast+
  show ?thesis unfolding iso
    by (simp add: one_queued_eq quiet_hooks_def foreign_endpoints_def foreign_deliveries_def)
qed

end
