(* ===== verification/Razorpay.thy ===== *)
theory Razorpay
  imports Db Text
begin

text \<open>
  \<open>src/billing/razorpay.service.ts\<close>: the provider's REST API. Every request is appended to
  \<open>w_rz_log\<close>, and what the provider answers is asked of \<open>e_api\<close>; a method turns an error
  answer into an exception, a null, or nothing, as the code does.
\<close>

section \<open>Sending\<close>

text \<open>
  \<open>this.api()\<close> and the call on it: without credentials the getter throws inside the
  caller's \<open>try\<close>, so it is met as an error with no response body.
\<close>

definition rz_send ::
  "(rz_api \<Rightarrow> rz_request list \<Rightarrow> rz_request \<Rightarrow> rz_error + 'a) \<Rightarrow> env \<Rightarrow> rz_request \<Rightarrow>
   world \<Rightarrow> (rz_error + 'a) \<times> world" where
  "rz_send answer e req w =
     (if isConfigured e
      then (answer (e_api e) (w_rz_log w) req, w\<lparr>w_rz_log := w_rz_log w @ [req]\<rparr>)
      else (Inl \<lparr>rze_description = None,
                 rze_message = ''Payments are not configured on this deployment''\<rparr>, w))"

definition rz_fail :: "rz_error \<Rightarrow> http_exn" where
  "rz_fail err = BadGateway (nullish_def_val (rze_description err) ''Payment provider request failed'')"

text \<open>A call whose errors are thrown on, and one whose errors become null.\<close>

definition rz_or_fail :: "(rz_error + 'a) \<times> world \<Rightarrow> (http_exn + 'a) \<times> world" where
  "rz_or_fail r = (case r of (Inl err, w) \<Rightarrow> (Inl (rz_fail err), w) | (Inr x, w) \<Rightarrow> (Inr x, w))"

definition rz_or_null :: "(rz_error + 'a) \<times> world \<Rightarrow> 'a option \<times> world" where
  "rz_or_null r = (case r of (Inl err, w) \<Rightarrow> (None, w) | (Inr x, w) \<Rightarrow> (Some x, w))"

text \<open>A method that never throws, in the monad of those that may.\<close>

definition safely :: "('s \<Rightarrow> 'a \<times> 's) \<Rightarrow> ('s, 'a) svc" where
  "safely m s = (let (x, s') = m s in (Inr x, s'))"

section \<open>Reading the provider's wording\<close>

definition error_text :: "rz_error \<Rightarrow> string" where
  "error_text err = js_lower (nullish_def_val (rze_description err) '''')"

definition isDuplicateCustomer :: "rz_error \<Rightarrow> bool" where
  "isDuplicateCustomer err = contains_text ''already exists'' (error_text err)"

text \<open>\<open>/max.?amount/\<close>: the dot is any one character but a line break.\<close>

definition starts_with :: "string \<Rightarrow> string \<Rightarrow> bool" where
  "starts_with pre s = (take (length pre) s = pre)"

definition max_amount_here :: "string \<Rightarrow> bool" where
  "max_amount_here s =
     (starts_with ''max'' s \<and>
      (starts_with ''amount'' (drop 3 s) \<or>
       (case drop 3 s of [] \<Rightarrow> False | c # r \<Rightarrow> c \<noteq> CHR 0x0A \<and> c \<noteq> CHR 0x0D \<and> starts_with ''amount'' r)))"

fun max_amount_in :: "string \<Rightarrow> bool" where
  "max_amount_in [] = False"
| "max_amount_in (c # cs) = (max_amount_here (c # cs) \<or> max_amount_in cs)"

definition isMandateCeiling :: "rz_error \<Rightarrow> bool" where
  "isMandateCeiling err =
     (let description = error_text err in
      max_amount_in description \<or> contains_text ''authoriz'' description \<or>
      contains_text ''mandate'' description)"

section \<open>Checkout signatures\<close>

definition hex_value :: "char \<Rightarrow> nat option" where
  "hex_value c =
     (let n = (of_char c :: nat) in
      if 48 \<le> n \<and> n \<le> 57 then Some (n - 48)
      else if 97 \<le> n \<and> n \<le> 102 then Some (n - 87)
      else if 65 \<le> n \<and> n \<le> 70 then Some (n - 55)
      else None)"

text \<open>\<open>Buffer.from(s, 'hex')\<close>: bytes up to the first pair that is not two hex digits.\<close>

fun hex_decode :: "string \<Rightarrow> string" where
  "hex_decode (a # b # r) =
     (case (hex_value a, hex_value b) of
        (Some x, Some y) \<Rightarrow> char_of (16 * x + y) # hex_decode r
      | _ \<Rightarrow> [])"
| "hex_decode _ = []"

text \<open>\<open>e_hmac secret text\<close> is the digest's bytes; printing them in hexadecimal and reading
  them back is left out.\<close>

definition verifyCheckoutSignature :: "env \<Rightarrow> string \<Rightarrow> string \<Rightarrow> string \<Rightarrow> bool" where
  "verifyCheckoutSignature e paymentId subscriptionId signature =
     (if \<not> truthy (e_keySecret e) then False
      else
        let expected = e_hmac e (the (e_keySecret e)) (paymentId @ ''|'' @ subscriptionId);
            received = hex_decode signature in
        length expected = length received \<and> expected = received)"

section \<open>Customers\<close>

definition RZ_PAGE_SIZE :: nat where "RZ_PAGE_SIZE = 100"
definition RZ_MAX_PAGES :: nat where "RZ_MAX_PAGES = 10"

fun search_customers ::
  "env \<Rightarrow> string \<Rightarrow> nat \<Rightarrow> nat \<Rightarrow> world \<Rightarrow> string option \<times> world" where
  "search_customers e wanted page 0 w = (None, w)"
| "search_customers e wanted page (Suc left) w =
     (case rz_send api_getCustomers e (GetCustomers RZ_PAGE_SIZE (page * RZ_PAGE_SIZE)) w of
        (Inl _, w') \<Rightarrow> (None, w')
      | (Inr items, w') \<Rightarrow>
          (case List.find (\<lambda>c. map_option (\<lambda>m. js_lower (js_trim m)) (snd c) = Some wanted) items of
             Some hit \<Rightarrow> (Some (fst hit), w')
           | None \<Rightarrow>
               if length items < RZ_PAGE_SIZE then (None, w')
               else search_customers e wanted (Suc page) left w'))"

definition findCustomerByEmail :: "env \<Rightarrow> string \<Rightarrow> world \<Rightarrow> string option \<times> world" where
  "findCustomerByEmail e email w =
     (let wanted = js_lower (js_trim email) in
      if wanted = [] \<or> \<not> isConfigured e then (None, w)
      else search_customers e wanted 0 RZ_MAX_PAGES w)"

definition updateCustomer :: "env \<Rightarrow> string \<Rightarrow> string option \<Rightarrow> string option \<Rightarrow> world \<Rightarrow> world" where
  "updateCustomer e customerId name email w =
     (if \<not> truthy name \<and> \<not> truthy email then w
      else snd (rz_send api_patchCustomer e (PatchCustomer customerId name email) w))"

definition createCustomer ::
  "env \<Rightarrow> string option \<Rightarrow> string option \<Rightarrow> (string \<times> string) list \<Rightarrow> (world, string) svc" where
  "createCustomer e name email notes w =
     (case rz_send api_postCustomer e (PostCustomer name email notes) w of
        (Inr i, w') \<Rightarrow> (Inr i, w')
      | (Inl err, w') \<Rightarrow>
          let (existing, w2) =
            (if isDuplicateCustomer err \<and> truthy email then findCustomerByEmail e (the email) w'
             else (None, w'))
          in (case existing of
                Some i \<Rightarrow> (Inr i, updateCustomer e i name None w2)
              | None \<Rightarrow> (Inl (rz_fail err), w2)))"

section \<open>Subscriptions\<close>

text \<open>Zero is dropped from the request as a missing value is.\<close>

definition truthy_num :: "int option \<Rightarrow> int option" where
  "truthy_num n = (if n = Some 0 then None else n)"

definition createSubscription ::
  "env \<Rightarrow> string option \<Rightarrow> string \<Rightarrow> int option \<Rightarrow> int option \<Rightarrow> (string \<times> string) list \<Rightarrow>
   (world, rz_subscription) svc" where
  "createSubscription e customerId planId startAt quantity notes w =
     rz_or_fail (rz_send api_subscription e
       (PostSubscription customerId planId (truthy_num startAt) (truthy_num quantity) notes) w)"

definition addSubscriptionAddon ::
  "env \<Rightarrow> string \<Rightarrow> string \<Rightarrow> paise \<Rightarrow> string \<Rightarrow> int \<Rightarrow> world \<Rightarrow> string option \<times> world" where
  "addSubscriptionAddon e subscriptionId name amount currency quantity w =
     rz_or_null (rz_send api_addon e (PostAddon subscriptionId name amount currency quantity) w)"

definition MANDATE_CEILING :: string where
  "MANDATE_CEILING =
     ''This plan costs more than the payment mandate on this account allows, '' @
     ''so it cannot be scheduled. Move up a tier instead '' @ em_dash @ '' that asks the '' @
     ''customer to authorise the larger amount, which only they can do.''"

definition changeSubscriptionPlan ::
  "env \<Rightarrow> string \<Rightarrow> string \<Rightarrow> bool \<Rightarrow> (world, rz_subscription) svc" where
  "changeSubscriptionPlan e subscriptionId planId atCycleEnd w =
     (case rz_send api_subscription e (PatchSubscriptionPlan subscriptionId planId atCycleEnd) w of
        (Inr s, w') \<Rightarrow> (Inr s, w')
      | (Inl err, w') \<Rightarrow>
          (Inl (if isMandateCeiling err then BadRequest MANDATE_CEILING else rz_fail err), w'))"

definition cancelSubscription :: "env \<Rightarrow> string \<Rightarrow> bool \<Rightarrow> (world, rz_subscription) svc" where
  "cancelSubscription e subscriptionId atCycleEnd w =
     rz_or_fail (rz_send api_subscription e (PostCancel subscriptionId atCycleEnd) w)"

definition setSubscriptionQuantity ::
  "env \<Rightarrow> string \<Rightarrow> int \<Rightarrow> bool \<Rightarrow> world \<Rightarrow> rz_subscription option \<times> world" where
  "setSubscriptionQuantity e subscriptionId quantity atCycleEnd w =
     rz_or_null (rz_send api_subscription e (PatchSubscriptionQuantity subscriptionId quantity atCycleEnd) w)"

definition fetchSubscription :: "env \<Rightarrow> string \<Rightarrow> (world, rz_subscription) svc" where
  "fetchSubscription e subscriptionId w =
     rz_or_fail (rz_send api_subscription e (GetSubscription subscriptionId) w)"

section \<open>Plans\<close>

definition createPlan ::
  "env \<Rightarrow> string \<Rightarrow> paise \<Rightarrow> string \<Rightarrow> string option \<Rightarrow> string option \<Rightarrow> int option \<Rightarrow> (world, rz_plan) svc" where
  "createPlan e name amount currency description period interval w =
     rz_or_fail (rz_send api_plan e
       (PostPlan name amount currency (if truthy description then description else None)
          (nullish_def_val period ''monthly'') (nullish_def_val interval 1)) w)"

text \<open>Cached for the life of the process: \<open>w_rz_plans\<close>.\<close>

definition fetchPlan :: "env \<Rightarrow> string option \<Rightarrow> world \<Rightarrow> rz_plan option \<times> world" where
  "fetchPlan e planId w =
     (if \<not> truthy planId \<or> \<not> isConfigured e then (None, w)
      else
        let i = the planId in
        case w_rz_plans w i of
          Some cached \<Rightarrow> (Some cached, w)
        | None \<Rightarrow>
            (case rz_send api_plan e (GetPlan i) w of
               (Inl _, w') \<Rightarrow> (None, w')
             | (Inr p, w') \<Rightarrow> (Some p, w'\<lparr>w_rz_plans := (w_rz_plans w')(i \<mapsto> p)\<rparr>)))"

section \<open>What a call can change\<close>

text \<open>
  Two worlds that agree on everything but the conversation with the provider and the plans
  remembered from it, the later one having asked no less.
\<close>

definition asked_only :: "world \<Rightarrow> world \<Rightarrow> bool" where
  "asked_only w w' =
     (\<exists>l ps. w' = w\<lparr>w_rz_log := w_rz_log w @ l, w_rz_plans := ps\<rparr>)"

named_theorems asks \<open>calls that only ask the provider\<close>

lemma asked_only_refl [simp]: "asked_only w w"
  unfolding asked_only_def by (rule exI [of _ "[]"]) (simp add: exI [of _ "w_rz_plans w"])

lemma asked_only_trans: "asked_only w w' \<Longrightarrow> asked_only w' w'' \<Longrightarrow> asked_only w w''"
  unfolding asked_only_def by force

lemma asked_only_eq:
  assumes "asked_only w w'"
  shows "w_settings w' = w_settings w" "w_plans w' = w_plans w" "w_subs w' = w_subs w"
    "w_groups w' = w_groups w" "w_payments w' = w_payments w" "w_events w' = w_events w"
    "w_invoices w' = w_invoices w" "w_receipts w' = w_receipts w"
    "w_invoiceCounter w' = w_invoiceCounter w" "w_receiptCounter w' = w_receiptCounter w"
    "w_redis w' = w_redis w" "w_mails w' = w_mails w" "w_nextId w' = w_nextId w"
    "w_documentMails w' = w_documentMails w" "w_wabaOrgs w' = w_wabaOrgs w"
    "w_numbers w' = w_numbers w" "w_users w' = w_users w" "w_provisioned w' = w_provisioned w"
  using assms by (auto simp: asked_only_def)

lemma asked_only_append [simp]: "asked_only w (w\<lparr>w_rz_log := w_rz_log w @ l\<rparr>)"
  unfolding asked_only_def by (rule exI [of _ l], rule exI [of _ "w_rz_plans w"]) simp

lemma asked_only_send [asks]: "asked_only w (snd (rz_send f e req w))"
  by (simp add: rz_send_def)

lemma snd_rz_or_fail [simp]: "snd (rz_or_fail r) = snd r"
  by (cases r rule: prod.exhaust) (auto simp: rz_or_fail_def split: sum.splits)

lemma snd_rz_or_null [simp]: "snd (rz_or_null r) = snd r"
  by (cases r rule: prod.exhaust) (auto simp: rz_or_null_def split: sum.splits)

lemma asked_only_sendD: "rz_send f e req w = (r, w') \<Longrightarrow> asked_only w w'"
  using asked_only_send [of w f e req] by simp

lemma asked_only_search [asks]: "asked_only w (snd (search_customers e wanted page left w))"
proof (induction left arbitrary: page w)
  case (Suc left)
  have "asked_only w (snd (search_customers e wanted (Suc page) left w'))" if "asked_only w w'" for w'
    using Suc.IH that by (rule asked_only_trans [rotated])
  then show ?case
    by (auto split: prod.splits sum.splits option.splits dest!: asked_only_sendD)
qed simp

lemma asked_only_findCustomer [asks]: "asked_only w (snd (findCustomerByEmail e email w))"
  by (simp add: findCustomerByEmail_def Let_def asks)

lemma asked_only_updateCustomer [asks]: "asked_only w (updateCustomer e i name email w)"
  by (simp add: updateCustomer_def asks)

lemma asked_only_createCustomer [asks]: "asked_only w (snd (createCustomer e name email notes w))"
proof -
  have find: "asked_only w0 w1" if "findCustomerByEmail e m w0 = (x, w1)" for m w0 x w1
    using asked_only_findCustomer [of w0 e m] that by simp
  show ?thesis
    by (auto simp: createCustomer_def split: prod.splits sum.splits option.splits if_splits
        dest!: asked_only_sendD find intro: asked_only_trans asked_only_updateCustomer)
qed

lemma asked_only_calls [asks]:
  "asked_only w (snd (createSubscription e c p st q n w))"
  "asked_only w (snd (addSubscriptionAddon e s n' a cu qu w))"
  "asked_only w (snd (cancelSubscription e s b w))"
  "asked_only w (snd (setSubscriptionQuantity e s qu b w))"
  "asked_only w (snd (fetchSubscription e s w))"
  "asked_only w (snd (createPlan e nm am cu d pe iv w))"
  by (simp_all add: createSubscription_def addSubscriptionAddon_def cancelSubscription_def
      setSubscriptionQuantity_def fetchSubscription_def createPlan_def asks)

lemma asked_only_changePlan [asks]: "asked_only w (snd (changeSubscriptionPlan e s p b w))"
  by (auto simp: changeSubscriptionPlan_def split: prod.splits sum.splits dest!: asked_only_sendD)

lemma asked_only_fetchPlan [asks]: "asked_only w (snd (fetchPlan e p w))"
proof -
  have "asked_only w (w'\<lparr>w_rz_plans := ps\<rparr>)" if "asked_only w w'" for w' ps
    using that unfolding asked_only_def by force
  then show ?thesis
    by (auto simp: fetchPlan_def Let_def split: prod.splits sum.splits option.splits
        dest!: asked_only_sendD)
qed

text \<open>A method's whole effect, when it only asks.\<close>

lemma asksD [asks]: "asked_only w (snd r) \<Longrightarrow> r = (x, w') \<Longrightarrow> asked_only w w'"
  by simp

end
