(* ===== verification/Document_Series.thy ===== *)
theory Document_Series
  imports Prelude
begin

text \<open>
  The contract of a numbered book of documents, which the invoice and the receipt services
  both keep: a counter per financial year, one statement that claims the next number, and a
  document written under the number claimed. What follows from it (no gap, no reuse) is
  proved once here.
\<close>

section \<open>Claiming a number\<close>

text \<open>
  \<open>INSERT \<dots> VALUES (year, 2) ON CONFLICT DO UPDATE SET next = next + 1 RETURNING next - 1\<close>.
\<close>

definition claim_sequence ::
  "(string \<Rightarrow> nat option) \<Rightarrow> string \<Rightarrow> nat \<times> (string \<Rightarrow> nat option)" where
  "claim_sequence counter year =
     (case counter year of
        None \<Rightarrow> (1, counter(year \<mapsto> 2))
      | Some next \<Rightarrow> (next, counter(year \<mapsto> Suc next)))"

definition next_number :: "(string \<Rightarrow> nat option) \<Rightarrow> string \<Rightarrow> nat" where
  "next_number counter year = (case counter year of None \<Rightarrow> 1 | Some next \<Rightarrow> next)"

lemma claim_sequence_next:
  "fst (claim_sequence c y) = next_number c y"
  "next_number (snd (claim_sequence c y)) y' = (if y' = y then Suc (next_number c y) else next_number c y')"
  by (auto simp: claim_sequence_def next_number_def split: option.splits)

section \<open>Consecutive numbers\<close>

text \<open>The documents of a year, oldest first, carry 1, 2, 3 and so on up to the counter.\<close>

definition consecutive :: "(string \<Rightarrow> nat option) \<Rightarrow> (string \<times> nat) list \<Rightarrow> bool" where
  "consecutive counter written =
     (\<forall>y. 1 \<le> next_number counter y \<and>
          map snd (filter (\<lambda>p. fst p = y) written) = [1..<next_number counter y])"

lemma consecutive_start: "(\<And>y. c y = None) \<Longrightarrow> consecutive c []"
  by (simp add: consecutive_def next_number_def)

lemma consecutive_claim:
  assumes "consecutive c ws"
  shows "consecutive (snd (claim_sequence c y)) (ws @ [(y, next_number c y)])"
  using assms by (auto simp: consecutive_def claim_sequence_next)

lemma consecutive_distinct:
  assumes "consecutive c ws"
  shows "distinct ws"
proof -
  have "distinct (map snd (filter (\<lambda>p. fst p = y) ws))" for y
    using assms by (simp add: consecutive_def)
  then have "distinct (filter (\<lambda>p. fst p = y) ws)" for y
    by (simp add: distinct_map)
  then show ?thesis
  proof (induction ws)
    case (Cons p ws)
    have "distinct (filter (\<lambda>q. fst q = y) ws)" for y
      using Cons.prems [of y] by (auto split: if_splits)
    moreover have "p \<notin> set ws" using Cons.prems [of "fst p"] by auto
    ultimately show ?case using Cons.IH by simp
  qed simp
qed

lemma consecutive_member:
  assumes "consecutive c ws"
  shows "(y, n) \<in> set ws \<longleftrightarrow> 1 \<le> n \<and> n < next_number c y"
proof -
  have "n \<in> set (map snd (filter (\<lambda>p. fst p = y) ws)) \<longleftrightarrow> n \<in> set [1..<next_number c y]"
    using assms by (simp add: consecutive_def)
  moreover have "n \<in> set (map snd (filter (\<lambda>p. fst p = y) ws)) \<longleftrightarrow> (y, n) \<in> set ws"
    by (force simp: image_iff)
  ultimately show ?thesis by auto
qed

section \<open>The contract\<close>

locale numbered_book =
  fixes counter :: "'b \<Rightarrow> string \<Rightarrow> nat option"
    and written :: "'b \<Rightarrow> (string \<times> nat) list"
    and issue :: "'d \<Rightarrow> 'b \<Rightarrow> (http_exn + 'x) \<times> 'b"
    and year_of :: "'d \<Rightarrow> string"
  assumes issued: "issue d b = (Inr x, b') \<Longrightarrow>
      1 \<le> next_number (counter b) (year_of d) \<and>
      counter b' = snd (claim_sequence (counter b) (year_of d)) \<and>
      written b' = written b @ [(year_of d, next_number (counter b) (year_of d))]"
begin

lemma issue_consecutive:
  "consecutive (counter b) (written b) \<Longrightarrow> issue d b = (Inr x, b') \<Longrightarrow>
   consecutive (counter b') (written b')"
  using consecutive_claim [of "counter b" "written b" "year_of d"] issued [of d b x b'] by simp

lemma issue_grows: "issue d b = (Inr x, b') \<Longrightarrow> length (written b') = Suc (length (written b))"
  using issued [of d b x b'] by simp

end

text \<open>A book whose refusals leave no trace: the number goes back with the transaction.\<close>

locale atomic_book = numbered_book counter written issue year_of
  for counter :: "'b \<Rightarrow> string \<Rightarrow> nat option"
    and written :: "'b \<Rightarrow> (string \<times> nat) list"
    and issue :: "'d \<Rightarrow> 'b \<Rightarrow> (http_exn + 'x) \<times> 'b"
    and year_of :: "'d \<Rightarrow> string" +
  assumes refused: "issue d b = (Inl err, b') \<Longrightarrow> b' = b"
begin

lemma any_consecutive:
  assumes "consecutive (counter b) (written b)"
  shows "consecutive (counter (snd (issue d b))) (written (snd (issue d b)))"
proof (cases "issue d b")
  case (Pair r b')
  with assms show ?thesis by (cases r) (auto simp: issue_consecutive dest: refused)
qed

end

end
