(* ===== verification/Receipts.thy ===== *)
theory Receipts
  imports Invoice_Number Plan_Limits Document_Series
begin

text \<open>
  \<open>src/billing/receipt.service.ts\<close>: a receipt per invoice, in its own series and from its own
  counter, written inside the transaction that writes the invoice. Also the settings both
  document services read.
\<close>

section \<open>Settings\<close>

definition DEFAULT_SERIES :: string where "DEFAULT_SERIES = ''WAC''"
definition DEFAULT_TIMEZONE :: string where "DEFAULT_TIMEZONE = ''Asia/Kolkata''"

definition document_series :: "invoice_config \<Rightarrow> string" where
  "document_series c =
     (let value = js_upper (nullish_def_val (ic_series c) DEFAULT_SERIES) in
      if series_ok value then value else DEFAULT_SERIES)"

definition document_timeZone :: "invoice_config \<Rightarrow> string" where
  "document_timeZone c = nullish_def_val (ic_timezone c) DEFAULT_TIMEZONE"

lemma document_series_ok: "series_ok (document_series c)"
proof -
  have "series_ok DEFAULT_SERIES" by code_simp
  then show ?thesis by (simp add: document_series_def Let_def)
qed

definition receipt_sequence :: "string \<Rightarrow> (world, nat) svc" where
  "receipt_sequence year w =
     (let (sequence, counter) = claim_sequence (w_receiptCounter w) year;
          w' = w\<lparr>w_receiptCounter := counter\<rparr> in
      if sequence < 1 then (Inl (RuntimeError (''Receipt counter returned nothing for '' @ year)), w')
      else (Inr sequence, w'))"

section \<open>Writing\<close>

definition receipt_clash :: "receipt_row \<Rightarrow> receipt_row \<Rightarrow> bool" where
  "receipt_clash a b =
     (re_number a = re_number b \<or> re_invoiceId a = re_invoiceId b \<or>
      re_razorpayPaymentId a = re_razorpayPaymentId b \<or>
      re_financialYear a = re_financialYear b \<and> re_sequence a = re_sequence b)"

definition receipt_of :: "string \<Rightarrow> nat \<Rightarrow> string \<Rightarrow> nat \<Rightarrow> invoice_row \<Rightarrow> receipt_row" where
  "receipt_of year sequence number i invoice =
     \<lparr>re_id = i, re_number = number, re_financialYear = year, re_sequence = sequence,
      re_invoiceId = in_id invoice, re_razorpayPaymentId = in_razorpayPaymentId invoice,
      re_org = in_org invoice, re_billedToName = in_billedToName invoice,
      re_billedToEmail = in_billedToEmail invoice, re_organisationName = in_organisationName invoice,
      re_summary = in_summary invoice, re_amount = in_total invoice,
      re_currency = in_currency invoice, re_paymentMethod = in_paymentMethod invoice,
      re_paymentReference = Some (in_razorpayPaymentId invoice), re_issuedAt = in_issuedAt invoice,
      re_receivedAt = in_paidAt invoice, re_emailedAt = None, re_emailedTo = None\<rparr>"

definition receipt_recordIn :: "env \<Rightarrow> invoice_row \<Rightarrow> (world, receipt_row) svc" where
  "receipt_recordIn e invoice =
     (let c = e_invoicing e;
          year = financialYear (e_tz e) (nullish_def_val (in_paidAt invoice) (in_issuedAt invoice))
                   (document_timeZone c) in
      bindE (receipt_sequence year) (\<lambda>sequence.
      (\<lambda>w. let r = receipt_of year sequence (receiptNumber (document_series c) year sequence)
                     (w_nextId w) invoice in
           if list_ex (receipt_clash r) (w_receipts w) then (Inl (UniqueViolation ''Receipt''), w)
           else (Inr r, w\<lparr>w_receipts := w_receipts w @ [r], w_nextId := Suc (w_nextId w)\<rparr>))))"

section \<open>Reading\<close>

text \<open>\<open>orderBy: [{ issuedAt: 'desc' }, { id: 'desc' }]\<close>\<close>

definition receipts_newest :: "receipt_row list \<Rightarrow> receipt_row list" where
  "receipts_newest = sort_key (\<lambda>r. (- re_issuedAt r, - int (re_id r)))"

definition receipts_listForOrg :: "org \<Rightarrow> nat \<Rightarrow> world \<Rightarrow> receipt_row list" where
  "receipts_listForOrg ssoOrgId n w =
     take n (receipts_newest (filter (\<lambda>r. re_org r = ssoOrgId) (w_receipts w)))"

definition receipts_listForAgency :: "org \<Rightarrow> org list \<Rightarrow> nat \<Rightarrow> world \<Rightarrow> receipt_row list" where
  "receipts_listForAgency agencyOrgId clientOrgIds n w =
     take n (receipts_newest
       (filter (\<lambda>r. re_org r \<in> set (agencyOrgId # clientOrgIds)) (w_receipts w)))"

definition receipt_by_number :: "string \<Rightarrow> world \<Rightarrow> receipt_row option" where
  "receipt_by_number number w = List.find (\<lambda>r. re_number r = number) (w_receipts w)"

definition receipt_findAddressedTo :: "org list \<Rightarrow> string \<Rightarrow> world \<Rightarrow> receipt_row option" where
  "receipt_findAddressedTo allowed number w =
     (if \<not> isReceiptNumber number then None
      else
        (case receipt_by_number number w of
           None \<Rightarrow> None
         | Some r \<Rightarrow> if re_org r \<in> set allowed then Some r else None))"

definition receipt_find :: "string \<Rightarrow> world \<Rightarrow> receipt_row option" where
  "receipt_find number w = (if \<not> isReceiptNumber number then None else receipt_by_number number w)"

definition receipt_forInvoice :: "nat \<Rightarrow> world \<Rightarrow> receipt_row option" where
  "receipt_forInvoice invoiceId w = List.find (\<lambda>r. re_invoiceId r = invoiceId) (w_receipts w)"

record receipt_dto =
  rd_number :: string
  rd_financialYear :: string
  rd_issuedAt :: ms
  rd_receivedAt :: "ms option"
  rd_invoiceNumber :: "string option"
  rd_org :: org
  rd_organisationName :: "string option"
  rd_summary :: "string option"
  rd_amount :: paise
  rd_currency :: string
  rd_paymentMethod :: "string option"
  rd_emailedAt :: "ms option"
  rd_razorpayPaymentId :: string

definition receipt_toDto :: "receipt_row \<Rightarrow> string option \<Rightarrow> receipt_dto" where
  "receipt_toDto r number =
     \<lparr>rd_number = re_number r, rd_financialYear = re_financialYear r, rd_issuedAt = re_issuedAt r,
      rd_receivedAt = re_receivedAt r, rd_invoiceNumber = number, rd_org = re_org r,
      rd_organisationName = re_organisationName r, rd_summary = re_summary r,
      rd_amount = re_amount r, rd_currency = re_currency r, rd_paymentMethod = re_paymentMethod r,
      rd_emailedAt = re_emailedAt r, rd_razorpayPaymentId = re_razorpayPaymentId r\<rparr>"

definition receipt_filename :: "receipt_row \<Rightarrow> string" where
  "receipt_filename r = re_number r @ ''.pdf''"

section \<open>The receipt book is a numbered book\<close>

definition receipt_year :: "env \<Rightarrow> invoice_row \<Rightarrow> string" where
  "receipt_year e invoice =
     financialYear (e_tz e) (nullish_def_val (in_paidAt invoice) (in_issuedAt invoice))
       (document_timeZone (e_invoicing e))"

definition receipt_numbers :: "world \<Rightarrow> (string \<times> nat) list" where
  "receipt_numbers w = map (\<lambda>r. (re_financialYear r, re_sequence r)) (w_receipts w)"

lemma receipt_recordIn_InrD:
  assumes "receipt_recordIn e invoice w = (Inr r, w')"
  defines "y \<equiv> receipt_year e invoice"
  defines "n \<equiv> next_number (w_receiptCounter w) y"
  shows "1 \<le> n"
    and "r = receipt_of y n (receiptNumber (document_series (e_invoicing e)) y n) (w_nextId w) invoice"
    and "\<not> list_ex (receipt_clash r) (w_receipts w)"
    and "w' = w\<lparr>w_receiptCounter := snd (claim_sequence (w_receiptCounter w) y),
                w_receipts := w_receipts w @ [r], w_nextId := Suc (w_nextId w)\<rparr>"
  using assms(1)
  by (auto simp: receipt_recordIn_def receipt_sequence_def bindE_def receipt_year_def y_def n_def
      Let_def case_prod_beta claim_sequence_next split: if_splits)

interpretation receipt_book: numbered_book
  w_receiptCounter receipt_numbers "\<lambda>(e, invoice). receipt_recordIn e invoice"
  "\<lambda>(e, invoice). receipt_year e invoice"
proof unfold_locales
  fix d :: "env \<times> invoice_row" and w x w'
  obtain e invoice where d: "d = (e, invoice)" by (cases d)
  assume "(case d of (e, invoice) \<Rightarrow> receipt_recordIn e invoice) w = (Inr x, w')"
  note facts = receipt_recordIn_InrD [OF this [unfolded d prod.case]]
  show "1 \<le> next_number (w_receiptCounter w) (case d of (e, invoice) \<Rightarrow> receipt_year e invoice) \<and>
    w_receiptCounter w' =
      snd (claim_sequence (w_receiptCounter w) (case d of (e, invoice) \<Rightarrow> receipt_year e invoice)) \<and>
    receipt_numbers w' = receipt_numbers w @
      [(case d of (e, invoice) \<Rightarrow> receipt_year e invoice,
        next_number (w_receiptCounter w) (case d of (e, invoice) \<Rightarrow> receipt_year e invoice))]"
    using facts(1) by (simp add: facts(4) receipt_numbers_def d) (simp add: facts(2) receipt_of_def)
qed

end
