(* ===== verification/Org_Directory.thy ===== *)
theory Org_Directory
  imports Db Text
begin

text \<open>
  \<open>src/org/org-directory.service.ts\<close>: what an organisation is called, from the cache or the
  copy kept beside its accounts. Nothing here throws: a failed statement is no name.
\<close>

definition remember_orgs :: "env \<Rightarrow> (org \<times> string) list \<Rightarrow> world \<Rightarrow> world" where
  "remember_orgs e orgs w =
     (if e_db_raises e ''redis.setOrgName'' then w
      else w\<lparr>w_redis := fold (\<lambda>(i, n). setOrgName (e_now e) i n)
                           (filter (\<lambda>(i, n). i \<noteq> [] \<and> n \<noteq> []) orgs) (w_redis w)\<rparr>)"

text \<open>\<open>orderBy: { id: 'desc' }\<close>: the last row that matches.\<close>

definition org_name :: "env \<Rightarrow> org option \<Rightarrow> world \<Rightarrow> string option \<times> world" where
  "org_name e ssoOrgId w =
     (if \<not> truthy ssoOrgId then (None, w)
      else
        let i = the ssoOrgId; cached = getOrgName (e_now e) i (w_redis w) in
        if truthy cached then (cached, w)
        else if e_db_raises e ''wabaOrganisation.findFirst'' then (None, w)
        else
          (case List.find (\<lambda>r. wo_org r = i \<and> wo_orgName r \<noteq> None) (rev (w_wabaOrgs w)) of
             None \<Rightarrow> (None, w)
           | Some membership \<Rightarrow>
               if \<not> truthy (wo_orgName membership) then (None, w)
               else (wo_orgName membership,
                     w\<lparr>w_redis := setOrgName (e_now e) i (the (wo_orgName membership)) (w_redis w)\<rparr>)))"

definition soleOrgFor :: "env \<Rightarrow> string \<Rightarrow> world \<Rightarrow> string option \<times> world" where
  "soleOrgFor e wabaId w =
     (if e_db_raises e ''wabaOrganisation.findMany'' then (None, w)
      else
        (case take 2 (filter (\<lambda>r. wo_wabaId r = wabaId) (w_wabaOrgs w)) of
           [m] \<Rightarrow> org_name e (Some (wo_org m)) w
         | _ \<Rightarrow> (None, w)))"

text \<open>Naming an organisation touches the cache and nothing else.\<close>

definition cached_only :: "world \<Rightarrow> world \<Rightarrow> bool" where
  "cached_only w w' = (\<exists>r. w' = w\<lparr>w_redis := r\<rparr>)"

lemma cached_only_refl [simp]: "cached_only w w"
  unfolding cached_only_def by (rule exI [of _ "w_redis w"]) simp

lemma cached_only_redis [simp]: "cached_only w (w\<lparr>w_redis := r\<rparr>)"
  unfolding cached_only_def by blast

lemma cached_only_trans: "cached_only w w' \<Longrightarrow> cached_only w' w'' \<Longrightarrow> cached_only w w''"
  unfolding cached_only_def by force

lemma cached_only_org_name: "cached_only w (snd (org_name e x w))"
  by (auto simp: org_name_def Let_def split: option.splits)

lemma cached_only_org_nameD: "org_name e x w = (n, w') \<Longrightarrow> cached_only w w'"
  using cached_only_org_name [of w e x] by simp

end
