(* ===== verification/Invoices.thy ===== *)
theory Invoices
  imports Receipts Org_Directory
begin

text \<open>
  \<open>src/billing/invoice.service.ts\<close>: a numbered invoice and its receipt for every captured
  debit, how the debit divides into lines and tax, sending, and who may read what. A
  \<open>$transaction\<close> is a step that happens whole or leaves the state as it was. Drawing the PDF
  is not modelled; mail is handed the document's number.
\<close>

section \<open>Requests and settings\<close>

record invoice_request =
  iq_paymentId :: "nat option"
  iq_razorpayPaymentId :: string
  iq_razorpayInvoiceId :: "string option"
  iq_org :: org
  iq_billingGroupId :: "nat option"
  iq_userId :: nat
  iq_planCode :: "string option"
  iq_planName :: "string option"
  iq_amount :: paise
  iq_currency :: string
  iq_paidAt :: "ms option"
  iq_method :: "string option"
  iq_methodDetail :: "string option"
  iq_periodStart :: "ms option"
  iq_periodEnd :: "ms option"

record draft_line =
  dl_org :: "org option"
  dl_description :: string
  dl_detail :: "string option"
  dl_planCode :: "string option"
  dl_planName :: "string option"
  dl_quantity :: int
  dl_weight :: int

definition DEFAULT_TAX_LABEL :: string where "DEFAULT_TAX_LABEL = ''GST''"
definition DEFAULT_SAC_CODE :: string where "DEFAULT_SAC_CODE = ''998314''"

definition taxRateBps :: "invoice_config \<Rightarrow> int" where
  "taxRateBps c =
     (case ic_taxRate c of
        None \<Rightarrow> 0
      | Some (num, den) \<Rightarrow> if 0 < num then js_round_div num den else 0)"

definition taxLabel :: "invoice_config \<Rightarrow> string" where
  "taxLabel c = nullish_def_val (ic_taxLabel c) DEFAULT_TAX_LABEL"

definition sellerStateCode :: "invoice_config \<Rightarrow> string option" where
  "sellerStateCode c = stateCodeOfGstin (ic_sellerGstin c)"

definition sacCode :: "invoice_config \<Rightarrow> string" where
  "sacCode c = nullish_def_val (ic_sacCode c) DEFAULT_SAC_CODE"

text \<open>What \<open>onModuleInit\<close> says at boot.\<close>

datatype boot_note = TaxOff | NoRegistration int | BadRegistration | InvoicingAs string "string option" int

definition invoice_onModuleInit :: "invoice_config \<Rightarrow> boot_note" where
  "invoice_onModuleInit c =
     (if taxRateBps c \<le> 0 then TaxOff
      else if \<not> truthy (ic_sellerGstin c) then NoRegistration (taxRateBps c)
      else if \<not> isGstin (ic_sellerGstin c) then BadRegistration
      else InvoicingAs (the (ic_sellerGstin c))
             (placeOfSupplyLabel (stateCodeOfGstin (ic_sellerGstin c))) (taxRateBps c))"

section \<open>Dividing the money\<close>

definition divide_charge :: "invoice_config \<Rightarrow> paise \<Rightarrow> paise \<times> paise \<times> int" where
  "divide_charge c whole =
     (let rate = taxRateBps c in
      if rate \<le> 0 then (whole, 0, 0)
      else let subtotal = js_round_div (whole * 10000) (10000 + rate) in
           (subtotal, whole - subtotal, rate))"

definition draft_total :: "draft_line list \<Rightarrow> int" where
  "draft_total drafts = (let s = sum_list (map dl_weight drafts) in if s = 0 then 1 else s)"

definition line_of :: "draft_line \<Rightarrow> paise \<Rightarrow> nat \<Rightarrow> invoice_line" where
  "line_of d amount index =
     \<lparr>il_org = dl_org d, il_description = dl_description d, il_detail = dl_detail d,
      il_planCode = dl_planCode d, il_planName = dl_planName d, il_quantity = dl_quantity d,
      il_unitAmount = js_round_div amount (max 1 (dl_quantity d)), il_amount = amount,
      il_position = index\<rparr>"

fun apportion_from :: "int \<Rightarrow> paise \<Rightarrow> paise \<Rightarrow> nat \<Rightarrow> draft_line list \<Rightarrow> invoice_line list" where
  "apportion_from whole subtotal allocated index [] = []"
| "apportion_from whole subtotal allocated index (d # ds) =
     (let amount = (if ds = [] then subtotal - allocated
                    else js_round_div (subtotal * dl_weight d) whole) in
      line_of d amount index # apportion_from whole subtotal (allocated + amount) (Suc index) ds)"

definition apportion :: "draft_line list \<Rightarrow> paise \<Rightarrow> invoice_line list" where
  "apportion drafts subtotal = apportion_from (draft_total drafts) subtotal 0 0 drafts"

section \<open>What the debit was for\<close>

text \<open>Template literals print a missing value as its own name; here none is missing.\<close>

definition client_draft :: "env \<Rightarrow> world \<Rightarrow> subscription \<Rightarrow> string option \<Rightarrow> draft_line" where
  "client_draft e w client directory =
     (let plan = plan_of_sub (w_plans w) client;
          label = (case settings_row (w_settings w) (sub_org client) of
                     None \<Rightarrow> None | Some r \<Rightarrow> os_clientName r);
          nm = nullish_def_val (nullish label directory) (sub_org client)
      in \<lparr>dl_org = Some (sub_org client),
          dl_description = (case plan of None \<Rightarrow> ''Subscription'' | Some p \<Rightarrow> pl_name p) @ '' '' @ em_dash @ '' '' @ nm,
          dl_detail = None, dl_planCode = map_option pl_code plan,
          dl_planName = map_option pl_name plan, dl_quantity = 1,
          dl_weight = nullish_def_val (Option.bind plan pl_price) 1\<rparr>)"

fun client_drafts :: "env \<Rightarrow> subscription list \<Rightarrow> world \<Rightarrow> draft_line list \<times> world" where
  "client_drafts e [] w = ([], w)"
| "client_drafts e (client # clients) w =
     (let labelled = (case settings_row (w_settings w) (sub_org client) of
                        None \<Rightarrow> None | Some r \<Rightarrow> os_clientName r);
          (directory, w1) = (if labelled = None then org_name e (Some (sub_org client)) w else (None, w));
          (rest, w2) = client_drafts e clients w1
      in (client_draft e w client directory # rest, w2))"

definition single_draft :: "org option \<Rightarrow> string \<Rightarrow> string option \<Rightarrow> invoice_request \<Rightarrow> draft_line" where
  "single_draft x fallback detail req =
     \<lparr>dl_org = x,
      dl_description = (if truthy (iq_planName req) then the (iq_planName req) @ '' plan'' else fallback),
      dl_detail = detail, dl_planCode = iq_planCode req, dl_planName = iq_planName req,
      dl_quantity = 1, dl_weight = 1\<rparr>"

definition invoice_drafts :: "env \<Rightarrow> invoice_request \<Rightarrow> world \<Rightarrow> draft_line list \<times> world" where
  "invoice_drafts e req w =
     (case iq_billingGroupId req of
        None \<Rightarrow> ([single_draft (Some (iq_org req)) ''Subscription'' None req], w)
      | Some g \<Rightarrow>
          if g = 0 then ([single_draft (Some (iq_org req)) ''Subscription'' None req], w)
          else
            (case sort_key sub_createdAt (filter (\<lambda>s. sub_billingGroupId s = Some g) (w_subs w)) of
               [] \<Rightarrow> ([single_draft None ''Client subscriptions''
                         (Some ''No clients on this mandate at the time of charge'') req], w)
             | clients \<Rightarrow> client_drafts e clients w))"

definition summarise_drafts :: "draft_line list \<Rightarrow> string option" where
  "summarise_drafts drafts =
     (case drafts of
        [] \<Rightarrow> None
      | [d] \<Rightarrow> Some (nullish_def_val (dl_planName d) ''Subscription'')
      | _ \<Rightarrow>
          let plans = remdups (filter truthy (map dl_planName drafts));
              count = nat_str (length drafts) @ '' client plans'' in
          Some (case plans of [p] \<Rightarrow> count @ '' '' @ em_dash @ '' '' @ the p | _ \<Rightarrow> count))"

section \<open>Who it is billed to\<close>

record tax_identity =
  tid_gstin :: "string option"
  tid_address :: "string option"
  tid_stateCode :: "string option"

definition joined_truthy :: "char \<Rightarrow> string option list \<Rightarrow> string" where
  "joined_truthy sep parts = join_with sep (map the (filter truthy parts))"

definition address_block :: "string option list \<Rightarrow> string option" where
  "address_block parts =
     (let lines = filter (\<lambda>l. l \<noteq> [])
                    (map js_trim (concat (map (\<lambda>p. if truthy p then split_on CHR 0x0A (the p) else []) parts)));
          address = join_with CHR 0x0A lines in
      if address = [] then None else Some address)"

definition taxIdentity :: "org_settings list \<Rightarrow> org \<Rightarrow> tax_identity" where
  "taxIdentity rows ssoOrgId =
     (case settings_row rows ssoOrgId of
        None \<Rightarrow> \<lparr>tid_gstin = None, tid_address = None, tid_stateCode = None\<rparr>
      | Some s \<Rightarrow>
          let stateCode = nullish (os_stateCode s) (stateCodeOfGstin (os_gstin s)) in
          \<lparr>tid_gstin = os_gstin s,
           tid_address = address_block
             [os_legalName s, os_billingAddress s,
              Some (joined_truthy CHR '' '' [os_billingCity s, os_billingPostalCode s]),
              placeOfSupplyLabel stateCode],
           tid_stateCode = stateCode\<rparr>)"

definition user_by_id :: "world \<Rightarrow> nat \<Rightarrow> user_row option" where
  "user_by_id w i = List.find (\<lambda>u. us_id u = i) (w_users w)"

section \<open>Raising\<close>

text \<open>Everything the transaction writes but the number: what was read before it began.\<close>

definition invoice_draft ::
  "env \<Rightarrow> invoice_request \<Rightarrow> world \<Rightarrow> invoice_row \<times> world" where
  "invoice_draft e req w =
     (let c = e_invoicing e;
          issuedAt = nullish_def_val (iq_paidAt req) (e_now e);
          year = financialYear (e_tz e) issuedAt (document_timeZone c);
          user = user_by_id w (iq_userId req);
          full = joined_truthy CHR '' '' [Option.bind user us_firstName, Option.bind user us_lastName];
          (organisationName, w1) = org_name e (Some (iq_org req)) w;
          buyer = taxIdentity (w_settings w) (iq_org req);
          (subtotal, taxAmount, rate) = divide_charge c (iq_amount req);
          split = splitTax taxAmount (sellerStateCode c) (tid_stateCode buyer);
          (drafts, w2) = invoice_drafts e req w1
      in (\<lparr>in_id = 0, in_number = [], in_financialYear = year, in_sequence = 0,
           in_razorpayPaymentId = iq_razorpayPaymentId req,
           in_razorpayInvoiceId = iq_razorpayInvoiceId req, in_paymentId = iq_paymentId req,
           in_org = iq_org req, in_billingGroupId = iq_billingGroupId req,
           in_billedToName = (if full = [] then None else Some full),
           in_billedToEmail = Option.bind user us_email, in_organisationName = organisationName,
           in_summary = summarise_drafts drafts,
           in_paymentMethod = nullish (iq_methodDetail req) (iq_method req),
           in_periodStart = iq_periodStart req, in_periodEnd = iq_periodEnd req,
           in_subtotal = subtotal, in_taxAmount = taxAmount, in_taxRateBps = rate,
           in_taxLabel = (if 0 < rate then Some (taxLabel c) else None),
           in_cgstAmount = cgstAmount split, in_sgstAmount = sgstAmount split,
           in_igstAmount = igstAmount split, in_billedToGstin = tid_gstin buyer,
           in_billedToAddress = tid_address buyer,
           in_placeOfSupply = placeOfSupplyLabel (tid_stateCode buyer),
           in_placeOfSupplyCode = tid_stateCode buyer,
           in_sacCode = (if 0 < rate then Some (sacCode c) else None), in_total = iq_amount req,
           in_currency = iq_currency req, in_issuedAt = issuedAt, in_paidAt = iq_paidAt req,
           in_emailedAt = None, in_emailedTo = None, in_lines = apportion drafts subtotal\<rparr>, w2))"

definition invoice_byPayment :: "string \<Rightarrow> world \<Rightarrow> invoice_row option" where
  "invoice_byPayment paymentId w =
     List.find (\<lambda>i. in_razorpayPaymentId i = paymentId) (w_invoices w)"

definition invoice_clash :: "invoice_row \<Rightarrow> invoice_row \<Rightarrow> bool" where
  "invoice_clash a b =
     (in_number a = in_number b \<or> in_razorpayPaymentId a = in_razorpayPaymentId b \<or>
      in_paymentId a \<noteq> None \<and> in_paymentId a = in_paymentId b \<or>
      in_financialYear a = in_financialYear b \<and> in_sequence a = in_sequence b)"

definition invoice_sequence :: "string \<Rightarrow> (world, nat) svc" where
  "invoice_sequence year w =
     (let (sequence, counter) = claim_sequence (w_invoiceCounter w) year;
          w' = w\<lparr>w_invoiceCounter := counter\<rparr> in
      if sequence < 1 then (Inl (RuntimeError (''Invoice counter returned nothing for '' @ year)), w')
      else (Inr sequence, w'))"

definition numbered :: "env \<Rightarrow> invoice_row \<Rightarrow> nat \<Rightarrow> nat \<Rightarrow> invoice_row" where
  "numbered e draft sequence i =
     draft\<lparr>in_id := i, in_sequence := sequence,
           in_number := invoiceNumber (document_series (e_invoicing e)) (in_financialYear draft) sequence\<rparr>"

definition invoice_tx_body :: "env \<Rightarrow> invoice_row \<Rightarrow> (world, invoice_row) svc" where
  "invoice_tx_body e draft =
     bindE (invoice_sequence (in_financialYear draft)) (\<lambda>sequence.
     bindE (\<lambda>w. let invoice = numbered e draft sequence (w_nextId w) in
               if list_ex (invoice_clash invoice) (w_invoices w)
               then (Inl (UniqueViolation ''Invoice''), w)
               else (Inr invoice, w\<lparr>w_invoices := w_invoices w @ [invoice], w_nextId := Suc (w_nextId w)\<rparr>))
     (\<lambda>invoice. bindE (receipt_recordIn e invoice) (\<lambda>_. retE invoice)))"

text \<open>\<open>$transaction\<close>: rolled back when its body throws.\<close>

definition transaction :: "('s, 'a) svc \<Rightarrow> ('s, 'a) svc" where
  "transaction m s = (case m s of (Inl err, _) \<Rightarrow> (Inl err, s) | (Inr x, s') \<Rightarrow> (Inr x, s'))"

definition invoice_transaction :: "env \<Rightarrow> invoice_row \<Rightarrow> (world, invoice_row) svc" where
  "invoice_transaction e draft =
     transaction (if e_db_raises e ''invoice.$transaction''
                  then throwE (RuntimeError ''transaction failed'') else invoice_tx_body e draft)"

definition commit_invoice :: "env \<Rightarrow> invoice_row \<Rightarrow> (world, invoice_row option) svc" where
  "commit_invoice e draft w =
     (case invoice_transaction e draft w of
        (Inr invoice, w') \<Rightarrow> (Inr (Some invoice), w')
      | (Inl (UniqueViolation t), w') \<Rightarrow> (Inr (invoice_byPayment (in_razorpayPaymentId draft) w'), w')
      | (Inl err, w') \<Rightarrow> (Inl err, w'))"

definition record_invoice :: "env \<Rightarrow> invoice_request \<Rightarrow> (world, invoice_row option) svc" where
  "record_invoice e req w =
     (case invoice_byPayment (iq_razorpayPaymentId req) w of
        Some existing \<Rightarrow> (Inr (Some existing), w)
      | None \<Rightarrow> (let (draft, w') = invoice_draft e req w in commit_invoice e draft w'))"

section \<open>Sending\<close>

text \<open>\<open>formatAmount\<close> of \<open>document.pdf.ts\<close>.\<close>

definition document_amount :: "paise \<Rightarrow> string \<Rightarrow> string" where
  "document_amount minor currency =
     (if minor < 0 then ''-'' else '''') @ currency @ '' '' @
     group_indian (nat_str (nat \<bar>minor\<bar> div 100)) @ ''.'' @
     pad_start 2 CHR ''0'' (nat_str (nat \<bar>minor\<bar> mod 100))"

definition mail_of :: "invoice_row \<Rightarrow> receipt_row option \<Rightarrow> invoice_mail" where
  "mail_of i r =
     \<lparr>im_email = the (in_billedToEmail i), im_name = in_billedToName i, im_number = in_number i,
      im_issuedAt = in_issuedAt i, im_organisationName = in_organisationName i,
      im_summary = in_summary i, im_total = document_amount (in_total i) (in_currency i),
      im_periodEnd = in_periodEnd i, im_receiptNumber = map_option re_number r\<rparr>"

definition deliver_invoice :: "env \<Rightarrow> invoice_row \<Rightarrow> (world, bool) svc" where
  "deliver_invoice e i w =
     (if \<not> truthy (in_billedToEmail i) then (Inr False, w)
      else
        let receipt = receipt_forInvoice (in_id i) w; m = mail_of i receipt in
        case e_mail_accepts e m of
          None \<Rightarrow> (Inl (RuntimeError ''mail''), w)
        | Some False \<Rightarrow> (Inr False, w)
        | Some True \<Rightarrow>
            let stamp = (\<lambda>r. r\<lparr>in_emailedAt := Some (e_now e), in_emailedTo := in_billedToEmail i\<rparr>);
                stampR = (\<lambda>r. r\<lparr>re_emailedAt := Some (e_now e), re_emailedTo := in_billedToEmail i\<rparr>) in
            (Inr True,
             w\<lparr>w_documentMails := w_documentMails w @ [m],
               w_invoices := update_rows (\<lambda>r. in_id r = in_id i) stamp (w_invoices w),
               w_receipts := (case receipt of
                   None \<Rightarrow> w_receipts w
                 | Some x \<Rightarrow> update_rows (\<lambda>r. re_id r = re_id x) stampR (w_receipts w))\<rparr>))"

definition issueFor :: "env \<Rightarrow> invoice_request \<Rightarrow> world \<Rightarrow> invoice_row option \<times> world" where
  "issueFor e req w =
     (case record_invoice e req w of
        (Inl _, w1) \<Rightarrow> (None, w1)
      | (Inr None, w1) \<Rightarrow> (None, w1)
      | (Inr (Some i), w1) \<Rightarrow>
          (case deliver_invoice e i w1 of (Inl _, w2) \<Rightarrow> (None, w2) | (Inr _, w2) \<Rightarrow> (Some i, w2)))"

fun deliver_all :: "env \<Rightarrow> invoice_row list \<Rightarrow> nat \<Rightarrow> world \<Rightarrow> nat \<times> world" where
  "deliver_all e [] sent w = (sent, w)"
| "deliver_all e (i # is) sent w =
     (case deliver_invoice e i w of
        (Inr True, w') \<Rightarrow> deliver_all e is (Suc sent) w'
      | (_, w') \<Rightarrow> deliver_all e is sent w')"

definition deliverPending :: "env \<Rightarrow> nat \<Rightarrow> world \<Rightarrow> nat \<times> world" where
  "deliverPending e limit w =
     deliver_all e
       (take limit (sort_key in_issuedAt
          (filter (\<lambda>i. in_emailedAt i = None \<and> in_billedToEmail i \<noteq> None) (w_invoices w)))) 0 w"

section \<open>Reading\<close>

definition invoices_newest :: "invoice_row list \<Rightarrow> invoice_row list" where
  "invoices_newest = sort_key (\<lambda>i. (- in_issuedAt i, - int (in_id i)))"

definition invoices_listForOrg :: "org \<Rightarrow> nat \<Rightarrow> world \<Rightarrow> invoice_row list" where
  "invoices_listForOrg ssoOrgId n w =
     take n (invoices_newest (filter (\<lambda>i. in_org i = ssoOrgId) (w_invoices w)))"

definition invoices_listForAgency :: "org \<Rightarrow> org list \<Rightarrow> nat \<Rightarrow> world \<Rightarrow> invoice_row list" where
  "invoices_listForAgency agencyOrgId clientOrgIds n w =
     take n (invoices_newest (filter (\<lambda>i. in_org i \<in> set (agencyOrgId # clientOrgIds)) (w_invoices w)))"

definition invoices_listCoveringOrg :: "org \<Rightarrow> nat \<Rightarrow> world \<Rightarrow> invoice_row list" where
  "invoices_listCoveringOrg ssoOrgId n w =
     take n (invoices_newest
       (filter (\<lambda>i. in_org i = ssoOrgId \<or> list_ex (\<lambda>l. il_org l = Some ssoOrgId) (in_lines i)) (w_invoices w)))"

definition invoice_find :: "string \<Rightarrow> world \<Rightarrow> invoice_row option" where
  "invoice_find number w = List.find (\<lambda>i. in_number i = number) (w_invoices w)"

definition invoice_byId :: "nat \<Rightarrow> world \<Rightarrow> invoice_row option" where
  "invoice_byId i w = List.find (\<lambda>r. in_id r = i) (w_invoices w)"

definition invoice_findAddressedTo :: "org list \<Rightarrow> string \<Rightarrow> world \<Rightarrow> invoice_row option" where
  "invoice_findAddressedTo allowed number w =
     (if \<not> isInvoiceNumber number then None
      else
        (case invoice_find number w of
           None \<Rightarrow> None
         | Some i \<Rightarrow> if in_org i \<in> set allowed then Some i else None))"

definition invoice_findForOrgs :: "org list \<Rightarrow> string \<Rightarrow> world \<Rightarrow> invoice_row option" where
  "invoice_findForOrgs allowed number w =
     (case invoice_find number w of
        None \<Rightarrow> None
      | Some i \<Rightarrow>
          if in_org i \<in> set allowed \<or>
             list_ex (\<lambda>l. truthy (il_org l) \<and> the (il_org l) \<in> set allowed) (in_lines i)
          then Some i else None)"

record invoice_dto =
  id_number :: string
  id_financialYear :: string
  id_issuedAt :: ms
  id_paidAt :: "ms option"
  id_org :: org
  id_organisationName :: "string option"
  id_summary :: "string option"
  id_lines :: "invoice_line list"
  id_periodStart :: "ms option"
  id_periodEnd :: "ms option"
  id_subtotal :: paise
  id_taxAmount :: paise
  id_taxRateBps :: int
  id_taxLabel :: "string option"
  id_cgstAmount :: paise
  id_sgstAmount :: paise
  id_igstAmount :: paise
  id_placeOfSupply :: "string option"
  id_billedToGstin :: "string option"
  id_sacCode :: "string option"
  id_total :: paise
  id_currency :: string
  id_paymentMethod :: "string option"
  id_emailedAt :: "ms option"
  id_emailedTo :: "string option"
  id_razorpayPaymentId :: string
  id_extract :: bool
  id_downloadable :: bool

text \<open>A line of the answer is the line without its position.\<close>

definition invoice_toDto :: "invoice_row \<Rightarrow> invoice_dto" where
  "invoice_toDto i =
     \<lparr>id_number = in_number i, id_financialYear = in_financialYear i, id_issuedAt = in_issuedAt i,
      id_paidAt = in_paidAt i, id_org = in_org i, id_organisationName = in_organisationName i,
      id_summary = in_summary i, id_lines = map (\<lambda>l. l\<lparr>il_position := 0\<rparr>) (in_lines i),
      id_periodStart = in_periodStart i, id_periodEnd = in_periodEnd i,
      id_subtotal = in_subtotal i, id_taxAmount = in_taxAmount i, id_taxRateBps = in_taxRateBps i,
      id_taxLabel = in_taxLabel i, id_cgstAmount = in_cgstAmount i, id_sgstAmount = in_sgstAmount i,
      id_igstAmount = in_igstAmount i, id_placeOfSupply = in_placeOfSupply i,
      id_billedToGstin = in_billedToGstin i, id_sacCode = in_sacCode i, id_total = in_total i,
      id_currency = in_currency i, id_paymentMethod = in_paymentMethod i,
      id_emailedAt = in_emailedAt i, id_emailedTo = in_emailedTo i,
      id_razorpayPaymentId = in_razorpayPaymentId i, id_extract = False, id_downloadable = True\<rparr>"

definition invoice_toDtoFor :: "invoice_row \<Rightarrow> org \<Rightarrow> invoice_dto" where
  "invoice_toDtoFor i ssoOrgId =
     (if in_org i = ssoOrgId then invoice_toDto i
      else
        let own = filter (\<lambda>l. il_org l = Some ssoOrgId) (in_lines i);
            whole = sum_list (map il_amount own) in
        (invoice_toDto (i\<lparr>in_lines := own\<rparr>))
          \<lparr>id_subtotal := whole, id_taxAmount := 0, id_taxRateBps := 0, id_taxLabel := None,
           id_cgstAmount := 0, id_sgstAmount := 0, id_igstAmount := 0, id_placeOfSupply := None,
           id_billedToGstin := None, id_total := whole, id_extract := True,
           id_downloadable := False, id_emailedTo := None\<rparr>)"

definition invoice_filename :: "invoice_row \<Rightarrow> string" where
  "invoice_filename i = in_number i @ ''.pdf''"

end
