(* ===== verification/Agency_Billing.thy ===== *)
theory Agency_Billing
  imports Access Razorpay Invoices
begin

text \<open>
  \<open>src/billing/agency-billing.service.ts\<close>: an agency pays for its clients with one mandate per
  plan, whose quantity counts them. The database's unique keys are enforced on every write:
  a write that would break one throws and writes nothing.
\<close>

section \<open>Writing rows under their keys\<close>

definition status_name :: "sub_status \<Rightarrow> string" where
  "status_name s =
     (case s of Created \<Rightarrow> ''created'' | Authenticated \<Rightarrow> ''authenticated'' | Active \<Rightarrow> ''active''
      | Pending \<Rightarrow> ''pending'' | Halted \<Rightarrow> ''halted'' | Cancelled \<Rightarrow> ''cancelled''
      | Completed \<Rightarrow> ''completed'' | Expired \<Rightarrow> ''expired'' | Superseded \<Rightarrow> ''superseded'')"

definition all_statuses :: "sub_status list" where
  "all_statuses = [Created, Authenticated, Active, Pending, Halted, Cancelled, Completed, Expired, Superseded]"

definition status_of :: "string \<Rightarrow> sub_status option" where
  "status_of t = List.find (\<lambda>s. status_name s = t) all_statuses"

text \<open>\<open>status as never\<close>: the client refuses a value the enumeration does not have.\<close>

definition as_status :: "string \<Rightarrow> ('s, sub_status) svc" where
  "as_status t =
     (case status_of t of
        None \<Rightarrow> throwE (RuntimeError ''Invalid value for argument status'')
      | Some s \<Rightarrow> retE s)"

definition sub_keys_ok :: "subscription list \<Rightarrow> bool" where
  "sub_keys_ok subs =
     (org_key_ok subs \<and>
      distinct (map (\<lambda>s. (sub_wabaId s, sub_org s)) (filter (\<lambda>s. \<not> org_level s) subs)) \<and>
      distinct (List.map_filter sub_mandate subs) \<and> distinct (List.map_filter sub_pendingMandate subs))"

definition group_keys_ok :: "billing_group list \<Rightarrow> bool" where
  "group_keys_ok gs =
     (distinct (map (\<lambda>g. (bg_agencyOrgId g, bg_planRefId g)) gs) \<and> distinct (map bg_mandate gs))"

definition write_subs :: "(subscription list \<Rightarrow> subscription list) \<Rightarrow> (world, unit) svc" where
  "write_subs f w =
     (if sub_keys_ok (f (w_subs w)) then (Inr (), w\<lparr>w_subs := f (w_subs w)\<rparr>)
      else (Inl (UniqueViolation ''Subscription''), w))"

definition write_groups :: "(billing_group list \<Rightarrow> billing_group list) \<Rightarrow> (world, unit) svc" where
  "write_groups f w =
     (if group_keys_ok (f (w_groups w)) then (Inr (), w\<lparr>w_groups := f (w_groups w)\<rparr>)
      else (Inl (UniqueViolation ''AgencyBillingGroup''), w))"

text \<open>\<open>create\<close> with the next identifier.\<close>

definition insert_sub :: "(nat \<Rightarrow> subscription) \<Rightarrow> (world, unit) svc" where
  "insert_sub row w =
     (let subs = w_subs w @ [row (w_nextId w)] in
      if sub_keys_ok subs then (Inr (), w\<lparr>w_subs := subs, w_nextId := Suc (w_nextId w)\<rparr>)
      else (Inl (UniqueViolation ''Subscription''), w))"

definition insert_group :: "(nat \<Rightarrow> billing_group) \<Rightarrow> (world, billing_group) svc" where
  "insert_group row w =
     (let g = row (w_nextId w); gs = w_groups w @ [g] in
      if group_keys_ok gs then (Inr g, w\<lparr>w_groups := gs, w_nextId := Suc (w_nextId w)\<rparr>)
      else (Inl (UniqueViolation ''AgencyBillingGroup''), w))"

definition update_group :: "nat \<Rightarrow> (billing_group \<Rightarrow> billing_group) \<Rightarrow> (world, unit) svc" where
  "update_group i f = write_groups (update_rows (\<lambda>g. bg_id g = i) f)"

text \<open>Unix seconds to an instant; zero is as good as missing.\<close>

definition at_seconds :: "int option \<Rightarrow> ms option" where
  "at_seconds s = (case s of None \<Rightarrow> None | Some n \<Rightarrow> if n = 0 then None else Some (n * 1000))"

section \<open>Helpers\<close>

definition UPDATABLE :: "sub_status list" where "UPDATABLE = [Active, Authenticated]"

definition group_isFinished :: "sub_status \<Rightarrow> bool" where
  "group_isFinished s = (s \<in> {Cancelled, Expired, Completed, Superseded})"

definition sellableToAgency :: "string \<Rightarrow> org \<Rightarrow> (world, plan_row) svc" where
  "sellableToAgency planCode agencyOrgId w =
     (case List.find (\<lambda>p. pl_code p = planCode \<and> pl_active p \<and>
                         (pl_ssoOrgId p = None \<or> pl_ssoOrgId p = Some agencyOrgId)) (w_plans w) of
        None \<Rightarrow> (Inl (NotFound (''Plan '' @ planCode @ '' is not on offer'')), w)
      | Some plan \<Rightarrow>
          if pl_ctaKind plan = ''contact''
          then (Inl (BadRequest (pl_name plan @ '' is priced individually '' @ em_dash @
                  '' it cannot be put on a client here.'')), w)
          else if \<not> truthy (pl_razorpayPlanId plan)
          then (Inl (BadRequest (pl_name plan @ '' is not available for checkout on this deployment yet.'')), w)
          else (Inr plan, w))"

definition customerFor :: "env \<Rightarrow> org \<Rightarrow> nat \<Rightarrow> (world, string) svc" where
  "customerFor e agencyOrgId userId w =
     (let known = Option.bind (find_max (\<lambda>g. bg_agencyOrgId g = agencyOrgId \<and> bg_customerId g \<noteq> None)
                     bg_createdAt (w_groups w)) bg_customerId;
          own = Option.bind (find_max (\<lambda>s. sub_org s = agencyOrgId \<and> sub_customerId s \<noteq> None)
                     sub_createdAt (w_subs w)) sub_customerId in
      if truthy known then (Inr (the known), w)
      else if truthy own then (Inr (the own), w)
      else
        let user = user_by_id w userId;
            nm = joined_truthy CHR '' '' [Option.bind user us_firstName, Option.bind user us_lastName];
            email = Option.bind user us_email in
        createCustomer e (if nm = [] then None else Some nm) (if truthy email then email else None)
          [(''ssoOrgId'', agencyOrgId)] w)"

section \<open>The mandate behind a plan\<close>

text \<open>What a write of a freshly created provider subscription puts on a grp.\<close>

definition group_from ::
  "string \<Rightarrow> rz_subscription \<Rightarrow> int \<Rightarrow> sub_status \<Rightarrow> billing_group \<Rightarrow> billing_group" where
  "group_from customerId created quantity status g =
     g\<lparr>bg_customerId := Some customerId, bg_mandate := rz_id created, bg_planId := rz_plan_id created,
       bg_quantity := quantity, bg_status := status,
       bg_currentStart := at_seconds (rz_current_start created),
       bg_currentEnd := at_seconds (rz_current_end created), bg_shortUrl := rz_short_url created\<rparr>"

definition replaceUnauthorised ::
  "env \<Rightarrow> billing_group \<Rightarrow> plan_row \<Rightarrow> nat \<Rightarrow> (world, billing_group \<times> bool) svc" where
  "replaceUnauthorised e existing plan userId =
     (let quantity = bg_quantity existing + 1 in
      bindE (customerFor e (bg_agencyOrgId existing) userId) (\<lambda>customerId.
      bindE (createSubscription e (Some customerId) (the (pl_razorpayPlanId plan)) None (Some quantity)
               [(''purpose'', ''agency-clients''), (''planCode'', pl_name plan)]) (\<lambda>created.
      thenE (safely (\<lambda>w. ((), snd (cancelSubscription e (bg_mandate existing) False w))))
     (bindE (as_status (rz_status created)) (\<lambda>status.
      let upd = group_from customerId created quantity status in
      thenE (update_group (bg_id existing) upd) (retE (upd existing, True)))))))"

definition groupFor ::
  "env \<Rightarrow> org \<Rightarrow> plan_row \<Rightarrow> nat \<Rightarrow> (world, billing_group \<times> bool) svc" where
  "groupFor e agencyOrgId plan userId =
     bindE (getE (\<lambda>w. List.find (\<lambda>g. bg_agencyOrgId g = agencyOrgId \<and> bg_planRefId g = pl_id plan)
              (w_groups w))) (\<lambda>found.
     let fresh =
       bindE (customerFor e agencyOrgId userId) (\<lambda>customerId.
       bindE (createSubscription e (Some customerId) (the (pl_razorpayPlanId plan)) None (Some 1)
                [(''agencyOrgId'', agencyOrgId), (''planCode'', pl_name plan), (''purpose'', ''agency-clients'')])
         (\<lambda>created.
       bindE (as_status (rz_status created)) (\<lambda>status.
       let upd = (\<lambda>g. (group_from customerId created 1 status g)\<lparr>bg_cancelAtCycleEnd := False, bg_cancelledAt := None\<rparr>) in
       case found of
         Some existing \<Rightarrow> thenE (update_group (bg_id existing) upd) (retE (upd existing, True))
       | None \<Rightarrow>
           bindE (insert_group (\<lambda>i. group_from customerId created 1 status
                     \<lparr>bg_id = i, bg_agencyOrgId = agencyOrgId, bg_planRefId = pl_id plan,
                      bg_customerId = None, bg_mandate = [], bg_planId = [], bg_quantity = 0,
                      bg_status = Created, bg_currentStart = None, bg_currentEnd = None,
                      bg_cancelAtCycleEnd = False, bg_cancelledAt = None, bg_shortUrl = None,
                      bg_createdByUserId = userId, bg_createdAt = e_now e\<rparr>)) (\<lambda>g. retE (g, True)))))
     in
     case found of
       None \<Rightarrow> fresh
     | Some existing \<Rightarrow>
         if group_isFinished (bg_status existing) then fresh
         else if bg_cancelAtCycleEnd existing then throwE (BadRequest
           (''The mandate covering '' @ pl_name plan @
            '' is set to end. It cannot take on another client until that is sorted out.''))
         else if bg_status existing = Created then replaceUnauthorised e existing plan userId
         else if bg_status existing \<notin> set UPDATABLE then throwE (BadRequest
           (''The mandate covering '' @ pl_name plan @ '' is '' @ status_name (bg_status existing) @
            ''. Sort that out before taking on another client on this plan.''))
         else
           let quantity = bg_quantity existing + 1 in
           bindE (safely (setSubscriptionQuantity e (bg_mandate existing) quantity False)) (\<lambda>updated.
           if updated = None then throwE (BadRequest
             (''The payment provider would not raise the '' @ pl_name plan @ '' mandate to '' @
              int_str quantity @ ''. Nothing has been changed.''))
           else
             thenE (update_group (bg_id existing) (\<lambda>g. g\<lparr>bg_quantity := quantity\<rparr>))
               (retE (existing\<lparr>bg_quantity := quantity\<rparr>, False))))"

section \<open>Taking a client on\<close>

record client_result =
  cr_ssoOrgId :: org
  cr_planCode :: string
  cr_planName :: string
  cr_status :: sub_status
  cr_currentEnd :: "ms option"
  cr_authorisation :: "(string \<times> string option) option"

definition client_row :: "env \<Rightarrow> org \<Rightarrow> org \<Rightarrow> nat \<Rightarrow> plan_row \<Rightarrow> billing_group \<Rightarrow> nat \<Rightarrow> subscription" where
  "client_row e agencyOrgId ssoOrgId userId plan g i =
     \<lparr>sub_id = i, sub_wabaId = None, sub_org = ssoOrgId, sub_customerId = bg_customerId g,
      sub_mandate = None, sub_planId = bg_planId g, sub_planRefId = Some (pl_id plan),
      sub_pendingPlanRefId = None, sub_pendingPlanAt = None, sub_status = bg_status g,
      sub_currentStart = bg_currentStart g, sub_currentEnd = bg_currentEnd g,
      sub_cancelAtCycleEnd = False, sub_cancelledAt = None, sub_shortUrl = None,
      sub_pendingMandate = None, sub_pendingShortUrl = None, sub_payerOrgId = Some agencyOrgId,
      sub_billingGroupId = Some (bg_id g), sub_createdByUserId = userId, sub_createdAt = e_now e\<rparr>"

definition org_subscription :: "org \<Rightarrow> world \<Rightarrow> subscription option" where
  "org_subscription ssoOrgId w =
     find_max (\<lambda>s. sub_org s = ssoOrgId \<and> sub_wabaId s = None) sub_createdAt (w_subs w)"

definition subscribeClient ::
  "env \<Rightarrow> org \<Rightarrow> org \<Rightarrow> string \<Rightarrow> nat \<Rightarrow> (world, client_result) svc" where
  "subscribeClient e agencyOrgId ssoOrgId planCode userId =
     bindE (sellableToAgency planCode agencyOrgId) (\<lambda>plan.
     bindE (getE (org_subscription ssoOrgId)) (\<lambda>existing.
     thenE (refuse_if (case existing of None \<Rightarrow> False | Some s \<Rightarrow> \<not> group_isFinished (sub_status s))
              (BadRequest ''This client already has a subscription. Change its plan rather than starting another.''))
    (bindE (groupFor e agencyOrgId plan userId) (\<lambda>(g, authorisationNeeded).
     thenE (insert_sub (client_row e agencyOrgId ssoOrgId userId plan g))
    (thenE (modE (invalidatePayer e ssoOrgId))
       (retE \<lparr>cr_ssoOrgId = ssoOrgId, cr_planCode = pl_code plan, cr_planName = pl_name plan,
              cr_status = bg_status g, cr_currentEnd = bg_currentEnd g,
              cr_authorisation = (if authorisationNeeded then Some (bg_mandate g, bg_shortUrl g) else None)\<rparr>))))))"

section \<open>Letting a client go\<close>

definition group_by_id :: "world \<Rightarrow> nat \<Rightarrow> billing_group option" where
  "group_by_id w i = List.find (\<lambda>g. bg_id g = i) (w_groups w)"

definition releaseClient :: "env \<Rightarrow> org \<Rightarrow> org \<Rightarrow> (world, unit) svc" where
  "releaseClient e agencyOrgId ssoOrgId =
     bindE (getE (\<lambda>w. find_max (\<lambda>s. sub_org s = ssoOrgId \<and> sub_wabaId s = None \<and>
                                   sub_payerOrgId s = Some agencyOrgId) sub_createdAt (w_subs w))) (\<lambda>found.
     case found of
       None \<Rightarrow> throwE (NotFound (agencyOrgId @ '' does not pay for a subscription on '' @ ssoOrgId))
     | Some sub \<Rightarrow>
         if sub_cancelAtCycleEnd sub then retE ()
         else
           thenE (write_subs (update_rows (\<lambda>s. sub_id s = sub_id sub) (\<lambda>s. s\<lparr>sub_cancelAtCycleEnd := True\<rparr>)))
          (bindE (getE (\<lambda>w. Option.bind (sub_billingGroupId sub) (group_by_id w))) (\<lambda>grp.
           thenE
             (case grp of
                None \<Rightarrow> retE ()
              | Some g \<Rightarrow>
                  let remaining = max 0 (bg_quantity g - 1) in
                  if remaining = 0 then
                    thenE (cancelSubscription e (bg_mandate g) True)
                      (update_group (bg_id g) (\<lambda>g. g\<lparr>bg_quantity := 0, bg_cancelAtCycleEnd := True\<rparr>))
                  else
                    thenE (safely (setSubscriptionQuantity e (bg_mandate g) remaining True))
                      (update_group (bg_id g) (\<lambda>g. g\<lparr>bg_quantity := remaining\<rparr>)))
             (modE (invalidatePayer e ssoOrgId)))))"

section \<open>The provider's word\<close>

record applied_group_charge =
  ag_billingGroupId :: nat
  ag_agencyOrgId :: org
  ag_userId :: nat
  ag_planCode :: "string option"
  ag_planName :: "string option"
  ag_payment :: "payment_row option"
  ag_currentStart :: "ms option"
  ag_currentEnd :: "ms option"

definition moved_group :: "sub_status \<Rightarrow> ms option \<Rightarrow> ms option \<Rightarrow> billing_group \<Rightarrow> billing_group" where
  "moved_group status start stop g =
     g\<lparr>bg_status := status, bg_currentStart := nullish start (bg_currentStart g),
       bg_currentEnd := nullish stop (bg_currentEnd g)\<rparr>"

definition moved_client :: "sub_status \<Rightarrow> ms option \<Rightarrow> ms option \<Rightarrow> subscription \<Rightarrow> subscription" where
  "moved_client status start stop s =
     s\<lparr>sub_status := status, sub_currentStart := nullish start (sub_currentStart s),
       sub_currentEnd := nullish stop (sub_currentEnd s)\<rparr>"

text \<open>\<open>upsert\<close> of a payment on its provider id.\<close>

definition upsert_payment ::
  "payment_row \<Rightarrow> (payment_row \<Rightarrow> payment_row) \<Rightarrow> world \<Rightarrow> payment_row \<times> world" where
  "upsert_payment new upd w =
     (case List.find (\<lambda>p. pay_razorpayPaymentId p = pay_razorpayPaymentId new) (w_payments w) of
        Some p \<Rightarrow> (upd p, w\<lparr>w_payments := update_rows
          (\<lambda>q. pay_razorpayPaymentId q = pay_razorpayPaymentId new) upd (w_payments w)\<rparr>)
      | None \<Rightarrow> (new\<lparr>pay_id := w_nextId w\<rparr>,
          w\<lparr>w_payments := w_payments w @ [new\<lparr>pay_id := w_nextId w\<rparr>], w_nextId := Suc (w_nextId w)\<rparr>))"

definition group_payment :: "nat \<Rightarrow> payment_row \<Rightarrow> world \<Rightarrow> payment_row \<times> world" where
  "group_payment i p =
     upsert_payment (p\<lparr>pay_billingGroupId := Some i, pay_subscriptionId := None\<rparr>)
       (\<lambda>q. q\<lparr>pay_status := pay_status p, pay_paidAt := pay_paidAt p\<rparr>)"

definition apply_to ::
  "env \<Rightarrow> rz_subscription \<Rightarrow> payment_row option \<Rightarrow> billing_group \<Rightarrow> (world, applied_group_charge) svc" where
  "apply_to e entity payment grp =
     bindE (as_status (rz_status entity)) (\<lambda>status.
     let start = at_seconds (rz_current_start entity); stop = at_seconds (rz_current_end entity);
         rides = (\<lambda>s. sub_billingGroupId s = Some (bg_id grp)) in
     thenE (update_group (bg_id grp) (moved_group status start stop))
    (bindE (getE (\<lambda>w. map sub_org (filter rides (w_subs w)))) (\<lambda>clients.
     thenE (modE (\<lambda>w. w\<lparr>w_subs := update_rows rides (moved_client status start stop) (w_subs w)\<rparr>))
    (bindE (case payment of
              None \<Rightarrow> retE None
            | Some p \<Rightarrow> safely (\<lambda>w. let (r, w') = group_payment (bg_id grp) p w in (Some r, w'))) (\<lambda>recorded.
     thenE (modE (\<lambda>w. fold (invalidatePayer e) (clients @ [bg_agencyOrgId grp]) w))
    (bindE (getE (\<lambda>w. plan_by_id (w_plans w) (bg_planRefId grp))) (\<lambda>plan.
     retE \<lparr>ag_billingGroupId = bg_id grp, ag_agencyOrgId = bg_agencyOrgId grp,
           ag_userId = bg_createdByUserId grp, ag_planCode = map_option pl_code plan,
           ag_planName = map_option pl_name plan, ag_payment = recorded, ag_currentStart = start,
           ag_currentEnd = stop\<rparr>)))))))"

definition applyToGroup ::
  "env \<Rightarrow> string \<Rightarrow> rz_subscription \<Rightarrow> payment_row option \<Rightarrow> (world, applied_group_charge option) svc" where
  "applyToGroup e mandate entity payment =
     bindE (getE (\<lambda>w. List.find (\<lambda>g. bg_mandate g = mandate) (w_groups w))) (\<lambda>found.
     case found of
       None \<Rightarrow> retE None
     | Some grp \<Rightarrow> bindE (apply_to e entity payment grp) (\<lambda>a. retE (Some a)))"

text \<open>The groups an agency holds, oldest first, each with its plan.\<close>

definition groupsFor :: "org \<Rightarrow> world \<Rightarrow> (billing_group \<times> plan_row option) list" where
  "groupsFor agencyOrgId w =
     map (\<lambda>g. (g, plan_by_id (w_plans w) (bg_planRefId g)))
       (sort_key bg_createdAt (filter (\<lambda>g. bg_agencyOrgId g = agencyOrgId) (w_groups w)))"

end
