(* ===== verification/Js_Double.thy ===== *)
theory Js_Double
  imports Prelude
begin

text \<open>
  JavaScript numbers where their rounding shows: the product and the quotient of two
  non-negative whole numbers as IEEE doubles, each rounded to 53 significant bits, to the
  nearest, ties to even. (The exponent's range is not reached by money and milliseconds.)
\<close>

section \<open>Rounding to the nearest\<close>

fun bits :: "int \<Rightarrow> nat" where
  "bits n = (if n \<le> 0 then 0 else Suc (bits (n div 2)))"

declare bits.simps [simp del]

definition half_even :: "int \<Rightarrow> int \<Rightarrow> int" where
  "half_even a b =
     (let q = a div b; r = a mod b in
      if 2 * r < b \<or> 2 * r = b \<and> even q then q else q + 1)"

text \<open>The double nearest a whole number, itself a whole number.\<close>

definition dbl :: "int \<Rightarrow> int" where
  "dbl p = (let s = bits p - 53 in half_even p (2 ^ s) * 2 ^ s)"

text \<open>
  \<open>Math.floor(x / c)\<close> for \<open>0 \<le> x\<close> and \<open>0 < c < 2\<^sup>5\<^sup>3\<close>: the quotient has as many bits before
  its point as \<open>x div c\<close>, and keeps what is left of the 53 after it. (Below one the double is
  finer than that, but rounds to one in neither form.)
\<close>

definition dbl_floor_div :: "int \<Rightarrow> int \<Rightarrow> int" where
  "dbl_floor_div x c =
     (let k = bits (x div c); s = 53 - k; t = k - 53 in
      half_even (x * 2 ^ s) (c * 2 ^ t) * 2 ^ t div 2 ^ s)"

section \<open>Bounds\<close>

lemma bits_bounds: "0 < n \<Longrightarrow> 0 < bits n \<and> 2 ^ (bits n - 1) \<le> n \<and> n < 2 ^ bits n"
proof (induction n rule: bits.induct)
  case (1 n)
  show ?case
  proof (cases "n = 1")
    case True
    then show ?thesis by (simp add: bits.simps)
  next
    case False
    then have half: "0 < n div 2" using 1(2) by simp
    then have IH: "0 < bits (n div 2)" "2 ^ (bits (n div 2) - 1) \<le> n div 2" "n div 2 < 2 ^ bits (n div 2)"
      using 1 by simp_all
    have b: "bits n = Suc (bits (n div 2))" using 1(2) by (simp add: bits.simps)
    obtain j where j: "bits (n div 2) = Suc j" using IH(1) by (cases "bits (n div 2)") auto
    show ?thesis using IH unfolding b j by simp linarith
  qed
qed

lemma bits_le: "n < 2 ^ k \<Longrightarrow> bits n \<le> k"
proof (cases "0 < n")
  case True
  assume "n < 2 ^ k"
  then have "(2::int) ^ (bits n - 1) < 2 ^ k" using bits_bounds [OF True] by linarith
  then show ?thesis by (simp add: power_strict_increasing_iff)
qed (simp add: bits.simps)

lemma half_even_bounds:
  assumes "0 < b"
  shows "2 * (half_even a b * b - a) \<le> b" "- b \<le> 2 * (half_even a b * b - a)"
proof -
  define q r where "q = a div b" and "r = a mod b"
  have a: "a = q * b + r" by (simp add: q_def r_def)
  have r: "0 \<le> r" "r < b" using assms by (simp_all add: r_def)
  have e: "half_even a b = (if 2 * r < b \<or> 2 * r = b \<and> even q then q else q + 1)"
    by (simp add: half_even_def Let_def q_def r_def)
  have "half_even a b * b - a = - r \<and> 2 * r \<le> b \<or> half_even a b * b - a = b - r \<and> b \<le> 2 * r"
    using e a by (auto simp: distrib_right)
  then show "2 * (half_even a b * b - a) \<le> b" using r by auto
  show "- b \<le> 2 * (half_even a b * b - a)" using e a r by (auto simp: distrib_right)
qed

lemma half_even_one [simp]: "half_even a 1 = a"
  by (simp add: half_even_def)

lemma dbl_exact: "p < 2 ^ 53 \<Longrightarrow> dbl p = p"
  using bits_le [of p 53] by (simp add: dbl_def Let_def)

lemma dbl_close:
  assumes "0 \<le> p"
  shows "2 ^ 53 * (dbl p - p) \<le> p" "- p \<le> 2 ^ 53 * (dbl p - p)"
proof -
  have "2 ^ 53 * (dbl p - p) \<le> p \<and> - p \<le> 2 ^ 53 * (dbl p - p)"
  proof (cases "p < 2 ^ 53")
    case True
    then show ?thesis using assms by (simp add: dbl_exact)
  next
    case False
    define s where "s = bits p - 53"
    have "0 < p" using False by simp
    note bp = bits_bounds [OF this]
    have "53 < bits p"
    proof (rule ccontr)
      assume "\<not> 53 < bits p"
      then have "(2::int) ^ bits p \<le> 2 ^ 53" by (intro power_increasing) simp_all
      then show False using bp False by linarith
    qed
    then have "bits p - 1 = 52 + s" by (simp add: s_def)
    then have low: "2 ^ 52 * 2 ^ s \<le> p" using bp by (simp add: power_add)
    have "2 * (dbl p - p) \<le> 2 ^ s \<and> - (2 ^ s) \<le> 2 * (dbl p - p)"
      using half_even_bounds [of "2 ^ s" p] by (simp add: dbl_def Let_def s_def)
    then show ?thesis using low by simp
  qed
  then show "2 ^ 53 * (dbl p - p) \<le> p" "- p \<le> 2 ^ 53 * (dbl p - p)" by simp_all
qed

text \<open>
  With a quotient below \<open>2 ^ k\<close> there are at least \<open>53 - k\<close> bits after the point, so the floor
  is the exact one up to that much.
\<close>

lemma dbl_floor_div_shape:
  assumes "0 < c" "bits (x div c) \<le> 53"
  obtains h s where "s = 53 - bits (x div c)" "dbl_floor_div x c = h div 2 ^ s"
    "2 * (h * c - x * 2 ^ s) \<le> c" "- c \<le> 2 * (h * c - x * 2 ^ s)"
  using assms half_even_bounds [OF assms(1), of "x * 2 ^ (53 - bits (x div c))"]
  by (intro that [of _ "half_even (x * 2 ^ (53 - bits (x div c))) c"]) (simp_all add: dbl_floor_div_def Let_def)

lemma floor_between:
  assumes "r = (h::int) div 2 ^ s"
  shows "r * 2 ^ s \<le> h" "h < (r + 1) * 2 ^ s"
proof -
  have "(h div 2 ^ s) * 2 ^ s + h mod 2 ^ s = h" by (rule div_mult_mod_eq)
  moreover have "0 \<le> h mod 2 ^ s" "h mod 2 ^ s < 2 ^ s" by simp_all
  ultimately show "r * 2 ^ s \<le> h" "h < (r + 1) * 2 ^ s" unfolding assms distrib_right by linarith+
qed

lemma div_less_of_less_mult: "0 < c \<Longrightarrow> x < k * c \<Longrightarrow> x div c < (k::int)"
proof (rule ccontr)
  assume "0 < c" "x < k * c" "\<not> x div c < k"
  then have "k * c \<le> x div c * c" by (intro mult_right_mono) simp_all
  moreover have "x div c * c + x mod c = x" by (rule div_mult_mod_eq)
  moreover have "0 \<le> x mod c" using \<open>0 < c\<close> by simp
  ultimately show False using \<open>x < k * c\<close> by linarith
qed

lemma dbl_floor_div_exact:
  assumes "0 \<le> x" "x < 2 ^ 53" "0 < c" "c < 2 ^ 53"
  shows "dbl_floor_div x c = x div c"
proof -
  define q k where "q = x div c" and "k = bits q"
  have x: "x = q * c + x mod c" by (simp add: q_def)
  have m: "0 \<le> x mod c" "x mod c < c" using assms(3) by simp_all
  have q: "0 \<le> q" using assms(1,3) by (simp add: q_def pos_imp_zdiv_nonneg_iff)
  have "q * 1 \<le> q * c" using q assms(3) by (intro mult_left_mono) simp_all
  then have "q \<le> x" using x m by linarith
  then have "k \<le> 53" using assms(2) bits_le [of q 53] by (simp add: k_def)
  then obtain h s where s: "s = 53 - k" and f: "dbl_floor_div x c = h div 2 ^ s"
    and h: "2 * (h * c - x * 2 ^ s) \<le> c" "- c \<le> 2 * (h * c - x * 2 ^ s)"
    using dbl_floor_div_shape [OF assms(3), of x] unfolding q_def k_def by metis
  have small: "c < 2 ^ Suc s"
  proof (cases "q = 0")
    case True
    then show ?thesis using assms(4) by (simp add: s k_def bits.simps)
  next
    case False
    then have "0 < k" "2 ^ (k - 1) \<le> q" using bits_bounds [of q] q by (simp_all add: k_def)
    then have "2 ^ (k - 1) * c \<le> q * c" using assms(3) by simp
    then have "2 ^ (k - 1) * c < 2 ^ 53" using x m assms(2) by linarith
    moreover have "(2::int) ^ 53 = 2 ^ (k - 1) * 2 ^ Suc s"
      using \<open>0 < k\<close> \<open>k \<le> 53\<close> unfolding power_add [symmetric] s by simp
    ultimately have "2 ^ (k - 1) * c < 2 ^ (k - 1) * 2 ^ Suc s" by (simp only:)
    then show ?thesis by (simp only: mult_less_cancel_left_pos zero_less_power zero_less_numeral)
  qed
  have "q * 2 ^ s \<le> h"
  proof (rule ccontr)
    assume "\<not> q * 2 ^ s \<le> h"
    then have "(h + 1) * c \<le> q * 2 ^ s * c" using assms(3) by (intro mult_right_mono) simp_all
    moreover have "q * 2 ^ s * c \<le> x * 2 ^ s"
      using x m mult_right_mono [of "q * c" x "2 ^ s"] by (simp add: ac_simps)
    ultimately have "(h + 1) * c \<le> x * 2 ^ s" by (rule order_trans)
    then show False using h(2) assms(3) by (simp add: distrib_right)
  qed
  moreover have "h < (q + 1) * 2 ^ s"
  proof (rule ccontr)
    assume "\<not> h < (q + 1) * 2 ^ s"
    then have "(q + 1) * 2 ^ s * c \<le> h * c" using assms(3) by (intro mult_right_mono) simp_all
    moreover have "(x + 1) * 2 ^ s \<le> (q + 1) * c * 2 ^ s"
      using x m by (intro mult_right_mono) (simp_all add: distrib_right)
    moreover have "(q + 1) * c * 2 ^ s = (q + 1) * 2 ^ s * c" by simp
    ultimately have "(x + 1) * 2 ^ s \<le> h * c" by linarith
    then show False using h small unfolding distrib_right by simp
  qed
  ultimately have "h div 2 ^ s = q"
    by (intro int_div_pos_eq [of h "2 ^ s" q "h - q * 2 ^ s"]) (simp_all add: algebra_simps)
  then show ?thesis using f by (simp add: q_def)
qed

text \<open>
  A share \<open>d * m / c\<close> of a whole number below \<open>2 ^ 32\<close>, worked out in doubles and cut down
  to a whole number, is out by less than a millionth before the cut.
\<close>

lemma dbl_share:
  assumes "0 < d" "d < 2 ^ 32" "0 < m" "m \<le> c"
  defines "r \<equiv> dbl_floor_div (dbl (d * m)) c"
  shows "0 \<le> r" "r \<le> d" "2 ^ 20 * (r * c - d * m) \<le> c" "2 ^ 20 * (d * m - (r + 1) * c) \<le> c"
proof -
  define p x where "p = d * m" and "x = dbl p"
  have c: "0 < c" using assms by simp
  have p: "0 < p" "p \<le> d * c" using assms by (simp_all add: p_def)
  have close: "2 ^ 53 * (x - p) \<le> p" "- p \<le> 2 ^ 53 * (x - p)"
    using dbl_close [of p] p by (simp_all add: x_def)
  have "d * c \<le> 4294967295 * c" using assms(2) c by (intro mult_right_mono) simp_all
  then have pc: "p \<le> 4294967295 * c" using p by linarith
  have x0: "0 \<le> x" using close p by simp
  have "x < 2 ^ 32 * c" using close(1) pc c by simp
  then have "x div c < 2 ^ 32" using c by (intro div_less_of_less_mult)
  then have k: "bits (x div c) \<le> 32" by (rule bits_le)
  obtain h s where s: "s = 53 - bits (x div c)" and f: "r = h div 2 ^ s"
    and h: "2 * (h * c - x * 2 ^ s) \<le> c" "- c \<le> 2 * (h * c - x * 2 ^ s)"
  proof (rule dbl_floor_div_shape [OF c, of x])
    show "bits (x div c) \<le> 53" using k by simp
  qed (auto simp: r_def x_def p_def)
  have s21: "2 ^ 21 \<le> (2::int) ^ s" using k by (intro power_increasing) (simp_all add: s)
  have fine: "2 ^ 22 * z \<le> c" if "2 * z * 2 ^ s \<le> c" for z :: int
  proof (cases "0 \<le> z")
    case True
    then have "2 * z * 2 ^ 21 \<le> 2 * z * 2 ^ s" using s21 by (intro mult_left_mono) simp_all
    then show ?thesis using that by simp
  next
    case False
    then show ?thesis using c by simp
  qed
  note b = floor_between [OF f]
  have "r * 2 ^ s * c \<le> h * c" using b(1) c by (intro mult_right_mono) simp_all
  then have "2 * (r * c - x) * 2 ^ s \<le> c" using h by (simp add: algebra_simps)
  then have lo: "2 ^ 22 * (r * c - x) \<le> c" by (rule fine)
  have "h * c \<le> (r + 1) * 2 ^ s * c" using b(2) c by (intro mult_right_mono) simp_all
  then have "2 * (x - (r + 1) * c) * 2 ^ s \<le> c" using h by (simp add: algebra_simps)
  then have hi: "2 ^ 22 * (x - (r + 1) * c) \<le> c" by (rule fine)
  show up: "2 ^ 20 * (r * c - d * m) \<le> c" using lo close pc c unfolding p_def [symmetric] by simp
  show "2 ^ 20 * (d * m - (r + 1) * c) \<le> c" using hi close pc c unfolding p_def [symmetric] by simp
  show "r \<le> d"
  proof (rule ccontr)
    assume "\<not> r \<le> d"
    then have "(d + 1) * c \<le> r * c" using c by (intro mult_right_mono) simp_all
    then show False using up p c unfolding p_def distrib_right by simp
  qed
  have "0 \<le> h"
  proof (rule ccontr)
    assume "\<not> 0 \<le> h"
    then have "h * c \<le> - 1 * c" using c by (intro mult_right_mono) simp_all
    moreover have "0 \<le> x * 2 ^ s" using x0 by simp
    ultimately show False using h(2) c by simp
  qed
  then show "0 \<le> r" using f by (simp add: pos_imp_zdiv_nonneg_iff)
qed

end
