(* ===== verification/Billing.thy ===== *)
theory Billing
  imports Agency_Billing Js_Double
begin

text \<open>
  \<open>src/billing/billing.service.ts\<close>: an organisation's subscription from registration to
  cancellation, the provider's webhooks, and the hourly reconciliation. Each method is run
  at one instant, \<open>e_now\<close>. Loggers are left out; mail is the list of what was asked to be sent.
\<close>

section \<open>Pure parts\<close>

text \<open>\<open>STATUSES\<close> are all of ours but \<open>superseded\<close>.\<close>

definition toStatus :: "string \<Rightarrow> sub_status" where
  "toStatus t =
     (case status_of t of
        None \<Rightarrow> Created
      | Some s \<Rightarrow> if s = Superseded then Created else s)"

definition isFinished :: "subscription \<Rightarrow> bool" where
  "isFinished s = (sub_status s \<in> {Cancelled, Expired, Completed, Superseded})"

definition middle_dots :: string where
  "middle_dots = concat (replicate 4 [CHR 0xC2, CHR 0xB7])"

definition describeMethod :: "rz_payment \<Rightarrow> string option" where
  "describeMethod p =
     (let last4 = Option.bind (rpay_card p) rc_last4 in
      if truthy last4 then
        Some (nullish_def_val (nullish (Option.bind (rpay_card p) rc_network)
                                       (Option.bind (rpay_card p) rc_issuer)) ''Card'' @
              '' '' @ middle_dots @ '' '' @ the last4)
      else if truthy (rpay_vpa p) then rpay_vpa p
      else if truthy (rpay_bank p) then rpay_bank p
      else if truthy (rpay_wallet p) then rpay_wallet p
      else None)"

text \<open>The product and the quotient are JavaScript numbers, rounded as they are.\<close>

definition prorate :: "ms \<Rightarrow> paise \<Rightarrow> ms option \<Rightarrow> ms option \<Rightarrow> paise" where
  "prorate now difference cycleStart cycleEnd =
     (case (cycleStart, cycleEnd) of
        (Some a, Some b) \<Rightarrow>
          if difference \<le> 0 then 0
          else
            let cycle = b - a; remaining = b - now in
            if cycle \<le> 0 \<or> remaining \<le> 0 then 0
            else dbl_floor_div (dbl (difference * min remaining cycle)) cycle
      | _ \<Rightarrow> 0)"

definition ownMandate :: "subscription \<Rightarrow> ('s, string) svc" where
  "ownMandate s =
     (if \<not> truthy (sub_mandate s)
      then throwE (BadRequest ''This organisation is billed through its agency, which holds the mandate.'')
      else retE (the (sub_mandate s)))"

section \<open>Reading\<close>

definition billing_find :: "org \<Rightarrow> world \<Rightarrow> subscription option" where
  "billing_find ssoOrgId w = List.find (\<lambda>s. sub_org s = ssoOrgId \<and> sub_wabaId s = None) (w_subs w)"

definition sellablePlan :: "string \<Rightarrow> org \<Rightarrow> (world, plan_row option) svc" where
  "sellablePlan planCode ssoOrgId w =
     (if planCode = [] then (Inr None, w)
      else
        case List.find (\<lambda>p. pl_code p = planCode \<and> pl_active p \<and>
                (pl_ssoOrgId p = None \<or> ssoOrgId \<noteq> [] \<and> pl_ssoOrgId p = Some ssoOrgId)) (w_plans w) of
          None \<Rightarrow> (Inl (NotFound (''Plan '' @ planCode @ '' is not on offer'')), w)
        | Some plan \<Rightarrow>
            if pl_ctaKind plan = ''contact''
            then (Inl (BadRequest (pl_name plan @ '' is priced individually '' @ em_dash @
                    '' contact sales rather than subscribing here.'')), w)
            else if \<not> truthy (pl_razorpayPlanId plan)
            then (Inl (BadRequest (pl_name plan @ '' is not available for checkout on this deployment yet.'')), w)
            else (Inr (Some plan), w))"

record subscription_plan =
  sp_planId :: string
  sp_name :: "string option"
  sp_amount :: paise
  sp_currency :: string
  sp_period :: string
  sp_interval :: int

definition billing_plan :: "env \<Rightarrow> string \<Rightarrow> world \<Rightarrow> subscription_plan option \<times> world" where
  "billing_plan e planId w =
     (let (p, w') = fetchPlan e (Some planId) w in
      (map_option (\<lambda>p. \<lparr>sp_planId = rp_id p, sp_name = rp_name p, sp_amount = rp_amount p,
                        sp_currency = rp_currency p, sp_period = rp_period p,
                        sp_interval = rp_interval p\<rparr>) p, w'))"

definition currentPrice :: "env \<Rightarrow> subscription \<Rightarrow> world \<Rightarrow> paise option \<times> world" where
  "currentPrice e s w =
     (case Option.bind (plan_of_sub (w_plans w) s) pl_price of
        Some p \<Rightarrow> (Some p, w)
      | None \<Rightarrow> (let (remote, w') = billing_plan e (sub_planId s) w in (map_option sp_amount remote, w')))"

definition profileFor :: "world \<Rightarrow> nat \<Rightarrow> string option \<times> string option" where
  "profileFor w userId =
     (let user = user_by_id w userId;
          nm = js_trim (joined_truthy CHR '' '' [Option.bind user us_firstName, Option.bind user us_lastName]);
          email = Option.bind user us_email in
      (if nm = [] then None else Some nm, if truthy email then email else None))"

definition orgCustomerId :: "world \<Rightarrow> org \<Rightarrow> string option" where
  "orgCustomerId w ssoOrgId =
     Option.bind (find_max (\<lambda>s. sub_org s = ssoOrgId \<and> sub_customerId s \<noteq> None) sub_createdAt (w_subs w))
       sub_customerId"

section \<open>The answer the console reads\<close>

record covered_account =
  ca_wabaId :: string
  ca_name :: string
  ca_phoneNumbers :: nat
  ca_webhookEndpoints :: nat
  ca_apiKeys :: nat

definition coveredAccounts :: "org \<Rightarrow> world \<Rightarrow> covered_account list" where
  "coveredAccounts ssoOrgId w =
     map (\<lambda>a. \<lparr>ca_wabaId = wb_wabaId a, ca_name = wb_name a,
               ca_phoneNumbers = count_rows (\<lambda>n. pn_wabaId n = wb_wabaId a) (w_numbers w),
               ca_webhookEndpoints =
                 count_rows (\<lambda>p. er_org p = ssoOrgId \<and> er_wabaId p = wb_wabaId a) (w_endpoints w),
               ca_apiKeys =
                 count_rows (\<lambda>k. kr_org k = ssoOrgId \<and> kr_wabaId k = Some (wb_wabaId a) \<and> kr_status k)
                   (w_apiKeys w)\<rparr>)
       (sort_key wb_createdAt
         (filter (\<lambda>a. list_ex (\<lambda>r. wo_wabaId r = wb_wabaId a \<and> wo_org r = ssoOrgId) (w_wabaOrgs w)) (w_wabas w)))"

definition teamMemberCount :: "env \<Rightarrow> org \<Rightarrow> string \<Rightarrow> nat option" where
  "teamMemberCount e ssoOrgId authorization =
     (case (e_members e ssoOrgId authorization, e_invitations e ssoOrgId authorization) of
        (SsoRaises, _) \<Rightarrow> None
      | (_, SsoRaises) \<Rightarrow> None
      | (SsoArray m, SsoArray i) \<Rightarrow> Some (m + i)
      | (SsoArray m, SsoOther) \<Rightarrow> Some m
      | (SsoOther, _) \<Rightarrow> None)"

record payment_dto =
  pd_payment :: payment_row
  pd_invoiceNumber :: "string option"

text \<open>Newest first; PostgreSQL puts the undated ones before all others.\<close>

definition paymentsFor :: "nat option \<Rightarrow> world \<Rightarrow> payment_dto list" where
  "paymentsFor subscriptionId w =
     (case subscriptionId of
        None \<Rightarrow> []
      | Some i \<Rightarrow>
          map (\<lambda>p. \<lparr>pd_payment = p, pd_invoiceNumber = map_option in_number
                     (List.find (\<lambda>inv. in_paymentId inv = Some (pay_id p)) (w_invoices w))\<rparr>)
            (take 12 (sort_key (\<lambda>p. (pay_paidAt p \<noteq> None, - nullish_def_val (pay_paidAt p) 0, - int (pay_id p)))
              (filter (\<lambda>p. pay_subscriptionId p = Some i) (w_payments w)))))"

record pending_authorisation =
  pa_subscriptionId :: string
  pa_authorisationUrl :: "string option"
  pa_planCode :: "string option"
  pa_planName :: "string option"
  pa_prorationAmount :: "paise option"

record usage =
  ug_wabas :: nat
  ug_phoneNumbers :: nat
  ug_clients :: "nat option"
  ug_contacts :: nat
  ug_webhookEndpoints :: nat
  ug_apiKeys :: nat
  ug_teamMembers :: "nat option"
  ug_limits :: effective_limits

record sub_state =
  ss_active :: bool
  ss_covers :: "covered_account list"
  ss_usage :: usage
  ss_payerOrgId :: "org option"
  ss_payerName :: "string option"
  ss_status :: "sub_status option"
  ss_currentStart :: "ms option"
  ss_currentEnd :: "ms option"
  ss_cancelAtCycleEnd :: bool
  ss_subscriptionId :: "string option"
  ss_authorisationUrl :: "string option"
  ss_keyId :: "string option"
  ss_billingEnabled :: bool
  ss_planCode :: "string option"
  ss_planName :: "string option"
  ss_pendingPlanCode :: "string option"
  ss_pendingPlanName :: "string option"
  ss_pendingPlanAt :: "ms option"
  ss_plan :: "subscription_plan option"
  ss_lastPayment :: "payment_dto option"
  ss_payments :: "payment_dto list"
  ss_nextChargeAt :: "ms option"
  ss_paidCount :: nat
  ss_pendingAuthorisation :: "pending_authorisation option"

definition pending_plan_of :: "world \<Rightarrow> subscription \<Rightarrow> plan_row option" where
  "pending_plan_of w s = Option.bind (sub_pendingPlanRefId s) (plan_by_id (w_plans w))"

definition toState ::
  "env \<Rightarrow> world \<Rightarrow> subscription option \<Rightarrow> subscription_plan option \<Rightarrow> payment_dto list \<Rightarrow>
   covered_account list \<Rightarrow> usage \<Rightarrow> string option \<Rightarrow> pending_authorisation option \<Rightarrow> sub_state" where
  "toState e w sub plan payments covers usage payerName pendingAuthorisation =
     (let awaiting = (case sub of None \<Rightarrow> False | Some s \<Rightarrow> sub_status s \<in> {Created, Authenticated});
          tier = Option.bind sub (plan_of_sub (w_plans w));
          next_tier = Option.bind sub (pending_plan_of w)
      in \<lparr>ss_active = grants (e_now e) sub, ss_covers = covers, ss_usage = usage,
          ss_payerOrgId = Option.bind sub sub_payerOrgId, ss_payerName = payerName,
          ss_status = map_option sub_status sub, ss_currentStart = Option.bind sub sub_currentStart,
          ss_currentEnd = Option.bind sub sub_currentEnd,
          ss_cancelAtCycleEnd = (case sub of None \<Rightarrow> False | Some s \<Rightarrow> sub_cancelAtCycleEnd s),
          ss_subscriptionId = (if awaiting then Option.bind sub sub_mandate else None),
          ss_authorisationUrl = (if awaiting then Option.bind sub sub_shortUrl else None),
          ss_keyId = (if awaiting \<or> pendingAuthorisation \<noteq> None then e_keyId e else None),
          ss_billingEnabled = isConfigured e, ss_planCode = map_option pl_code tier,
          ss_planName = map_option pl_name tier, ss_pendingPlanCode = map_option pl_code next_tier,
          ss_pendingPlanName = map_option pl_name next_tier,
          ss_pendingPlanAt = Option.bind sub sub_pendingPlanAt, ss_plan = plan,
          ss_lastPayment = (case payments of [] \<Rightarrow> None | p # _ \<Rightarrow> Some p), ss_payments = payments,
          ss_nextChargeAt = (case sub of
              None \<Rightarrow> None
            | Some s \<Rightarrow> if \<not> sub_cancelAtCycleEnd s \<and> \<not> isFinished s then sub_currentEnd s else None),
          ss_paidCount = count_rows (\<lambda>p. pay_status (pd_payment p) = ''captured'') payments,
          ss_pendingAuthorisation = pendingAuthorisation\<rparr>)"

definition stateOf :: "env \<Rightarrow> org \<Rightarrow> subscription option \<Rightarrow> string option \<Rightarrow> world \<Rightarrow> sub_state \<times> world" where
  "stateOf e ssoOrgId sub authorization w =
     (let covers = coveredAccounts ssoOrgId w;
          limits = limits_forOrg w ssoOrgId;
          clients = (if ov_isAgency (settings_get (w_settings w) ssoOrgId)
                     then Some (length (clientsOf (w_settings w) ssoOrgId)) else None);
          teamMembers = (if truthy authorization then teamMemberCount e ssoOrgId (the authorization) else None);
          pendingAuthorisation = (case sub of
              None \<Rightarrow> None
            | Some s \<Rightarrow>
                if truthy (sub_pendingMandate s) then
                  Some \<lparr>pa_subscriptionId = the (sub_pendingMandate s),
                        pa_authorisationUrl = sub_pendingShortUrl s,
                        pa_planCode = map_option pl_code (pending_plan_of w s),
                        pa_planName = map_option pl_name (pending_plan_of w s),
                        pa_prorationAmount = None\<rparr>
                else None);
          (payerName, w1) = (case Option.bind sub sub_payerOrgId of
              None \<Rightarrow> (None, w) | Some p \<Rightarrow> org_name e (Some p) w);
          (plan, w2) = (case sub of None \<Rightarrow> (None, w1) | Some s \<Rightarrow> billing_plan e (sub_planId s) w1);
          payments = paymentsFor (map_option sub_id sub) w2;
          usage = \<lparr>ug_wabas = length covers, ug_phoneNumbers = sum_list (map ca_phoneNumbers covers),
                   ug_clients = clients, ug_contacts = count_rows (\<lambda>c. ct_org c = ssoOrgId) (w_contacts w),
                   ug_webhookEndpoints = sum_list (map ca_webhookEndpoints covers),
                   ug_apiKeys = sum_list (map ca_apiKeys covers), ug_teamMembers = teamMembers,
                   ug_limits = limits\<rparr>
      in (toState e w2 sub plan payments covers usage payerName pendingAuthorisation, w2))"

definition billing_state :: "env \<Rightarrow> org \<Rightarrow> string option \<Rightarrow> world \<Rightarrow> sub_state \<times> world" where
  "billing_state e ssoOrgId authorization w = stateOf e ssoOrgId (billing_find ssoOrgId w) authorization w"

section \<open>Writing a row\<close>

text \<open>\<open>update\<close> on the row's id: the row as it then is.\<close>

definition update_sub :: "nat \<Rightarrow> (subscription \<Rightarrow> subscription) \<Rightarrow> (world, subscription) svc" where
  "update_sub i f =
     thenE (write_subs (update_rows (\<lambda>s. sub_id s = i) f))
       (\<lambda>w. case List.find (\<lambda>s. sub_id s = i) (w_subs w) of
              None \<Rightarrow> (Inl (RuntimeError ''Record to update not found''), w)
            | Some s \<Rightarrow> (Inr s, w))"

section \<open>What the provider says\<close>

definition tierFor :: "plan_row list \<Rightarrow> subscription \<Rightarrow> string \<Rightarrow> subscription \<Rightarrow> subscription" where
  "tierFor plans s remotePlanId row =
     (if remotePlanId = [] \<or> remotePlanId = sub_planId s then row
      else
        (case List.find (\<lambda>p. pl_razorpayPlanId p = Some remotePlanId) plans of
           None \<Rightarrow> row\<lparr>sub_planId := remotePlanId\<rparr>
         | Some p \<Rightarrow> row\<lparr>sub_planId := remotePlanId, sub_planRefId := Some (pl_id p),
                         sub_pendingPlanRefId := None, sub_pendingPlanAt := None\<rparr>))"

definition later_end :: "ms option \<Rightarrow> ms option \<Rightarrow> ms option" where
  "later_end remote own =
     (case (remote, own) of
        (None, _) \<Rightarrow> own
      | (Some r, None) \<Rightarrow> Some r
      | (Some r, Some x) \<Rightarrow> if x < r then Some r else Some x)"

definition remote_row :: "env \<Rightarrow> plan_row list \<Rightarrow> subscription \<Rightarrow> rz_subscription \<Rightarrow> subscription \<Rightarrow> subscription" where
  "remote_row e plans s remote row =
     (let status = toStatus (rz_status remote) in
      tierFor plans s (rz_plan_id remote)
        (row\<lparr>sub_status := status,
             sub_currentStart := nullish (at_seconds (rz_current_start remote)) (sub_currentStart s),
             sub_currentEnd := later_end (at_seconds (rz_current_end remote)) (sub_currentEnd s),
             sub_cancelledAt := (if status = Cancelled then nullish (sub_cancelledAt s) (Some (e_now e))
                                 else sub_cancelledAt s),
             sub_shortUrl := (if status = Created then sub_shortUrl s else None)\<rparr>))"

fun provision_each :: "env \<Rightarrow> string list \<Rightarrow> world \<Rightarrow> world" where
  "provision_each e [] w = w"
| "provision_each e (wabaId # rest) w =
     provision_each e rest
       (if 0 < count_rows (\<lambda>n. pn_wabaId n = wabaId) (w_numbers w) \<or> e_provision_fails e wabaId then w
        else w\<lparr>w_provisioned := w_provisioned w @ [wabaId]\<rparr>)"

definition provisionIfNewlyPaid :: "env \<Rightarrow> subscription \<Rightarrow> subscription \<Rightarrow> world \<Rightarrow> world" where
  "provisionIfNewlyPaid e before after w =
     (if grants (e_now e) (Some before) \<or> \<not> grants (e_now e) (Some after) then w
      else provision_each e
             (if truthy (sub_wabaId after) then [the (sub_wabaId after)]
              else map wo_wabaId (filter (\<lambda>r. wo_org r = sub_org after) (w_wabaOrgs w))) w)"

definition applyRemote :: "env \<Rightarrow> subscription \<Rightarrow> rz_subscription \<Rightarrow> (world, subscription) svc" where
  "applyRemote e s remote =
     bindE (\<lambda>w. update_sub (sub_id s) (remote_row e (w_plans w) s remote) w) (\<lambda>updated.
     thenE (modE (provisionIfNewlyPaid e s updated)) (retE updated))"

section \<open>Subscribing\<close>

record registered =
  rg_subscriptionId :: string
  rg_keyId :: string
  rg_authorisationUrl :: string
  rg_status :: sub_status
  rg_planCode :: string

definition registered_of :: "env \<Rightarrow> rz_subscription \<Rightarrow> plan_row \<Rightarrow> registered" where
  "registered_of e created plan =
     \<lparr>rg_subscriptionId = rz_id created, rg_keyId = nullish_def_val (e_keyId e) [],
      rg_authorisationUrl = nullish_def_val (rz_short_url created) [],
      rg_status = toStatus (rz_status created), rg_planCode = pl_code plan\<rparr>"

text \<open>A customer already known, or a new one.\<close>

definition customer_or_new ::
  "env \<Rightarrow> org \<Rightarrow> string option \<times> string option \<Rightarrow> string option \<Rightarrow> (world, string) svc" where
  "customer_or_new e ssoOrgId profile known =
     (case known of
        Some c \<Rightarrow> retE c
      | None \<Rightarrow> createCustomer e (fst profile) (snd profile) [(''ssoOrgId'', ssoOrgId)])"

definition pending_cancelled :: "env \<Rightarrow> subscription \<Rightarrow> world \<Rightarrow> world" where
  "pending_cancelled e s w =
     (if truthy (sub_pendingMandate s)
      then snd (cancelSubscription e (the (sub_pendingMandate s)) False w) else w)"

definition startResubscribe :: "env \<Rightarrow> subscription \<Rightarrow> plan_row \<Rightarrow> nat \<Rightarrow> (world, registered) svc" where
  "startResubscribe e s plan userId =
     (let startAt = (case sub_currentEnd s of None \<Rightarrow> None | Some b \<Rightarrow> if e_now e < b then Some b else None) in
      thenE (modE (pending_cancelled e s))
     (bindE (getE (\<lambda>w. profileFor w userId)) (\<lambda>profile.
      bindE (getE (\<lambda>w. nullish (sub_customerId s) (orgCustomerId w (sub_org s)))) (\<lambda>known.
      bindE (customer_or_new e (sub_org s) profile known) (\<lambda>customerId.
      bindE (ownMandate s) (\<lambda>mandate.
      bindE (createSubscription e (Some customerId) (the (pl_razorpayPlanId plan))
               (map_option (\<lambda>t. t div 1000) startAt) None
               [(''ssoOrgId'', sub_org s), (''userId'', nat_str userId), (''planCode'', pl_code plan),
                (''resubscribeAfter'', mandate)]) (\<lambda>created.
      bindE (update_sub (sub_id s) (\<lambda>r. r\<lparr>sub_customerId := Some customerId,
               sub_pendingMandate := Some (rz_id created), sub_pendingShortUrl := rz_short_url created,
               sub_pendingPlanRefId := Some (pl_id plan), sub_pendingPlanAt := startAt\<rparr>)) (\<lambda>_.
      retE (registered_of e created plan)))))))))"

definition registered_row ::
  "nat \<Rightarrow> string \<Rightarrow> rz_subscription \<Rightarrow> plan_row \<Rightarrow> subscription \<Rightarrow> subscription" where
  "registered_row userId customerId created plan r =
     r\<lparr>sub_customerId := Some customerId, sub_mandate := Some (rz_id created),
       sub_planId := rz_plan_id created, sub_planRefId := Some (pl_id plan),
       sub_status := toStatus (rz_status created),
       sub_currentStart := at_seconds (rz_current_start created),
       sub_currentEnd := at_seconds (rz_current_end created), sub_cancelAtCycleEnd := False,
       sub_cancelledAt := None, sub_shortUrl := rz_short_url created, sub_createdByUserId := userId\<rparr>"

definition blank_sub :: "nat \<Rightarrow> org \<Rightarrow> ms \<Rightarrow> subscription" where
  "blank_sub i ssoOrgId now =
     \<lparr>sub_id = i, sub_wabaId = None, sub_org = ssoOrgId, sub_customerId = None, sub_mandate = None,
      sub_planId = [], sub_planRefId = None, sub_pendingPlanRefId = None, sub_pendingPlanAt = None,
      sub_status = Created, sub_currentStart = None, sub_currentEnd = None,
      sub_cancelAtCycleEnd = False, sub_cancelledAt = None, sub_shortUrl = None,
      sub_pendingMandate = None, sub_pendingShortUrl = None, sub_payerOrgId = None,
      sub_billingGroupId = None, sub_createdByUserId = 0, sub_createdAt = now\<rparr>"

definition register_fresh ::
  "env \<Rightarrow> nat \<Rightarrow> org \<Rightarrow> plan_row \<Rightarrow> subscription option \<Rightarrow> (world, registered) svc" where
  "register_fresh e userId ssoOrgId plan existing =
     bindE (getE (\<lambda>w. profileFor w userId)) (\<lambda>profile.
     bindE (getE (\<lambda>w. nullish (Option.bind existing sub_customerId) (orgCustomerId w ssoOrgId))) (\<lambda>reused.
     thenE (modE (\<lambda>w. if truthy reused then updateCustomer e (the reused) (fst profile) (snd profile) w else w))
    (bindE (customer_or_new e ssoOrgId profile reused) (\<lambda>customerId.
     bindE (createSubscription e (Some customerId) (the (pl_razorpayPlanId plan)) None None
              [(''ssoOrgId'', ssoOrgId), (''userId'', nat_str userId), (''planCode'', pl_code plan)]) (\<lambda>created.
     let data = registered_row userId customerId created plan in
     thenE (case existing of
              Some s \<Rightarrow> bindE (update_sub (sub_id s) data) (\<lambda>_. retE ())
            | None \<Rightarrow> insert_sub (\<lambda>i. data (blank_sub i ssoOrgId (e_now e))))
    (thenE (modE (invalidatePayer e ssoOrgId)) (retE (registered_of e created plan))))))))"

definition register :: "env \<Rightarrow> nat \<Rightarrow> org \<Rightarrow> string \<Rightarrow> (world, registered) svc" where
  "register e userId ssoOrgId planCode =
     thenE (refuse_if (\<not> isConfigured e) (BadRequest ''Payments are not configured on this deployment''))
    (bindE (sellablePlan planCode ssoOrgId) (\<lambda>plan.
     case plan of
       None \<Rightarrow> throwE (BadRequest ''A plan is required'')
     | Some plan \<Rightarrow>
         bindE (getE (billing_find ssoOrgId)) (\<lambda>existing.
         bindE (getE (\<lambda>w. billingOrgFor (w_settings w) ssoOrgId)) (\<lambda>payer.
         thenE (refuse_if (payer \<noteq> ssoOrgId)
                  (BadRequest ''This organisation is billed through its agency, which holds the subscription.''))
           (case existing of
              Some s \<Rightarrow>
                if isFinished s then register_fresh e userId ssoOrgId plan existing
                else if sub_cancelAtCycleEnd s then startResubscribe e s plan userId
                else throwE (BadRequest
                  ''This organisation already has a subscription. Change its tier rather than starting another.'')
            | None \<Rightarrow> register_fresh e userId ssoOrgId plan None)))))"

section \<open>Confirming\<close>

definition promoteUpgrade :: "env \<Rightarrow> subscription \<Rightarrow> (world, subscription) svc" where
  "promoteUpgrade e s =
     thenE (modE (\<lambda>w. case ownMandate s w of
                        (Inr m, _) \<Rightarrow> snd (cancelSubscription e m True w) | (Inl _, _) \<Rightarrow> w))
       (update_sub (sub_id s) (\<lambda>r. r\<lparr>sub_mandate := sub_pendingMandate s, sub_shortUrl := sub_pendingShortUrl s,
          sub_planRefId := sub_pendingPlanRefId s, sub_pendingMandate := None, sub_pendingShortUrl := None,
          sub_pendingPlanRefId := None, sub_pendingPlanAt := None, sub_cancelAtCycleEnd := False,
          sub_cancelledAt := None\<rparr>))"

definition confirm ::
  "env \<Rightarrow> org \<Rightarrow> string \<Rightarrow> string \<Rightarrow> string \<Rightarrow> (world, sub_state) svc" where
  "confirm e ssoOrgId paymentId subscriptionId signature =
     bindE (getE (billing_find ssoOrgId)) (\<lambda>found.
     case found of
       None \<Rightarrow> throwE (NotFound ''No subscription to confirm'')
     | Some s \<Rightarrow>
         let upgrading = truthy (sub_pendingMandate s) \<and> Some subscriptionId = sub_pendingMandate s in
         thenE (refuse_if (\<not> upgrading \<and> Some subscriptionId \<noteq> sub_mandate s)
                  (BadRequest ''That payment belongs to another subscription''))
        (thenE (refuse_if (\<not> verifyCheckoutSignature e paymentId subscriptionId signature)
                  (BadRequest ''Payment could not be verified''))
        (bindE (if upgrading then promoteUpgrade e s else retE s) (\<lambda>promoted.
         bindE (ownMandate promoted) (\<lambda>mandate.
         bindE (fetchSubscription e mandate) (\<lambda>remote.
         bindE (applyRemote e promoted remote) (\<lambda>updated.
         thenE (modE (invalidatePayer e ssoOrgId))
           (safely (stateOf e ssoOrgId (Some updated) None)))))))))"

section \<open>Changing tier\<close>

definition startUpgrade :: "env \<Rightarrow> subscription \<Rightarrow> plan_row \<Rightarrow> paise \<Rightarrow> (world, sub_state) svc" where
  "startUpgrade e s target price =
     (let startAt = sub_currentEnd s;
          proration = prorate (e_now e) (the (pl_price target) - price) (sub_currentStart s) startAt in
      bindE (ownMandate s) (\<lambda>mandate.
      bindE (createSubscription e (sub_customerId s) (the (pl_razorpayPlanId target))
               (map_option (\<lambda>t. t div 1000) startAt) None
               [(''ssoOrgId'', sub_org s), (''planCode'', pl_code target), (''upgradeFrom'', mandate)]) (\<lambda>created.
      thenE (if 0 < proration then
               safely (\<lambda>w. ((), snd (addSubscriptionAddon e (rz_id created)
                 (''Upgrade to '' @ pl_name target @ '' for the rest of the current month'') proration ''INR'' 1 w)))
             else retE ())
     (bindE (update_sub (sub_id s) (\<lambda>r. r\<lparr>sub_pendingMandate := Some (rz_id created),
               sub_pendingShortUrl := rz_short_url created, sub_pendingPlanRefId := Some (pl_id target),
               sub_pendingPlanAt := startAt\<rparr>)) (\<lambda>_.
      bindE (safely (stateOf e (sub_org s) (Some s) None)) (\<lambda>state.
      retE (state\<lparr>ss_pendingAuthorisation := Some
        \<lparr>pa_subscriptionId = rz_id created, pa_authorisationUrl = rz_short_url created,
         pa_planCode = Some (pl_code target), pa_planName = Some (pl_name target),
         pa_prorationAmount = (if 0 < proration then Some proration else None)\<rparr>\<rparr>)))))))"

definition scheduleDowngrade :: "env \<Rightarrow> subscription \<Rightarrow> plan_row \<Rightarrow> (world, sub_state) svc" where
  "scheduleDowngrade e s target =
     bindE (ownMandate s) (\<lambda>mandate.
     bindE (changeSubscriptionPlan e mandate (the (pl_razorpayPlanId target)) True) (\<lambda>_.
     bindE (update_sub (sub_id s) (\<lambda>r. r\<lparr>sub_pendingPlanRefId := Some (pl_id target),
              sub_pendingPlanAt := sub_currentEnd s, sub_pendingMandate := None,
              sub_pendingShortUrl := None\<rparr>)) (\<lambda>updated.
     thenE (modE (invalidatePayer e (sub_org s)))
       (safely (stateOf e (sub_org s) (Some updated) None)))))"

definition changePlan_refusal :: "subscription \<Rightarrow> plan_row \<Rightarrow> http_exn option" where
  "changePlan_refusal s target =
     (if isFinished s then
        Some (BadRequest ''This subscription has ended. Subscribe again on the tier you want.'')
      else if sub_cancelAtCycleEnd s then
        Some (BadRequest ''This subscription is set to end at the close of the paid month, so there is nothing to move onto another tier.'')
      else if sub_status s \<in> {Created, Authenticated} then
        Some (BadRequest ''This subscription has not been authorised yet. Cancel it and subscribe on the tier you want.'')
      else if sub_planRefId s = Some (pl_id target) then
        Some (BadRequest (''This organisation is already on '' @ pl_name target))
      else None)"

definition changePlan :: "env \<Rightarrow> org \<Rightarrow> string \<Rightarrow> (world, sub_state) svc" where
  "changePlan e ssoOrgId planCode =
     thenE (refuse_if (\<not> isConfigured e) (BadRequest ''Payments are not configured on this deployment''))
    (bindE (sellablePlan planCode ssoOrgId) (\<lambda>plan.
     case plan of
       None \<Rightarrow> throwE (BadRequest ''A plan is required'')
     | Some target \<Rightarrow>
         bindE (getE (billing_find ssoOrgId)) (\<lambda>found.
         case found of
           None \<Rightarrow> throwE (NotFound
             (''This organisation has no subscription to change '' @ em_dash @ '' subscribe first''))
         | Some s \<Rightarrow>
             (case changePlan_refusal s target of
                Some err \<Rightarrow> throwE err
              | None \<Rightarrow>
                  bindE (safely (currentPrice e s)) (\<lambda>price.
                  case (price, pl_price target) of
                    (Some p, Some t) \<Rightarrow>
                      if p < t then startUpgrade e s target p else scheduleDowngrade e s target
                  | _ \<Rightarrow> scheduleDowngrade e s target)))))"

section \<open>Cancelling\<close>

definition billing_cancel :: "env \<Rightarrow> org \<Rightarrow> (world, sub_state) svc" where
  "billing_cancel e ssoOrgId =
     bindE (getE (billing_find ssoOrgId)) (\<lambda>found.
     case found of
       None \<Rightarrow> throwE (NotFound ''No subscription to cancel'')
     | Some s \<Rightarrow>
         thenE (refuse_if (isFinished s) (BadRequest ''This subscription has already ended''))
        (thenE (refuse_if (sub_cancelAtCycleEnd s) (BadRequest ''This subscription is already set to end''))
        (let paidMonthLeft = (case sub_currentEnd s of None \<Rightarrow> False | Some b \<Rightarrow> e_now e < b) in
         bindE (ownMandate s) (\<lambda>mandate.
         bindE (cancelSubscription e mandate paidMonthLeft) (\<lambda>remote.
         thenE (modE (pending_cancelled e s))
        (bindE (update_sub (sub_id s) (\<lambda>r. r\<lparr>sub_status := toStatus (rz_status remote),
                  sub_cancelAtCycleEnd := paidMonthLeft, sub_cancelledAt := Some (e_now e),
                  sub_shortUrl := None, sub_pendingMandate := None, sub_pendingShortUrl := None\<rparr>)) (\<lambda>updated.
         thenE (modE (invalidatePayer e ssoOrgId))
        (thenE (modE (\<lambda>w. w\<lparr>w_mails := w_mails w @
                  [MailCancelled (sub_createdByUserId s) ssoOrgId (if paidMonthLeft then sub_currentEnd s else None)]\<rparr>))
           (safely (stateOf e ssoOrgId (Some updated) None))))))))))"

section \<open>Webhooks\<close>

text \<open>The parts of a webhook's body the handler reads; an entity without an id has the empty one.\<close>

record rz_webhook =
  wk_eventId :: string
  wk_event :: "string option"
  wk_subscription :: "rz_subscription option"
  wk_payment :: "rz_payment option"

definition billing_paymentRow :: "rz_payment option \<Rightarrow> payment_row option" where
  "billing_paymentRow payment =
     (case payment of
        None \<Rightarrow> None
      | Some p \<Rightarrow>
          if rpay_id p = [] then None
          else Some \<lparr>pay_id = 0, pay_subscriptionId = None, pay_billingGroupId = None,
                     pay_razorpayPaymentId = rpay_id p, pay_razorpayInvoiceId = rpay_invoice_id p,
                     pay_amount = nullish_def_val (rpay_amount p) 0,
                     pay_currency = nullish_def_val (rpay_currency p) ''INR'',
                     pay_status = nullish_def_val (rpay_status p) ''captured'',
                     pay_method = rpay_method p, pay_methodDetail = describeMethod p,
                     pay_paidAt = at_seconds (rpay_created_at p)\<rparr>)"

definition recordPayment :: "env \<Rightarrow> nat \<Rightarrow> rz_payment option \<Rightarrow> world \<Rightarrow> payment_row option \<times> world" where
  "recordPayment e subscriptionId payment w =
     (case billing_paymentRow payment of
        None \<Rightarrow> (None, w)
      | Some data \<Rightarrow>
          if e_db_raises e ''subscriptionPayment.upsert'' then (None, w)
          else
            let (r, w') = upsert_payment (data\<lparr>pay_subscriptionId := Some subscriptionId\<rparr>)
                  (\<lambda>q. data\<lparr>pay_id := pay_id q, pay_subscriptionId := pay_subscriptionId q,
                             pay_billingGroupId := pay_billingGroupId q\<rparr>) w
            in (Some r, w'))"

definition plural_s :: "nat \<Rightarrow> string" where "plural_s n = (if n = 1 then [] else ''s'')"

definition billExtraWabas :: "env \<Rightarrow> string \<Rightarrow> plan_row \<Rightarrow> nat \<Rightarrow> world \<Rightarrow> world" where
  "billExtraWabas e mandate plan connected w =
     (case pl_additionalWabaPrice plan of
        None \<Rightarrow> w
      | Some price \<Rightarrow>
          let extras = max 0 (int connected - nullish_def_val (pl_includedWabas plan) 0) in
          if price = 0 \<or> extras = 0 then w
          else snd (addSubscriptionAddon e mandate
                 (''Additional WhatsApp Business Account'' @ plural_s (nat extras)) price
                 (pl_currency plan) extras w))"

definition extra_numbers :: "phone_number_row list \<Rightarrow> int \<Rightarrow> string list \<Rightarrow> int" where
  "extra_numbers numbers perWaba wabaIds =
     sum_list (map (\<lambda>a. max 0 (int (count_rows
         (\<lambda>n. pn_wabaId n = a \<and> pn_platformType n = Some ''CLOUD_API'') numbers) - perWaba))
       (remdups (map pn_wabaId (filter (\<lambda>n. pn_wabaId n \<in> set wabaIds \<and>
                                            pn_platformType n = Some ''CLOUD_API'') numbers))))"

definition billExtraNumbers :: "env \<Rightarrow> string \<Rightarrow> plan_row \<Rightarrow> string list \<Rightarrow> world \<Rightarrow> world" where
  "billExtraNumbers e mandate plan wabaIds w =
     (case pl_additionalNumberPrice plan of
        None \<Rightarrow> w
      | Some price \<Rightarrow>
          let extras = extra_numbers (w_numbers w) (nullish_def_val (pl_includedPhoneNumbersPerWaba plan) 0) wabaIds in
          if price = 0 \<or> wabaIds = [] \<or> extras = 0 then w
          else snd (addSubscriptionAddon e mandate (''Additional phone number'' @ plural_s (nat extras))
                 price (pl_currency plan) extras w))"

definition billOverage :: "env \<Rightarrow> subscription \<Rightarrow> world \<Rightarrow> world" where
  "billOverage e s w =
     (case (sub_planRefId s, sub_mandate s) of
        (Some planRef, Some mandate) \<Rightarrow>
          if planRef = 0 \<or> mandate = [] then w
          else
            (case plan_by_id (w_plans w) planRef of
               None \<Rightarrow> w
             | Some plan \<Rightarrow>
                 let scope = (if truthy (sub_payerOrgId s) then [sub_org s]
                              else billingScope (w_settings w) (sub_org s));
                     wabaIds = (if truthy (sub_wabaId s) then [the (sub_wabaId s)]
                                else map wo_wabaId (filter (\<lambda>r. wo_org r \<in> set scope) (w_wabaOrgs w)))
                 in billExtraNumbers e mandate plan wabaIds
                      (billExtraWabas e mandate plan (length wabaIds) w))
      | _ \<Rightarrow> w)"

definition billing_notify :: "string \<Rightarrow> subscription \<Rightarrow> sub_status \<Rightarrow> ms option \<Rightarrow> mail_event list" where
  "billing_notify event s status currentEnd =
     (if event = ''subscription.charged'' \<or> event = ''subscription.activated'' then
        (case currentEnd of
           None \<Rightarrow> []
         | Some b \<Rightarrow>
             if status = Active \<and> nullish_def_val (sub_currentEnd s) 0 < b
             then [MailCharged (sub_createdByUserId s) (sub_org s) b] else [])
      else if event = ''subscription.pending'' \<or> event = ''subscription.halted''
      then [MailPaymentFailed (sub_createdByUserId s) (sub_org s) (status = Halted) currentEnd]
      else [])"

definition own_request ::
  "world \<Rightarrow> subscription \<Rightarrow> rz_subscription \<Rightarrow> payment_row \<Rightarrow> invoice_request" where
  "own_request w s entity p =
     \<lparr>iq_paymentId = Some (pay_id p), iq_razorpayPaymentId = pay_razorpayPaymentId p,
      iq_razorpayInvoiceId = pay_razorpayInvoiceId p, iq_org = sub_org s, iq_billingGroupId = None,
      iq_userId = sub_createdByUserId s, iq_planCode = map_option pl_code (plan_of_sub (w_plans w) s),
      iq_planName = map_option pl_name (plan_of_sub (w_plans w) s), iq_amount = pay_amount p,
      iq_currency = pay_currency p, iq_paidAt = pay_paidAt p, iq_method = pay_method p,
      iq_methodDetail = pay_methodDetail p, iq_periodStart = at_seconds (rz_current_start entity),
      iq_periodEnd = at_seconds (rz_current_end entity)\<rparr>"

definition group_request :: "applied_group_charge \<Rightarrow> payment_row \<Rightarrow> invoice_request" where
  "group_request a p =
     \<lparr>iq_paymentId = Some (pay_id p), iq_razorpayPaymentId = pay_razorpayPaymentId p,
      iq_razorpayInvoiceId = pay_razorpayInvoiceId p, iq_org = ag_agencyOrgId a,
      iq_billingGroupId = Some (ag_billingGroupId a), iq_userId = ag_userId a,
      iq_planCode = ag_planCode a, iq_planName = ag_planName a, iq_amount = pay_amount p,
      iq_currency = pay_currency p, iq_paidAt = pay_paidAt p, iq_method = pay_method p,
      iq_methodDetail = pay_methodDetail p, iq_periodStart = ag_currentStart a,
      iq_periodEnd = ag_currentEnd a\<rparr>"

definition invoice_if_captured :: "env \<Rightarrow> payment_row option \<Rightarrow> (payment_row \<Rightarrow> invoice_request) \<Rightarrow> world \<Rightarrow> world" where
  "invoice_if_captured e recorded request w =
     (case recorded of
        None \<Rightarrow> w
      | Some p \<Rightarrow> if pay_status p = ''captured'' then snd (issueFor e (request p) w) else w)"

text \<open>The event is written first; a second delivery of it stops there.\<close>

definition record_event :: "env \<Rightarrow> rz_webhook \<Rightarrow> (world, bool) svc" where
  "record_event e b w =
     (if list_ex (\<lambda>x. ev_eventId x = wk_eventId b) (w_events w) then (Inr False, w)
      else if e_db_raises e ''subscriptionEvent.create'' then (Inl (RuntimeError ''subscriptionEvent.create''), w)
      else (Inr True, w\<lparr>w_events := w_events w @
             [\<lparr>ev_eventId = wk_eventId b, ev_event = nullish_def_val (wk_event b) ''unknown'',
               ev_org = Option.bind (wk_subscription b) (\<lambda>x. map_of (rz_notes x) ''ssoOrgId''),
               ev_mandate = map_option rz_id (wk_subscription b)\<rparr>]\<rparr>))"

definition group_webhook :: "env \<Rightarrow> rz_webhook \<Rightarrow> rz_subscription \<Rightarrow> (world, unit) svc" where
  "group_webhook e b entity =
     bindE (applyToGroup e (rz_id entity) entity (billing_paymentRow (wk_payment b))) (\<lambda>applied.
     case applied of
       None \<Rightarrow> retE ()
     | Some a \<Rightarrow> modE (invoice_if_captured e (ag_payment a) (group_request a)))"

definition own_webhook :: "env \<Rightarrow> rz_webhook \<Rightarrow> string \<Rightarrow> rz_subscription \<Rightarrow> subscription \<Rightarrow> (world, unit) svc" where
  "own_webhook e b event entity s =
     bindE (getE (\<lambda>w. own_request w s entity)) (\<lambda>request.
     bindE (applyRemote e s entity) (\<lambda>_.
     bindE (safely (recordPayment e (sub_id s) (wk_payment b))) (\<lambda>recorded.
     thenE (modE (invoice_if_captured e recorded request))
    (thenE (modE (\<lambda>w. if event = ''subscription.charged'' then billOverage e s w else w))
    (thenE (modE (invalidatePayer e (sub_org s)))
       (modE (\<lambda>w. w\<lparr>w_mails := w_mails w @ billing_notify event s (toStatus (rz_status entity))
                 (nullish (at_seconds (rz_current_end entity)) (sub_currentEnd s))\<rparr>)))))))"

definition handleWebhook :: "env \<Rightarrow> rz_webhook \<Rightarrow> (world, unit) svc" where
  "handleWebhook e b =
     bindE (record_event e b) (\<lambda>fresh.
     if \<not> fresh then retE ()
     else
       let event = nullish_def_val (wk_event b) ''unknown'' in
       case wk_subscription b of
         None \<Rightarrow> retE ()
       | Some entity \<Rightarrow>
           if rz_id entity = [] \<or> \<not> starts_with ''subscription.'' event then retE ()
           else
             bindE (getE (\<lambda>w. List.find (\<lambda>s. sub_mandate s = Some (rz_id entity)) (w_subs w))) (\<lambda>found.
             case found of
               None \<Rightarrow> group_webhook e b entity
             | Some s \<Rightarrow> own_webhook e b event entity s))"

section \<open>Reconciliation\<close>

definition stale_rows :: "env \<Rightarrow> world \<Rightarrow> subscription list" where
  "stale_rows e w =
     take 100 (filter (\<lambda>s. \<not> isFinished s \<and>
       (case sub_currentEnd s of None \<Rightarrow> True | Some b \<Rightarrow> b < e_now e) \<and> sub_mandate s \<noteq> None) (w_subs w))"

definition reconcile_one :: "env \<Rightarrow> subscription \<Rightarrow> (world, unit) svc" where
  "reconcile_one e s =
     bindE (ownMandate s) (\<lambda>mandate.
     bindE (fetchSubscription e mandate) (\<lambda>remote.
     bindE (applyRemote e s remote) (\<lambda>_. modE (invalidatePayer e (sub_org s)))))"

definition reconcile :: "env \<Rightarrow> world \<Rightarrow> world" where
  "reconcile e w =
     (if \<not> isConfigured e then w
      else
        let w' = fold (\<lambda>s w. snd (reconcile_one e s w)) (stale_rows e w) w in
        snd (deliverPending e 25 w'))"

end
