(* ===== verification/Invoice_Books.thy ===== *)
theory Invoice_Books
  imports Invoices
begin

text \<open>
  What the invoice and receipt services guarantee: the arithmetic on a document closes, the
  two books are numbered without a gap whatever interleaving of webhooks, retries and sweeps
  wrote them, a debit has one invoice and an invoice one receipt, and an extract tells a
  client nothing of the others' lines.
\<close>

section \<open>Dividing a charge\<close>

lemma apportion_from_sum:
  "ds \<noteq> [] \<Longrightarrow> sum_list (map il_amount (apportion_from t s a k ds)) = s - a"
proof (induction ds arbitrary: a k)
  case (Cons d ds)
  then show ?case by (cases "ds = []") (simp_all add: Let_def line_of_def)
qed simp

lemma apportion_from_lines:
  "map il_position (apportion_from t s a k ds) = [k..<k + length ds]"
  "map il_org (apportion_from t s a k ds) = map dl_org ds"
  "length (apportion_from t s a k ds) = length ds"
  by (induction ds arbitrary: a k) (auto simp: Let_def line_of_def upt_conv_Cons simp del: upt_Suc)

lemma apportion_sum: "ds \<noteq> [] \<Longrightarrow> sum_list (map il_amount (apportion ds s)) = s"
  by (simp add: apportion_def apportion_from_sum)

text \<open>Twice the distance of an amount from its proportional share, times the weights' sum.\<close>

definition off_share :: "int \<Rightarrow> paise \<Rightarrow> paise \<Rightarrow> int \<Rightarrow> int" where
  "off_share t s amount weight = \<bar>2 * (t * amount - s * weight)\<bar>"

lemma off_share_round: "0 < t \<Longrightarrow> off_share t s (js_round_div (s * x) t) x \<le> t"
  using js_round_div_bounds [of t "s * x"] by (simp add: off_share_def abs_le_iff algebra_simps)

lemma off_share_last:
  assumes "\<bar>2 * (t * a - s * wa)\<bar> \<le> k * t" "t = wa + x"
  shows "off_share t s (s - a) x \<le> k * t"
proof -
  have "t * (s - a) - s * x = - (t * a - s * wa)" using assms(2) by (simp add: algebra_simps)
  then show ?thesis using assms(1) by (simp add: off_share_def)
qed

lemma apportion_from_shares:
  assumes "0 < t" "t = wa + sum_list (map dl_weight ds)" "\<bar>2 * (t * a - s * wa)\<bar> \<le> int k * t"
    "j < length ds"
  shows "off_share t s (il_amount (apportion_from t s a k ds ! j)) (dl_weight (ds ! j))
         \<le> int (max 1 (k + length ds - 1)) * t"
  using assms(2-)
proof (induction ds arbitrary: a wa k j)
  case (Cons d ds)
  show ?case
  proof (cases "ds = []")
    case True
    then have "off_share t s (s - a) (dl_weight d) \<le> int k * t"
      using Cons.prems by (intro off_share_last [of t a s wa]) simp_all
    also have "\<dots> \<le> int (max 1 k) * t" using assms(1) by (intro mult_right_mono) simp_all
    finally show ?thesis using True Cons.prems by (simp add: line_of_def Let_def)
  next
    case ne: False
    let ?m = "js_round_div (s * dl_weight d) t"
    have here: "off_share t s ?m (dl_weight d) \<le> t" using assms(1) by (rule off_share_round)
    show ?thesis
    proof (cases j)
      case 0
      have "1 * t \<le> int (max 1 (k + length (d # ds) - 1)) * t"
        using assms(1) by (intro mult_right_mono) simp_all
      then show ?thesis using here 0 ne by (simp add: line_of_def Let_def)
    next
      case (Suc i)
      have "\<bar>2 * (t * (a + ?m) - s * (wa + dl_weight d))\<bar>
            \<le> \<bar>2 * (t * a - s * wa)\<bar> + off_share t s ?m (dl_weight d)"
        unfolding off_share_def by (simp add: algebra_simps)
      also have "\<dots> \<le> int (Suc k) * t" using Cons.prems(2) here by (simp add: algebra_simps)
      finally have "off_share t s (il_amount (apportion_from t s (a + ?m) (Suc k) ds ! i)) (dl_weight (ds ! i))
            \<le> int (max 1 (Suc k + length ds - 1)) * t"
        using Cons.prems Suc by (intro Cons.IH [of "wa + dl_weight d"]) simp_all
      then show ?thesis using Suc ne by (simp add: Let_def)
    qed
  qed
qed simp

lemma divide_charge_facts:
  assumes "divide_charge c x = (s, t, r)"
  shows "s + t = x" "0 \<le> r" "0 \<le> x \<Longrightarrow> 0 \<le> t" "0 \<le> x \<Longrightarrow> 0 \<le> s"
    "\<bar>2 * (s * (10000 + r) - 10000 * x)\<bar> \<le> 10000 + r"
proof -
  define R where "R = taxRateBps c"
  have eq: "(s, t, r) = (if R \<le> 0 then (x, 0, 0) else
      (js_round_div (x * 10000) (10000 + R), x - js_round_div (x * 10000) (10000 + R), R))"
    using assms unfolding divide_charge_def Let_def R_def by simp
  show "s + t = x" "0 \<le> r" using eq by (auto split: if_splits)
  show "0 \<le> x \<Longrightarrow> 0 \<le> s" using eq by (auto split: if_splits intro: js_round_div_nonneg)
  show "0 \<le> t" if "0 \<le> x"
  proof (cases "R \<le> 0")
    case False
    then have "x * 10000 \<le> x * (10000 + R)" using that by (intro mult_left_mono) simp_all
    then have "js_round_div (x * 10000) (10000 + R) \<le> x"
      using False by (intro js_round_div_le) simp_all
    then show ?thesis using eq False by simp
  qed (use eq in simp)
  show "\<bar>2 * (s * (10000 + r) - 10000 * x)\<bar> \<le> 10000 + r"
  proof (cases "R \<le> 0")
    case False
    then show ?thesis
      using eq js_round_div_bounds [of "10000 + R" "x * 10000"]
      by (simp add: abs_le_iff algebra_simps)
  qed (use eq in simp)
qed

lemma client_drafts_length: "client_drafts e cs w = (ds, w') \<Longrightarrow> length ds = length cs"
  by (induction cs arbitrary: w ds w') (auto simp: Let_def split: prod.splits)

lemma invoice_drafts_nonempty: "invoice_drafts e req w = (ds, w') \<Longrightarrow> ds \<noteq> []"
  by (auto simp: invoice_drafts_def split: option.splits if_splits list.splits dest!: client_drafts_length simp del: client_drafts.simps)

lemma splitTax_heads:
  assumes "0 \<le> t" "splitTax t a b = \<lparr>cgstAmount = c, sgstAmount = s, igstAmount = i, interState = k\<rparr>"
  shows "c + s + i = t" "0 \<le> c" "0 \<le> s" "0 \<le> i"
    "if truthy a \<and> truthy b \<and> a \<noteq> b then i = t else i = 0 \<and> (s = c \<or> s = c + 1)"
  using assms by (auto simp: splitTax_def Let_def split: if_splits)

lemma invoice_draft_shape:
  obtains drafts w1 where
    "invoice_drafts e req w1 = (drafts, snd (invoice_draft e req w))"
    "in_lines (fst (invoice_draft e req w)) = apportion drafts (in_subtotal (fst (invoice_draft e req w)))"
    "(in_subtotal (fst (invoice_draft e req w)), in_taxAmount (fst (invoice_draft e req w)),
      in_taxRateBps (fst (invoice_draft e req w))) = divide_charge (e_invoicing e) (iq_amount req)"
    "in_total (fst (invoice_draft e req w)) = iq_amount req"
    "in_placeOfSupplyCode (fst (invoice_draft e req w)) = tid_stateCode (taxIdentity (w_settings w) (iq_org req))"
    "splitTax (in_taxAmount (fst (invoice_draft e req w))) (sellerStateCode (e_invoicing e))
       (in_placeOfSupplyCode (fst (invoice_draft e req w))) =
     \<lparr>cgstAmount = in_cgstAmount (fst (invoice_draft e req w)), sgstAmount = in_sgstAmount (fst (invoice_draft e req w)),
      igstAmount = in_igstAmount (fst (invoice_draft e req w)),
      interState = interState (splitTax (in_taxAmount (fst (invoice_draft e req w))) (sellerStateCode (e_invoicing e))
        (in_placeOfSupplyCode (fst (invoice_draft e req w))))\<rparr>"
proof -
  obtain n w1 where n: "org_name e (Some (iq_org req)) w = (n, w1)" by fastforce
  obtain ds w2 where ds: "invoice_drafts e req w1 = (ds, w2)" by fastforce
  obtain s t r where d: "divide_charge (e_invoicing e) (iq_amount req) = (s, t, r)" by (metis prod_cases3)
  show thesis
    by (rule that [of w1 ds]) (simp_all add: invoice_draft_def Let_def n ds d)
qed

text \<open>C19: an invoice's arithmetic closes for every debit. The lines sum to the taxable
  value; that and the tax sum to what the bank moved; the tax is the sum of its three heads,
  which are those of the seller's state and the organisation's own: IGST alone when both are
  known and differ, otherwise CGST and SGST in halves and no IGST. Nothing is negative but
  possibly a line, and the taxable value is within half a paisa of what the rate makes it.\<close>
theorem invoice_closes:
  assumes "0 \<le> iq_amount req" "invoice_draft e req w = (i, w')"
  shows "sum_list (map il_amount (in_lines i)) = in_subtotal i \<and>
         in_subtotal i + in_taxAmount i = in_total i \<and>
         in_cgstAmount i + in_sgstAmount i + in_igstAmount i = in_taxAmount i \<and>
         in_total i = iq_amount req \<and> 0 \<le> in_subtotal i \<and> 0 \<le> in_taxAmount i \<and>
         0 \<le> in_cgstAmount i \<and> 0 \<le> in_sgstAmount i \<and> 0 \<le> in_igstAmount i \<and>
         in_placeOfSupplyCode i = tid_stateCode (taxIdentity (w_settings w) (iq_org req)) \<and>
         (if truthy (sellerStateCode (e_invoicing e)) \<and> truthy (in_placeOfSupplyCode i) \<and>
             sellerStateCode (e_invoicing e) \<noteq> in_placeOfSupplyCode i
          then in_igstAmount i = in_taxAmount i
          else in_igstAmount i = 0 \<and>
            (in_sgstAmount i = in_cgstAmount i \<or> in_sgstAmount i = in_cgstAmount i + 1)) \<and>
         \<bar>2 * (in_subtotal i * (10000 + in_taxRateBps i) - 10000 * in_total i)\<bar> \<le> 10000 + in_taxRateBps i"
proof -
  have i: "fst (invoice_draft e req w) = i" using assms(2) by simp
  let ?split = "splitTax (in_taxAmount i) (sellerStateCode (e_invoicing e)) (in_placeOfSupplyCode i)"
  obtain drafts w1 where d: "invoice_drafts e req w1 = (drafts, w')"
    and lines: "in_lines i = apportion drafts (in_subtotal i)"
    and div: "divide_charge (e_invoicing e) (iq_amount req) = (in_subtotal i, in_taxAmount i, in_taxRateBps i)"
    and whole: "in_total i = iq_amount req"
    and place: "in_placeOfSupplyCode i = tid_stateCode (taxIdentity (w_settings w) (iq_org req))"
    and heads: "?split = \<lparr>cgstAmount = in_cgstAmount i, sgstAmount = in_sgstAmount i,
      igstAmount = in_igstAmount i, interState = interState ?split\<rparr>"
    using invoice_draft_shape [of e req w, unfolded i] assms(2) by (metis snd_conv)
  have "drafts \<noteq> []" using d by (rule invoice_drafts_nonempty)
  moreover note money = divide_charge_facts [OF div]
  moreover have "0 \<le> in_taxAmount i" using money(3) assms(1) by simp
  note split = splitTax_heads [OF this heads]
  ultimately show ?thesis using assms(1) split by (simp add: lines apportion_sum whole place)
qed

definition sample_request :: invoice_request where
  "sample_request =
     \<lparr>iq_paymentId = Some 9, iq_razorpayPaymentId = ''pay_1'', iq_razorpayInvoiceId = None,
      iq_org = ''acme'', iq_billingGroupId = None, iq_userId = 1, iq_planCode = Some ''growth'',
      iq_planName = Some ''Growth'', iq_amount = 249900, iq_currency = ''INR'',
      iq_paidAt = Some 864000000, iq_method = Some ''card'', iq_methodDetail = Some ''Visa 4242'',
      iq_periodStart = Some 864000000, iq_periodEnd = Some 3456000000\<rparr>"

theorem invoice_closes_witness:
  "let i = fst (invoice_draft sample_env sample_request sample_world) in
   in_subtotal i + in_taxAmount i = 249900 \<and>
   in_cgstAmount i + in_sgstAmount i + in_igstAmount i = in_taxAmount i"
proof -
  have "iq_amount sample_request = 249900" by (simp add: sample_request_def)
  then show ?thesis
    using invoice_closes [of sample_request sample_env sample_world
        "fst (invoice_draft sample_env sample_request sample_world)"
        "snd (invoice_draft sample_env sample_request sample_world)"]
    by (simp add: Let_def)
qed

text \<open>The lines of an invoice stay close to the price list: with positive weights, a line
  is off its proportional share of the taxable value by at most half a paisa for each
  other line (so a line can be negative only when its share is that small), and positions
  count up from zero.\<close>
theorem lines_near_share:
  assumes "\<forall>d \<in> set ds. 0 < dl_weight d" "j < length ds"
  shows "\<bar>2 * (draft_total ds * il_amount (apportion ds s ! j) - s * dl_weight (ds ! j))\<bar>
           \<le> int (max 1 (length ds - 1)) * draft_total ds \<and>
         il_position (apportion ds s ! j) = j \<and> il_org (apportion ds s ! j) = dl_org (ds ! j)"
proof -
  have "0 < sum_list (map dl_weight ds)" using assms
  proof (induction ds arbitrary: j)
    case (Cons d ds)
    have "0 \<le> sum_list (map dl_weight ds)" using Cons.prems(1) by (intro sum_list_nonneg) auto
    then show ?case using Cons.prems(1) by simp
  qed simp
  then have t: "0 < draft_total ds" "draft_total ds = sum_list (map dl_weight ds)"
    by (simp_all add: draft_total_def Let_def)
  let ?ls = "apportion_from (draft_total ds) s 0 0 ds"
  have len: "j < length ?ls" using assms(2) by (simp add: apportion_from_lines)
  have "il_position (?ls ! j) = j" "il_org (?ls ! j) = dl_org (ds ! j)"
    unfolding nth_map [OF len, symmetric] apportion_from_lines using assms(2) by simp_all
  then show ?thesis
    using apportion_from_shares [OF t(1), of 0 ds 0 s 0 j] t(2) assms(2)
    by (simp add: apportion_def off_share_def)
qed

theorem lines_near_share_witness:
  "let ds = replicate 4 (single_draft None ''Plan'' None sample_request) in
   il_amount (apportion ds 2 ! 3) = -1 \<and>
   \<bar>2 * (draft_total ds * il_amount (apportion ds 2 ! 3) - 2)\<bar> \<le> 3 * draft_total ds"
proof -
  let ?ds = "replicate 4 (single_draft None ''Plan'' None sample_request)"
  have "il_amount (apportion ?ds 2 ! 3) = -1" by code_simp
  moreover have "\<forall>d \<in> set ?ds. 0 < dl_weight d" "dl_weight (?ds ! 3) = 1"
    by (simp_all add: single_draft_def)
  ultimately show ?thesis using lines_near_share [of ?ds 3 2] by (simp add: Let_def)
qed

section \<open>The two books\<close>

definition invoice_numbers :: "world \<Rightarrow> (string \<times> nat) list" where
  "invoice_numbers w = map (\<lambda>i. (in_financialYear i, in_sequence i)) (w_invoices w)"

text \<open>A receipt that acknowledges this invoice.\<close>

definition acknowledges :: "receipt_row \<Rightarrow> invoice_row \<Rightarrow> bool" where
  "acknowledges r i =
     (re_invoiceId r = in_id i \<and> re_razorpayPaymentId r = in_razorpayPaymentId i \<and>
      re_amount r = in_total i \<and> re_currency r = in_currency i \<and> re_org r = in_org i)"

definition invoice_well_numbered :: "invoice_row \<Rightarrow> bool" where
  "invoice_well_numbered i =
     (fy_ok (in_financialYear i) \<and>
      (\<exists>s. series_ok s \<and> in_number i = invoiceNumber s (in_financialYear i) (in_sequence i)))"

definition receipt_well_numbered :: "receipt_row \<Rightarrow> bool" where
  "receipt_well_numbered r =
     (fy_ok (re_financialYear r) \<and>
      (\<exists>s. series_ok s \<and> re_number r = receiptNumber s (re_financialYear r) (re_sequence r)))"

definition books_ok :: "world \<Rightarrow> bool" where
  "books_ok w =
     (consecutive (w_invoiceCounter w) (invoice_numbers w) \<and>
      consecutive (w_receiptCounter w) (receipt_numbers w) \<and>
      list_all2 acknowledges (w_receipts w) (w_invoices w) \<and>
      distinct (map in_razorpayPaymentId (w_invoices w)) \<and>
      distinct (map in_id (w_invoices w)) \<and> distinct (map re_id (w_receipts w)) \<and>
      (\<forall>i \<in> set (w_invoices w). in_id i < w_nextId w \<and> invoice_well_numbered i) \<and>
      (\<forall>r \<in> set (w_receipts w). re_id r < w_nextId w \<and> receipt_well_numbered r))"

text \<open>The statements a successful transaction has run.\<close>

lemma invoice_transaction_InrD:
  assumes "invoice_transaction e d w = (Inr i, w')"
  defines "n \<equiv> next_number (w_invoiceCounter w) (in_financialYear d)"
  shows "1 \<le> n" "i = numbered e d n (w_nextId w)" "\<not> list_ex (invoice_clash i) (w_invoices w)"
    and "\<exists>r. receipt_recordIn e i
            (w\<lparr>w_invoiceCounter := snd (claim_sequence (w_invoiceCounter w) (in_financialYear d)),
               w_invoices := w_invoices w @ [i], w_nextId := Suc (w_nextId w)\<rparr>) = (Inr r, w')"
  using assms(1)
  by (auto simp: invoice_transaction_def transaction_def invoice_tx_body_def invoice_sequence_def
      bindE_def Let_def case_prod_beta claim_sequence_next n_def prod_eq_iff split: prod.splits sum.splits if_splits)

lemma invoice_transaction_InlD: "invoice_transaction e d w = (Inl err, w') \<Longrightarrow> w' = w"
  by (auto simp: invoice_transaction_def transaction_def split: prod.splits sum.splits if_splits)

interpretation invoice_book: atomic_book
  w_invoiceCounter invoice_numbers "\<lambda>(e, d). invoice_transaction e d" "\<lambda>(e, d). in_financialYear d"
proof unfold_locales
  fix ed :: "env \<times> invoice_row" and w i w'
  obtain e d where ed: "ed = (e, d)" by (cases ed)
  assume "(case ed of (e, d) \<Rightarrow> invoice_transaction e d) w = (Inr i, w')"
  note facts = invoice_transaction_InrD [OF this [unfolded ed prod.case]]
  obtain r where r: "receipt_recordIn e i
      (w\<lparr>w_invoiceCounter := snd (claim_sequence (w_invoiceCounter w) (in_financialYear d)),
         w_invoices := w_invoices w @ [i], w_nextId := Suc (w_nextId w)\<rparr>) = (Inr r, w')"
    using facts(4) by blast
  have "invoice_numbers w' = invoice_numbers w @
      [(in_financialYear d, next_number (w_invoiceCounter w) (in_financialYear d))]"
    by (simp add: receipt_recordIn_InrD(4) [OF r] invoice_numbers_def) (simp add: facts(2) numbered_def)
  then show "1 \<le> next_number (w_invoiceCounter w) (case ed of (e, d) \<Rightarrow> in_financialYear d) \<and>
      w_invoiceCounter w' =
        snd (claim_sequence (w_invoiceCounter w) (case ed of (e, d) \<Rightarrow> in_financialYear d)) \<and>
      invoice_numbers w' = invoice_numbers w @
        [(case ed of (e, d) \<Rightarrow> in_financialYear d,
          next_number (w_invoiceCounter w) (case ed of (e, d) \<Rightarrow> in_financialYear d))]"
    using facts(1) by (simp add: ed receipt_recordIn_InrD(4) [OF r])
next
  fix ed :: "env \<times> invoice_row" and w err w'
  assume "(case ed of (e, d) \<Rightarrow> invoice_transaction e d) w = (Inl err, w')"
  then show "w' = w" by (cases ed) (simp add: invoice_transaction_InlD)
qed

lemma books_ok_transaction:
  assumes ok: "books_ok w" and d: "fy_ok (in_financialYear d)"
    and run: "invoice_transaction e d w = (Inr i, w')"
  shows "books_ok w'"
proof -
  note facts = invoice_transaction_InrD [OF run]
  let ?w1 = "w\<lparr>w_invoiceCounter := snd (claim_sequence (w_invoiceCounter w) (in_financialYear d)),
               w_invoices := w_invoices w @ [i], w_nextId := Suc (w_nextId w)\<rparr>"
  obtain r where r: "receipt_recordIn e i ?w1 = (Inr r, w')" using facts(4) by blast
  note rf = receipt_recordIn_InrD [OF r]
  have c1: "consecutive (w_invoiceCounter w') (invoice_numbers w')"
    using invoice_book.issue_consecutive [of w "(e, d)" i w'] ok run by (simp add: books_ok_def)
  have "consecutive (w_receiptCounter ?w1) (receipt_numbers ?w1)"
    using ok by (simp add: books_ok_def receipt_numbers_def)
  then have c2: "consecutive (w_receiptCounter w') (receipt_numbers w')"
    using receipt_book.issue_consecutive [of ?w1 "(e, i)" r w'] r by simp
  have wi: "w_invoices w' = w_invoices w @ [i]" "w_receipts w' = w_receipts w @ [r]"
    "w_nextId w' = Suc (Suc (w_nextId w))"
    by (simp_all add: rf(4))
  have i: "in_id i = w_nextId w" "in_financialYear i = in_financialYear d"
    "in_number i = invoiceNumber (document_series (e_invoicing e)) (in_financialYear i) (in_sequence i)"
    "in_razorpayPaymentId i = in_razorpayPaymentId d"
    by (simp_all add: facts(2) numbered_def)
  have ack: "acknowledges r i" and rid: "re_id r = Suc (w_nextId w)"
    and rnum: "re_number r = receiptNumber (document_series (e_invoicing e)) (re_financialYear r) (re_sequence r)"
      "fy_ok (re_financialYear r)"
    by (simp_all add: rf(2) acknowledges_def receipt_of_def receipt_year_def financialYear_ok)
  have fresh: "in_razorpayPaymentId i \<notin> in_razorpayPaymentId ` set (w_invoices w)"
    using facts(3) by (force simp: list_ex_iff invoice_clash_def)
  have old: "\<forall>i \<in> set (w_invoices w). in_id i < w_nextId w \<and> invoice_well_numbered i"
    "\<forall>r \<in> set (w_receipts w). re_id r < w_nextId w \<and> receipt_well_numbered r"
    using ok by (simp_all add: books_ok_def)
  have new: "invoice_well_numbered i" "receipt_well_numbered r"
    using i(2,3) d rnum document_series_ok [of "e_invoicing e"]
    by (auto simp: invoice_well_numbered_def receipt_well_numbered_def)
  show ?thesis
    using ok c1 c2 ack fresh old new
    by (auto simp: books_ok_def wi i(1) rid less_Suc_eq list_all2_appendI image_iff)
qed

lemma books_ok_commit:
  assumes "books_ok w" "fy_ok (in_financialYear d)"
  shows "books_ok (snd (commit_invoice e d w))"
proof (cases "invoice_transaction e d w")
  case (Pair r w')
  show ?thesis
  proof (cases r)
    case (Inl err)
    then have "w' = w" using Pair invoice_transaction_InlD by blast
    then show ?thesis using assms(1) Pair Inl
      by (cases err) (simp_all add: commit_invoice_def)
  next
    case (Inr i)
    then have "books_ok w'" using books_ok_transaction [OF assms] Pair by blast
    then show ?thesis by (simp add: commit_invoice_def Pair Inr)
  qed
qed

text \<open>Changes that leave the documents alone, and may have used up identifiers.\<close>

definition same_documents :: "world \<Rightarrow> world \<Rightarrow> bool" where
  "same_documents w w' =
     (w_invoices w' = w_invoices w \<and> w_receipts w' = w_receipts w \<and>
      w_invoiceCounter w' = w_invoiceCounter w \<and> w_receiptCounter w' = w_receiptCounter w \<and>
      w_nextId w \<le> w_nextId w')"

lemma books_ok_same: "books_ok w \<Longrightarrow> same_documents w w' \<Longrightarrow> books_ok w'"
  unfolding books_ok_def same_documents_def invoice_numbers_def receipt_numbers_def
  by (auto dest: order.strict_trans2)

lemma cached_only_documents: "cached_only w w' \<Longrightarrow> same_documents w w'"
  by (auto simp: cached_only_def same_documents_def)

lemma cached_only_client_drafts: "client_drafts e cs w = (ds, w') \<Longrightarrow> cached_only w w'"
proof (induction cs arbitrary: w ds w')
  case (Cons c cs)
  then show ?case
    by (auto simp: Let_def split: prod.splits if_splits
        dest!: cached_only_org_nameD Cons.IH intro: cached_only_trans)
qed simp

lemma cached_only_drafts: "invoice_drafts e req w = (ds, w') \<Longrightarrow> cached_only w w'"
  by (auto simp: invoice_drafts_def split: option.splits if_splits list.splits
      dest!: cached_only_client_drafts simp del: client_drafts.simps)

lemma cached_only_invoice_draft: "invoice_draft e req w = (d, w') \<Longrightarrow> cached_only w w'"
  by (auto simp: invoice_draft_def Let_def split: prod.splits
      dest!: cached_only_org_nameD cached_only_drafts intro: cached_only_trans)

lemma invoice_draft_year: "invoice_draft e req w = (d, w') \<Longrightarrow> fy_ok (in_financialYear d)"
  by (auto simp: invoice_draft_def Let_def financialYear_ok split: prod.splits)

lemma list_all2_update_right:
  "list_all2 P xs ys \<Longrightarrow> (\<And>x y. P x y \<Longrightarrow> P x (f y)) \<Longrightarrow> list_all2 P xs (update_rows p f ys)"
  by (induction rule: list_all2_induct) auto

lemma list_all2_update_left:
  "list_all2 P xs ys \<Longrightarrow> (\<And>x y. P x y \<Longrightarrow> P (f x) y) \<Longrightarrow> list_all2 P (update_rows p f xs) ys"
  by (induction rule: list_all2_induct) auto

text \<open>Stamping rows as sent changes nothing the books are judged by.\<close>

lemma books_ok_stamped:
  assumes "books_ok w"
  shows "books_ok (w\<lparr>w_documentMails := ms,
     w_invoices := update_rows p (\<lambda>r. r\<lparr>in_emailedAt := a, in_emailedTo := t\<rparr>) (w_invoices w),
     w_receipts := update_rows q (\<lambda>r. r\<lparr>re_emailedAt := a, re_emailedTo := t\<rparr>) (w_receipts w)\<rparr>)"
proof -
  have inv: "map f (update_rows p (\<lambda>r. r\<lparr>in_emailedAt := a, in_emailedTo := t\<rparr>) rows) = map f rows"
    if "\<And>r. f (r\<lparr>in_emailedAt := a, in_emailedTo := t\<rparr>) = f r" for f :: "invoice_row \<Rightarrow> 'x" and rows
    using that by (simp add: map_key_update_rows)
  have rec: "map f (update_rows q (\<lambda>r. r\<lparr>re_emailedAt := a, re_emailedTo := t\<rparr>) rows) = map f rows"
    if "\<And>r. f (r\<lparr>re_emailedAt := a, re_emailedTo := t\<rparr>) = f r" for f :: "receipt_row \<Rightarrow> 'x" and rows
    using that by (simp add: map_key_update_rows)
  have "list_all2 acknowledges
      (update_rows q (\<lambda>r. r\<lparr>re_emailedAt := a, re_emailedTo := t\<rparr>) (w_receipts w))
      (update_rows p (\<lambda>r. r\<lparr>in_emailedAt := a, in_emailedTo := t\<rparr>) (w_invoices w))"
    using assms by (intro list_all2_update_left list_all2_update_right)
      (simp_all add: books_ok_def acknowledges_def)
  then show ?thesis
    using assms
    by (auto simp: books_ok_def inv rec invoice_numbers_def receipt_numbers_def set_update_rows
        invoice_well_numbered_def receipt_well_numbered_def)
qed

lemma books_ok_deliver: "books_ok w \<Longrightarrow> books_ok (snd (deliver_invoice e i w))"
proof -
  assume ok: "books_ok w"
  have none: "update_rows (\<lambda>_. False) f rows = rows" for f and rows :: "receipt_row list"
    by (rule update_rows_none) simp
  show ?thesis
    using ok books_ok_stamped [OF ok, where p = "\<lambda>r. in_id r = in_id i" and a = "Some (e_now e)"
          and t = "in_billedToEmail i"]
      books_ok_stamped [OF ok, where p = "\<lambda>r. in_id r = in_id i" and a = "Some (e_now e)"
          and t = "in_billedToEmail i" and q = "\<lambda>_. False"]
    by (auto simp: deliver_invoice_def Let_def none split: option.splits bool.splits)
qed

lemma books_ok_deliver_all: "books_ok w \<Longrightarrow> books_ok (snd (deliver_all e is n w))"
proof (induction "is" arbitrary: n w)
  case (Cons i "is")
  obtain r w' where d: "deliver_invoice e i w = (r, w')" by fastforce
  with Cons.prems books_ok_deliver [of w e i] have "books_ok w'" by simp
  then show ?case using Cons.IH by (auto simp: d split: sum.splits bool.splits)
qed simp

section \<open>Every interleaving\<close>

text \<open>
  What happens to the books: a request looks for its invoice, finds none and reads what the
  document will say; a transaction is attempted for something read, however long ago and
  however often; a document is sent, alone or by the sweep; anything else happens that
  writes no document. The deployment's settings and clock may differ at every step.
\<close>

inductive book_step :: "invoice_row set \<times> world \<Rightarrow> invoice_row set \<times> world \<Rightarrow> bool" where
  reads_on: "invoice_byPayment (iq_razorpayPaymentId req) w = None \<Longrightarrow>
    invoice_draft e req w = (d, w') \<Longrightarrow> book_step (ds, w) (insert d ds, w')"
| commits: "d \<in> ds \<Longrightarrow> book_step (ds, w) (ds, snd (commit_invoice e d w))"
| sends: "book_step (ds, w) (ds, snd (deliver_invoice e i w))"
| sweeps: "book_step (ds, w) (ds, snd (deliverPending e n w))"
| elsewhere: "same_documents w w' \<Longrightarrow> book_step (ds, w) (ds, w')"

inductive book_reachable :: "invoice_row set \<times> world \<Rightarrow> bool" where
  opened: "w_invoices w = [] \<Longrightarrow> w_receipts w = [] \<Longrightarrow> w_invoiceCounter w = Map.empty \<Longrightarrow>
    w_receiptCounter w = Map.empty \<Longrightarrow> book_reachable ({}, w)"
| stepped: "book_reachable s \<Longrightarrow> book_step s t \<Longrightarrow> book_reachable t"

lemma books_ok_reachable:
  "book_reachable s \<Longrightarrow> books_ok (snd s) \<and> (\<forall>d \<in> fst s. fy_ok (in_financialYear d))"
proof (induction rule: book_reachable.induct)
  case (opened w)
  then show ?case
    by (simp add: books_ok_def invoice_numbers_def receipt_numbers_def consecutive_start)
next
  case (stepped s t)
  obtain ds w where s: "s = (ds, w)" by fastforce
  with stepped have ok: "books_ok w" "\<forall>d \<in> ds. fy_ok (in_financialYear d)" by simp_all
  from stepped(2) [unfolded s] show ?case
  proof cases
    case (reads_on req e d w')
    then have "books_ok w'" using ok(1)
      by (blast intro: books_ok_same cached_only_documents cached_only_invoice_draft)
    then show ?thesis using ok(2) reads_on invoice_draft_year by auto
  next
    case (commits d e)
    then show ?thesis using ok books_ok_commit by simp
  next
    case (sends e i)
    then show ?thesis using ok books_ok_deliver by simp
  next
    case (sweeps e n)
    then show ?thesis using ok books_ok_deliver_all by (simp add: deliverPending_def)
  next
    case (elsewhere w')
    then show ?thesis using ok books_ok_same by simp
  qed
qed

lemma well_numbered_inj:
  "invoice_well_numbered i \<Longrightarrow> invoice_well_numbered j \<Longrightarrow> in_number i = in_number j \<Longrightarrow>
   (in_financialYear i, in_sequence i) = (in_financialYear j, in_sequence j)"
  by (auto simp: invoice_well_numbered_def invoiceNumber_def documentNumber_inj)

lemma acknowledged_invoice:
  "books_ok w \<Longrightarrow> r \<in> set (w_receipts w) \<Longrightarrow> \<exists>i \<in> set (w_invoices w). acknowledges r i"
  unfolding books_ok_def list_all2_conv_all_nth by (metis in_set_conv_nth)

lemma acknowledges_payments:
  "list_all2 acknowledges rs is \<Longrightarrow> map re_razorpayPaymentId rs = map in_razorpayPaymentId is"
  by (induction rule: list_all2_induct) (simp_all add: acknowledges_def)

text \<open>C17: whatever interleaving of webhooks, retries, refused transactions, sweeps and resends
  wrote them, under whatever settings: the invoices of a financial year are numbered 1, 2, 3
  and so on in the order they were written, and so are its receipts; a debit has one invoice
  at most; and the n-th receipt acknowledges the n-th invoice, for the same debit and amount.\<close>
theorem books_have_no_gap:
  assumes "book_reachable (ds, w)"
  shows "(\<exists>n. map in_sequence (filter (\<lambda>i. in_financialYear i = y) (w_invoices w)) = [1..<Suc n]) \<and>
         (\<exists>n. map re_sequence (filter (\<lambda>r. re_financialYear r = y) (w_receipts w)) = [1..<Suc n]) \<and>
         distinct (map in_razorpayPaymentId (w_invoices w)) \<and>
         distinct (map in_number (w_invoices w)) \<and>
         list_all2 acknowledges (w_receipts w) (w_invoices w)"
proof -
  have ok: "books_ok w" using books_ok_reachable [OF assms] by simp
  have upto: "\<exists>n. [1..<m] = [1..<Suc n]" for m by (cases m) auto
  have "map in_sequence (filter (\<lambda>i. in_financialYear i = y) (w_invoices w)) =
        [1..<next_number (w_invoiceCounter w) y]"
    using ok by (simp add: books_ok_def consecutive_def invoice_numbers_def filter_map o_def)
  moreover have "map re_sequence (filter (\<lambda>r. re_financialYear r = y) (w_receipts w)) =
        [1..<next_number (w_receiptCounter w) y]"
    using ok by (simp add: books_ok_def consecutive_def receipt_numbers_def filter_map o_def)
  moreover have "distinct (map in_number (w_invoices w))"
  proof -
    have "distinct (invoice_numbers w)" using ok consecutive_distinct by (auto simp: books_ok_def)
    moreover have "(in_financialYear i, in_sequence i) = (in_financialYear j, in_sequence j)"
      if mem: "i \<in> set (w_invoices w)" "j \<in> set (w_invoices w)" and eq: "in_number i = in_number j" for i j
    proof -
      have "invoice_well_numbered i" "invoice_well_numbered j" using ok mem by (simp_all add: books_ok_def)
      then show ?thesis using eq by (rule well_numbered_inj)
    qed
    ultimately show ?thesis unfolding invoice_numbers_def distinct_map inj_on_def by blast
  qed
  ultimately show ?thesis using ok upto by (simp add: books_ok_def)
qed

theorem books_have_no_gap_witness:
  "let w = snd (commit_invoice sample_env (fst (invoice_draft sample_env sample_request empty_world))
             (snd (invoice_draft sample_env sample_request empty_world))) in
   list_all2 acknowledges (w_receipts w) (w_invoices w) \<and> distinct (map in_number (w_invoices w))"
proof -
  let ?d = "fst (invoice_draft sample_env sample_request empty_world)"
  let ?w = "snd (invoice_draft sample_env sample_request empty_world)"
  have "book_reachable ({}, empty_world)" by (rule opened) (simp_all add: empty_world_def)
  then have "book_reachable ({?d}, ?w)"
    by (rule stepped) (rule reads_on [of sample_request], simp_all add: invoice_byPayment_def empty_world_def)
  then have "book_reachable ({?d}, snd (commit_invoice sample_env ?d ?w))"
    by (rule stepped) (rule commits, simp)
  from books_have_no_gap [OF this] show ?thesis by (simp add: Let_def)
qed

section \<open>The ledger behind the books\<close>

text \<open>
  The abstract specification: a ledger of debits, each entered once, with the year it belongs
  to and its amount.
\<close>

type_synonym ledger = "(string \<times> string \<times> paise) list"

definition enter :: "string \<Rightarrow> string \<Rightarrow> paise \<Rightarrow> ledger \<Rightarrow> ledger" where
  "enter payment year amount l =
     (if payment \<in> fst ` set l then l else l @ [(payment, year, amount)])"

definition ledger_of :: "world \<Rightarrow> ledger" where
  "ledger_of w = map (\<lambda>i. (in_razorpayPaymentId i, in_financialYear i, in_total i)) (w_invoices w)"

lemma ledger_of_same: "w_invoices w' = w_invoices w \<Longrightarrow> ledger_of w' = ledger_of w"
  by (simp add: ledger_of_def)

lemma ledger_of_deliver: "ledger_of (snd (deliver_invoice e i w)) = ledger_of w"
  by (auto simp: deliver_invoice_def Let_def ledger_of_def map_key_update_rows split: option.splits bool.splits)

lemma invoice_byPayment_None:
  "invoice_byPayment p w = None \<longleftrightarrow> p \<notin> fst ` set (ledger_of w)"
  by (auto simp: invoice_byPayment_def find_eq_None ledger_of_def image_iff)

text \<open>With its payment row not invoiced yet, a transaction has nothing to collide with.\<close>

lemma no_clash:
  assumes ok: "books_ok w" and d: "fy_ok (in_financialYear d)"
    and fresh: "invoice_byPayment (in_razorpayPaymentId d) w = None"
      "in_paymentId d = None \<or> (\<forall>i \<in> set (w_invoices w). in_paymentId i \<noteq> in_paymentId d)"
  shows "\<not> list_ex (invoice_clash (numbered e d (next_number (w_invoiceCounter w) (in_financialYear d)) k)) (w_invoices w)"
proof -
  let ?n = "next_number (w_invoiceCounter w) (in_financialYear d)"
  have "\<not> invoice_clash (numbered e d ?n k) i" if i: "i \<in> set (w_invoices w)" for i
  proof -
    have "(in_financialYear i, in_sequence i) \<in> set (invoice_numbers w)"
      using i by (auto simp: invoice_numbers_def)
    then have seq: "in_financialYear i = in_financialYear d \<Longrightarrow> in_sequence i < ?n"
      using ok consecutive_member by (auto simp: books_ok_def)
    have "in_number i \<noteq> in_number (numbered e d ?n k)"
      using ok i d seq document_series_ok [of "e_invoicing e"]
      by (auto simp: books_ok_def invoice_well_numbered_def numbered_def invoiceNumber_def documentNumber_inj)
    then show ?thesis
      using i fresh seq by (auto simp: invoice_clash_def numbered_def invoice_byPayment_def find_eq_None)
  qed
  then show ?thesis by (simp add: list_ex_iff)
qed

lemma no_receipt_clash:
  assumes ok: "books_ok w" and fresh: "in_razorpayPaymentId i \<notin> in_razorpayPaymentId ` set (w_invoices w)"
    "in_id i = w_nextId w" and y: "fy_ok y"
    and r: "r = receipt_of y (next_number (w_receiptCounter w) y)
              (receiptNumber s y (next_number (w_receiptCounter w) y)) k i" and s: "series_ok s"
  shows "\<not> list_ex (receipt_clash r) (w_receipts w)"
proof -
  have "\<not> receipt_clash r q" if q: "q \<in> set (w_receipts w)" for q
  proof -
    have "(re_financialYear q, re_sequence q) \<in> set (receipt_numbers w)"
      using q by (auto simp: receipt_numbers_def)
    then have seq: "re_financialYear q = y \<Longrightarrow> re_sequence q < next_number (w_receiptCounter w) y"
      using ok consecutive_member by (auto simp: books_ok_def)
    have "re_number q \<noteq> re_number r"
      using ok q y s seq
      by (auto simp: books_ok_def receipt_well_numbered_def r receipt_of_def receiptNumber_def documentNumber_inj)
    moreover obtain j where j: "j \<in> set (w_invoices w)" "acknowledges q j"
      using acknowledged_invoice [OF ok q] by blast
    moreover have "in_id j < w_nextId w" using ok j(1) by (simp add: books_ok_def)
    ultimately show ?thesis
      using fresh seq by (force simp: receipt_clash_def r receipt_of_def acknowledges_def)
  qed
  then show ?thesis by (simp add: list_ex_iff)
qed

lemma issue_succeeds:
  assumes ok: "books_ok w" and up: "\<not> e_db_raises e ''invoice.$transaction''"
    and d: "fy_ok (in_financialYear d)"
    and fresh: "invoice_byPayment (in_razorpayPaymentId d) w = None"
      "in_paymentId d = None \<or> (\<forall>i \<in> set (w_invoices w). in_paymentId i \<noteq> in_paymentId d)"
  obtains i w' where "invoice_transaction e d w = (Inr i, w')" "w_invoices w' = w_invoices w @ [i]"
    "in_razorpayPaymentId i = in_razorpayPaymentId d" "in_financialYear i = in_financialYear d"
    "in_total i = in_total d"
proof -
  let ?n = "next_number (w_invoiceCounter w) (in_financialYear d)"
  let ?i = "numbered e d ?n (w_nextId w)"
  let ?w1 = "w\<lparr>w_invoiceCounter := snd (claim_sequence (w_invoiceCounter w) (in_financialYear d)),
               w_invoices := w_invoices w @ [?i], w_nextId := Suc (w_nextId w)\<rparr>"
  let ?y = "receipt_year e ?i"
  let ?r = "receipt_of ?y (next_number (w_receiptCounter w) ?y)
      (receiptNumber (document_series (e_invoicing e)) ?y (next_number (w_receiptCounter w) ?y))
      (Suc (w_nextId w)) ?i"
  have one: "1 \<le> ?n" "1 \<le> next_number (w_receiptCounter w) ?y"
    using ok by (simp_all add: books_ok_def consecutive_def)
  have clash: "\<not> list_ex (invoice_clash ?i) (w_invoices w)" using no_clash [OF ok d fresh] .
  have "in_razorpayPaymentId ?i \<notin> in_razorpayPaymentId ` set (w_invoices w)"
    using fresh(1) by (auto simp: invoice_byPayment_def find_eq_None numbered_def)
  then have rclash: "\<not> list_ex (receipt_clash ?r) (w_receipts w)"
    by (rule no_receipt_clash [OF ok _ _ _ refl document_series_ok])
      (simp_all add: numbered_def receipt_year_def financialYear_ok)
  have "receipt_recordIn e ?i ?w1 = (Inr ?r, ?w1\<lparr>
      w_receiptCounter := snd (claim_sequence (w_receiptCounter w) ?y),
      w_receipts := w_receipts w @ [?r], w_nextId := Suc (Suc (w_nextId w))\<rparr>)" (is "_ = (_, ?w2)")
    using one(2) rclash
    by (simp add: receipt_recordIn_def receipt_sequence_def bindE_def Let_def case_prod_beta
        claim_sequence_next receipt_year_def [symmetric])
  then have "invoice_transaction e d w = (Inr ?i, ?w2)"
    using one(1) clash up
    by (simp add: invoice_transaction_def transaction_def invoice_tx_body_def invoice_sequence_def
        bindE_def Let_def case_prod_beta claim_sequence_next)
  then show thesis by (rule that) (simp_all add: numbered_def)
qed

lemma invoice_draft_fields:
  assumes "invoice_draft e req w = (d, w')"
  shows "in_razorpayPaymentId d = iq_razorpayPaymentId req" "in_paymentId d = iq_paymentId req"
    "in_total d = iq_amount req" "w_invoices w' = w_invoices w" "books_ok w \<Longrightarrow> books_ok w'"
    "in_financialYear d = financialYear (e_tz e) (nullish_def_val (iq_paidAt req) (e_now e))
                            (document_timeZone (e_invoicing e))"
proof -
  have c: "cached_only w w'" using assms by (rule cached_only_invoice_draft)
  then show "w_invoices w' = w_invoices w" "books_ok w \<Longrightarrow> books_ok w'"
    using cached_only_documents books_ok_same by (auto simp: same_documents_def)
qed (use assms in \<open>auto simp: invoice_draft_def Let_def split: prod.splits\<close>)

lemma issueFor_known:
  "invoice_byPayment (iq_razorpayPaymentId req) w = Some i \<Longrightarrow>
   ledger_of (snd (issueFor e req w)) = ledger_of w"
  using ledger_of_deliver [of e i w]
  by (auto simp: issueFor_def record_invoice_def split: prod.splits sum.splits)

lemma issueFor_ledger:
  assumes ok: "books_ok w" and up: "\<not> e_db_raises e ''invoice.$transaction''"
    and row: "\<forall>i \<in> set (w_invoices w). iq_paymentId req \<noteq> None \<longrightarrow>
                in_paymentId i = iq_paymentId req \<longrightarrow> in_razorpayPaymentId i = iq_razorpayPaymentId req"
  shows "ledger_of (snd (issueFor e req w)) =
         enter (iq_razorpayPaymentId req)
           (financialYear (e_tz e) (nullish_def_val (iq_paidAt req) (e_now e)) (document_timeZone (e_invoicing e)))
           (iq_amount req) (ledger_of w)"
proof (cases "invoice_byPayment (iq_razorpayPaymentId req) w")
  case (Some i)
  then have "iq_razorpayPaymentId req \<in> fst ` set (ledger_of w)"
    using invoice_byPayment_None [of "iq_razorpayPaymentId req" w] by simp
  then show ?thesis by (simp add: issueFor_known [OF Some] enter_def)
next
  case None
  obtain d w1 where d: "invoice_draft e req w = (d, w1)" by fastforce
  note f = invoice_draft_fields [OF d]
  obtain i w2 where run: "invoice_transaction e d w1 = (Inr i, w2)" "w_invoices w2 = w_invoices w1 @ [i]"
      and i: "in_razorpayPaymentId i = in_razorpayPaymentId d" "in_financialYear i = in_financialYear d"
        "in_total i = in_total d"
  proof (rule issue_succeeds [OF f(5) [OF ok] up invoice_draft_year [OF d]])
    show "invoice_byPayment (in_razorpayPaymentId d) w1 = None"
      using None by (simp add: invoice_byPayment_def f)
    have "in_paymentId j \<noteq> iq_paymentId req" if "j \<in> set (w_invoices w)" "iq_paymentId req \<noteq> None" for j
      using that row None by (auto simp: invoice_byPayment_def find_eq_None)
    then show "in_paymentId d = None \<or> (\<forall>j \<in> set (w_invoices w1). in_paymentId j \<noteq> in_paymentId d)"
      by (auto simp: f)
  qed blast
  have rec: "record_invoice e req w = (Inr (Some i), w2)"
    by (simp add: record_invoice_def None d commit_invoice_def run(1))
  have "ledger_of (snd (issueFor e req w)) = ledger_of w2"
    using ledger_of_deliver [of e i w2] by (auto simp: issueFor_def rec split: prod.splits sum.splits)
  also have "\<dots> = ledger_of w @ [(in_razorpayPaymentId i, in_financialYear i, in_total i)]"
    by (simp add: ledger_of_def run(2) f(4))
  finally show ?thesis
    using None by (simp add: i f enter_def invoice_byPayment_None)
qed

text \<open>C18: raising an invoice refines entering the debit in a ledger: on any state the services
  can reach, with the database answering and the payment's row not invoiced under another
  payment id, the debit ends up in the books exactly once, under the financial year of the
  day it was paid, whether this is its first delivery or a retry and whatever mail does.\<close>
theorem issueFor_refines_ledger:
  assumes reach: "book_reachable (ds, w)" and up: "\<not> e_db_raises e ''invoice.$transaction''"
    and row: "\<forall>i \<in> set (w_invoices w). iq_paymentId req \<noteq> None \<longrightarrow>
                in_paymentId i = iq_paymentId req \<longrightarrow> in_razorpayPaymentId i = iq_razorpayPaymentId req"
  shows "ledger_of (snd (issueFor e req w)) =
         enter (iq_razorpayPaymentId req)
           (financialYear (e_tz e) (nullish_def_val (iq_paidAt req) (e_now e)) (document_timeZone (e_invoicing e)))
           (iq_amount req) (ledger_of w)"
  using books_ok_reachable [OF reach] by (intro issueFor_ledger [OF _ up row]) simp

theorem issueFor_refines_ledger_witness:
  "ledger_of (snd (issueFor sample_env sample_request empty_world)) = [(''pay_1'', ''6970'', 249900)]"
proof -
  have "book_reachable ({}, empty_world)" by (rule opened) (simp_all add: empty_world_def)
  moreover have "financialYear (e_tz sample_env) 864000000 (document_timeZone (e_invoicing sample_env)) = ''6970''"
    by code_simp
  ultimately show ?thesis
    using issueFor_refines_ledger [of "{}" empty_world sample_env sample_request]
    by (simp add: enter_def ledger_of_def sample_env_def) (simp add: empty_world_def sample_request_def)
qed

section \<open>What raising an invoice leaves alone\<close>

definition documents_only :: "world \<Rightarrow> world \<Rightarrow> bool" where
  "documents_only w w' =
     (w' = w\<lparr>w_redis := w_redis w', w_documentMails := w_documentMails w', w_invoices := w_invoices w',
             w_receipts := w_receipts w', w_invoiceCounter := w_invoiceCounter w',
             w_receiptCounter := w_receiptCounter w', w_nextId := w_nextId w'\<rparr> \<and>
      w_nextId w \<le> w_nextId w')"

lemma documents_only_eq:
  assumes "documents_only w w'"
  shows "w_subs w' = w_subs w" "w_groups w' = w_groups w" "w_payments w' = w_payments w"
    "w_events w' = w_events w" "w_settings w' = w_settings w" "w_plans w' = w_plans w"
    "w_rz_log w' = w_rz_log w" "w_mails w' = w_mails w" "w_wabaOrgs w' = w_wabaOrgs w"
    "w_numbers w' = w_numbers w" "w_nextId w \<le> w_nextId w'"
  using assms unfolding documents_only_def by (cases w, cases w', simp)+

lemma documents_only_refl [simp]: "documents_only w w"
  by (simp add: documents_only_def)

lemma documents_only_trans: "documents_only w w' \<Longrightarrow> documents_only w' w'' \<Longrightarrow> documents_only w w''"
  unfolding documents_only_def by (cases w, cases w', cases w'') simp

lemma documents_only_cached: "cached_only w w' \<Longrightarrow> documents_only w w'"
  by (auto simp: cached_only_def documents_only_def)

lemma documents_only_transaction:
  assumes "invoice_transaction e d w = (r, w')"
  shows "documents_only w w'"
proof (cases r)
  case (Inl err)
  then show ?thesis using assms invoice_transaction_InlD [of e d w err w'] by simp
next
  case (Inr i)
  from invoice_transaction_InrD(4) [of e d w i w'] assms Inr obtain q where
    "receipt_recordIn e i (w\<lparr>w_invoiceCounter := snd (claim_sequence (w_invoiceCounter w) (in_financialYear d)),
       w_invoices := w_invoices w @ [i], w_nextId := Suc (w_nextId w)\<rparr>) = (Inr q, w')" by blast
  from receipt_recordIn_InrD(4) [OF this] show ?thesis by (simp add: documents_only_def)
qed

lemma commit_invoice_cases:
  assumes "commit_invoice e d w = (r, w')"
  shows "documents_only w w'" and "\<exists>ri. invoice_transaction e d w = (ri, w')"
proof -
  show ex: "\<exists>ri. invoice_transaction e d w = (ri, w')"
    using assms by (auto simp: commit_invoice_def split: prod.splits sum.splits http_exn.splits)
  then show "documents_only w w'" using documents_only_transaction by blast
qed

lemma documents_only_deliver: "documents_only w (snd (deliver_invoice e i w))"
  by (auto simp: deliver_invoice_def Let_def documents_only_def split: option.splits bool.splits)

definition invoiced_payments :: "world \<Rightarrow> (nat option \<times> string) list" where
  "invoiced_payments w = map (\<lambda>i. (in_paymentId i, in_razorpayPaymentId i)) (w_invoices w)"

lemma invoiced_payments_deliver: "invoiced_payments (snd (deliver_invoice e i w)) = invoiced_payments w"
  by (auto simp: deliver_invoice_def Let_def invoiced_payments_def map_key_update_rows
      split: option.splits bool.splits)

lemma invoiced_payments_commit:
  "set (invoiced_payments (snd (commit_invoice e d w))) \<subseteq>
   insert (in_paymentId d, in_razorpayPaymentId d) (set (invoiced_payments w))"
proof (cases "commit_invoice e d w")
  case (Pair r w')
  obtain ri where run: "invoice_transaction e d w = (ri, w')" using commit_invoice_cases(2) [OF Pair] by blast
  show ?thesis
  proof (cases ri)
    case (Inl err)
    then have "w' = w" using run invoice_transaction_InlD by blast
    then show ?thesis by (auto simp: Pair)
  next
    case (Inr i)
    obtain q where q: "receipt_recordIn e i (w\<lparr>w_invoiceCounter := snd (claim_sequence (w_invoiceCounter w) (in_financialYear d)),
       w_invoices := w_invoices w @ [i], w_nextId := Suc (w_nextId w)\<rparr>) = (Inr q, w')"
      using invoice_transaction_InrD(4) [of e d w i w'] run Inr by blast
    have "in_paymentId i = in_paymentId d" "in_razorpayPaymentId i = in_razorpayPaymentId d"
      using invoice_transaction_InrD(2) [of e d w i w'] run Inr by (simp_all add: numbered_def)
    then show ?thesis by (auto simp: Pair receipt_recordIn_InrD(4) [OF q] invoiced_payments_def)
  qed
qed

lemma record_invoice_frame:
  assumes r: "record_invoice e req w = (r, w1)"
  shows "books_ok w \<Longrightarrow> books_ok w1" "documents_only w w1"
    "set (invoiced_payments w1) \<subseteq> insert (iq_paymentId req, iq_razorpayPaymentId req) (set (invoiced_payments w))"
proof -
  have "(books_ok w \<longrightarrow> books_ok w1) \<and> documents_only w w1 \<and>
    set (invoiced_payments w1) \<subseteq> insert (iq_paymentId req, iq_razorpayPaymentId req) (set (invoiced_payments w))"
  proof (cases "invoice_byPayment (iq_razorpayPaymentId req) w")
    case None
    obtain d w0 where d: "invoice_draft e req w = (d, w0)" by fastforce
    note f = invoice_draft_fields [OF d]
    have c: "commit_invoice e d w0 = (r, w1)" using r None d by (simp add: record_invoice_def)
    have "invoiced_payments w0 = invoiced_payments w" by (simp add: invoiced_payments_def f(4))
    then have "set (invoiced_payments w1) \<subseteq>
        insert (iq_paymentId req, iq_razorpayPaymentId req) (set (invoiced_payments w))"
      using invoiced_payments_commit [of e d w0] c f(1,2) by simp
    moreover have "documents_only w w1"
      using documents_only_cached [OF cached_only_invoice_draft [OF d]] commit_invoice_cases(1) [OF c]
      by (rule documents_only_trans)
    moreover have "books_ok w \<longrightarrow> books_ok w1"
      using books_ok_commit [OF f(5) invoice_draft_year [OF d], of e] c by simp
    ultimately show ?thesis by blast
  qed (use r in \<open>auto simp: record_invoice_def\<close>)
  then show "books_ok w \<Longrightarrow> books_ok w1" "documents_only w w1"
    "set (invoiced_payments w1) \<subseteq> insert (iq_paymentId req, iq_razorpayPaymentId req) (set (invoiced_payments w))"
    by auto
qed

lemma issueFor_cases:
  obtains r w1 where "record_invoice e req w = (r, w1)"
    "snd (issueFor e req w) = w1 \<or> (\<exists>i. snd (issueFor e req w) = snd (deliver_invoice e i w1))"
proof -
  obtain r w1 where r: "record_invoice e req w = (r, w1)" by fastforce
  have "snd (issueFor e req w) = w1 \<or> (\<exists>i. snd (issueFor e req w) = snd (deliver_invoice e i w1))"
  proof (cases "\<exists>i. r = Inr (Some i)")
    case True
    then obtain i where "r = Inr (Some i)" by blast
    then have "snd (issueFor e req w) = snd (deliver_invoice e i w1)"
      by (simp add: issueFor_def r split: prod.splits sum.splits)
    then show ?thesis by blast
  next
    case False
    then show ?thesis by (auto simp: issueFor_def r split: sum.splits option.splits)
  qed
  with r show thesis by (rule that)
qed

lemma issueFor_frame:
  shows "books_ok w \<Longrightarrow> books_ok (snd (issueFor e req w))"
    and "documents_only w (snd (issueFor e req w))"
    and "set (invoiced_payments (snd (issueFor e req w))) \<subseteq>
         insert (iq_paymentId req, iq_razorpayPaymentId req) (set (invoiced_payments w))"
proof -
  obtain r w1 where r: "record_invoice e req w = (r, w1)"
    and out: "snd (issueFor e req w) = w1 \<or> (\<exists>i. snd (issueFor e req w) = snd (deliver_invoice e i w1))"
    by (rule issueFor_cases)
  note f = record_invoice_frame [OF r]
  show "books_ok w \<Longrightarrow> books_ok (snd (issueFor e req w))" using f(1) out books_ok_deliver by metis
  show "documents_only w (snd (issueFor e req w))"
    using f(2) out documents_only_deliver documents_only_trans by metis
  show "set (invoiced_payments (snd (issueFor e req w))) \<subseteq>
         insert (iq_paymentId req, iq_razorpayPaymentId req) (set (invoiced_payments w))"
    using f(3) out invoiced_payments_deliver by metis
qed

section \<open>Extracts\<close>

text \<open>The summary the service writes is made from every line, and tells no more of them than
  how many they are and, where they are all on one plan, its name.\<close>

lemma remdups_sole: "(remdups xs = [p]) = (set xs = {p})"
proof
  assume "set xs = {p}"
  then have "set (remdups xs) = {p}" "length (remdups xs) = 1" by (simp_all add: length_remdups_card_conv)
  then show "remdups xs = [p]" by (cases "remdups xs") simp_all
qed (metis list.set(1) list.simps(15) set_remdups)

lemma sole_of:
  "(case remdups xs of [p] \<Rightarrow> f p | _ \<Rightarrow> b) = (if \<exists>p. set xs = {p} then f (the_elem (set xs)) else b)"
proof (cases "\<exists>p. set xs = {p}")
  case True
  then obtain p where "set xs = {p}" by blast
  moreover from this have "remdups xs = [p]" by (simp add: remdups_sole)
  ultimately show ?thesis by simp
next
  case False
  then have "remdups xs \<noteq> [p]" for p by (simp add: remdups_sole)
  then show ?thesis using False by (simp split: list.splits)
qed

lemma summarise_drafts_cong:
  assumes "length ds' = length ds" "dl_planName ` set ds' = dl_planName ` set ds"
  shows "summarise_drafts ds' = summarise_drafts ds"
proof -
  have plans: "set (filter truthy (map dl_planName ds')) = set (filter truthy (map dl_planName ds))"
    unfolding set_filter set_map assms(2) ..
  consider "length ds = 0" | "length ds = 1" | "2 \<le> length ds" by linarith
  then show ?thesis
  proof cases
    case 2
    then obtain d d' where "ds = [d]" "ds' = [d']" using assms(1) by (auto simp: length_Suc_conv)
    then show ?thesis using assms(2) by (simp add: summarise_drafts_def)
  next
    case 3
    have many: "summarise_drafts es =
      Some (case remdups (filter truthy (map dl_planName es)) of
          [p] \<Rightarrow> (nat_str (length es) @ '' client plans'') @ '' '' @ em_dash @ '' '' @ the p
        | _ \<Rightarrow> nat_str (length es) @ '' client plans'')" if "2 \<le> length es" for es
      using that unfolding summarise_drafts_def Let_def by (cases es rule: remdups_adj.cases) simp_all
    show ?thesis using 3 assms(1) by (simp only: many sole_of plans)
  qed (use assms(1) in simp)
qed


text \<open>The payer's card and the number of its other clients are on the extract all the same.\<close>

lemma extract_shows_payer:
  "in_org i \<noteq> x \<Longrightarrow> id_paymentMethod (invoice_toDtoFor i x) = in_paymentMethod i \<and>
   id_summary (invoice_toDtoFor i x) = in_summary i"
  by (simp add: invoice_toDtoFor_def invoice_toDto_def Let_def)

definition shared_drafts :: "org \<Rightarrow> int \<Rightarrow> draft_line list" where
  "shared_drafts other weight =
     [(single_draft (Some ''kettle'') ''a'' None sample_request)\<lparr>dl_weight := weight\<rparr>,
      (single_draft (Some other) ''b'' None sample_request)\<lparr>dl_weight := weight\<rparr>]"


end
