(* ===== verification/Svc_Logic.thy ===== *)
theory Svc_Logic
  imports Prelude
begin

text \<open>
  Reasoning about methods that may throw: triples with a postcondition for a result and one
  for an exception, and the rules for each construct the models are written with.
\<close>

definition valid ::
  "('s \<Rightarrow> bool) \<Rightarrow> ('s, 'a) svc \<Rightarrow> ('a \<Rightarrow> 's \<Rightarrow> bool) \<Rightarrow> (http_exn \<Rightarrow> 's \<Rightarrow> bool) \<Rightarrow> bool" where
  "valid P m Q E =
     (\<forall>s. P s \<longrightarrow> (case m s of (Inr x, s') \<Rightarrow> Q x s' | (Inl e, s') \<Rightarrow> E e s'))"

named_theorems valid_intros \<open>triples of the constructs\<close>

lemma validI:
  "(\<And>s x s'. P s \<Longrightarrow> m s = (Inr x, s') \<Longrightarrow> Q x s') \<Longrightarrow>
   (\<And>s e s'. P s \<Longrightarrow> m s = (Inl e, s') \<Longrightarrow> E e s') \<Longrightarrow> valid P m Q E"
  by (auto simp: valid_def split: prod.splits sum.splits)

lemma validD: "valid P m Q E \<Longrightarrow> P s \<Longrightarrow> m s = (Inr x, s') \<Longrightarrow> Q x s'"
  by (auto simp: valid_def dest!: spec [of _ s])

lemma validE: "valid P m Q E \<Longrightarrow> P s \<Longrightarrow> m s = (Inl e, s') \<Longrightarrow> E e s'"
  by (auto simp: valid_def dest!: spec [of _ s])

lemma valid_weaken:
  "valid P' m Q' E' \<Longrightarrow> (\<And>s. P s \<Longrightarrow> P' s) \<Longrightarrow> (\<And>x s. Q' x s \<Longrightarrow> Q x s) \<Longrightarrow>
   (\<And>e s. E' e s \<Longrightarrow> E e s) \<Longrightarrow> valid P m Q E"
  by (fastforce simp: valid_def split: prod.splits sum.splits)

lemma valid_pre: "valid P' m Q E \<Longrightarrow> (\<And>s. P s \<Longrightarrow> P' s) \<Longrightarrow> valid P m Q E"
  by (rule valid_weaken)

lemma valid_bindE:
  "valid P m R E \<Longrightarrow> (\<And>x. valid (R x) (f x) Q E) \<Longrightarrow> valid P (bindE m f) Q E"
  unfolding valid_def bindE_def by (fastforce split: prod.splits sum.splits)

lemma valid_thenE:
  "valid P m (\<lambda>_. R) E \<Longrightarrow> valid R n Q E \<Longrightarrow> valid P (thenE m n) Q E"
  unfolding thenE_def by (rule valid_bindE)

lemma valid_basic [valid_intros]:
  "(\<And>s. P s \<Longrightarrow> Q x s) \<Longrightarrow> valid P (retE x) Q E"
  "(\<And>s. P s \<Longrightarrow> E e s) \<Longrightarrow> valid P (throwE e) Q E"
  "(\<And>s. P s \<Longrightarrow> Q (g s) s) \<Longrightarrow> valid P (getE g) Q E"
  "(\<And>s. P s \<Longrightarrow> Q () (h s)) \<Longrightarrow> valid P (modE h) Q E"
  by (simp_all add: valid_def)

lemma valid_getE: "valid P (getE g) (\<lambda>x s. P s \<and> (\<exists>s\<^sub>0. x = g s\<^sub>0)) E"
  by (auto simp: valid_def)

lemma valid_refuse_if [valid_intros]:
  "(\<And>s. P s \<Longrightarrow> c \<Longrightarrow> E e s) \<Longrightarrow> (\<And>s. P s \<Longrightarrow> \<not> c \<Longrightarrow> Q () s) \<Longrightarrow> valid P (refuse_if c e) Q E"
  by (cases c) (simp_all add: valid_def)

lemma valid_if [valid_intros]:
  "(c \<Longrightarrow> valid P m Q E) \<Longrightarrow> (\<not> c \<Longrightarrow> valid P n Q E) \<Longrightarrow> valid P (if c then m else n) Q E"
  by simp

lemma valid_option [valid_intros]:
  "(x = None \<Longrightarrow> valid P m Q E) \<Longrightarrow> (\<And>y. x = Some y \<Longrightarrow> valid P (f y) Q E) \<Longrightarrow>
   valid P (case x of None \<Rightarrow> m | Some y \<Rightarrow> f y) Q E"
  by (cases x) simp_all

lemma valid_pair [valid_intros]:
  "(\<And>a b. x = (a, b) \<Longrightarrow> valid P (f a b) Q E) \<Longrightarrow> valid P (case x of (a, b) \<Rightarrow> f a b) Q E"
  by (cases x) simp

lemma valid_False [simp]: "valid (\<lambda>_. False) m Q E"
  by (simp add: valid_def)

text \<open>An invariant relation kept by every outcome: both postconditions are the same.\<close>

lemma valid_conj:
  "valid P m Q E \<Longrightarrow> valid P m Q' E' \<Longrightarrow> valid P m (\<lambda>x s. Q x s \<and> Q' x s) (\<lambda>e s. E e s \<and> E' e s)"
  unfolding valid_def by (fastforce split: prod.splits sum.splits)

lemma case_run_const: "(case r of (Inr x, s') \<Rightarrow> I s' | (Inl e, s') \<Rightarrow> I s') = I (snd r)"
proof (cases r)
  case (Pair a s)
  then show ?thesis by (cases a) simp_all
qed

lemma keeps_iff_valid: "keeps I m \<longleftrightarrow> valid I m (\<lambda>_. I) (\<lambda>_. I)"
  by (simp only: keeps_def valid_def case_run_const)

lemmas keeps_valid = keeps_iff_valid [THEN iffD1]
lemmas valid_keeps = keeps_iff_valid [THEN iffD2]

lemma valid_pure: "(A \<Longrightarrow> valid P m Q E) \<Longrightarrow> valid (\<lambda>s. P s \<and> A) m Q E"
  by (cases A) simp_all

text \<open>What a run says when the triple is not about its first state.\<close>

lemma valid_run:
  "valid (\<lambda>s. s = s\<^sub>0) m Q E \<Longrightarrow> (case m s\<^sub>0 of (Inr x, s') \<Rightarrow> Q x s' | (Inl e, s') \<Rightarrow> E e s')"
  by (simp add: valid_def)

end
