(* ===== verification/Billing_Rules.thy ===== *)
theory Billing_Rules
  imports Billing Invoice_Books Svc_Logic
begin

text \<open>
  One proof for every invariant of the billing tables: a property that the primitive writes
  keep is kept by every method of the services, whether it returns or throws. The locale
  \<open>billing_invariant\<close> states what the primitive writes have to keep; its lemmas are the
  \<open>keeps\<close> rules of the methods and the rule for a step of any of them.
\<close>

section \<open>What is written elsewhere\<close>

text \<open>Changes to none of those tables.\<close>

definition same_billing :: "world \<Rightarrow> world \<Rightarrow> bool" where
  "same_billing w w' =
     (w_subs w' = w_subs w \<and> w_groups w' = w_groups w \<and> w_payments w' = w_payments w \<and>
      w_events w' = w_events w \<and> same_documents w w')"

lemma same_billing_refl [simp]: "same_billing w w"
  by (simp add: same_billing_def same_documents_def)

lemma same_billing_trans: "same_billing w w' \<Longrightarrow> same_billing w' w'' \<Longrightarrow> same_billing w w''"
  by (simp add: same_billing_def same_documents_def)

lemma same_billing_asked: "asked_only w w' \<Longrightarrow> same_billing w w'"
  by (simp add: same_billing_def same_documents_def asked_only_eq)

lemma same_billing_cached: "cached_only w w' \<Longrightarrow> same_billing w w'"
  by (auto simp: same_billing_def same_documents_def cached_only_def)

lemma same_billing_bump [simp]: "same_billing w (invalidatePayer e x w)"
  by (simp add: same_billing_def same_documents_def invalidatePayer_def)

lemma same_billing_bumps: "same_billing w (fold (invalidatePayer e) xs w)"
  by (induction xs arbitrary: w) (auto intro: same_billing_trans [OF same_billing_bump])

lemma same_billing_mails [simp]: "same_billing w (w\<lparr>w_mails := m\<rparr>)"
  by (simp add: same_billing_def same_documents_def)

section \<open>Runs and frames of the parts\<close>

lemma snd_safely [simp]: "snd (safely m s) = snd (m s)"
  by (simp add: safely_def Let_def case_prod_beta)

lemma snd_update_sub: "snd (update_sub i f w) = snd (write_subs (update_rows (\<lambda>s. sub_id s = i) f) w)"
  by (auto simp: update_sub_def thenE_def bindE_def split: prod.splits sum.splits option.splits)

lemma same_billing_fetchPlan: "same_billing w (snd (billing_plan e p w))"
  using asked_only_fetchPlan [of w e "Some p"]
  by (auto simp: billing_plan_def Let_def case_prod_beta intro: same_billing_asked)

lemma same_billing_currentPrice: "same_billing w (snd (currentPrice e s w))"
  using same_billing_fetchPlan by (auto simp: currentPrice_def Let_def case_prod_beta split: option.splits)

lemma same_billing_stateOf: "same_billing w (snd (stateOf e x sub a w))"
proof -
  have nm: "same_billing w w1"
    if "(case Option.bind sub sub_payerOrgId of None \<Rightarrow> (None, w) | Some p \<Rightarrow> org_name e (Some p) w) = (n, w1)" for n w1
    using that by (auto split: option.splits dest: cached_only_org_nameD intro: same_billing_cached)
  have pl: "same_billing w1 w2"
    if "(case sub of None \<Rightarrow> (None, w1) | Some s \<Rightarrow> billing_plan e (sub_planId s) w1) = (p, w2)" for p w1 w2
    using that same_billing_fetchPlan by (auto split: option.splits) (metis snd_conv)
  show ?thesis
    unfolding stateOf_def Let_def by (auto split: prod.splits intro: same_billing_trans dest: nm pl)
qed

lemma same_billing_provision: "same_billing w (provision_each e ids w)"
proof (induction ids arbitrary: w)
  case (Cons a ids)
  have "same_billing w (w\<lparr>w_provisioned := x\<rparr>)" for x
    by (simp add: same_billing_def same_documents_def)
  then show ?case using Cons.IH by (auto intro: same_billing_trans)
qed simp

lemma same_billing_provisionIf [simp]: "same_billing w (provisionIfNewlyPaid e a b w)"
  by (simp add: provisionIfNewlyPaid_def same_billing_provision)

lemma sub_id_tierFor [simp]: "sub_id (tierFor plans s p r) = sub_id r"
  by (simp add: tierFor_def split: option.splits)

lemma sub_id_remote_row [simp]: "sub_id (remote_row e plans s remote r) = sub_id r"
  by (simp add: remote_row_def Let_def)

lemma same_billing_cancelled: "same_billing w (pending_cancelled e s w)"
  by (simp add: pending_cancelled_def same_billing_asked asks)

lemma bg_id_group_from [simp]: "bg_id (group_from c r q st g) = bg_id g"
  by (simp add: group_from_def)

lemma same_billing_overage: "same_billing w (billOverage e s w)"
proof -
  have a: "same_billing w (billExtraWabas e m p n w)" for m p n w
    by (auto simp: billExtraWabas_def Let_def asks intro: same_billing_asked split: option.splits)
  have b: "same_billing w (billExtraNumbers e m p ids w)" for m p ids w
    by (auto simp: billExtraNumbers_def Let_def asks intro: same_billing_asked split: option.splits)
  show ?thesis
    by (auto simp: billOverage_def Let_def split: option.splits intro: same_billing_trans [OF a b])
qed

lemma documents_only_deliver_all: "documents_only w (snd (deliver_all e is n w))"
proof (induction "is" arbitrary: n w)
  case (Cons i "is")
  obtain r w' where d: "deliver_invoice e i w = (r, w')" by fastforce
  then have "documents_only w w'" using documents_only_deliver [of w e i] by simp
  then show ?case using Cons.IH by (auto simp: d split: sum.splits bool.splits intro: documents_only_trans)
qed simp

lemma invoiced_payments_deliver_all: "invoiced_payments (snd (deliver_all e is n w)) = invoiced_payments w"
proof (induction "is" arbitrary: n w)
  case (Cons i "is")
  obtain r w' where d: "deliver_invoice e i w = (r, w')" by fastforce
  then have "invoiced_payments w' = invoiced_payments w" using invoiced_payments_deliver [of e i w] by simp
  then show ?case using Cons.IH by (auto simp: d split: sum.splits bool.splits)
qed simp

lemma keeps_safely [keeps_intros]: "(\<And>s. I s \<Longrightarrow> I (snd (m s))) \<Longrightarrow> keeps I (safely m)"
  by (simp add: keeps_def)

lemma keeps_reading [keeps_intros]:
  "keeps I (ownMandate s)" "keeps I (as_status t)" "keeps I (sellablePlan c x)"
  "keeps I (sellableToAgency c x)"
  by (auto simp: keeps_def ownMandate_def as_status_def sellablePlan_def sellableToAgency_def
      split: option.splits)

lemma keeps_Let [keeps_intros]: "(\<And>x. x = t \<Longrightarrow> keeps I (f x)) \<Longrightarrow> keeps I (let x = t in f x)"
  by simp

lemma keeps_pair [keeps_intros]: "(\<And>a b. x = (a, b) \<Longrightarrow> keeps I (f a b)) \<Longrightarrow> keeps I (case x of (a, b) \<Rightarrow> f a b)"
  by (cases x) simp

definition recorded_in :: "payment_row option \<Rightarrow> world \<Rightarrow> bool" where
  "recorded_in r w = (\<forall>p. r = Some p \<longrightarrow> p \<in> set (w_payments w))"

text \<open>The row that recorded a payment is in the table.\<close>

lemma upsert_recorded: "upsert_payment new upd w = (r, w') \<Longrightarrow> r \<in> set (w_payments w')"
  by (auto simp: upsert_payment_def set_update_rows dest: find_SomeD split: option.splits)

section \<open>Every history\<close>

text \<open>
  Any sequence of the services' methods, in any environment each time: every method whether
  it returns or throws, and whatever else happens that writes none of these tables.
\<close>

inductive billing_step :: "world \<Rightarrow> world \<Rightarrow> bool" where
  registers: "billing_step w (snd (register e u x c w))"
| confirms: "billing_step w (snd (confirm e x p s g w))"
| changes: "billing_step w (snd (changePlan e x c w))"
| cancels: "billing_step w (snd (billing_cancel e x w))"
| hears: "billing_step w (snd (handleWebhook e b w))"
| reconciles: "billing_step w (reconcile e w)"
| takes_on: "billing_step w (snd (subscribeClient e a x c u w))"
| lets_go: "billing_step w (snd (releaseClient e a x w))"
| reads: "billing_step w (snd (billing_state e x a w))"
| elsewhere: "same_billing w w' \<Longrightarrow> billing_step w w'"

text \<open>The tables before the first subscription.\<close>

definition billing_empty :: "world \<Rightarrow> bool" where
  "billing_empty w =
     (w_subs w = [] \<and> w_groups w = [] \<and> w_payments w = [] \<and> w_events w = [] \<and>
      w_invoices w = [] \<and> w_receipts w = [] \<and> w_invoiceCounter w = Map.empty \<and>
      w_receiptCounter w = Map.empty)"

inductive billing_reachable :: "world \<Rightarrow> bool" where
  start: "billing_empty w \<Longrightarrow> billing_reachable w"
| onward: "billing_reachable w \<Longrightarrow> billing_step w w' \<Longrightarrow> billing_reachable w'"

section \<open>Invariants\<close>

locale billing_invariant =
  fixes I :: "world \<Rightarrow> bool"
  assumes same: "I w \<Longrightarrow> same_billing w w' \<Longrightarrow> I w'"
    and update_subs: "(\<And>s. sub_id (f s) = sub_id s) \<Longrightarrow> keeps I (write_subs (update_rows p f))"
    and insert_sub: "(\<And>i. sub_id (row i) = i) \<Longrightarrow> keeps I (insert_sub row)"
    and update_group: "(\<And>g. bg_id (h g) = bg_id g) \<Longrightarrow> keeps I (update_group i h)"
    and insert_group: "(\<And>i. bg_id (grp i) = i) \<Longrightarrow> keeps I (insert_group grp)"
    and moved: "keeps I (modE (\<lambda>w. w\<lparr>w_subs := update_rows p (moved_client st a z) (w_subs w)\<rparr>))"
    and upsert: "I w \<Longrightarrow> (\<And>q. pay_id (upd q) = pay_id q) \<Longrightarrow>
      (\<And>q. pay_razorpayPaymentId q = pay_razorpayPaymentId new \<Longrightarrow>
         pay_razorpayPaymentId (upd q) = pay_razorpayPaymentId q) \<Longrightarrow>
      upsert_payment new upd w = (r, w') \<Longrightarrow> I w'"
    and issued: "I w \<Longrightarrow> q \<in> set (w_payments w) \<Longrightarrow> iq_paymentId req = Some (pay_id q) \<Longrightarrow>
      iq_razorpayPaymentId req = pay_razorpayPaymentId q \<Longrightarrow> I (snd (issueFor e req w))"
    and heard: "keeps I (record_event e b)"
    and delivered: "I w \<Longrightarrow> I (snd (deliverPending e n w))"
begin

lemmas keeps_primitives [keeps_intros] = update_subs insert_sub update_group insert_group heard

section \<open>Primitive operations\<close>

lemma keeps_same: "(\<And>w. same_billing w (snd (m w))) \<Longrightarrow> keeps I m"
  by (auto simp: keeps_def intro: same)

lemmas keeps_asks = keeps_same [OF same_billing_asked]

lemma keeps_calls [keeps_intros]:
  "keeps I (createCustomer e n m ns)"
  "keeps I (createSubscription e c p st q ns)"
  "keeps I (cancelSubscription e s b)"
  "keeps I (fetchSubscription e s)"
  "keeps I (changeSubscriptionPlan e s p b)"
  by (rule keeps_asks, rule asks)+

lemma keeps_modE_same [keeps_intros]: "(\<And>w. same_billing w (h w)) \<Longrightarrow> keeps I (modE h)"
  by (rule keeps_same) simp

lemma keeps_update_sub [keeps_intros]:
  "(\<And>s. sub_id (f s) = sub_id s) \<Longrightarrow> keeps I (update_sub i f)"
  using update_subs [of f "\<lambda>s. sub_id s = i"] by (simp add: keeps_def snd_update_sub)

lemma keeps_stateOf [keeps_intros]: "keeps I (safely (stateOf e x sub a))"
  by (rule keeps_safely) (rule same [OF _ same_billing_stateOf])

lemma keeps_currentPrice [keeps_intros]: "keeps I (safely (currentPrice e s))"
  by (rule keeps_safely) (rule same [OF _ same_billing_currentPrice])

lemma keeps_applyRemote [keeps_intros]: "keeps I (applyRemote e s remote)"
proof -
  have "keeps I (\<lambda>w. update_sub (sub_id s) (remote_row e (w_plans w) s remote) w)"
    using keeps_update_sub by (auto simp: keeps_def)
  then show ?thesis unfolding applyRemote_def by (intro keeps_intros) simp_all
qed

section \<open>Methods\<close>

lemma keeps_customer_or_new [keeps_intros]: "keeps I (customer_or_new e x p k)"
  unfolding customer_or_new_def by (intro keeps_intros)

lemma keeps_startResubscribe [keeps_intros]: "keeps I (startResubscribe e s p u)"
  unfolding startResubscribe_def by (intro keeps_intros) (simp_all add: same_billing_cancelled)

lemma keeps_register_fresh [keeps_intros]: "keeps I (register_fresh e u x p s)"
  unfolding register_fresh_def
  by (intro keeps_intros) (simp_all add: registered_row_def blank_sub_def same_billing_asked asks)

lemma keeps_register [keeps_intros]: "keeps I (register e u x c)"
  unfolding register_def by (intro keeps_intros)

lemma keeps_promote [keeps_intros]: "keeps I (promoteUpgrade e s)"
  unfolding promoteUpgrade_def
  by (intro keeps_intros) (auto simp: asks intro: same_billing_asked split: prod.splits sum.splits)

lemma keeps_confirm [keeps_intros]: "keeps I (confirm e x p s g)"
  unfolding confirm_def by (intro keeps_intros) simp_all

lemma keeps_upgrade [keeps_intros]: "keeps I (startUpgrade e s p c)"
  unfolding startUpgrade_def
  by (intro keeps_intros) (auto intro: same same_billing_asked asks)

lemma keeps_downgrade [keeps_intros]: "keeps I (scheduleDowngrade e s p)"
  unfolding scheduleDowngrade_def by (intro keeps_intros) simp_all

lemma keeps_changePlan [keeps_intros]: "keeps I (changePlan e x c)"
  unfolding changePlan_def by (intro keeps_intros)

lemma keeps_cancel [keeps_intros]: "keeps I (billing_cancel e x)"
  unfolding billing_cancel_def by (intro keeps_intros) (simp_all add: same_billing_cancelled)

lemma keeps_customerFor [keeps_intros]: "keeps I (customerFor e x u)"
  unfolding customerFor_def Let_def
  using keeps_calls(1) by (auto simp: keeps_def intro: same same_billing_asked asks)

lemma keeps_replace [keeps_intros]: "keeps I (replaceUnauthorised e g p u)"
  unfolding replaceUnauthorised_def
  by (intro keeps_intros) (auto intro: same same_billing_asked asks)

lemma keeps_groupFor [keeps_intros]: "keeps I (groupFor e x p u)"
  unfolding groupFor_def Let_def
  by (intro keeps_intros) (auto intro: same same_billing_asked asks)

lemma keeps_subscribeClient [keeps_intros]: "keeps I (subscribeClient e a x c u)"
  unfolding subscribeClient_def by (intro keeps_intros) (simp_all add: client_row_def)

lemma keeps_releaseClient [keeps_intros]: "keeps I (releaseClient e a x)"
  unfolding releaseClient_def
  by (intro keeps_intros) (auto intro: same same_billing_asked asks)

section \<open>Webhooks and the sweep\<close>

text \<open>A row that recorded a payment is in the table, and raising its invoice keeps the rest.\<close>

lemma inv_recordPayment:
  assumes "I w" "recordPayment e i payment w = (r, w')"
  shows "I w'" "recorded_in r w'"
proof -
  have "I w' \<and> recorded_in r w'"
  proof (cases "billing_paymentRow payment = None \<or> e_db_raises e ''subscriptionPayment.upsert''")
    case True
    then show ?thesis using assms by (auto simp: recordPayment_def recorded_in_def split: option.splits)
  next
    case False
    then obtain data where data: "billing_paymentRow payment = Some data"
      by (cases "billing_paymentRow payment") auto
    obtain q where run: "upsert_payment (data\<lparr>pay_subscriptionId := Some i\<rparr>)
        (\<lambda>q. data\<lparr>pay_id := pay_id q, pay_subscriptionId := pay_subscriptionId q,
                   pay_billingGroupId := pay_billingGroupId q\<rparr>) w = (q, w')" and r: "r = Some q"
      using assms(2) False data by (auto simp: recordPayment_def split: prod.splits)
    show ?thesis using upsert [OF assms(1) _ _ run] upsert_recorded [OF run] by (simp add: r recorded_in_def)
  qed
  then show "I w'" "recorded_in r w'" by simp_all
qed

lemma inv_group_payment:
  assumes "I w" "group_payment i p w = (r, w')"
  shows "I w'" "recorded_in (Some r) w'"
  using upsert [OF assms(1) _ _ assms(2) [unfolded group_payment_def]]
    upsert_recorded [OF assms(2) [unfolded group_payment_def]]
  by (simp_all add: recorded_in_def)

lemma inv_invoice:
  assumes "I w" "recorded_in r w"
    "\<And>p. iq_paymentId (f p) = Some (pay_id p)" "\<And>p. iq_razorpayPaymentId (f p) = pay_razorpayPaymentId p"
  shows "I (invoice_if_captured e r f w)"
  using assms issued [of w _ "f _" e]
  by (auto simp: invoice_if_captured_def recorded_in_def split: option.splits)

lemma valid_recordPayment:
  "valid I (safely (recordPayment e i p)) (\<lambda>r w. I w \<and> recorded_in r w) (\<lambda>_. I)"
  using inv_recordPayment by (auto simp: valid_def safely_def Let_def split: prod.splits)

lemma valid_invoice:
  "(\<And>p. iq_paymentId (f p) = Some (pay_id p)) \<Longrightarrow>
   (\<And>p. iq_razorpayPaymentId (f p) = pay_razorpayPaymentId p) \<Longrightarrow>
   valid (\<lambda>w. I w \<and> recorded_in r w) (modE (invoice_if_captured e r f)) (\<lambda>_. I) (\<lambda>_. I)"
  by (intro valid_basic(4) inv_invoice) simp_all

lemma keeps_own_webhook [keeps_intros]: "keeps I (own_webhook e b ev entity s)"
  unfolding own_webhook_def
  apply (rule valid_keeps)
  apply (rule valid_bindE [where R = "\<lambda>f w. I w \<and> (\<exists>w\<^sub>0. f = own_request w\<^sub>0 s entity)"])
   apply (rule valid_getE)
  apply (rule valid_pure, elim exE)
  apply (rule valid_bindE [OF keeps_valid [OF keeps_applyRemote]])
  apply (rule valid_bindE [OF valid_recordPayment])
  apply (rule valid_thenE [OF valid_invoice])
    apply (simp_all add: own_request_def)
  by (rule keeps_valid) (intro keeps_intros, simp_all add: same_billing_overage)

lemma valid_apply_to:
  "valid I (apply_to e entity payment grp)
     (\<lambda>a w. I w \<and> recorded_in (ag_payment a) w) (\<lambda>_. I)"
proof -
  have rec: "valid I (case payment of None \<Rightarrow> retE None
       | Some p \<Rightarrow> safely (\<lambda>w. let (r, w') = group_payment i p w in (Some r, w')))
      (\<lambda>r w. I w \<and> recorded_in r w) (\<lambda>_. I)" for i
    using inv_group_payment
    by (intro valid_intros) (auto simp: valid_def safely_def recorded_in_def Let_def split: prod.splits)
  have bumps: "valid (\<lambda>w. I w \<and> recorded_in r w)
      (modE (\<lambda>w. fold (invalidatePayer e) xs w)) (\<lambda>_ w. I w \<and> recorded_in r w) (\<lambda>_. I)" for r xs
    using same_billing_bumps [of _ e xs] same
    by (intro valid_basic(4)) (auto simp: recorded_in_def same_billing_def)
  show ?thesis
    unfolding apply_to_def Let_def
    apply (rule valid_bindE [OF keeps_valid [OF keeps_reading(2)]])
    apply (rule valid_thenE [OF keeps_valid [OF update_group]], simp add: moved_group_def)
    apply (rule valid_bindE [where R = "\<lambda>_. I"], rule keeps_valid, rule keeps_basic(3))
    apply (rule valid_thenE [OF keeps_valid [OF moved]])
    apply (rule valid_bindE [OF rec [unfolded Let_def]])
    apply (rule valid_thenE [OF bumps])
    by (auto simp: valid_def bindE_def)
qed

lemma valid_applyToGroup:
  "valid I (applyToGroup e m entity payment)
     (\<lambda>r w. I w \<and> (\<forall>a. r = Some a \<longrightarrow> recorded_in (ag_payment a) w)) (\<lambda>_. I)"
  unfolding applyToGroup_def
  apply (rule valid_bindE [where R = "\<lambda>_. I"], rule keeps_valid, rule keeps_basic(3))
  apply (rule valid_option, simp add: valid_def)
  apply (rule valid_bindE [OF valid_apply_to])
  by (simp add: valid_def)

lemma keeps_group_webhook [keeps_intros]: "keeps I (group_webhook e b entity)"
proof -
  have "valid (\<lambda>w. I w \<and> (\<forall>a. r = Some a \<longrightarrow> recorded_in (ag_payment a) w))
     (case r of None \<Rightarrow> retE () | Some a \<Rightarrow> modE (invoice_if_captured e (ag_payment a) (group_request a)))
     (\<lambda>_. I) (\<lambda>_. I)" for r
    by (intro valid_intros) (auto simp: group_request_def intro!: inv_invoice)
  then show ?thesis
    unfolding group_webhook_def by (intro valid_keeps valid_bindE [OF valid_applyToGroup])
qed

lemma keeps_handleWebhook [keeps_intros]: "keeps I (handleWebhook e b)"
  unfolding handleWebhook_def by (intro keeps_intros)

lemma keeps_reconcile_one [keeps_intros]: "keeps I (reconcile_one e s)"
  unfolding reconcile_one_def by (intro keeps_intros) simp_all

lemma inv_fold:
  "(\<And>x. keeps I (m x)) \<Longrightarrow> I w \<Longrightarrow> I (fold (\<lambda>x w. snd (m x w)) xs w)"
  by (induction xs arbitrary: w) (auto simp: keeps_def)

lemma inv_reconcile: "I w \<Longrightarrow> I (reconcile e w)"
  by (simp add: reconcile_def Let_def delivered inv_fold keeps_reconcile_one)

lemma step: "billing_step w w' \<Longrightarrow> I w \<Longrightarrow> I w'"
proof (induction rule: billing_step.induct)
  case (reads w e x a)
  then show ?case using same [OF _ same_billing_stateOf] by (simp add: billing_state_def)
next
  case (elsewhere w w')
  then show ?case by (rule same [rotated])
qed (auto simp: inv_reconcile intro: keepsD keeps_intros prod.collapse [symmetric])

lemma steps: "billing_step\<^sup>*\<^sup>* w w' \<Longrightarrow> I w \<Longrightarrow> I w'"
  by (induction rule: rtranclp_induct) (auto intro: step)

lemma reachable:
  "billing_reachable w \<Longrightarrow> (\<And>w\<^sub>0. billing_empty w\<^sub>0 \<Longrightarrow> I w\<^sub>0) \<Longrightarrow> I w"
  by (induction rule: billing_reachable.induct) (auto intro: step)

end

end
