(* ===== verification/Billing_State.thy ===== *)
theory Billing_State
  imports Billing_Rules "HOL-Library.Sublist"
begin

text \<open>
  What every method of the billing services keeps of the tables: the keys, one row per
  provider id, and an invoice for each debit at most, pointing at the row that recorded it;
  that an event, a debit and an issued invoice stay on record for good.
\<close>

section \<open>The invariant\<close>

definition payments_known :: "world \<Rightarrow> bool" where
  "payments_known w =
     (\<forall>i p. (Some i, p) \<in> set (invoiced_payments w) \<longrightarrow>
        (\<exists>q \<in> set (w_payments w). pay_id q = i \<and> pay_razorpayPaymentId q = p))"

definition billing_ok :: "world \<Rightarrow> bool" where
  "billing_ok w =
     (sub_keys_ok (w_subs w) \<and> distinct (map sub_id (w_subs w)) \<and>
      (\<forall>s \<in> set (w_subs w). sub_id s < w_nextId w) \<and>
      group_keys_ok (w_groups w) \<and> distinct (map bg_id (w_groups w)) \<and>
      (\<forall>g \<in> set (w_groups w). bg_id g < w_nextId w) \<and>
      distinct (map pay_razorpayPaymentId (w_payments w)) \<and> distinct (map pay_id (w_payments w)) \<and>
      (\<forall>p \<in> set (w_payments w). pay_id p < w_nextId w) \<and>
      distinct (map ev_eventId (w_events w)) \<and> payments_known w \<and> books_ok w)"

lemma billing_ok_same: "billing_ok w \<Longrightarrow> same_billing w w' \<Longrightarrow> billing_ok w'"
  using books_ok_same [of w w']
  by (auto simp: billing_ok_def same_billing_def same_documents_def payments_known_def
      invoiced_payments_def dest: order.strict_trans2)

section \<open>The primitive writes\<close>

lemma keeps_update_subs:
  "(\<And>s. sub_id (f s) = sub_id s) \<Longrightarrow> keeps billing_ok (write_subs (update_rows p f))"
  by (auto simp: keeps_def write_subs_def billing_ok_def map_key_update_rows set_update_rows
      payments_known_def invoiced_payments_def books_ok_same [unfolded same_documents_def])


lemma keeps_insert_sub:
  "(\<And>i. sub_id (row i) = i) \<Longrightarrow> keeps billing_ok (insert_sub row)"
  by (force simp: keeps_def insert_sub_def Let_def billing_ok_def payments_known_def
      invoiced_payments_def intro: books_ok_same simp: same_documents_def less_Suc_eq)


lemma keeps_update_group:
  "(\<And>g. bg_id (f g) = bg_id g) \<Longrightarrow> keeps billing_ok (update_group i f)"
  by (auto simp: keeps_def update_group_def write_groups_def billing_ok_def map_key_update_rows
      set_update_rows payments_known_def invoiced_payments_def books_ok_same [unfolded same_documents_def])


lemma keeps_insert_group:
  "(\<And>i. bg_id (row i) = i) \<Longrightarrow> keeps billing_ok (insert_group row)"
  by (force simp: keeps_def insert_group_def Let_def billing_ok_def payments_known_def
      invoiced_payments_def intro: books_ok_same simp: same_documents_def less_Suc_eq)


lemma billing_ok_upsert:
  assumes ok: "billing_ok w" and upd: "\<And>q. pay_id (upd q) = pay_id q"
    "\<And>q. pay_razorpayPaymentId q = pay_razorpayPaymentId new \<Longrightarrow>
       pay_razorpayPaymentId (upd q) = pay_razorpayPaymentId q"
    and run: "upsert_payment new upd w = (r, w')"
  shows "billing_ok w'" "r \<in> set (w_payments w')"
proof -
  let ?p = "\<lambda>q. pay_razorpayPaymentId q = pay_razorpayPaymentId new"
  have ids: "map pay_id (update_rows ?p upd rows) = map pay_id rows" for rows
    by (simp add: map_key_update_rows upd(1))
  have keys: "map pay_razorpayPaymentId (update_rows ?p upd rows) = map pay_razorpayPaymentId rows" for rows
    by (simp add: map_key_update_rows upd(2))
  show "billing_ok w'"
  proof (cases "List.find ?p (w_payments w)")
    case None
    then have w': "w' = w\<lparr>w_payments := w_payments w @ [new\<lparr>pay_id := w_nextId w\<rparr>], w_nextId := Suc (w_nextId w)\<rparr>"
      using run by (auto simp: upsert_payment_def)
    have "books_ok w'" using ok books_ok_same [of w w'] by (simp add: billing_ok_def same_documents_def w')
    moreover have "payments_known w'"
      using ok by (simp add: w' billing_ok_def payments_known_def invoiced_payments_def)
    moreover have "pay_razorpayPaymentId new \<notin> pay_razorpayPaymentId ` set (w_payments w)"
      "w_nextId w \<notin> pay_id ` set (w_payments w)"
      using ok None by (auto simp: find_eq_None billing_ok_def)
    ultimately show ?thesis using ok by (simp add: w' billing_ok_def less_Suc_eq)
  next
    case (Some q)
    then have w': "w' = w\<lparr>w_payments := update_rows ?p upd (w_payments w)\<rparr>"
      using run by (simp add: upsert_payment_def)
    have books: "books_ok w'" using ok books_ok_same [of w w'] by (simp add: billing_ok_def same_documents_def w')
    have same: "invoiced_payments w' = invoiced_payments w" by (simp add: w' invoiced_payments_def)
    moreover have "payments_known w'"
      unfolding payments_known_def
    proof (intro allI impI)
      fix i p assume "(Some i, p) \<in> set (invoiced_payments w')"
      then obtain q where q: "q \<in> set (w_payments w)" "pay_id q = i" "pay_razorpayPaymentId q = p"
        using ok same unfolding billing_ok_def payments_known_def by metis
      let ?q = "if ?p q then upd q else q"
      have "?q \<in> set (w_payments w')" "pay_id ?q = i" "pay_razorpayPaymentId ?q = p"
        using q upd by (auto simp: w' set_update_rows)
      then show "\<exists>q \<in> set (w_payments w'). pay_id q = i \<and> pay_razorpayPaymentId q = p" by blast
    qed
    moreover have "\<forall>p \<in> set (w_payments w'). pay_id p < w_nextId w'"
      using ok upd(1) by (auto simp: w' billing_ok_def set_update_rows)
    ultimately show ?thesis using ok books by (simp add: w' billing_ok_def ids keys)
  qed
  show "r \<in> set (w_payments w')"
    using run by (auto simp: upsert_payment_def set_update_rows dest: find_SomeD split: option.splits)
qed


text \<open>A write that touches none of the key columns breaks no key.\<close>

lemma sub_keys_ok_update:
  assumes "\<And>r. sub_org (f r) = sub_org r" "\<And>r. sub_wabaId (f r) = sub_wabaId r"
    "\<And>r. sub_mandate (f r) = sub_mandate r" "\<And>r. sub_pendingMandate (f r) = sub_pendingMandate r"
  shows "sub_keys_ok (update_rows p f rows) = sub_keys_ok rows"
proof -
  have fl: "map g (filter q (update_rows p f rows)) = map g (filter q rows)"
    if "\<And>r. g (f r) = g r" "\<And>r. q (f r) = q r" for g :: "subscription \<Rightarrow> 'x" and q
    using that by (induction rows) auto
  have mf: "List.map_filter g (update_rows p f rows) = List.map_filter g rows"
    if "\<And>r. g (f r) = g r" for g :: "subscription \<Rightarrow> 'x option"
    using that by (induction rows) (auto simp: List.map_filter_simps split: option.splits)
  show ?thesis
    unfolding sub_keys_ok_def org_key_ok_def
    by (subst fl, simp add: assms, simp add: assms org_level_def)+ (simp add: mf assms)
qed

lemma keeps_moved: "keeps billing_ok (modE (\<lambda>w. w\<lparr>w_subs := update_rows p (moved_client st a z) (w_subs w)\<rparr>))"
proof (rule keepsI)
  fix w assume ok: "billing_ok w"
  let ?w = "w\<lparr>w_subs := update_rows p (moved_client st a z) (w_subs w)\<rparr>"
  have "sub_keys_ok (w_subs ?w)" "map sub_id (w_subs ?w) = map sub_id (w_subs w)"
    using ok by (simp_all add: billing_ok_def sub_keys_ok_update map_key_update_rows moved_client_def)
  then show "billing_ok (snd (modE (\<lambda>w. w\<lparr>w_subs := update_rows p (moved_client st a z) (w_subs w)\<rparr>) w))"
    using ok books_ok_same [of w ?w]
    by (auto simp: billing_ok_def same_documents_def payments_known_def invoiced_payments_def
        set_update_rows moved_client_def)
qed

lemma billing_ok_issueFor:
  assumes ok: "billing_ok w" and p: "p \<in> set (w_payments w)"
    "iq_paymentId req = Some (pay_id p)" "iq_razorpayPaymentId req = pay_razorpayPaymentId p"
  shows "billing_ok (snd (issueFor e req w))"
proof -
  let ?w = "snd (issueFor e req w)"
  note f = issueFor_frame(2) [of w e req]
  have "payments_known ?w"
    using ok p issueFor_frame(3) [of e req w]
    by (force simp: billing_ok_def payments_known_def documents_only_eq [OF f])
  then show ?thesis
    using ok issueFor_frame(1) [of w e req] documents_only_eq(11) [OF f]
    by (auto simp: billing_ok_def documents_only_eq(1-10) [OF f] dest: order.strict_trans2)
qed


lemma keeps_record_event: "keeps billing_ok (record_event e b)"
  by (auto simp: keeps_def record_event_def billing_ok_def payments_known_def invoiced_payments_def
      list_ex_iff books_ok_same [unfolded same_documents_def])


lemma billing_ok_deliverPending: "billing_ok w \<Longrightarrow> billing_ok (snd (deliverPending e n w))"
proof -
  assume ok: "billing_ok w"
  let ?w = "snd (deliverPending e n w)"
  have f: "documents_only w ?w" by (simp add: deliverPending_def documents_only_deliver_all)
  have "invoiced_payments ?w = invoiced_payments w"
    by (simp add: deliverPending_def invoiced_payments_deliver_all)
  moreover have "books_ok ?w" using ok by (simp add: deliverPending_def billing_ok_def books_ok_deliver_all)
  ultimately show ?thesis
    using ok documents_only_eq(11) [OF f]
    by (auto simp: billing_ok_def payments_known_def documents_only_eq(1-10) [OF f] dest: order.strict_trans2)
qed


interpretation tables: billing_invariant billing_ok
proof (unfold_locales, goal_cases)
  case 7
  show ?case by (rule billing_ok_upsert(1) [OF 7(1) 7(2) 7(3) 7(4)])
qed (erule (1) billing_ok_same billing_ok_issueFor
  | rule keeps_update_subs keeps_insert_sub keeps_update_group keeps_insert_group keeps_moved
      keeps_record_event billing_ok_deliverPending, assumption?
  | assumption)+

lemma billing_ok_empty: "billing_empty w \<Longrightarrow> billing_ok w"
  by (simp add: billing_empty_def billing_ok_def sub_keys_ok_def org_key_ok_def group_keys_ok_def
      payments_known_def invoiced_payments_def books_ok_def invoice_numbers_def receipt_numbers_def
      consecutive_start List.map_filter_simps)

lemma billing_ok_reachable: "billing_reachable w \<Longrightarrow> billing_ok w"
  by (rule tables.reachable) (auto intro: billing_ok_empty)

section \<open>What stays on file\<close>

text \<open>An invoice and a receipt as issued, without the stamp of their mail.\<close>

definition unsent :: "invoice_row \<Rightarrow> invoice_row" where
  "unsent i = i\<lparr>in_emailedAt := None, in_emailedTo := None\<rparr>"

definition unsent_receipt :: "receipt_row \<Rightarrow> receipt_row" where
  "unsent_receipt r = r\<lparr>re_emailedAt := None, re_emailedTo := None\<rparr>"

definition debit_keys :: "world \<Rightarrow> (nat \<times> string) list" where
  "debit_keys w = map (\<lambda>p. (pay_id p, pay_razorpayPaymentId p)) (w_payments w)"

text \<open>The books, the debits and the events only grow at their end.\<close>

definition on_file :: "world \<Rightarrow> world \<Rightarrow> bool" where
  "on_file w\<^sub>0 w =
     (prefix (map unsent (w_invoices w\<^sub>0)) (map unsent (w_invoices w)) \<and>
      prefix (map unsent_receipt (w_receipts w\<^sub>0)) (map unsent_receipt (w_receipts w)) \<and>
      prefix (debit_keys w\<^sub>0) (debit_keys w) \<and> prefix (w_events w\<^sub>0) (w_events w))"

lemma on_file_refl [simp]: "on_file w w"
  by (simp add: on_file_def)

lemma on_file_trans: "on_file w w' \<Longrightarrow> on_file w' w'' \<Longrightarrow> on_file w w''"
  unfolding on_file_def by (metis prefix_order.trans)

lemma on_file_same: "same_billing w w' \<Longrightarrow> on_file w w'"
  by (simp add: on_file_def same_billing_def same_documents_def debit_keys_def)

lemma on_file_keeps: "(\<And>w. on_file w (snd (m w))) \<Longrightarrow> keeps (on_file w\<^sub>0) m"
  by (auto simp: keeps_def intro: on_file_trans)

lemma map_unsent_update [simp]:
  "map unsent (update_rows p (\<lambda>r. r\<lparr>in_emailedAt := a, in_emailedTo := b\<rparr>) rows) = map unsent rows"
  "map unsent_receipt (update_rows q (\<lambda>r. r\<lparr>re_emailedAt := a, re_emailedTo := b\<rparr>) rrows) = map unsent_receipt rrows"
  by (simp_all add: update_rows_def unsent_def unsent_receipt_def)

lemma on_file_deliver: "on_file w (snd (deliver_invoice e i w))"
  by (auto simp: deliver_invoice_def on_file_def Let_def debit_keys_def split: option.splits bool.splits)

lemma on_file_deliver_all: "on_file w (snd (deliver_all e is n w))"
proof (induction "is" arbitrary: n w)
  case (Cons i "is")
  obtain r w' where d: "deliver_invoice e i w = (r, w')" by fastforce
  then have "on_file w w'" using on_file_deliver [of w e i] by simp
  then show ?case using Cons.IH by (auto simp: d split: sum.splits bool.splits intro: on_file_trans)
qed simp

lemma on_file_documents:
  "documents_only w w' \<Longrightarrow> prefix (map unsent (w_invoices w)) (map unsent (w_invoices w')) \<Longrightarrow>
   prefix (map unsent_receipt (w_receipts w)) (map unsent_receipt (w_receipts w')) \<Longrightarrow> on_file w w'"
  by (simp add: on_file_def debit_keys_def documents_only_eq(1-10))

lemma on_file_transaction:
  assumes "invoice_transaction e d w = (r, w')"
  shows "on_file w w'"
proof (cases r)
  case (Inl err)
  then show ?thesis using assms invoice_transaction_InlD [of e d w err w'] by simp
next
  case (Inr i)
  from invoice_transaction_InrD(4) [of e d w i w'] assms Inr obtain q where
    "receipt_recordIn e i (w\<lparr>w_invoiceCounter := snd (claim_sequence (w_invoiceCounter w) (in_financialYear d)),
       w_invoices := w_invoices w @ [i], w_nextId := Suc (w_nextId w)\<rparr>) = (Inr q, w')" by blast
  from receipt_recordIn_InrD(4) [OF this] show ?thesis by (simp add: on_file_def debit_keys_def)
qed

lemma on_file_record_invoice: "record_invoice e req w = (r, w1) \<Longrightarrow> on_file w w1"
proof (cases "invoice_byPayment (iq_razorpayPaymentId req) w")
  case None
  assume r: "record_invoice e req w = (r, w1)"
  obtain d w0 where d: "invoice_draft e req w = (d, w0)" by fastforce
  have "commit_invoice e d w0 = (r, w1)" using r None d by (simp add: record_invoice_def)
  then have "on_file w0 w1" using commit_invoice_cases(2) on_file_transaction by blast
  moreover have "on_file w w0"
    using cached_only_invoice_draft [OF d] by (intro on_file_same same_billing_cached)
  ultimately show ?thesis by (rule on_file_trans [rotated])
qed (auto simp: record_invoice_def)

lemma on_file_issueFor: "on_file w (snd (issueFor e req w))"
  by (rule issueFor_cases [of e req w]) (metis on_file_record_invoice on_file_deliver on_file_trans)

lemma on_file_upsert:
  assumes "\<And>q. pay_id (upd q) = pay_id q"
    "\<And>q. pay_razorpayPaymentId q = pay_razorpayPaymentId new \<Longrightarrow>
       pay_razorpayPaymentId (upd q) = pay_razorpayPaymentId q"
    "upsert_payment new upd w = (r, w')"
  shows "on_file w w'"
proof -
  have "map (\<lambda>p. (pay_id p, pay_razorpayPaymentId p))
      (update_rows (\<lambda>q. pay_razorpayPaymentId q = pay_razorpayPaymentId new) upd rows) =
    map (\<lambda>p. (pay_id p, pay_razorpayPaymentId p)) rows" for rows
    using assms(1,2) by (simp add: map_key_update_rows)
  then show ?thesis
    using assms(3) by (auto simp: upsert_payment_def on_file_def debit_keys_def split: option.splits)
qed

interpretation filed: billing_invariant "on_file w\<^sub>0" for w\<^sub>0
proof (unfold_locales, goal_cases)
  case (1 w w')
  then show ?case by (blast intro: on_file_trans on_file_same)
next
  case 6
  show ?case by (rule on_file_keeps) (simp add: on_file_def debit_keys_def)
next
  case (7 w upd new r w')
  show ?case by (rule on_file_trans [OF 7(1) on_file_upsert [OF 7(2-4)]])
next
  case (8 w q req e)
  then show ?case by (blast intro: on_file_trans on_file_issueFor)
next
  case (10 w e n)
  then show ?case by (auto simp: deliverPending_def intro: on_file_trans on_file_deliver_all)
qed (rule on_file_keeps, simp add: on_file_def debit_keys_def write_subs_def insert_sub_def
    update_group_def write_groups_def insert_group_def record_event_def Let_def)+

end
