(* ===== verification/Billing_Facts.thy ===== *)
theory Billing_Facts
  imports Billing_State
begin

text \<open>
  The properties of the billing services: what a change of tier costs, what overage is
  billed, what a refused call leaves behind, what a confirmation needs, what a cancellation
  keeps, what a webhook does once and never twice, and that a paid month is never shortened.
\<close>

section \<open>Amounts\<close>



text \<open>
  Beyond that the comment on \<open>prorate\<close>, that a rounding error is never charged, does not hold: on
  a month of thirty days the exact share of this difference falls short of a whole paisa by a
  part in two and a half thousand million, which the quotient loses.
\<close>

lemma prorate_rounds_up:
  "prorate 250999999 4999999 (Some 0) (Some 2592000000) = 4515817"
  "4999999 * 2341000001 div 2592000000 = (4515816 :: int)"
  by code_simp+

text \<open>The sum over the accounts one by one, which the grouped query stands for.\<close>

definition extra_of_account :: "phone_number_row list \<Rightarrow> int \<Rightarrow> string \<Rightarrow> int" where
  "extra_of_account numbers perWaba wabaId =
     max 0 (int (count_rows (\<lambda>n. pn_wabaId n = wabaId \<and> pn_platformType n = Some ''CLOUD_API'') numbers) - perWaba)"

text \<open>The grouped count of numbers beyond the allowance is the sum over the accounts, each on
  its own: a spare number of one account never pays for another's, unregistered numbers are
  free, and accounts without numbers add nothing.\<close>
theorem extra_numbers_per_account:
  assumes "0 \<le> perWaba"
  shows "extra_numbers numbers perWaba wabaIds = (\<Sum>a \<in> set wabaIds. extra_of_account numbers perWaba a)"
proof -
  let ?live = "\<lambda>n. pn_platformType n = Some ''CLOUD_API''"
  let ?ids = "remdups (map pn_wabaId (filter (\<lambda>n. pn_wabaId n \<in> set wabaIds \<and> ?live n) numbers))"
  have "extra_numbers numbers perWaba wabaIds = sum_list (map (extra_of_account numbers perWaba) ?ids)"
    unfolding extra_numbers_def extra_of_account_def ..
  also have "\<dots> = sum (extra_of_account numbers perWaba) (set ?ids)"
    by (simp add: sum_list_distinct_conv_sum_set)
  also have "\<dots> = sum (extra_of_account numbers perWaba) (set wabaIds)"
  proof (rule sum.mono_neutral_left)
    show "set ?ids \<subseteq> set wabaIds" by auto
    show "\<forall>a \<in> set wabaIds - set ?ids. extra_of_account numbers perWaba a = 0"
    proof
      fix a assume "a \<in> set wabaIds - set ?ids"
      then have "filter (\<lambda>n. pn_wabaId n = a \<and> ?live n) numbers = []"
        by (auto simp: filter_empty_conv)
      then show "extra_of_account numbers perWaba a = 0"
        using assms by (simp add: extra_of_account_def count_rows_def)
    qed
  qed simp
  finally show ?thesis .
qed

theorem extra_numbers_per_account_witness:
  "let cloud = sample_number in
   extra_numbers [cloud ''1'' ''a'', cloud ''2'' ''a'', cloud ''3'' ''a'', cloud ''4'' ''b''] 1 [''a'', ''b'', ''c''] = 2"
proof -
  let ?cloud = sample_number
  let ?ns = "[?cloud ''1'' ''a'', ?cloud ''2'' ''a'', ?cloud ''3'' ''a'', ?cloud ''4'' ''b'']"
  have "extra_numbers ?ns 1 [''a'', ''b'', ''c''] = (\<Sum>a \<in> set [''a'', ''b'', ''c'']. extra_of_account ?ns 1 a)"
    by (rule extra_numbers_per_account) simp
  also have "\<dots> = 2" by (simp add: extra_of_account_def count_rows_def sample_number_def)
  finally show ?thesis by (simp add: Let_def)
qed

section \<open>The tables\<close>

lemma distinct_map_filter_eq:
  "distinct (List.map_filter f xs) \<Longrightarrow> a \<in> set xs \<Longrightarrow> b \<in> set xs \<Longrightarrow> f a = Some k \<Longrightarrow> f b = Some k \<Longrightarrow> a = b"
proof (induction xs)
  case (Cons x xs)
  have mem: "k \<in> set (List.map_filter f xs)" if "y \<in> set xs" "f y = Some k" for y
    using that by (force simp: List.map_filter_def)
  show ?case
  proof (cases "f x")
    case None
    then show ?thesis using Cons by (auto simp: List.map_filter_simps)
  next
    case (Some z)
    then have "z \<notin> set (List.map_filter f xs)" using Cons.prems(1) by (simp add: List.map_filter_simps)
    then show ?thesis using Cons Some mem by (auto simp: List.map_filter_simps)
  qed
qed simp

text \<open>A deployment after one checkout and the provider's first report of a debit on it.\<close>

definition sample_debit :: rz_payment where
  "sample_debit =
     \<lparr>rpay_id = ''pay_1'', rpay_invoice_id = None, rpay_amount = Some 249900, rpay_currency = None,
      rpay_status = Some ''captured'', rpay_method = Some ''upi'', rpay_card = None, rpay_bank = None,
      rpay_wallet = None, rpay_vpa = Some ''acme@upi'', rpay_created_at = Some 864000\<rparr>"

definition sample_charge :: "string \<Rightarrow> rz_webhook" where
  "sample_charge mandate =
     \<lparr>wk_eventId = ''evt_1'', wk_event = Some ''subscription.charged'',
      wk_subscription = Some \<lparr>rz_id = mandate, rz_plan_id = ''plan_growth'', rz_status = ''active'',
        rz_current_start = Some 864000, rz_current_end = Some 3456000, rz_short_url = None, rz_notes = []\<rparr>,
      wk_payment = Some sample_debit\<rparr>"

definition new_deployment :: world where
  "new_deployment = empty_world\<lparr>w_plans := [sample_plan, bigger_plan]\<rparr>"

definition checked_out :: world where
  "checked_out = snd (register sample_env 1 ''acme'' ''growth'' new_deployment)"

definition charged :: world where
  "charged = snd (handleWebhook sample_env (sample_charge ''sub_3'') checked_out)"

lemma new_deployment_reachable: "billing_reachable new_deployment"
  by (rule billing_reachable.start) (simp add: billing_empty_def new_deployment_def empty_world_def)

lemma checked_out_reachable: "billing_reachable checked_out"
  unfolding checked_out_def
  by (rule billing_reachable.onward [OF new_deployment_reachable billing_step.registers])

lemma charged_reachable: "billing_reachable charged"
  unfolding charged_def by (rule billing_reachable.onward [OF checked_out_reachable billing_step.hears])

text \<open>C11: whatever sequence of registrations, confirmations, changes, cancellations, webhooks,
  sweeps and agency operations has run, with whatever answers and failures on the way, an
  organisation has one subscription of its own, no two rows share a mandate, a debit is
  recorded once and invoiced once at most, and every invoice of a recorded payment names the
  row and the provider's id of the same debit.\<close>
theorem billing_tables_consistent:
  assumes "billing_reachable w"
  shows "(\<forall>s \<in> set (w_subs w). \<forall>t \<in> set (w_subs w).
            org_level s \<and> org_level t \<and> sub_org s = sub_org t \<or>
            sub_mandate s \<noteq> None \<and> sub_mandate s = sub_mandate t \<longrightarrow> s = t) \<and>
         (\<forall>p \<in> set (w_payments w). \<forall>q \<in> set (w_payments w).
            pay_razorpayPaymentId p = pay_razorpayPaymentId q \<longrightarrow> p = q) \<and>
         (\<forall>i \<in> set (w_invoices w). \<forall>j \<in> set (w_invoices w).
            in_razorpayPaymentId i = in_razorpayPaymentId j \<longrightarrow> i = j) \<and>
         (\<forall>i \<in> set (w_invoices w). \<forall>k. in_paymentId i = Some k \<longrightarrow>
            (\<exists>q \<in> set (w_payments w). pay_id q = k \<and> pay_razorpayPaymentId q = in_razorpayPaymentId i))"
    (is "?A \<and> ?B \<and> ?C \<and> ?D")
proof (intro conjI)
  note ok = billing_ok_reachable [OF assms, unfolded billing_ok_def]
  have "s = t" if "s \<in> set (w_subs w)" "t \<in> set (w_subs w)" "sub_mandate s \<noteq> None" "sub_mandate s = sub_mandate t" for s t
    using that ok distinct_map_filter_eq [of sub_mandate "w_subs w" s t] by (auto simp: sub_keys_ok_def)
  then show ?A using ok org_key_ok_unique unfolding sub_keys_ok_def by metis
  show ?B using ok unique_key_eq [of pay_razorpayPaymentId "w_payments w"] by blast
  show ?C using ok unique_key_eq [of in_razorpayPaymentId "w_invoices w"] by (auto simp: books_ok_def)
  show ?D using ok by (force simp: payments_known_def invoiced_payments_def)
qed

theorem billing_tables_consistent_witness:
  "map sub_mandate (w_subs checked_out) = [Some ''sub_3''] \<and>
   is_singleton {s. s \<in> set (w_subs checked_out) \<and> sub_mandate s = Some ''sub_3''}"
proof
  show mandates: "map sub_mandate (w_subs checked_out) = [Some ''sub_3'']" by code_simp
  then obtain s where s: "s \<in> set (w_subs checked_out)" "sub_mandate s = Some ''sub_3''" by auto
  have "t = s" if "t \<in> set (w_subs checked_out)" "sub_mandate t = Some ''sub_3''" for t
    using billing_tables_consistent [OF checked_out_reachable] s that by auto
  then show "is_singleton {s. s \<in> set (w_subs checked_out) \<and> sub_mandate s = Some ''sub_3''}"
    using s by (intro is_singletonI' ) auto
qed

text \<open>Nothing the services do later rewrites or removes what has been issued: the
  invoices and the receipts, in the order of their numbers and in every particular but the
  stamp of their mail, the debits on record and the events heard are a prefix of what they
  are after any further operations.\<close>
theorem books_append_only:
  assumes "billing_step\<^sup>*\<^sup>* w w'"
  shows "prefix (map unsent (w_invoices w)) (map unsent (w_invoices w')) \<and>
         prefix (map unsent_receipt (w_receipts w)) (map unsent_receipt (w_receipts w')) \<and>
         prefix (debit_keys w) (debit_keys w') \<and> prefix (w_events w) (w_events w')"
  using filed.steps [OF assms, of w] by (simp add: on_file_def)

theorem books_append_only_witness:
  "prefix (map unsent (w_invoices charged))
     (map unsent (w_invoices (reconcile sample_env (snd (billing_cancel sample_env ''acme'' charged)))))"
proof -
  have "billing_step\<^sup>*\<^sup>* charged (reconcile sample_env (snd (billing_cancel sample_env ''acme'' charged)))"
    using billing_step.cancels [of charged sample_env "''acme''"]
      billing_step.reconciles [of "snd (billing_cancel sample_env ''acme'' charged)" sample_env]
    by (rule converse_rtranclp_into_rtranclp [OF _ r_into_rtranclp])
  from books_append_only [OF this] show ?thesis by blast
qed

lemma webhook_rest:
  "\<exists>f. handleWebhook e b = bindE (record_event e b) f \<and> (\<forall>x. keeps (on_file w\<^sub>0) (f x))"
  unfolding handleWebhook_def
  by (intro exI conjI allI, rule refl) (intro keeps_intros filed.keeps_group_webhook filed.keeps_own_webhook)

text \<open>C16: a webhook delivered again changes nothing, however much has happened since: with the
  database taking the first delivery's event, a later delivery of the same event id answers
  and leaves the world exactly as it found it, whether the first one ran to its end or threw.\<close>
theorem webhook_replay:
  assumes "\<not> e_db_raises e ''subscriptionEvent.create''"
    and "billing_step\<^sup>*\<^sup>* (snd (handleWebhook e b w)) w'" and "wk_eventId b' = wk_eventId b"
  shows "handleWebhook e' b' w' = (Inr (), w')"
proof -
  let ?id = "\<lambda>x. ev_eventId x = wk_eventId b"
  obtain fresh w1 where ev: "record_event e b w = (Inr fresh, w1)"
    by (cases "list_ex ?id (w_events w)") (auto simp: record_event_def assms(1))
  have heard: "list_ex ?id (w_events w1)"
    using ev by (auto simp: record_event_def assms(1) split: if_splits)
  have "on_file w1 (snd (handleWebhook e b w))"
  proof (cases fresh)
    case True
    obtain f where f: "handleWebhook e b = bindE (record_event e b) f" "\<And>x. keeps (on_file w1) (f x)"
      using webhook_rest by blast
    have "handleWebhook e b w = f fresh w1" unfolding f(1) by (rule bindE_simps(1)) (rule ev)
    then show ?thesis using f(2) [of fresh] by (simp add: keeps_def)
  qed (simp add: handleWebhook_def ev)
  then have "on_file w1 w'" using filed.steps [OF assms(2)] by blast
  then have "list_ex ?id (w_events w')" using heard by (auto simp: on_file_def prefix_def)
  then show ?thesis using assms(3) by (simp add: handleWebhook_def record_event_def bindE_def)
qed

theorem webhook_replay_witness:
  "handleWebhook sample_env (sample_charge ''sub_3'') (snd (billing_cancel sample_env ''acme'' charged)) =
   (Inr (), snd (billing_cancel sample_env ''acme'' charged))"
proof (rule webhook_replay)
  show "\<not> e_db_raises sample_env ''subscriptionEvent.create''" by (simp add: sample_env_def)
  show "billing_step\<^sup>*\<^sup>* (snd (handleWebhook sample_env (sample_charge ''sub_3'') checked_out))
    (snd (billing_cancel sample_env ''acme'' charged))"
    using billing_step.cancels [of charged sample_env "''acme''"] unfolding charged_def
    by (rule r_into_rtranclp)
qed simp

section \<open>Refused calls\<close>

text \<open>Whatever happened, only the provider was asked.\<close>

abbreviation only_asked :: "world \<Rightarrow> http_exn \<Rightarrow> world \<Rightarrow> bool" where
  "only_asked w\<^sub>0 \<equiv> (\<lambda>_. asked_only w\<^sub>0)"

text \<open>A method that throws has only asked; one that answers may have written.\<close>

definition throws_clean :: "world \<Rightarrow> (world, 'a) svc \<Rightarrow> bool" where
  "throws_clean w\<^sub>0 m = valid (asked_only w\<^sub>0) m (\<lambda>_ _. True) (only_asked w\<^sub>0)"

definition asks_clean :: "world \<Rightarrow> (world, 'a) svc \<Rightarrow> bool" where
  "asks_clean w\<^sub>0 m = keeps (asked_only w\<^sub>0) m"

named_theorems clean_intros \<open>methods that leave only requests behind when they throw\<close>

lemma asks_cleanI: "(\<And>w. asked_only w (snd (m w))) \<Longrightarrow> asks_clean w\<^sub>0 m"
  by (auto simp: asks_clean_def keeps_def intro: asked_only_trans)

lemma asks_clean_calls [clean_intros]:
  "asks_clean w\<^sub>0 (createCustomer e n m ns)" "asks_clean w\<^sub>0 (createSubscription e c p st q ns)"
  "asks_clean w\<^sub>0 (cancelSubscription e s b)" "asks_clean w\<^sub>0 (changeSubscriptionPlan e s p b)"
  by (rule asks_cleanI, rule asks)+

lemma asks_clean_reading [clean_intros]:
  "asks_clean w\<^sub>0 (getE g)" "asks_clean w\<^sub>0 (retE x)" "asks_clean w\<^sub>0 (refuse_if c err)"
  "asks_clean w\<^sub>0 (ownMandate s)" "asks_clean w\<^sub>0 (sellablePlan t y)"
  unfolding asks_clean_def by (rule keeps_basic keeps_reading)+

lemma asks_clean_modE [clean_intros]: "(\<And>w. asked_only w (h w)) \<Longrightarrow> asks_clean w\<^sub>0 (modE h)"
  by (rule asks_cleanI) simp

lemma asks_clean_price [clean_intros]: "asks_clean w\<^sub>0 (safely (currentPrice e s))"
  by (rule asks_cleanI) (auto simp: currentPrice_def billing_plan_def Let_def case_prod_beta asks split: option.splits)

lemma asks_clean_customer [clean_intros]: "asks_clean w\<^sub>0 (customer_or_new e x p k)"
  using asks_clean_calls(1) by (auto simp: customer_or_new_def asks_clean_reading split: option.splits)

lemma clean_bindE [clean_intros]:
  "asks_clean w\<^sub>0 m \<Longrightarrow> (\<And>x. throws_clean w\<^sub>0 (f x)) \<Longrightarrow> throws_clean w\<^sub>0 (bindE m f)"
  unfolding asks_clean_def throws_clean_def by (rule valid_bindE [OF keeps_valid])

lemma clean_thenE [clean_intros]:
  "asks_clean w\<^sub>0 m \<Longrightarrow> throws_clean w\<^sub>0 n \<Longrightarrow> throws_clean w\<^sub>0 (thenE m n)"
  unfolding thenE_def by (rule clean_bindE)

lemma clean_throwE [clean_intros]: "throws_clean w\<^sub>0 (throwE err)"
  by (simp add: throws_clean_def valid_def)

lemma clean_if [clean_intros]:
  "(c \<Longrightarrow> throws_clean w\<^sub>0 m) \<Longrightarrow> (\<not> c \<Longrightarrow> throws_clean w\<^sub>0 n) \<Longrightarrow> throws_clean w\<^sub>0 (if c then m else n)"
  by simp

lemma clean_option [clean_intros]:
  "throws_clean w\<^sub>0 m \<Longrightarrow> (\<And>y. throws_clean w\<^sub>0 (f y)) \<Longrightarrow>
   throws_clean w\<^sub>0 (case x of None \<Rightarrow> m | Some y \<Rightarrow> f y)"
  by (cases x) simp_all

text \<open>The write comes last: nothing after it throws.\<close>

definition never_throws :: "(world, 'a) svc \<Rightarrow> bool" where
  "never_throws m = (\<forall>w. \<exists>x. fst (m w) = Inr x)"

lemma never_throws_intros [clean_intros]:
  "never_throws (retE x)" "never_throws (modE h)" "never_throws (safely p)"
  by (simp_all add: never_throws_def safely_def Let_def case_prod_beta)

lemma never_throws_bindE [clean_intros]:
  "never_throws m \<Longrightarrow> (\<And>x. never_throws (f x)) \<Longrightarrow> never_throws (bindE m f)"
  unfolding never_throws_def bindE_def by (metis (mono_tags, lifting) case_prod_beta old.sum.simps(6))

lemma never_throws_thenE [clean_intros]: "never_throws m \<Longrightarrow> never_throws n \<Longrightarrow> never_throws (thenE m n)"
  unfolding thenE_def by (rule never_throws_bindE)

lemma clean_write:
  assumes "throws_clean w\<^sub>0 m" "\<And>x. never_throws (f x)"
  shows "throws_clean w\<^sub>0 (bindE m f)"
  using assms(1) unfolding throws_clean_def
proof (rule valid_bindE)
  fix x
  show "valid (\<lambda>_. True) (f x) (\<lambda>_ _. True) (only_asked w\<^sub>0)"
  proof (rule validI)
    fix s err s' assume "f x s = (Inl err, s')"
    then show "asked_only w\<^sub>0 s'" using assms(2) [of x] unfolding never_throws_def by (metis Inr_not_Inl fst_conv)
  qed simp
qed

lemma clean_write_then:
  "throws_clean w\<^sub>0 m \<Longrightarrow> never_throws n \<Longrightarrow> throws_clean w\<^sub>0 (thenE m n)"
  unfolding thenE_def by (rule clean_write)

lemma update_sub_throws:
  assumes "\<And>s. sub_id (f s) = sub_id s" "update_sub i f w = (Inl err, w')"
  shows "w' = w"
proof (cases "sub_keys_ok (update_rows (\<lambda>s. sub_id s = i) f (w_subs w))")
  case True
  then have "List.find (\<lambda>s. sub_id s = i) (update_rows (\<lambda>s. sub_id s = i) f (w_subs w)) = None"
    and w': "w' = w\<lparr>w_subs := update_rows (\<lambda>s. sub_id s = i) f (w_subs w)\<rparr>"
    using assms(2) by (auto simp: update_sub_def write_subs_def thenE_def bindE_def split: option.splits)
  then have "List.find (\<lambda>s. sub_id s = i) (w_subs w) = None"
    by (subst (asm) find_update_rows) (simp_all add: assms(1))
  then show ?thesis by (simp add: w' update_rows_none find_eq_None)
qed (use assms(2) in \<open>simp add: update_sub_def write_subs_def thenE_def bindE_def\<close>)

lemma clean_update_sub:
  assumes "\<And>s. sub_id (f s) = sub_id s"
  shows "throws_clean w\<^sub>0 (update_sub i f)"
  unfolding throws_clean_def
proof (rule validI)
  fix s err s' assume "asked_only w\<^sub>0 s" "update_sub i f s = (Inl err, s')"
  with update_sub_throws [OF assms this(2)] show "asked_only w\<^sub>0 s'" by simp
qed simp

lemma clean_insert_sub: "throws_clean w\<^sub>0 (insert_sub row)"
  by (auto simp: throws_clean_def valid_def insert_sub_def Let_def)

lemmas clean_update = clean_write [OF clean_update_sub]

lemma clean_pending: "asks_clean w\<^sub>0 (modE (pending_cancelled e s))"
  by (rule asks_clean_modE) (simp add: pending_cancelled_def asks)

lemma clean_resubscribe: "throws_clean w\<^sub>0 (startResubscribe e s p u)"
  unfolding startResubscribe_def Let_def
  by (intro clean_pending clean_update clean_intros) simp

lemma clean_fresh: "throws_clean w\<^sub>0 (register_fresh e u x p s)"
proof -
  have w: "throws_clean w\<^sub>0 (thenE (case s of
       Some r \<Rightarrow> bindE (update_sub (sub_id r) (registered_row u c created p)) (\<lambda>_. retE ())
     | None \<Rightarrow> insert_sub row) (thenE (modE h) (retE y)))" for c created row h and y :: 'y
    by (intro clean_write_then clean_option clean_insert_sub clean_update clean_intros)
      (simp add: registered_row_def)
  show ?thesis
    unfolding register_fresh_def Let_def
    by (intro w clean_intros) (simp add: asks)
qed

lemma clean_register: "throws_clean w\<^sub>0 (register e u x c)"
  unfolding register_def by (intro clean_resubscribe clean_fresh clean_intros)

lemma clean_upgrade: "throws_clean w\<^sub>0 (startUpgrade e s p c)"
  unfolding startUpgrade_def Let_def
  by (intro clean_update clean_intros) (auto simp: asks intro!: asks_cleanI)

lemma clean_downgrade: "throws_clean w\<^sub>0 (scheduleDowngrade e s p)"
  unfolding scheduleDowngrade_def by (intro clean_update clean_intros) simp

lemma clean_changePlan: "throws_clean w\<^sub>0 (changePlan e x c)"
  unfolding changePlan_def 
  by (intro clean_intros) (auto intro: clean_upgrade clean_downgrade split: option.splits)

lemma clean_cancel: "throws_clean w\<^sub>0 (billing_cancel e x)"
  unfolding billing_cancel_def Let_def by (intro clean_pending clean_update clean_intros) simp

lemma throws_cleanD: "throws_clean w m \<Longrightarrow> fst (m w) = Inl err \<Longrightarrow> asked_only w (snd (m w))"
  by (cases "m w") (auto simp: throws_clean_def valid_def dest!: spec [of _ w])

text \<open>C21: a registration, a change of tier or a cancellation that is refused or fails on the way
  leaves no trace in the database: every table is as it was, and only the conversation with
  the provider and the prices remembered from it may have grown.\<close>
theorem refused_calls_write_nothing:
  "(fst (register e u x c w) = Inl err \<longrightarrow> asked_only w (snd (register e u x c w))) \<and>
   (fst (changePlan e x c w) = Inl err \<longrightarrow> asked_only w (snd (changePlan e x c w))) \<and>
   (fst (billing_cancel e x w) = Inl err \<longrightarrow> asked_only w (snd (billing_cancel e x w)))"
  using throws_cleanD [OF clean_register, of e u x c w err] throws_cleanD [OF clean_changePlan, of e x c w err]
    throws_cleanD [OF clean_cancel, of e x w err] by blast

text \<open>A provider that takes customers and refuses every subscription.\<close>

definition refusing_env :: env where
  "refusing_env = sample_env\<lparr>e_api := plain_api\<lparr>api_subscription :=
     (\<lambda>_ _. Inl \<lparr>rze_description = Some ''down'', rze_message = ''500''\<rparr>)\<rparr>\<rparr>"

theorem refused_calls_write_nothing_witness:
  "fst (register refusing_env 1 ''acme'' ''growth'' new_deployment) = Inl (BadGateway ''down'') \<and>
   asked_only new_deployment (snd (register refusing_env 1 ''acme'' ''growth'' new_deployment))"
proof -
  have "fst (register refusing_env 1 ''acme'' ''growth'' new_deployment) = Inl (BadGateway ''down'')"
    by code_simp
  with refused_calls_write_nothing [of refusing_env 1 "''acme''" "''growth''" new_deployment "BadGateway ''down''"]
  show ?thesis by blast
qed

section \<open>Confirming a checkout\<close>

text \<open>C22: a checkout is confirmed only on proof: unless the payment names the organisation's own
  mandate or the one it is moving to, and its signature is the hexadecimal of the HMAC of
  payment and subscription under the deployment's secret, the call throws and changes
  nothing at all.\<close>
theorem confirm_needs_proof:
  "(\<exists>s. billing_find x w = Some s \<and>
        (Some mandate = sub_mandate s \<or> truthy (sub_pendingMandate s) \<and> Some mandate = sub_pendingMandate s) \<and>
        truthy (e_keySecret e) \<and>
        hex_decode signature = e_hmac e (the (e_keySecret e)) (payment @ ''|'' @ mandate)) \<or>
   (\<exists>err. confirm e x payment mandate signature w = (Inl err, w))"
proof (cases "billing_find x w")
  case None
  then show ?thesis by (simp add: confirm_def bindE_def)
next
  case (Some s)
  let ?mine = "Some mandate = sub_mandate s \<or> truthy (sub_pendingMandate s) \<and> Some mandate = sub_pendingMandate s"
  show ?thesis
  proof (cases "?mine \<and> verifyCheckoutSignature e payment mandate signature")
    case True
    then show ?thesis using Some by (auto simp: verifyCheckoutSignature_def Let_def split: if_splits)
  next
    case False
    then show ?thesis using Some
      by (auto simp: confirm_def bindE_def [of "getE _"] refuse_then_eq Let_def)
  qed
qed

section \<open>Finding a customer\<close>

abbreviation same_email :: "string \<Rightarrow> string \<times> string option \<Rightarrow> bool" where
  "same_email wanted \<equiv> (\<lambda>c. map_option (\<lambda>m. js_lower (js_trim m)) (snd c) = Some wanted)"

lemma search_customers_complete:
  assumes "isConfigured e"
    and pages: "\<forall>h s. api_getCustomers (e_api e) h (GetCustomers 100 s) = Inr (take 100 (drop s cs))"
  shows "fst (search_customers e wanted page left w) =
           map_option fst (List.find (same_email wanted) (take (100 * left) (drop (page * 100) cs))) \<and>
         length (w_rz_log (snd (search_customers e wanted page left w))) \<le> length (w_rz_log w) + left"
proof (induction left arbitrary: page w)
  case (Suc left)
  let ?xs = "drop (page * 100) cs"
  have split: "take (100 * Suc left) ?xs = take 100 ?xs @ take (100 * left) (drop (Suc page * 100) cs)"
    by (simp add: take_add add.commute)
  have short: "drop (Suc page * 100) cs = []" if "length (take 100 ?xs) < 100"
    using that by (simp add: min_def split: if_splits)
  show ?case
    using Suc.IH [of "Suc page" "w\<lparr>w_rz_log := w_rz_log w @ [GetCustomers 100 (page * 100)]\<rparr>"] assms(1) pages short
    by (auto simp: rz_send_def RZ_PAGE_SIZE_def split find_append simp del: mult_Suc_right split: option.splits)
qed simp

text \<open>C24: the search for a customer by email ends within ten requests whatever the provider
  holds, and over a list served in pages of a hundred it finds exactly the first of the
  newest thousand customers with that address, trimmed and in any case of letters.\<close>
theorem customer_search_complete:
  assumes "isConfigured e" "js_lower (js_trim email) \<noteq> []"
    and "\<forall>h s. api_getCustomers (e_api e) h (GetCustomers 100 s) = Inr (take 100 (drop s cs))"
  shows "fst (findCustomerByEmail e email w) =
           map_option fst (List.find (same_email (js_lower (js_trim email))) (take 1000 cs)) \<and>
         length (w_rz_log (snd (findCustomerByEmail e email w))) \<le> length (w_rz_log w) + 10"
  using search_customers_complete [OF assms(1,3), of "js_lower (js_trim email)" 0 RZ_MAX_PAGES w] assms(1,2)
  by (simp add: findCustomerByEmail_def Let_def RZ_MAX_PAGES_def)

definition paging_env :: env where
  "paging_env = sample_env\<lparr>e_api := plain_api\<lparr>api_getCustomers := (\<lambda>_ r.
     case r of GetCustomers n s \<Rightarrow> Inr (take n (drop s [(''cust_9'', None), (''cust_8'', Some ''Ann@Acme.in '')]))
     | _ \<Rightarrow> Inr [])\<rparr>\<rparr>"

theorem customer_search_complete_witness:
  "fst (findCustomerByEmail paging_env '' ann@acme.IN'' empty_world) = Some ''cust_8''"
proof -
  have "isConfigured paging_env" "js_lower (js_trim '' ann@acme.IN'') = ''ann@acme.in''"
    "js_lower (js_trim ''Ann@Acme.in '') = ''ann@acme.in''"
    by code_simp+
  then show ?thesis
    using customer_search_complete [of paging_env "'' ann@acme.IN''"
        "[(''cust_9'', None), (''cust_8'', Some ''Ann@Acme.in '')]" empty_world]
    by (simp add: paging_env_def)
qed

end
