(* ===== verification/Billing_Month.thy ===== *)
theory Billing_Month
  imports Billing_Facts
begin

text \<open>
  The paid month: a captured debit ends up in the books, what the provider reports never
  shortens a month that has been paid, a cancellation keeps it, a change of tier takes
  nothing away before it begins, and a charge on an agency's mandate moves all its clients.
\<close>

section \<open>Writing to a known row\<close>

lemma find_sub_id:
  "distinct (map sub_id rows) \<Longrightarrow> s \<in> set rows \<Longrightarrow> List.find (\<lambda>r. sub_id r = sub_id s) rows = Some s"
  by (rule find_distinct_key)

lemma update_sub_known:
  assumes ok: "billing_ok w" and s: "s \<in> set (w_subs w)"
    and f: "\<And>r. sub_id (f r) = sub_id r" "\<And>r. sub_org (f r) = sub_org r" "\<And>r. sub_wabaId (f r) = sub_wabaId r"
      "\<And>r. sub_mandate (f r) = sub_mandate r" "\<And>r. sub_pendingMandate (f r) = sub_pendingMandate r"
  shows "update_sub (sub_id s) f w =
    (Inr (f s), w\<lparr>w_subs := update_rows (\<lambda>r. sub_id r = sub_id s) f (w_subs w)\<rparr>)"
proof -
  have "List.find (\<lambda>r. sub_id r = sub_id s) (w_subs w) = Some s"
    using ok s by (intro find_sub_id) (simp_all add: billing_ok_def)
  then have "List.find (\<lambda>r. sub_id r = sub_id s) (update_rows (\<lambda>r. sub_id r = sub_id s) f (w_subs w)) = Some (f s)"
    by (subst find_update_rows) (simp_all add: f)
  then show ?thesis
    using ok by (simp add: update_sub_def write_subs_def thenE_def bindE_def sub_keys_ok_update f billing_ok_def)
qed

lemma remote_row_keys [simp]:
  "sub_org (remote_row e plans s remote r) = sub_org r" "sub_wabaId (remote_row e plans s remote r) = sub_wabaId r"
  "sub_mandate (remote_row e plans s remote r) = sub_mandate r"
  "sub_pendingMandate (remote_row e plans s remote r) = sub_pendingMandate r"
  "sub_billingGroupId (remote_row e plans s remote r) = sub_billingGroupId r"
  "sub_payerOrgId (remote_row e plans s remote r) = sub_payerOrgId r"
  "sub_currentEnd (remote_row e plans s remote r) = later_end (at_seconds (rz_current_end remote)) (sub_currentEnd s)"
  "sub_status (remote_row e plans s remote r) = toStatus (rz_status remote)"
  by (simp_all add: remote_row_def tierFor_def Let_def split: option.splits)

text \<open>What the provider says is applied to the row, and nothing else that billing keeps moves.\<close>

lemma applyRemote_known:
  assumes ok: "billing_ok w" and s: "s \<in> set (w_subs w)"
  obtains r w' where "applyRemote e s remote w = (Inr r, w')"
    "w_subs w' = update_rows (\<lambda>r. sub_id r = sub_id s) (remote_row e (w_plans w) s remote) (w_subs w)"
    "w_invoices w' = w_invoices w" "w_payments w' = w_payments w" "w_groups w' = w_groups w" "billing_ok w'"
proof -
  let ?f = "remote_row e (w_plans w) s remote"
  let ?w = "w\<lparr>w_subs := update_rows (\<lambda>r. sub_id r = sub_id s) ?f (w_subs w)\<rparr>"
  let ?w' = "provisionIfNewlyPaid e s (?f s) ?w"
  have run: "applyRemote e s remote w = (Inr (?f s), ?w')"
    using update_sub_known [OF ok s, of ?f] by (simp add: applyRemote_def bindE_def)
  have "same_billing ?w ?w'" by simp
  moreover have "billing_ok ?w'"
    using tables.keeps_applyRemote [of e s remote] ok unfolding keeps_def run by (metis run snd_conv)
  ultimately show thesis
    by (intro that [OF run]) (simp_all add: same_billing_def same_documents_def)
qed

section \<open>A webhook for the organisation's own mandate\<close>

lemma recordPayment_frame:
  assumes "recordPayment e i payment w = (r, w')"
  shows "w_subs w' = w_subs w" "w_invoices w' = w_invoices w" "w_groups w' = w_groups w" "w_plans w' = w_plans w"
  using assms by (auto simp: recordPayment_def upsert_payment_def Let_def
      split: option.splits if_splits prod.splits)

lemma invoice_if_captured_subs [simp]: "w_subs (invoice_if_captured e r f w) = w_subs w"
  by (auto simp: invoice_if_captured_def documents_only_eq(1) [OF issueFor_frame(2)] split: option.splits)

lemma own_webhook_run:
  assumes ok: "billing_ok w" and s: "s \<in> set (w_subs w)"
  obtains rec w1 w2 where
    "recordPayment e (sub_id s) (wk_payment b) w1 = (rec, w2)" "billing_ok w2" "recorded_in rec w2"
    "w_invoices w2 = w_invoices w"
    "fst (own_webhook e b ev entity s w) = Inr ()"
    "w_subs (snd (own_webhook e b ev entity s w)) =
       update_rows (\<lambda>r. sub_id r = sub_id s) (remote_row e (w_plans w) s entity) (w_subs w)"
    "w_invoices (snd (own_webhook e b ev entity s w)) =
       w_invoices (invoice_if_captured e rec (own_request w s entity) w2)"
proof -
  obtain r w1 where a: "applyRemote e s entity w = (Inr r, w1)"
    and subs: "w_subs w1 = update_rows (\<lambda>r. sub_id r = sub_id s) (remote_row e (w_plans w) s entity) (w_subs w)"
    and same: "w_invoices w1 = w_invoices w" "billing_ok w1"
    using applyRemote_known [OF ok s] by metis
  obtain rec w2 where p: "recordPayment e (sub_id s) (wk_payment b) w1 = (rec, w2)" by fastforce
  note f = recordPayment_frame [OF p] and okp = tables.inv_recordPayment [OF same(2) p]
  let ?w3 = "invoice_if_captured e rec (own_request w s entity) w2"
  let ?w4 = "if ev = ''subscription.charged'' then billOverage e s ?w3 else ?w3"
  have "same_billing ?w3 (invalidatePayer e (sub_org s) ?w4)"
    by (auto intro: same_billing_overage same_billing_trans [OF _ same_billing_bump])
  then have w4: "w_subs (invalidatePayer e (sub_org s) ?w4) = w_subs ?w3"
    "w_invoices (invalidatePayer e (sub_org s) ?w4) = w_invoices ?w3"
    by (simp_all add: same_billing_def same_documents_def)
  have run: "\<exists>m. own_webhook e b ev entity s w = (Inr (), (invalidatePayer e (sub_org s) ?w4)\<lparr>w_mails := m\<rparr>)"
    by (simp add: own_webhook_def bindE_def thenE_def a p safely_def) (intro conjI impI exI; rule refl)
  then obtain m where run: "own_webhook e b ev entity s w = (Inr (), (invalidatePayer e (sub_org s) ?w4)\<lparr>w_mails := m\<rparr>)" ..
  show thesis
    by (rule that [OF p okp]) (use run w4 f same subs in simp_all)
qed

section \<open>Captured debits\<close>

text \<open>An invoice for the row a debit is recorded in is an invoice for that debit.\<close>

lemma invoice_of_row:
  assumes "billing_ok w" "r \<in> set (w_payments w)" "j \<in> set (w_invoices w)" "in_paymentId j = Some (pay_id r)"
  shows "in_razorpayPaymentId j = pay_razorpayPaymentId r"
proof -
  have "(Some (pay_id r), in_razorpayPaymentId j) \<in> set (invoiced_payments w)"
    using assms(3,4) by (force simp: invoiced_payments_def)
  then obtain q where "q \<in> set (w_payments w)" "pay_id q = pay_id r" "pay_razorpayPaymentId q = in_razorpayPaymentId j"
    using assms(1) unfolding billing_ok_def payments_known_def by blast
  moreover have "q = r"
    using calculation assms(1,2) unique_key_eq [of pay_id "w_payments w"] by (simp add: billing_ok_def)
  ultimately show ?thesis by simp
qed

definition debit_year :: "env \<Rightarrow> ms option \<Rightarrow> string" where
  "debit_year e paidAt = financialYear (e_tz e) (nullish_def_val paidAt (e_now e)) (document_timeZone (e_invoicing e))"

lemma captured_debit_entered:
  assumes ok: "billing_ok w" "recorded_in (Some r) w" and up: "\<not> e_db_raises e ''invoice.$transaction''"
    and r: "pay_status r = ''captured''"
    and f: "iq_paymentId (f r) = Some (pay_id r)" "iq_razorpayPaymentId (f r) = pay_razorpayPaymentId r"
      "iq_amount (f r) = pay_amount r" "iq_paidAt (f r) = pay_paidAt r"
  shows "ledger_of (invoice_if_captured e (Some r) f w) =
    enter (pay_razorpayPaymentId r) (debit_year e (pay_paidAt r)) (pay_amount r) (ledger_of w)"
proof -
  have "books_ok w" using ok(1) by (simp add: billing_ok_def)
  moreover have "\<forall>j \<in> set (w_invoices w). iq_paymentId (f r) \<noteq> None \<longrightarrow>
      in_paymentId j = iq_paymentId (f r) \<longrightarrow> in_razorpayPaymentId j = iq_razorpayPaymentId (f r)"
    using invoice_of_row [OF ok(1)] ok(2) f by (auto simp: recorded_in_def)
  ultimately show ?thesis
    using issueFor_ledger [OF _ up, of w "f r"] by (simp add: invoice_if_captured_def r f debit_year_def)
qed

lemma recordPayment_data:
  assumes "\<not> e_db_raises e ''subscriptionPayment.upsert''" "rpay_id p \<noteq> []" "recordPayment e i (Some p) w = (rec, w')"
  obtains r where "rec = Some r" "pay_razorpayPaymentId r = rpay_id p" "pay_amount r = nullish_def_val (rpay_amount p) 0"
    "pay_paidAt r = at_seconds (rpay_created_at p)" "pay_status r = nullish_def_val (rpay_status p) ''captured''"
  using assms by (auto simp: recordPayment_def billing_paymentRow_def upsert_payment_def Let_def split: option.splits)

text \<open>A webhook the handler acts on: new, about a subscription, and naming it.\<close>

definition acted_on :: "rz_webhook \<Rightarrow> rz_subscription \<Rightarrow> world \<Rightarrow> bool" where
  "acted_on b entity w =
     (wk_subscription b = Some entity \<and> rz_id entity \<noteq> [] \<and>
      starts_with ''subscription.'' (nullish_def_val (wk_event b) ''unknown'') \<and>
      (\<forall>x \<in> set (w_events w). ev_eventId x \<noteq> wk_eventId b))"

lemma acted_on_run:
  assumes a: "acted_on b entity w" and up: "\<not> e_db_raises e ''subscriptionEvent.create''" and ok: "billing_ok w"
  obtains w1 where "billing_ok w1" "w1 = w\<lparr>w_events := w_events w1\<rparr>"
    "handleWebhook e b w =
       (case List.find (\<lambda>s. sub_mandate s = Some (rz_id entity)) (w_subs w) of
          None \<Rightarrow> group_webhook e b entity w1
        | Some s \<Rightarrow> own_webhook e b (nullish_def_val (wk_event b) ''unknown'') entity s w1)"
proof -
  obtain evs where ev: "record_event e b w = (Inr True, w\<lparr>w_events := evs\<rparr>)"
    using a up by (auto simp: record_event_def acted_on_def list_ex_iff)
  have "billing_ok (w\<lparr>w_events := evs\<rparr>)"
    using keeps_record_event [of e b] ok ev unfolding keeps_def by (metis snd_conv)
  then show thesis
    by (rule that) (use a in \<open>auto simp: handleWebhook_def bindE_def [of "record_event e b"] ev acted_on_def
        split: option.splits\<close>)
qed

lemma find_mandate:
  assumes "billing_ok w" "s \<in> set (w_subs w)" "sub_mandate s = Some m"
  shows "List.find (\<lambda>r. sub_mandate r = Some m) (w_subs w) = Some s"
proof (cases "List.find (\<lambda>r. sub_mandate r = Some m) (w_subs w)")
  case None
  then show ?thesis using assms(2,3) by (simp add: find_eq_None)
next
  case (Some t)
  then have "t \<in> set (w_subs w)" "sub_mandate t = Some m" by (auto dest: find_SomeD)
  moreover have "distinct (List.map_filter sub_mandate (w_subs w))"
    using assms(1) by (simp add: billing_ok_def sub_keys_ok_def)
  ultimately have "t = s" using assms(2,3) distinct_map_filter_eq by metis
  with Some show ?thesis by simp
qed

text \<open>C12: a debit the provider reports as captured on an organisation's own mandate is in the
  books when the webhook has been handled: from any state the services reach, with the
  database answering, whatever the payment's own row and mail are like, the handler answers
  and the ledger behind the invoices has the debit once, under the financial year of its day
  and at its amount.\<close>
theorem own_charge_is_invoiced:
  assumes reach: "billing_reachable w" and up: "\<forall>t. \<not> e_db_raises e t"
    and a: "acted_on b entity w" and s: "s \<in> set (w_subs w)" "sub_mandate s = Some (rz_id entity)"
    and p: "wk_payment b = Some p" "rpay_id p \<noteq> []" "nullish_def_val (rpay_status p) ''captured'' = ''captured''"
  shows "fst (handleWebhook e b w) = Inr () \<and>
    ledger_of (snd (handleWebhook e b w)) =
      enter (rpay_id p) (debit_year e (at_seconds (rpay_created_at p))) (nullish_def_val (rpay_amount p) 0) (ledger_of w)"
proof -
  have ok: "billing_ok w" using reach by (rule billing_ok_reachable)
  have up1: "\<not> e_db_raises e ''subscriptionEvent.create''" using up by blast
  from acted_on_run [OF a up1 ok] obtain w0 where w0: "billing_ok w0" "w0 = w\<lparr>w_events := w_events w0\<rparr>"
    and run0: "handleWebhook e b w = (case List.find (\<lambda>s. sub_mandate s = Some (rz_id entity)) (w_subs w) of
       None \<Rightarrow> group_webhook e b entity w0
     | Some s \<Rightarrow> own_webhook e b (nullish_def_val (wk_event b) ''unknown'') entity s w0)" .
  have run: "handleWebhook e b w = own_webhook e b (nullish_def_val (wk_event b) ''unknown'') entity s w0"
    unfolding run0 find_mandate [OF ok s] by (rule option.simps(5))
  have "w_subs w0 = w_subs w" using arg_cong [OF w0(2), of w_subs] by simp
  then have s0: "s \<in> set (w_subs w0)" using s(1) by simp
  have i0: "w_invoices w0 = w_invoices w" using arg_cong [OF w0(2), of w_invoices] by simp
  obtain rec w1 w2 where rec: "recordPayment e (sub_id s) (wk_payment b) w1 = (rec, w2)" "billing_ok w2" "recorded_in rec w2"
      "w_invoices w2 = w_invoices w0"
    and out: "fst (handleWebhook e b w) = Inr ()"
      "w_invoices (snd (handleWebhook e b w)) = w_invoices (invoice_if_captured e rec (own_request w0 s entity) w2)"
    
    unfolding run
    by (rule own_webhook_run [OF w0(1) s0, where e = e and b = b and entity = entity and
          ev = "nullish_def_val (wk_event b) ''unknown''"]) blast
  obtain r where r: "rec = Some r" "pay_razorpayPaymentId r = rpay_id p" "pay_amount r = nullish_def_val (rpay_amount p) 0"
    "pay_paidAt r = at_seconds (rpay_created_at p)" "pay_status r = nullish_def_val (rpay_status p) ''captured''"
    using recordPayment_data [OF _ p(2), of e "sub_id s" w1 rec w2] rec(1) p(1) up by metis
  have "ledger_of (invoice_if_captured e (Some r) (own_request w0 s entity) w2) =
      enter (rpay_id p) (debit_year e (at_seconds (rpay_created_at p))) (nullish_def_val (rpay_amount p) 0) (ledger_of w2)"
    using captured_debit_entered [OF rec(2) rec(3) [unfolded r(1)], of e "own_request w0 s entity"] up r p(3)
    by (simp add: own_request_def)
  then show ?thesis
    using out r(1) rec(4) i0 by (simp add: ledger_of_def)
qed

theorem own_charge_is_invoiced_witness:
  "ledger_of (snd (handleWebhook sample_env (sample_charge ''sub_3'') checked_out)) =
     [(''pay_1'', ''6970'', 249900)]"
proof -
  let ?b = "sample_charge ''sub_3''"
  have subs: "map sub_mandate (w_subs checked_out) = [Some ''sub_3'']"
    and quiet: "w_events checked_out = []" "w_invoices checked_out = []"
    and year: "debit_year sample_env (Some 864000000) = ''6970''"
    by code_simp+
  obtain s where s: "s \<in> set (w_subs checked_out)" "sub_mandate s = Some ''sub_3''" using subs by auto
  obtain entity where entity: "wk_subscription ?b = Some entity" "rz_id entity = ''sub_3''"
    by (simp add: sample_charge_def)
  have "acted_on ?b entity checked_out"
    using entity quiet by (simp add: acted_on_def) (simp add: sample_charge_def starts_with_def)
  moreover have "\<forall>t. \<not> e_db_raises sample_env t" by (simp add: sample_env_def)
  moreover have "wk_payment ?b = Some sample_debit" by (simp add: sample_charge_def)
  moreover have debit: "rpay_id sample_debit = ''pay_1''" "rpay_status sample_debit = Some ''captured''"
    "at_seconds (rpay_created_at sample_debit) = Some 864000000" "rpay_amount sample_debit = Some 249900"
    by (simp_all add: sample_debit_def at_seconds_def)
  ultimately have "ledger_of (snd (handleWebhook sample_env ?b checked_out)) =
      enter ''pay_1'' (debit_year sample_env (Some 864000000)) 249900 (ledger_of checked_out)"
    using own_charge_is_invoiced [OF checked_out_reachable _ _ s(1), of sample_env ?b entity sample_debit] s(2) entity(2)
    by simp
  then show ?thesis by (simp add: year ledger_of_def quiet enter_def)
qed

section \<open>The paid month is never shortened\<close>

text \<open>The organisation's own subscription runs on a mandate of its own, at least until \<open>t\<close>.\<close>

definition paid_until :: "nat \<Rightarrow> ms \<Rightarrow> world \<Rightarrow> bool" where
  "paid_until i t w =
     (\<exists>s \<in> set (w_subs w). sub_id s = i \<and> sub_status s \<noteq> Superseded \<and> sub_billingGroupId s = None \<and>
        (\<exists>b. sub_currentEnd s = Some b \<and> t \<le> b))"

lemma toStatus_not_superseded: "toStatus t \<noteq> Superseded"
  by (simp add: toStatus_def split: option.splits)

lemma later_end_Some: "\<exists>b. later_end r (Some a) = Some b \<and> a \<le> b"
  by (cases r) (auto simp: later_end_def)

lemma paid_until_remote:
  assumes ok: "billing_ok w" and s: "s \<in> set (w_subs w)" and paid: "paid_until i t w"
    and subs: "w_subs w' = update_rows (\<lambda>r. sub_id r = sub_id s) (remote_row e plans s remote) (w_subs w)"
  shows "paid_until i t w'"
proof -
  obtain r b where r: "r \<in> set (w_subs w)" "sub_id r = i" "sub_status r \<noteq> Superseded"
    "sub_billingGroupId r = None" "sub_currentEnd r = Some b" "t \<le> b"
    using paid by (auto simp: paid_until_def)
  show ?thesis
  proof (cases "sub_id r = sub_id s")
    case True
    then have "r = s" using ok r(1) s unique_key_eq [of sub_id "w_subs w"] by (simp add: billing_ok_def)
    let ?r = "remote_row e plans s remote r"
    have "?r \<in> set (w_subs w')" using r(1) True by (force simp: subs set_update_rows)
    moreover obtain b' where "sub_currentEnd ?r = Some b'" "b \<le> b'"
      using later_end_Some [of "at_seconds (rz_current_end remote)" b] r(5) by (auto simp: \<open>r = s\<close>)
    ultimately show ?thesis
      unfolding paid_until_def using r(2,4,6) toStatus_not_superseded
      by (intro bexI [of _ ?r] conjI exI [of _ b']) simp_all
  next
    case False
    then have "r \<in> set (w_subs w')" using r(1) by (force simp: subs set_update_rows)
    then show ?thesis using r unfolding paid_until_def by blast
  qed
qed

lemma paid_until_moved:
  assumes "paid_until i t w"
    and "w_subs w' = update_rows (\<lambda>s. sub_billingGroupId s = Some k) (moved_client st a z) (w_subs w)"
  shows "paid_until i t w'"
  using assms unfolding paid_until_def by (force simp: set_update_rows)

text \<open>What one webhook does to the subscriptions: nothing, the row of its mandate, or the clients of
  a group.\<close>

abbreviation has_subs :: "subscription list \<Rightarrow> world \<Rightarrow> bool" where
  "has_subs rows \<equiv> (\<lambda>w. w_subs w = rows)"

lemma apply_to_subs:
  "valid (has_subs rows) (apply_to e entity payment g)
     (\<lambda>_. has_subs (update_rows (\<lambda>s. sub_billingGroupId s = Some (bg_id g))
        (moved_client (the (status_of (rz_status entity))) (at_seconds (rz_current_start entity))
           (at_seconds (rz_current_end entity))) rows))
     (\<lambda>_. has_subs rows)"
proof -
  have sts: "valid (has_subs rows) (as_status t) (\<lambda>st w. w_subs w = rows \<and> st = the (status_of t)) (\<lambda>_. has_subs rows)" for t
    by (auto simp: valid_def as_status_def split: option.splits)
  have grp: "valid (has_subs rows) (update_group i f) (\<lambda>_. has_subs rows) (\<lambda>_. has_subs rows)" for i f
    by (auto simp: valid_def update_group_def write_groups_def)
  have pay: "valid (has_subs us) (case payment of None \<Rightarrow> retE None
       | Some p \<Rightarrow> safely (\<lambda>w. let (r, w') = group_payment i p w in (Some r, w')))
      (\<lambda>_. has_subs us) err" for i us err
    by (auto simp: valid_def safely_def Let_def group_payment_def upsert_payment_def
        split: option.splits prod.splits)
  have bumps: "w_subs (fold (invalidatePayer e) xs v) = w_subs v" for xs v
    by (induction xs arbitrary: v) (simp_all add: invalidatePayer_def)
  show ?thesis
    unfolding apply_to_def Let_def
    apply (rule valid_bindE [OF sts], rule valid_pure)
    apply (rule valid_thenE [OF grp])
    apply (rule valid_bindE [where R = "\<lambda>_. has_subs rows"], simp add: valid_def)
    apply (rule valid_thenE [where R = "has_subs (update_rows (\<lambda>s. sub_billingGroupId s = Some (bg_id g))
        (moved_client (the (status_of (rz_status entity))) (at_seconds (rz_current_start entity))
           (at_seconds (rz_current_end entity))) rows)"], simp add: valid_def)
    apply (rule valid_bindE [OF pay [unfolded Let_def]])
    by (auto simp: valid_def thenE_def bindE_def bumps invalidatePayer_def)
qed

lemma applyToGroup_subs:
  "w_subs (snd (applyToGroup e m entity payment w)) = w_subs w \<or>
   (\<exists>k st a z. w_subs (snd (applyToGroup e m entity payment w)) =
      update_rows (\<lambda>s. sub_billingGroupId s = Some k) (moved_client st a z) (w_subs w))"
proof (cases "List.find (\<lambda>g. bg_mandate g = m) (w_groups w)")
  case None
  then show ?thesis by (simp add: applyToGroup_def)
next
  case (Some g)
  then show ?thesis
    using apply_to_subs [of "w_subs w" e entity payment g]
    by (cases "apply_to e entity payment g w")
      (auto simp: applyToGroup_def bindE_def valid_def split: sum.splits dest!: spec [of _ w], blast)
qed

lemma group_webhook_subs:
  "w_subs (snd (group_webhook e b entity w)) = w_subs w \<or>
   (\<exists>k st a z. w_subs (snd (group_webhook e b entity w)) =
      update_rows (\<lambda>s. sub_billingGroupId s = Some k) (moved_client st a z) (w_subs w))"
proof -
  have "w_subs (snd (group_webhook e b entity w)) =
        w_subs (snd (applyToGroup e (rz_id entity) entity (billing_paymentRow (wk_payment b)) w))"
    by (auto simp: group_webhook_def bindE_def split: prod.splits sum.splits option.splits)
  then show ?thesis using applyToGroup_subs by metis
qed

lemma paid_until_webhook:
  assumes ok: "billing_ok w" and paid: "paid_until i t w"
  shows "paid_until i t (snd (handleWebhook e b w))"
proof -
  obtain r w1 where ev: "record_event e b w = (r, w1)" by fastforce
  have ok1: "billing_ok w1" using keepsD [OF keeps_record_event ok ev] .
  have subs1: "w_subs w1 = w_subs w" using ev by (auto simp: record_event_def split: if_splits)
  then have paid1: "paid_until i t w1" using paid by (simp add: paid_until_def)
  have own: "paid_until i t (snd (own_webhook e b ev entity s w1))" if "s \<in> set (w_subs w1)" for ev entity s
    using own_webhook_run [OF ok1 that, of e b ev entity] paid_until_remote [OF ok1 that paid1] by metis
  have grp: "paid_until i t (snd (group_webhook e b entity w1))" for entity
    using group_webhook_subs [of e b entity w1] paid_until_moved [OF paid1] paid1
    by (auto simp: paid_until_def)
  show ?thesis
    using ev paid1 own grp
    by (auto simp: handleWebhook_def bindE_def Let_def dest: find_SomeD split: sum.splits option.splits)
qed

lemma billing_ok_webhook: "billing_ok w \<Longrightarrow> billing_ok (snd (handleWebhook e b w))"
  using tables.keeps_handleWebhook [of e b] by (simp add: keeps_def)

definition hear_all :: "(env \<times> rz_webhook) list \<Rightarrow> world \<Rightarrow> world" where
  "hear_all = fold (\<lambda>(e, b) w. snd (handleWebhook e b w))"

lemma paid_until_hear_all:
  "billing_ok w \<Longrightarrow> paid_until i t w \<Longrightarrow> billing_ok (hear_all hs w) \<and> paid_until i t (hear_all hs w)"
  by (induction hs arbitrary: w) (auto simp: hear_all_def billing_ok_webhook paid_until_webhook)

lemma paid_until_grants:
  "paid_until i t w \<Longrightarrow> \<exists>s \<in> set (w_subs w). sub_id s = i \<and> (\<forall>t' < t. grants t' (Some s))"
  unfolding paid_until_def grants_def by force

section \<open>Cancelling\<close>

lemma billing_find_SomeD: "billing_find x w = Some s \<Longrightarrow> s \<in> set (w_subs w) \<and> sub_org s = x \<and> sub_wabaId s = None"
  by (auto simp: billing_find_def dest: find_SomeD)

lemma update_sub_found:
  assumes "update_sub i f w = (Inr r, w')"
  shows "w' = w\<lparr>w_subs := update_rows (\<lambda>s. sub_id s = i) f (w_subs w)\<rparr>"
  using assms by (auto simp: update_sub_def write_subs_def thenE_def bindE_def split: if_splits option.splits)

definition cancelled_row :: "env \<Rightarrow> subscription \<Rightarrow> rz_subscription \<Rightarrow> subscription \<Rightarrow> subscription" where
  "cancelled_row e s remote r =
     r\<lparr>sub_status := toStatus (rz_status remote),
       sub_cancelAtCycleEnd := (case sub_currentEnd s of None \<Rightarrow> False | Some b \<Rightarrow> e_now e < b),
       sub_cancelledAt := Some (e_now e), sub_shortUrl := None, sub_pendingMandate := None,
       sub_pendingShortUrl := None\<rparr>"

text \<open>Steps that leave the subscriptions alone.\<close>

definition spares_subs :: "(world, 'a) svc \<Rightarrow> bool" where
  "spares_subs m = (\<forall>w. w_subs (snd (m w)) = w_subs w)"

named_theorems spares_intros \<open>steps that leave the subscriptions alone\<close>

lemma spares_valid: "spares_subs m \<Longrightarrow> valid (has_subs rows) m (\<lambda>_. has_subs rows) (\<lambda>_ _. True)"
  by (auto simp: spares_subs_def valid_def split: prod.splits sum.splits) (metis snd_conv)

lemma spares_same: "(\<And>w. same_billing w (snd (m w))) \<Longrightarrow> spares_subs m"
  by (simp add: spares_subs_def same_billing_def)

lemma spares_calls [spares_intros]:
  "spares_subs (refuse_if d err)" "spares_subs (ownMandate s)" "spares_subs (cancelSubscription e m b)"
  "spares_subs (modE (pending_cancelled e s))" "spares_subs (modE (invalidatePayer e x))"
  "spares_subs (safely (stateOf e x sub a))" "spares_subs (modE (\<lambda>w. w\<lparr>w_mails := ms w\<rparr>))"
  "spares_subs (createSubscription e c pl st q ns)" "spares_subs (changeSubscriptionPlan e m pl b)"
  "spares_subs (safely (currentPrice e s))" "spares_subs (sellablePlan t x)" "spares_subs (retE y)"
  "spares_subs (throwE err)" "spares_subs (getE g)"
  by (auto intro!: spares_same simp: refuse_if_def ownMandate_def same_billing_asked asks
      same_billing_cancelled same_billing_stateOf same_billing_currentPrice sellablePlan_def split: option.splits)

lemma spares_bindE [spares_intros]: "spares_subs m \<Longrightarrow> (\<And>x. spares_subs (f x)) \<Longrightarrow> spares_subs (bindE m f)"
  unfolding spares_subs_def bindE_def by (auto split: prod.splits sum.splits) (metis snd_conv)+

lemma spares_thenE [spares_intros]: "spares_subs m \<Longrightarrow> spares_subs n \<Longrightarrow> spares_subs (thenE m n)"
  unfolding thenE_def by (rule spares_bindE)

lemma valid_update_sub:
  "valid (has_subs rows) (update_sub i f) (\<lambda>_. has_subs (update_rows (\<lambda>s. sub_id s = i) f rows)) (\<lambda>_ _. True)"
  by (rule validI) (auto dest: update_sub_found)

lemma valid_ex: "valid P m (\<lambda>_. Q k) E \<Longrightarrow> valid P m (\<lambda>_ w. \<exists>k. Q k w) E"
  unfolding valid_def by (fastforce split: prod.splits sum.splits)

lemma valid_cancel:
  "valid (\<lambda>w. w_subs w = rows \<and> billing_find x w = Some s) (billing_cancel e x)
     (\<lambda>_ w. \<exists>remote. has_subs (update_rows (\<lambda>r. sub_id r = sub_id s) (cancelled_row e s remote) rows) w) (\<lambda>_ _. True)"
  unfolding billing_cancel_def Let_def
  apply (rule valid_bindE [where R = "\<lambda>found w. w_subs w = rows \<and> found = Some s"], simp add: valid_def)
  apply (rule valid_pure, hypsubst, unfold option.case)
  apply (rule valid_thenE [OF spares_valid], rule spares_intros)+
  apply (rule valid_bindE [OF spares_valid], rule spares_intros)+
  subgoal for found mandate remote
    apply (rule valid_thenE [OF spares_valid], rule spares_intros)
    apply (rule valid_bindE [OF valid_update_sub])
    apply (rule valid_ex [where k = remote and Q = "\<lambda>remote. has_subs (update_rows (\<lambda>r. sub_id r = sub_id s) (cancelled_row e s remote) rows)"])
    apply (unfold cancelled_row_def [symmetric])
    by (rule spares_valid) (intro spares_intros)
  done

lemma paid_until_cancel:
  assumes ok: "billing_ok w" and s: "billing_find x w = Some s" "sub_billingGroupId s = None"
    and left: "sub_currentEnd s = Some b" "e_now e < b" and run: "billing_cancel e x w = (Inr st, w')"
  shows "paid_until (sub_id s) b w'" and "\<exists>r \<in> set (w_subs w'). sub_id r = sub_id s \<and> sub_cancelAtCycleEnd r"
    and "billing_ok w'"
proof -
  obtain remote where subs: "w_subs w' = update_rows (\<lambda>r. sub_id r = sub_id s) (cancelled_row e s remote) (w_subs w)"
    using validD [OF valid_cancel [of "w_subs w" x s e] _ run] s(1) by auto
  have mem: "cancelled_row e s remote s \<in> set (w_subs w')"
    using billing_find_SomeD [OF s(1)] by (force simp: subs set_update_rows)
  then show "paid_until (sub_id s) b w'"
    unfolding paid_until_def using s(2) left toStatus_not_superseded
    by (intro bexI [of _ "cancelled_row e s remote s"]) (simp_all add: cancelled_row_def)
  show "\<exists>r \<in> set (w_subs w'). sub_id r = sub_id s \<and> sub_cancelAtCycleEnd r"
    using mem left by (intro bexI [of _ "cancelled_row e s remote s"]) (simp_all add: cancelled_row_def)
  show "billing_ok w'" using keepsD [OF tables.keeps_cancel ok run] .
qed

text \<open>C13: a cancelled subscription keeps the month it was paid for: once the cancellation has
  answered, the row is set to end with the month, and after any webhooks whatsoever - late,
  repeated, out of order, for this mandate or others, saying cancelled, halted or with an
  earlier end - the organisation still has access at every instant before the end it had paid
  up to.\<close>
theorem cancel_keeps_paid_month:
  assumes "billing_reachable w" "billing_find x w = Some s" "sub_billingGroupId s = None"
    and "sub_currentEnd s = Some b" "e_now e < b" "billing_cancel e x w = (Inr st, w')"
  shows "(\<exists>r \<in> set (w_subs w'). sub_id r = sub_id s \<and> sub_cancelAtCycleEnd r) \<and>
         (\<exists>r \<in> set (w_subs (hear_all hs w')). sub_id r = sub_id s \<and> (\<forall>t < b. grants t (Some r)))"
  using paid_until_cancel [OF billing_ok_reachable [OF assms(1)] assms(2-6)] paid_until_hear_all
    paid_until_grants by blast

text \<open>A provider whose mandates start paid, and the deployment after one checkout with it.\<close>

definition paying_env :: env where
  "paying_env = sample_env\<lparr>e_api := plain_api\<lparr>api_subscription := (\<lambda>_ _. Inr
     \<lparr>rz_id = ''sub_3'', rz_plan_id = ''plan_growth'', rz_status = ''active'', rz_current_start = Some 864000,
      rz_current_end = Some 3456000, rz_short_url = None, rz_notes = []\<rparr>)\<rparr>\<rparr>"

definition paid_up :: world where
  "paid_up = snd (register paying_env 1 ''acme'' ''growth'' new_deployment)"

lemma paid_up_reachable: "billing_reachable paid_up"
  unfolding paid_up_def
  by (rule billing_reachable.onward [OF new_deployment_reachable billing_step.registers])

lemma paid_up_row:
  "map sub_currentEnd (w_subs paid_up) = [Some 3456000000]" "map sub_billingGroupId (w_subs paid_up) = [None]"
  "map_option sub_currentEnd (billing_find ''acme'' paid_up) = Some (Some 3456000000)"
  "\<not> isl (fst (billing_cancel paying_env ''acme'' paid_up))"
  by code_simp+

theorem cancel_keeps_paid_month_witness:
  "\<exists>r \<in> set (w_subs (hear_all [(sample_env, sample_charge ''sub_3'')] (snd (billing_cancel paying_env ''acme'' paid_up)))).
     grants 3455999999 (Some r)"
proof -
  obtain s where s: "billing_find ''acme'' paid_up = Some s" "sub_currentEnd s = Some 3456000000"
    using paid_up_row(3) by auto
  have "sub_billingGroupId s = None"
    using billing_find_SomeD [OF s(1)] paid_up_row(2) by (cases "w_subs paid_up") auto
  moreover obtain st where "billing_cancel paying_env ''acme'' paid_up =
      (Inr st, snd (billing_cancel paying_env ''acme'' paid_up))"
    using paid_up_row(4) by (cases "fst (billing_cancel paying_env ''acme'' paid_up)")
      (auto simp: prod_eq_iff)
  moreover have "e_now paying_env < 3456000000" by (simp add: paying_env_def sample_env_def)
  ultimately have "(\<exists>r \<in> set (w_subs (snd (billing_cancel paying_env ''acme'' paid_up))).
        sub_id r = sub_id s \<and> sub_cancelAtCycleEnd r) \<and>
      (\<exists>r \<in> set (w_subs (hear_all [(sample_env, sample_charge ''sub_3'')] (snd (billing_cancel paying_env ''acme'' paid_up)))).
        sub_id r = sub_id s \<and> (\<forall>t < 3456000000. grants t (Some r)))"
    by (intro cancel_keeps_paid_month [OF paid_up_reachable s(1) _ s(2)])
  moreover have "(3455999999 :: ms) < 3456000000" by simp
  ultimately show ?thesis by blast
qed

section \<open>Changing tier takes nothing away\<close>

text \<open>What entitlements are read from: everything about a subscription but what is pending.\<close>

definition entitled :: "subscription \<Rightarrow> subscription" where
  "entitled s = s\<lparr>sub_pendingPlanRefId := None, sub_pendingPlanAt := None, sub_pendingMandate := None,
                  sub_pendingShortUrl := None\<rparr>"

definition same_terms :: "world \<Rightarrow> world \<Rightarrow> bool" where
  "same_terms w w' =
     (w_plans w' = w_plans w \<and> map entitled (w_subs w') = map entitled (w_subs w) \<and>
      (\<forall>x. billingOrgFor (w_settings w') x = billingOrgFor (w_settings w) x))"

lemma same_terms_refl [simp]: "same_terms w w"
  by (simp add: same_terms_def)

lemma same_terms_trans: "same_terms w w' \<Longrightarrow> same_terms w' w'' \<Longrightarrow> same_terms w w''"
  by (simp add: same_terms_def)

lemma same_terms_asked: "asked_only w w' \<Longrightarrow> same_terms w w'"
  by (simp add: same_terms_def asked_only_eq)

lemma same_terms_cached: "cached_only w w' \<Longrightarrow> same_terms w w'"
  by (auto simp: same_terms_def cached_only_def)

lemma same_terms_bump [simp]: "same_terms w (invalidatePayer e x w)"
  by (cases "e_db_raises e bump_label")
    (simp_all add: same_terms_def invalidatePayer_def billingOrgFor_def settings_get_bump bumpPayerVersion_def [of True])

lemma same_terms_keeps: "(\<And>w. same_terms w (snd (m w))) \<Longrightarrow> keeps (same_terms w\<^sub>0) m"
  by (auto simp: keeps_def intro: same_terms_trans)

lemma keeps_terms [keeps_intros]:
  "keeps (same_terms w\<^sub>0) (createSubscription e c pl st q ns)"
  "keeps (same_terms w\<^sub>0) (changeSubscriptionPlan e m pl b)"
  "keeps (same_terms w\<^sub>0) (modE (invalidatePayer e x))"
  "keeps (same_terms w\<^sub>0) (safely (currentPrice e s))"
  by (rule same_terms_keeps,
      auto simp: currentPrice_def billing_plan_def Let_def case_prod_beta asks intro: same_terms_asked
        split: option.splits)+

lemma same_terms_stateOf: "same_terms w (snd (stateOf e x sub a w))"
proof -
  have nm: "same_terms w w1"
    if "(case Option.bind sub sub_payerOrgId of None \<Rightarrow> (None, w) | Some p \<Rightarrow> org_name e (Some p) w) = (n, w1)" for n w1
    using that by (auto split: option.splits dest: cached_only_org_nameD intro: same_terms_cached)
  have pl: "same_terms w1 w2"
    if "(case sub of None \<Rightarrow> (None, w1) | Some s \<Rightarrow> billing_plan e (sub_planId s) w1) = (p, w2)" for p w1 w2
    using that asked_only_fetchPlan [of w1 e]
    by (auto simp: billing_plan_def Let_def case_prod_beta intro: same_terms_asked split: option.splits)
  show ?thesis
    unfolding stateOf_def Let_def by (auto split: prod.splits intro: same_terms_trans dest: nm pl)
qed

lemmas same_terms_after = same_terms_trans [OF _ same_terms_stateOf] same_terms_trans [OF _ same_terms_asked]

lemma keeps_terms_update [keeps_intros]:
  assumes "\<And>s. entitled (f s) = entitled s"
  shows "keeps (same_terms w\<^sub>0) (update_sub i f)"
proof -
  have "map entitled (update_rows p f rows) = map entitled rows" for p rows
    by (rule map_key_update_rows) (simp add: assms)
  then show ?thesis
    by (intro same_terms_keeps) (auto simp: snd_update_sub write_subs_def same_terms_def)
qed

lemma keeps_terms_upgrade [keeps_intros]: "keeps (same_terms w\<^sub>0) (startUpgrade e s p c)"
  unfolding startUpgrade_def
  by (intro keeps_intros) (auto simp: entitled_def intro: same_terms_after same_terms_asked asks)

lemma keeps_terms_downgrade [keeps_intros]: "keeps (same_terms w\<^sub>0) (scheduleDowngrade e s p)"
  unfolding scheduleDowngrade_def by (intro keeps_intros) (auto simp: entitled_def intro: same_terms_after)

lemma same_terms_changePlan: "same_terms w (snd (changePlan e x c w))"
proof -
  have "keeps (same_terms w) (changePlan e x c)" unfolding changePlan_def by (intro keeps_intros)
  then show ?thesis by (simp add: keeps_def)
qed

text \<open>What the terms decide.\<close>

lemma map_filter_entitled:
  "(\<And>s. q (entitled s) = q s) \<Longrightarrow> (\<And>s. f (entitled s) = f s) \<Longrightarrow>
   List.map_filter f (filter q (map entitled rows)) = List.map_filter f (filter q rows)"
  by (induction rows) (auto simp: List.map_filter_simps split: option.splits)

lemma entitled_fields [simp]:
  "sub_org (entitled s) = sub_org s" "sub_wabaId (entitled s) = sub_wabaId s" "sub_status (entitled s) = sub_status s"
  "sub_planRefId (entitled s) = sub_planRefId s" "sub_currentEnd (entitled s) = sub_currentEnd s"
  "sub_createdAt (entitled s) = sub_createdAt s" "sub_id (entitled s) = sub_id s"
  by (simp_all add: entitled_def)

lemma subscribedPlans_terms: "same_terms w w' \<Longrightarrow> subscribedPlans w' x = subscribedPlans w x"
proof -
  assume t: "same_terms w w'"
  have "subscribedPlans v x = List.map_filter (plan_of_sub (w_plans v))
      (filter (\<lambda>s. sub_org s = x \<and> sub_status s \<in> set LIVE_STATUSES \<and> sub_planRefId s \<noteq> None)
        (map entitled (w_subs v)))" for v
    unfolding subscribedPlans_def by (subst map_filter_entitled) (simp_all add: plan_of_sub_def)
  then show ?thesis using t by (simp add: same_terms_def)
qed

lemma limits_terms: "same_terms w w' \<Longrightarrow> limits_forOrg w' x = limits_forOrg w x"
  using subscribedPlans_terms [of w w'] by (simp add: limits_forOrg_def entryLimits_def same_terms_def Let_def)

lemma find_entitled:
  "(\<And>s. q (entitled s) = q s) \<Longrightarrow> List.find q (map entitled rows) = map_option entitled (List.find q rows)"
  by (induction rows) auto

lemma find_max_entitled:
  "(\<And>s. q (entitled s) = q s) \<Longrightarrow>
   find_max q sub_createdAt (map entitled rows) = map_option entitled (find_max q sub_createdAt rows)"
  by (induction rows) (auto split: option.splits)

lemma grants_entitled: "grants t (map_option entitled s) = grants t s"
  by (cases s) (simp_all add: grants_def)

lemma governing_terms:
  assumes "same_terms w w'"
  shows "grants t (governing (w_settings w') (w_subs w') x a) = grants t (governing (w_settings w) (w_subs w) x a)"
proof -
  have f: "map_option entitled (forOrganisation rows y a) = forOrganisation (map entitled rows) y a" for rows y
    by (simp add: forOrganisation_def nullish_def find_entitled find_max_entitled split: option.splits)
  have "map_option entitled (forOrganisation (w_subs w') y a) = map_option entitled (forOrganisation (w_subs w) y a)" for y
    using assms by (simp add: f same_terms_def)
  moreover have "map_option entitled (governing rows subs x a) =
      nullish (map_option entitled (forOrganisation subs x a))
        (if billingOrgFor rows x = x then None else map_option entitled (forOrganisation subs (billingOrgFor rows x) a))"
    for rows subs
    by (simp add: governing_def fromPayer_def nullish_def Let_def split: option.splits)
  ultimately have "map_option entitled (governing (w_settings w') (w_subs w') x a) =
      map_option entitled (governing (w_settings w) (w_subs w) x a)"
    using assms by (simp add: same_terms_def)
  then show ?thesis by (metis grants_entitled)
qed

text \<open>C15: asking for another tier takes nothing away and gives nothing early: whether the call
  is refused, fails at the provider, starts an upgrade or schedules a downgrade, every
  organisation's limits and every organisation's access to every account, at any instant,
  are what they were before the call.\<close>
theorem changePlan_keeps_entitlements:
  "limits_forOrg (snd (changePlan e x c w)) y = limits_forOrg w y \<and>
   grants t (governing (w_settings (snd (changePlan e x c w))) (w_subs (snd (changePlan e x c w))) y a) =
     grants t (governing (w_settings w) (w_subs w) y a)"
  using limits_terms governing_terms same_terms_changePlan by blast

section \<open>A charge on an agency's mandate\<close>

lemma bump_frame [simp]:
  "w_subs (invalidatePayer e x w) = w_subs w" "w_invoices (invalidatePayer e x w) = w_invoices w"
  "w_payments (invalidatePayer e x w) = w_payments w" "w_plans (invalidatePayer e x w) = w_plans w"
  by (simp_all add: invalidatePayer_def)

lemma bumps_frame [simp]:
  "w_subs (fold (invalidatePayer e) xs w) = w_subs w" "w_invoices (fold (invalidatePayer e) xs w) = w_invoices w"
  "w_payments (fold (invalidatePayer e) xs w) = w_payments w" "w_plans (fold (invalidatePayer e) xs w) = w_plans w"
  by (induction xs arbitrary: w) simp_all

lemma group_payment_fresh:
  assumes "\<forall>q \<in> set (w_payments w). pay_razorpayPaymentId q \<noteq> pay_razorpayPaymentId p"
  obtains r w' where "group_payment i p w = (r, w')" "w_subs w' = w_subs w" "w_invoices w' = w_invoices w"
    "pay_razorpayPaymentId r = pay_razorpayPaymentId p" "pay_amount r = pay_amount p"
    "pay_paidAt r = pay_paidAt p" "pay_status r = pay_status p"
proof -
  have "List.find (\<lambda>q. pay_razorpayPaymentId q = pay_razorpayPaymentId p) (w_payments w) = None"
    using assms by (simp add: find_eq_None)
  moreover obtain r w' where "group_payment i p w = (r, w')" by fastforce
  ultimately show thesis by (intro that [of r w']) (auto simp: group_payment_def upsert_payment_def)
qed

lemma update_group_known:
  assumes "billing_ok w"
  shows "\<exists>gs. update_group i (moved_group st a z) w = (Inr (), w\<lparr>w_groups := gs\<rparr>)"
proof -
  have "group_keys_ok (update_rows (\<lambda>g. bg_id g = i) (moved_group st a z) (w_groups w)) = group_keys_ok (w_groups w)"
    by (simp add: group_keys_ok_def map_key_update_rows moved_group_def)
  then show ?thesis using assms by (auto simp: update_group_def write_groups_def billing_ok_def)
qed

lemma apply_to_run:
  assumes ok: "billing_ok w" and st: "status_of (rz_status entity) = Some st"
    and fresh: "\<forall>q \<in> set (w_payments w). pay_razorpayPaymentId q \<noteq> pay_razorpayPaymentId p"
  obtains a w' r where "apply_to e entity (Some p) g w = (Inr a, w')" "ag_payment a = Some r"
    "w_invoices w' = w_invoices w" "pay_razorpayPaymentId r = pay_razorpayPaymentId p"
    "pay_amount r = pay_amount p" "pay_paidAt r = pay_paidAt p" "pay_status r = pay_status p"
    "w_subs w' = update_rows (\<lambda>s. sub_billingGroupId s = Some (bg_id g))
       (moved_client st (at_seconds (rz_current_start entity)) (at_seconds (rz_current_end entity))) (w_subs w)"
proof -
  obtain gs where grp: "update_group (bg_id g) (moved_group st (at_seconds (rz_current_start entity))
      (at_seconds (rz_current_end entity))) w = (Inr (), w\<lparr>w_groups := gs\<rparr>)"
    using update_group_known [OF ok] by blast
  let ?w2 = "w\<lparr>w_groups := gs, w_subs := update_rows (\<lambda>s. sub_billingGroupId s = Some (bg_id g))
      (moved_client st (at_seconds (rz_current_start entity)) (at_seconds (rz_current_end entity))) (w_subs w)\<rparr>"
  obtain r w3 where pay: "group_payment (bg_id g) p ?w2 = (r, w3)" "w_subs w3 = w_subs ?w2" "w_invoices w3 = w_invoices ?w2"
    "pay_razorpayPaymentId r = pay_razorpayPaymentId p" "pay_amount r = pay_amount p"
    "pay_paidAt r = pay_paidAt p" "pay_status r = pay_status p"
    by (rule group_payment_fresh [where w = ?w2 and p = p and i = "bg_id g"]) (use fresh in auto)
  have sts: "as_status (rz_status entity) w = (Inr st, w)" by (simp add: as_status_def st)
  have "\<exists>a v. apply_to e entity (Some p) g w = (Inr a, v) \<and> ag_payment a = Some r \<and>
      w_invoices v = w_invoices w3 \<and> w_subs v = w_subs w3"
    by (simp add: apply_to_def bindE_def thenE_def sts grp pay(1) safely_def Let_def)
  then show thesis using pay by (auto intro: that)
qed

text \<open>The reported end is not before the one already paid for.\<close>

definition not_behind :: "ms option \<Rightarrow> ms option \<Rightarrow> bool" where
  "not_behind reported own = (case (reported, own) of (Some z, Some b) \<Rightarrow> b \<le> z | _ \<Rightarrow> True)"

lemma not_behind_none [simp]: "not_behind z None"
  by (simp add: not_behind_def split: option.split)

lemma moved_client_reaches:
  assumes "st \<noteq> Superseded" "not_behind z (sub_currentEnd s)"
  shows "not_behind (sub_currentEnd (moved_client st a z s)) (sub_currentEnd s)"
    "z = Some y \<Longrightarrow> t < y \<Longrightarrow> grants t (Some (moved_client st a z s))"
  using assms by (auto simp: moved_client_def not_behind_def grants_def nullish_def split: option.splits)


text \<open>A deployment where an agency has put one client on its mandate.\<close>

definition taken_on :: world where
  "taken_on = snd (subscribeClient sample_env ''agency'' ''acme'' ''growth'' 1 new_deployment)"

lemma taken_on_reachable: "billing_reachable taken_on"
  unfolding taken_on_def
  by (rule billing_reachable.onward [OF new_deployment_reachable billing_step.takes_on])


text \<open>
  Two clients of one agency in a month paid for; one is released and the next month is reported
  paid. (The debits themselves, which only feed the ledger, are left out of these reports.)
\<close>

definition month_report :: "string \<Rightarrow> int \<Rightarrow> int \<Rightarrow> rz_webhook" where
  "month_report event a z = (sample_charge ''sub_3'')\<lparr>wk_eventId := event, wk_payment := None,
     wk_subscription := map_option (\<lambda>r. r\<lparr>rz_current_start := Some a, rz_current_end := Some z\<rparr>)
       (wk_subscription (sample_charge ''sub_3''))\<rparr>"

definition two_charged :: world where
  "two_charged = snd (subscribeClient sample_env ''agency'' ''kettle'' ''growth'' 1
     (snd (handleWebhook sample_env (month_report ''evt_1'' 864000 3456000) taken_on)))"

definition second_month :: "world \<Rightarrow> world" where
  "second_month w = snd (handleWebhook sample_env (month_report ''evt_2'' 3456000 6048000) w)"

definition one_released :: world where
  "one_released = snd (releaseClient sample_env ''agency'' ''acme'' two_charged)"

definition cover_of :: "world \<Rightarrow> (org \<times> bool \<times> ms option) list" where
  "cover_of w = map (\<lambda>s. (sub_org s, sub_cancelAtCycleEnd s, sub_currentEnd s)) (w_subs w)"

text \<open>The released client gets the next month as well: its row still rides on the group.\<close>

lemma released_client_extended:
  "cover_of one_released =
     [(''acme'', True, Some 3456000000), (''kettle'', False, Some 3456000000)] \<and>
   cover_of (second_month one_released) =
     [(''acme'', True, Some 6048000000), (''kettle'', False, Some 6048000000)]"
  by (rule conjI; code_simp)

text \<open>A report of the first month that arrives after the second is paid takes the second back.\<close>

lemma late_group_report_shortens:
  "cover_of (second_month two_charged) =
     [(''acme'', False, Some 6048000000), (''kettle'', False, Some 6048000000)] \<and>
   cover_of (snd (handleWebhook sample_env (month_report ''evt_3'' 864000 3456000) (second_month two_charged))) =
     [(''acme'', False, Some 3456000000), (''kettle'', False, Some 3456000000)]"
  by (rule conjI; code_simp)

end
