(* ===== verification/Tables.thy ===== *)
theory Tables
  imports Prelude
begin

text \<open>
  What a database table with an auto-incremented id and at most one unique key keeps: ids
  apart and below the next one, keys apart (\<open>None\<close> is a null the key does not bind), every row
  well formed. The rules say which statements keep it.
\<close>

definition table_ok ::
  "('r \<Rightarrow> nat) \<Rightarrow> ('r \<Rightarrow> 'k option) \<Rightarrow> ('r \<Rightarrow> bool) \<Rightarrow> nat \<Rightarrow> 'r list \<Rightarrow> bool" where
  "table_ok i k good next_id rows =
     (distinct (map i rows) \<and> distinct (List.map_filter k rows) \<and>
      (\<forall>r \<in> set rows. good r \<and> i r < next_id))"

lemma map_filter_append [simp]: "List.map_filter k (xs @ ys) = List.map_filter k xs @ List.map_filter k ys"
  by (simp add: List.map_filter_def)

lemma set_map_filter_iff: "y \<in> set (List.map_filter k rows) \<longleftrightarrow> (\<exists>r \<in> set rows. k r = Some y)"
  by (force simp: List.map_filter_def)

lemma map_filter_update_rows:
  "(\<And>r. r \<in> set rows \<Longrightarrow> p r \<Longrightarrow> k (f r) = k r) \<Longrightarrow>
   List.map_filter k (update_rows p f rows) = List.map_filter k rows"
  by (induction rows) (auto simp: List.map_filter_simps split: option.split)

lemma map_filter_None: "(\<And>r. r \<in> set rows \<Longrightarrow> k r = None) \<Longrightarrow> List.map_filter k rows = []"
  by (induction rows) (auto simp: List.map_filter_simps)

lemma table_ok_empty [simp]: "table_ok i k good n []"
  by (simp add: table_ok_def List.map_filter_simps)

lemma table_ok_mono: "table_ok i k good n rows \<Longrightarrow> n \<le> n' \<Longrightarrow> table_ok i k good n' rows"
  by (fastforce simp: table_ok_def)

lemma table_ok_rowD: "table_ok i k good n rows \<Longrightarrow> r \<in> set rows \<Longrightarrow> good r \<and> i r < n"
  by (simp add: table_ok_def)

lemma table_ok_append:
  assumes "table_ok i k good n rows" "map i new = [n..<n']" "n \<le> n'"
    and "\<And>r. r \<in> set new \<Longrightarrow> good r" "distinct (List.map_filter k new)"
    and "\<And>x r. x \<in> set rows \<Longrightarrow> r \<in> set new \<Longrightarrow> k r = None \<or> k x \<noteq> k r"
  shows "table_ok i k good n' (rows @ new)"
proof -
  have ids: "n \<le> i r \<and> i r < n'" if "r \<in> set new" for r
  proof -
    have "i r \<in> set (map i new)" using that by simp
    then show ?thesis by (simp only: assms(2)) simp
  qed
  have "distinct (map i new)" by (simp only: assms(2) distinct_upt)
  moreover have "i x \<noteq> i r" if "x \<in> set rows" "r \<in> set new" for x r
    using ids [OF that(2)] table_ok_rowD [OF assms(1) that(1)] by simp
  moreover have "set (List.map_filter k rows) \<inter> set (List.map_filter k new) = {}"
    using assms(6) by (force simp: set_map_filter_iff)
  ultimately show ?thesis
    using assms(1,3,4,5) ids by (fastforce simp: table_ok_def)
qed

lemma table_ok_snoc:
  assumes "table_ok i k good n rows" "i r = n" "good r"
    and "\<And>x. x \<in> set rows \<Longrightarrow> k r = None \<or> k x \<noteq> k r"
  shows "table_ok i k good (Suc n) (rows @ [r])"
  by (rule table_ok_append [OF assms(1)])
    (use assms(2-4) in \<open>auto simp: List.map_filter_simps split: option.split\<close>)

lemma table_ok_update:
  assumes "table_ok i k good n rows"
    and "\<And>r. r \<in> set rows \<Longrightarrow> p r \<Longrightarrow> i (f r) = i r \<and> k (f r) = k r \<and> (good r \<longrightarrow> good (f r))"
  shows "table_ok i k good n (update_rows p f rows)"
proof -
  have "map i (update_rows p f rows) = map i rows"
    using assms(2) by (simp add: update_rows_def)
  moreover have "List.map_filter k (update_rows p f rows) = List.map_filter k rows"
    using assms(2) by (intro map_filter_update_rows) simp
  ultimately show ?thesis using assms by (auto simp: table_ok_def set_update_rows)
qed

lemma table_ok_filter:
  assumes "table_ok i k good n rows"
  shows "table_ok i k good n (filter p rows)"
proof -
  have "distinct (List.map_filter k (filter p rows))" if "distinct (List.map_filter k rows)"
    using that
    by (induction rows) (auto simp: List.map_filter_simps set_map_filter_iff split: option.splits)
  then show ?thesis using assms by (auto simp: table_ok_def distinct_map_filter)
qed

lemma table_ok_key:
  assumes "table_ok i k good n rows" "a \<in> set rows" "b \<in> set rows" "k a = Some y" "k b = Some y"
  shows "a = b"
proof -
  have "a = b" if "distinct (List.map_filter k rows)" "a \<in> set rows" "b \<in> set rows"
    using that assms(4,5)
  proof (induction rows)
    case (Cons x rows)
    have "y \<in> set (List.map_filter k rows)" if "c \<in> set rows" "k c = Some y" for c
      using that by (auto simp: set_map_filter_iff)
    then show ?case using Cons by (auto simp: List.map_filter_simps split: option.splits)
  qed simp
  then show ?thesis using assms(1-3) by (simp add: table_ok_def)
qed

lemma table_ok_id: "table_ok i k good n rows \<Longrightarrow> a \<in> set rows \<Longrightarrow> b \<in> set rows \<Longrightarrow> i a = i b \<Longrightarrow> a = b"
  unfolding table_ok_def by (blast intro: unique_key_eq)

end
