(* ===== verification/Paging.thy ===== *)
theory Paging
  imports Endpoints
begin

text \<open>
  A page of a list the way every listing of the program cuts it: \<open>skip: (page - 1) * limit,
  take: limit\<close> over the ordered rows, with \<open>Math.ceil(total / limit)\<close> pages
  (\<open>src/common/responses/base-response.ts\<close>). The contract of a listing is stated once: whoever
  walks the pages is shown every row, once and in order.
\<close>

definition page_slice :: "int \<Rightarrow> int \<Rightarrow> 'a list \<Rightarrow> 'a list" where
  "page_slice page limit rows = take (nat limit) (drop (nat ((page - 1) * limit)) rows)"

definition ceil_div :: "int \<Rightarrow> int \<Rightarrow> int" where
  "ceil_div a b = - ((- a) div b)"

text \<open>\<open>BaseResponse.paginate\<close>\<close>

definition paginate :: "'a list \<Rightarrow> int \<Rightarrow> int \<Rightarrow> int \<Rightarrow> int \<Rightarrow> 'a page_of" where
  "paginate rows total_rows totalPages page limit =
     \<lparr>pg_data = rows, pg_total = total_rows, pg_totalPages = totalPages, pg_page = page, pg_limit = limit\<rparr>"

text \<open>Newest first.\<close>

definition newest_first :: "('r \<Rightarrow> ms) \<Rightarrow> 'r list \<Rightarrow> 'r list" where
  "newest_first at rows = sort_key (\<lambda>r. - at r) rows"

lemma set_newest_first [simp]: "set (newest_first at rows) = set rows"
  by (simp add: newest_first_def)

lemma length_newest_first [simp]: "length (newest_first at rows) = length rows"
  by (simp add: newest_first_def)

lemma newest_first_sorted: "sorted_wrt (\<lambda>a b. at b \<le> at a) (newest_first at rows)"
proof -
  have "sorted (map (\<lambda>r. - at r) (newest_first at rows))" by (simp add: newest_first_def)
  then show ?thesis by (simp add: sorted_map)
qed

lemma newest_first_distinct: "distinct (map k rows) \<Longrightarrow> distinct (map k (newest_first at rows))"
  by (simp add: newest_first_def distinct_map)

text \<open>The first \<open>n\<close> pages are the first \<open>n * limit\<close> rows.\<close>

lemma page_slice_map: "page_slice p l (map f rows) = map f (page_slice p l rows)"
  by (simp add: page_slice_def take_map drop_map)

lemma pages_prefix:
  assumes "0 < limit"
  shows "concat (map (\<lambda>p. page_slice (int p) limit rows) [1..<Suc n]) = take (n * nat limit) rows"
proof (induction n)
  case (Suc n)
  have "nat ((int (Suc n) - 1) * limit) = n * nat limit"
    using assms by (simp add: nat_mult_distrib)
  then have "page_slice (int (Suc n)) limit rows = take (nat limit) (drop (n * nat limit) rows)"
    by (simp only: page_slice_def)
  then show ?case using Suc by (simp add: take_add [symmetric] add.commute)
qed simp

lemma ceil_div_bounds:
  assumes "0 < b"
  shows "a \<le> ceil_div a b * b" "ceil_div a b * b < a + b"
proof -
  have "b * ((- a) div b) + (- a) mod b = - a" by (rule mult_div_mod_eq)
  moreover have "0 \<le> (- a) mod b" "(- a) mod b < b" using assms by simp_all
  moreover have "ceil_div a b * b = - (b * ((- a) div b))" by (simp add: ceil_div_def)
  ultimately show "a \<le> ceil_div a b * b" "ceil_div a b * b < a + b" by linarith+
qed

lemma pages_cover:
  assumes "0 < limit" "ceil_div (int (length rows)) limit \<le> int n"
  shows "concat (map (\<lambda>p. page_slice (int p) limit rows) [1..<Suc n]) = rows"
proof -
  have "int (length rows) \<le> ceil_div (int (length rows)) limit * limit"
    by (rule ceil_div_bounds(1) [OF assms(1)])
  also have "\<dots> \<le> int n * limit" using assms by (intro mult_right_mono) simp_all
  also have "\<dots> = int (n * nat limit)" using assms(1) by simp
  finally have "length rows \<le> n * nat limit" by linarith
  then show ?thesis by (simp only: pages_prefix [OF assms(1)] take_all)
qed

lemma ceil_div_nonneg: "0 < b \<Longrightarrow> 0 \<le> a \<Longrightarrow> 0 \<le> ceil_div a b"
proof (rule ccontr)
  assume *: "0 < b" "0 \<le> a" "\<not> 0 \<le> ceil_div a b"
  then have "ceil_div a b * b < 0" by (intro mult_neg_pos) simp_all
  then show False using ceil_div_bounds(1) [OF *(1), of a] *(2) by linarith
qed

lemma paginate_fields [simp]:
  "pg_data (paginate rows n k page limit) = rows" "pg_totalPages (paginate rows n k page limit) = k"
  "pg_total (paginate rows n k page limit) = n"
  by (simp_all add: paginate_def)

section \<open>The contract of a listing\<close>

text \<open>
  \<open>fetch page limit\<close> is what the listing answers when it is asked for a page of that size,
  \<open>rows\<close> what it lists, in its order; sizes are held between one and a hundred.
\<close>

locale listing =
  fixes fetch :: "int \<Rightarrow> int \<Rightarrow> 'd page_of" and rows :: "'d list" and most fewest :: int
  assumes fetch_page: "1 \<le> page \<Longrightarrow> 1 \<le> limit \<Longrightarrow> limit \<le> most \<Longrightarrow>
      pg_data (fetch page limit) = page_slice page limit rows"
    and fetch_pages: "1 \<le> page \<Longrightarrow> 1 \<le> limit \<Longrightarrow> limit \<le> most \<Longrightarrow>
      pg_totalPages (fetch page limit) = max fewest (ceil_div (int (length rows)) limit)"
begin

lemma walk:
  assumes "1 \<le> limit" "limit \<le> most"
  shows "concat (map (\<lambda>p. pg_data (fetch (int p) limit))
           [1..<Suc (nat (pg_totalPages (fetch 1 limit)))]) = rows"
proof -
  let ?n = "nat (pg_totalPages (fetch 1 limit))"
  have "map (\<lambda>p. pg_data (fetch (int p) limit)) [1..<Suc ?n] =
      map (\<lambda>p. page_slice (int p) limit rows) [1..<Suc ?n]"
    using assms by (intro map_cong refl fetch_page) (auto simp del: upt_Suc)
  moreover have "ceil_div (int (length rows)) limit \<le> int ?n"
    using assms fetch_pages [of 1 limit] by linarith
  moreover have "0 < limit" using assms(1) by simp
  ultimately show ?thesis by (simp only: pages_cover)
qed

lemma page_length: "1 \<le> page \<Longrightarrow> 1 \<le> limit \<Longrightarrow> limit \<le> most \<Longrightarrow>
  length (pg_data (fetch page limit)) \<le> nat limit"
  by (simp add: fetch_page page_slice_def)

end

end
