(* ===== verification/Msg_Db.thy ===== *)
theory Msg_Db
  imports Paging Access
begin

text \<open>
  The data of the messaging side: the Prisma models of \<open>prisma/schema.prisma\<close> that hold
  messages, replies, conversations, templates, Meta's events and what people are notified
  with, the state that holds them beside the billing tables and the webhook outbox, and what
  its services meet from outside.
\<close>

section \<open>Prisma models\<close>

datatype message_type =
    TText | TImage | TVideo | TAudio | TDocument | TTemplate | TInteractive | TLocation | TReaction | TContacts

fun message_type_name :: "message_type \<Rightarrow> string" where
  "message_type_name TText = ''text''"
| "message_type_name TImage = ''image''"
| "message_type_name TVideo = ''video''"
| "message_type_name TAudio = ''audio''"
| "message_type_name TDocument = ''document''"
| "message_type_name TTemplate = ''template''"
| "message_type_name TInteractive = ''interactive''"
| "message_type_name TLocation = ''location''"
| "message_type_name TReaction = ''reaction''"
| "message_type_name TContacts = ''contacts''"

datatype message_status = MSent | MDelivered | MRead | MFailed

datatype template_status =
    TPending | TApproved | TRejected | TFlagged | TDeleted | TDisabled | TIn_Appeal | TPaused |
    TPending_Deletion | TArchived

datatype direction = Inbound | Outbound

datatype conversation_status = CvOpen | CvClosed

record message_row =
  mg_id :: nat
  mg_metaMessageId :: "string option"
  mg_phoneNumberId :: string
  mg_to :: string
  mg_type :: message_type
  mg_payload :: json
  mg_status :: message_status
  mg_userId :: nat
  mg_org :: org
  mg_templateName :: "string option"
  mg_deliveredAt :: "ms option"
  mg_readAt :: "ms option"
  mg_failedAt :: "ms option"
  mg_failureReason :: "string option"
  mg_failureCode :: "int option"
  mg_failureDetail :: "string option"
  mg_createdAt :: ms
  mg_updatedAt :: ms

record inbound_row =
  ib_id :: nat
  ib_metaMessageId :: string
  ib_wabaId :: string
  ib_phoneNumberId :: string
  ib_from :: string
  ib_senderName :: "string option"
  ib_type :: string
  ib_payload :: json
  ib_timestamp :: ms
  ib_createdAt :: ms

record conversation_row =
  cv_id :: nat
  cv_org :: org
  cv_wabaId :: string
  cv_phoneNumberId :: string
  cv_contactPhone :: string
  cv_contactName :: "string option"
  cv_lastMessageAt :: ms
  cv_lastDirection :: direction
  cv_lastPreview :: "string option"
  cv_lastInboundAt :: "ms option"
  cv_unreadCount :: nat
  cv_lastReadAt :: "ms option"
  cv_status :: conversation_status
  cv_assigneeUserId :: "nat option"
  cv_createdAt :: ms

record template_row =
  tp_id :: nat
  tp_metaTemplateId :: string
  tp_wabaId :: string
  tp_name :: string
  tp_language :: string
  tp_category :: string
  tp_status :: template_status
  tp_components :: json
  tp_rejectedReason :: "string option"
  tp_createdAt :: ms
  tp_updatedAt :: ms

record meta_event =
  me_id :: nat
  me_eventType :: string
  me_wabaId :: string
  me_payload :: json
  me_processed :: bool
  me_error :: "string option"
  me_createdAt :: ms

record quality_event =
  qe_phoneNumberId :: string
  qe_wabaId :: string
  qe_qualityRating :: string
  qe_limitTier :: "string option"
  qe_createdAt :: ms

record user_whatsapp =
  uw_userId :: nat
  uw_wabaId :: string
  uw_accessToken :: string

record device_token =
  dv_userId :: nat
  dv_org :: org
  dv_token :: string
  dv_platform :: string
  dv_userAgent :: "string option"
  dv_lastSeenAt :: ms

record notification_preference =
  np_userId :: nat
  np_inboundMessage :: bool
  np_templateStatus :: bool
  np_emailTemplateStatus :: bool
  np_emailDailySummary :: bool
  np_emailWeeklySummary :: bool
  np_emailProductNews :: bool

record notification_row =
  nt_id :: nat
  nt_userId :: nat
  nt_org :: "org option"
  nt_kind :: string
  nt_title :: string
  nt_body :: string
  nt_link :: "string option"
  nt_readAt :: "ms option"
  nt_createdAt :: ms

section \<open>What the services send\<close>

record push_message =
  pm_title :: string
  pm_body :: string
  pm_link :: "string option"
  pm_data :: "(string \<times> string) list"

text \<open>The mails the handlers ask for, handed over and not waited for.\<close>

datatype alert =
    AlertBanned string json
  | AlertQuality string string string "string option"
  | AlertName string "json option" "json option" "json option"
  | AlertTemplate string nat string template_status "string option"
  | AlertToken string "json option"

text \<open>A POST to \<open>/{phoneNumberId}/messages\<close> of the Graph API, with the token it carries.\<close>

record graph_request =
  gr_phoneNumberId :: string
  gr_body :: json
  gr_token :: string

text \<open>Its answer: a body, or a status and a body the client throws on, or no answer at all.\<close>

datatype graph_answer =
    GraphOk "json option"
  | GraphRefused int "json option" string
  | GraphLost string

text \<open>Firebase's answer to a multicast: how many it took, and per token whether it did and the
  code of the error if not.\<close>

record fcm_response =
  fr_successCount :: int
  fr_failureCount :: int
  fr_responses :: "(bool \<times> string option) list"

section \<open>State and environment\<close>

record mworld =
  m_core :: world
  m_hooks :: hook_world
  m_connections :: "user_whatsapp list"
  m_messages :: "message_row list"
  m_inbound :: "inbound_row list"
  m_conversations :: "conversation_row list"
  m_templates :: "template_row list"
  m_events :: "meta_event list"
  m_quality :: "quality_event list"
  m_devices :: "device_token list"
  m_prefs :: "notification_preference list"
  m_notifications :: "notification_row list"
  m_pushes :: "(string list \<times> push_message) list"
  m_alerts :: "alert list"
  m_graph :: "graph_request list"
  m_nextId :: nat

text \<open>
  \<open>mv_raises\<close>: which Prisma statements fail; \<open>mv_push\<close>: Firebase, \<open>None\<close> without credentials,
  answering \<open>None\<close> when the call throws; \<open>mv_decrypt\<close>: the cipher of the stored tokens,
  \<open>None\<close> when it throws; \<open>mv_graph\<close>: the Graph API, which may answer by everything sent so far.
\<close>

record menv =
  mv_core :: env
  mv_hooks :: hook_env
  mv_raises :: "string \<Rightarrow> bool"
  mv_push :: "(string list \<Rightarrow> push_message \<Rightarrow> ms \<Rightarrow> fcm_response option) option"
  mv_decrypt :: "string \<Rightarrow> string option"
  mv_graph :: "graph_request list \<Rightarrow> graph_request \<Rightarrow> graph_answer"

text \<open>There is one clock, the one the outbox runs by.\<close>

definition mnow :: "mworld \<Rightarrow> ms" where
  "mnow m = hw_clock (m_hooks m)"

definition core_env :: "menv \<Rightarrow> mworld \<Rightarrow> env" where
  "core_env v m = (mv_core v)\<lparr>e_now := mnow m\<rparr>"

text \<open>A method over the billing tables, run in the whole state.\<close>

definition in_core :: "(world, 'a) svc \<Rightarrow> (mworld, 'a) svc" where
  "in_core f m = (let (r, c) = f (m_core m) in (r, m\<lparr>m_core := c\<rparr>))"

lemma in_core_simps [simp]:
  "f (m_core m) = (r, c) \<Longrightarrow> in_core f m = (r, m\<lparr>m_core := c\<rparr>)"
  by (simp add: in_core_def)

lemma mnow_update [simp]:
  "mnow (m_core_update f m) = mnow m" "mnow (m_messages_update g m) = mnow m"
  "mnow (m_conversations_update g2 m) = mnow m" "mnow (m_notifications_update g3 m) = mnow m"
  "mnow (m_nextId_update g4 m) = mnow m" "mnow (m_devices_update g5 m) = mnow m"
  "mnow (m_pushes_update g6 m) = mnow m" "mnow (m_inbound_update g7 m) = mnow m"
  "mnow (m_events_update g8 m) = mnow m" "mnow (m_alerts_update g9 m) = mnow m"
  "mnow (m_templates_update g10 m) = mnow m" "mnow (m_quality_update g11 m) = mnow m"
  "mnow (m_graph_update g12 m) = mnow m"
  by (simp_all add: mnow_def)

text \<open>Does this organisation hold the account? (\<open>WabaMembershipService.holds\<close>)\<close>

definition membership_holds :: "org \<Rightarrow> string \<Rightarrow> world \<Rightarrow> bool" where
  "membership_holds ssoOrgId wabaId w =
     (0 < count_rows (\<lambda>r. wo_wabaId r = wabaId \<and> wo_org r = ssoOrgId) (w_wabaOrgs w))"

lemma membership_holds_iff:
  "membership_holds x a w \<longleftrightarrow> (\<exists>r \<in> set (w_wabaOrgs w). wo_wabaId r = a \<and> wo_org r = x)"
  by (auto simp: membership_holds_def count_rows_def filter_empty_conv)

definition holders :: "string \<Rightarrow> world \<Rightarrow> org list" where
  "holders wabaId w = map wo_org (filter (\<lambda>r. wo_wabaId r = wabaId) (w_wabaOrgs w))"

lemma set_holders: "x \<in> set (holders a w) \<longleftrightarrow> membership_holds x a w"
  by (auto simp: holders_def membership_holds_iff)

text \<open>\<open>normalisePhone\<close> (\<open>src/common/utils/phone.ts\<close>): the digits.\<close>

definition normalisePhone :: "string \<Rightarrow> string" where
  "normalisePhone value = filter is_digit value"

lemma normalisePhone_idem [simp]: "normalisePhone (normalisePhone s) = normalisePhone s"
  by (simp add: normalisePhone_def)

lemma normalisePhone_append [simp]: "normalisePhone (s @ t) = normalisePhone s @ normalisePhone t"
  by (simp add: normalisePhone_def)

section \<open>Where the instances start\<close>

definition empty_hooks :: hook_world where
  "empty_hooks =
     \<lparr>hw_endpoints = [], hw_deliveries = [], hw_posts = [], hw_mails = [], hw_clock = 864000000, hw_nextId = 1\<rparr>"

definition messaging_world :: mworld where
  "messaging_world =
     \<lparr>m_core = sample_world, m_hooks = empty_hooks,
      m_connections = [\<lparr>uw_userId = 1, uw_wabaId = ''waba1'', uw_accessToken = ''enc''\<rparr>],
      m_messages = [], m_inbound = [], m_conversations = [], m_templates = [], m_events = [],
      m_quality = [], m_devices = [], m_prefs = [], m_notifications = [], m_pushes = [],
      m_alerts = [], m_graph = [], m_nextId = 1\<rparr>"

definition plain_hooks :: hook_env where
  "plain_hooks =
     \<lparr>hk_receiver = (\<lambda>_ _. Responds 200 None 5), hk_decrypt = (\<lambda>s. Some s), hk_hmac = (\<lambda>_ _. ''00''),
      hk_stored = (\<lambda>fs. fs), hk_raises = (\<lambda>_. False)\<rparr>"

definition sample_menv :: menv where
  "sample_menv =
     \<lparr>mv_core = sample_env, mv_hooks = plain_hooks, mv_raises = (\<lambda>_. False), mv_push = None,
      mv_decrypt = (\<lambda>s. Some s),
      mv_graph = (\<lambda>h _. GraphOk (Some (JObj [(''messages'', JArr [JObj [(''id'',
        JStr (''wamid.'' @ nat_str (length h)))]])])))\<rparr>"

end
