(* ===== verification/Notifications.thy ===== *)
theory Notifications
  imports Msg_Db
begin

text \<open>
  \<open>src/notifications/notifications.service.ts\<close> and \<open>firebase.service.ts\<close>: the devices a push
  may reach, what each person switched off, the feed behind the bell, and the fan-out of one
  event to everybody connected to an account.
\<close>

section \<open>Firebase\<close>

record push_result =
  pr_sent :: int
  pr_failed :: int
  pr_staleTokens :: "string list"

definition firebase_enabled :: "menv \<Rightarrow> bool" where
  "firebase_enabled v = (mv_push v \<noteq> None)"

definition stale_codes :: "string list" where
  "stale_codes = [''messaging/registration-token-not-registered'',
     ''messaging/invalid-registration-token'', ''messaging/invalid-argument'']"

definition stale_token :: "string \<times> (bool \<times> string option) \<Rightarrow> bool" where
  "stale_token r = (case r of (token, success, code) \<Rightarrow>
     \<not> success \<and> nullish_def_val code [] \<in> set stale_codes)"

text \<open>Firebase answers for each token in its place.\<close>

definition sendToTokens :: "menv \<Rightarrow> string list \<Rightarrow> push_message \<Rightarrow> mworld \<Rightarrow> push_result \<times> mworld" where
  "sendToTokens v tokens message m =
     (let nothing = \<lparr>pr_sent = 0, pr_failed = 0, pr_staleTokens = []\<rparr> in
      case mv_push v of
        None \<Rightarrow> (nothing, m)
      | Some multicast \<Rightarrow>
          if tokens = [] then (nothing, m)
          else
            let m' = m\<lparr>m_pushes := m_pushes m @ [(tokens, message)]\<rparr> in
            case multicast tokens message (mnow m) of
              None \<Rightarrow> (nothing\<lparr>pr_failed := int (length tokens)\<rparr>, m')
            | Some response \<Rightarrow>
                (\<lparr>pr_sent = fr_successCount response, pr_failed = fr_failureCount response,
                  pr_staleTokens = map fst (filter stale_token (zip tokens (fr_responses response)))\<rparr>, m'))"

section \<open>Devices\<close>

record register_token_dto =
  rt_token :: string
  rt_platform :: "string option"
  rt_userAgent :: "string option"

definition count_devices :: "nat \<Rightarrow> mworld \<Rightarrow> nat" where
  "count_devices userId m = count_rows (\<lambda>d. dv_userId d = userId) (m_devices m)"

definition registerToken :: "nat \<Rightarrow> org \<Rightarrow> register_token_dto \<Rightarrow> mworld \<Rightarrow> nat \<times> mworld" where
  "registerToken userId ssoOrgId dto m =
     (let row = \<lparr>dv_userId = userId, dv_org = ssoOrgId, dv_token = rt_token dto,
            dv_platform = nullish_def_val (rt_platform dto) ''web'', dv_userAgent = rt_userAgent dto,
            dv_lastSeenAt = mnow m\<rparr>;
          devices = (if list_ex (\<lambda>d. dv_token d = rt_token dto) (m_devices m)
                     then update_rows (\<lambda>d. dv_token d = rt_token dto) (\<lambda>_. row) (m_devices m)
                     else m_devices m @ [row]);
          m' = m\<lparr>m_devices := devices\<rparr>
      in (count_devices userId m', m'))"

definition removeToken :: "nat \<Rightarrow> string \<Rightarrow> mworld \<Rightarrow> nat \<times> mworld" where
  "removeToken userId token m =
     (let m' = m\<lparr>m_devices := filter (\<lambda>d. \<not> (dv_userId d = userId \<and> dv_token d = token)) (m_devices m)\<rparr>
      in (count_devices userId m', m'))"

section \<open>Preferences\<close>

datatype notification_kind = KInboundMessage | KTemplateStatus

fun notification_kind_name :: "notification_kind \<Rightarrow> string" where
  "notification_kind_name KInboundMessage = ''inboundMessage''"
| "notification_kind_name KTemplateStatus = ''templateStatus''"

fun wants :: "notification_kind \<Rightarrow> notification_preference \<Rightarrow> bool" where
  "wants KInboundMessage = np_inboundMessage"
| "wants KTemplateStatus = np_templateStatus"

text \<open>\<open>DEFAULT_PREFERENCES\<close>, in the row of the user it stands for.\<close>

definition DEFAULT_PREFERENCES :: "nat \<Rightarrow> notification_preference" where
  "DEFAULT_PREFERENCES userId =
     \<lparr>np_userId = userId, np_inboundMessage = True, np_templateStatus = True,
      np_emailTemplateStatus = True, np_emailDailySummary = True, np_emailWeeklySummary = False,
      np_emailProductNews = False\<rparr>"

record preferences_dto =
  pd_preferences :: notification_preference
  pd_deviceCount :: nat
  pd_pushEnabled :: bool

record update_preferences_dto =
  up_inboundMessage :: "bool option"
  up_templateStatus :: "bool option"
  up_emailTemplateStatus :: "bool option"
  up_emailDailySummary :: "bool option"
  up_emailWeeklySummary :: "bool option"
  up_emailProductNews :: "bool option"

definition preference_row :: "nat \<Rightarrow> mworld \<Rightarrow> notification_preference option" where
  "preference_row userId m = List.find (\<lambda>p. np_userId p = userId) (m_prefs m)"

definition getPreferences :: "menv \<Rightarrow> nat \<Rightarrow> mworld \<Rightarrow> preferences_dto" where
  "getPreferences v userId m =
     \<lparr>pd_preferences = nullish_def_val (preference_row userId m) (DEFAULT_PREFERENCES userId),
      pd_deviceCount = count_devices userId m, pd_pushEnabled = firebase_enabled v\<rparr>"

text \<open>A field left out is left alone.\<close>

definition apply_preferences ::
  "update_preferences_dto \<Rightarrow> notification_preference \<Rightarrow> notification_preference" where
  "apply_preferences dto p =
     p\<lparr>np_inboundMessage := nullish_def_val (up_inboundMessage dto) (np_inboundMessage p),
       np_templateStatus := nullish_def_val (up_templateStatus dto) (np_templateStatus p),
       np_emailTemplateStatus := nullish_def_val (up_emailTemplateStatus dto) (np_emailTemplateStatus p),
       np_emailDailySummary := nullish_def_val (up_emailDailySummary dto) (np_emailDailySummary p),
       np_emailWeeklySummary := nullish_def_val (up_emailWeeklySummary dto) (np_emailWeeklySummary p),
       np_emailProductNews := nullish_def_val (up_emailProductNews dto) (np_emailProductNews p)\<rparr>"

definition updatePreferences ::
  "menv \<Rightarrow> nat \<Rightarrow> update_preferences_dto \<Rightarrow> mworld \<Rightarrow> preferences_dto \<times> mworld" where
  "updatePreferences v userId dto m =
     (let prefs = (if preference_row userId m = None
                   then m_prefs m @ [apply_preferences dto (DEFAULT_PREFERENCES userId)]
                   else update_rows (\<lambda>p. np_userId p = userId) (apply_preferences dto) (m_prefs m));
          m' = m\<lparr>m_prefs := prefs\<rparr>
      in (getPreferences v userId m', m'))"

section \<open>Sending\<close>

text \<open>Send, then drop the tokens Firebase reported as dead.\<close>

definition deliver :: "menv \<Rightarrow> string list \<Rightarrow> push_message \<Rightarrow> mworld \<Rightarrow> (int \<times> int) \<times> mworld" where
  "deliver v tokens message m =
     (let (result, m1) = sendToTokens v tokens message m;
          m2 = (if pr_staleTokens result = [] \<or> mv_raises v ''deviceToken.deleteMany'' then m1
                else m1\<lparr>m_devices := filter (\<lambda>d. dv_token d \<notin> set (pr_staleTokens result)) (m_devices m1)\<rparr>)
      in ((pr_sent result, pr_failed result), m2))"

definition sendToUser :: "menv \<Rightarrow> nat \<Rightarrow> push_message \<Rightarrow> mworld \<Rightarrow> (int \<times> int) \<times> mworld" where
  "sendToUser v userId message m =
     deliver v (map dv_token (filter (\<lambda>d. dv_userId d = userId) (m_devices m))) message m"

definition opted_out_of :: "notification_kind \<Rightarrow> mworld \<Rightarrow> nat set" where
  "opted_out_of kind m = np_userId ` set (filter (\<lambda>p. \<not> wants kind p) (m_prefs m))"

definition notification_push ::
  "menv \<Rightarrow> nat list \<Rightarrow> notification_kind \<Rightarrow> push_message \<Rightarrow> mworld \<Rightarrow> mworld" where
  "notification_push v userIds kind message m =
     (if userIds = [] \<or> \<not> firebase_enabled v \<or> mv_raises v ''notificationPreference.findMany'' then m
      else
        let wanted = filter (\<lambda>u. u \<notin> opted_out_of kind m) userIds in
        if wanted = [] \<or> mv_raises v ''deviceToken.findMany'' then m
        else
          let tokens = map dv_token (filter (\<lambda>d. dv_userId d \<in> set wanted) (m_devices m)) in
          if tokens = [] then m else snd (deliver v tokens message m))"

definition new_notification ::
  "string \<Rightarrow> push_message \<Rightarrow> org option \<Rightarrow> ms \<Rightarrow> nat \<times> nat \<Rightarrow> notification_row" where
  "new_notification kind message ssoOrgId now r =
     \<lparr>nt_id = fst r, nt_userId = snd r, nt_org = ssoOrgId, nt_kind = kind, nt_title = pm_title message,
      nt_body = pm_body message, nt_link = pm_link message, nt_readAt = None, nt_createdAt = now\<rparr>"

text \<open>One entry per recipient, written in one statement.\<close>

definition notification_record ::
  "menv \<Rightarrow> nat list \<Rightarrow> string \<Rightarrow> push_message \<Rightarrow> org option \<Rightarrow> mworld \<Rightarrow> mworld" where
  "notification_record v userIds kind message ssoOrgId m =
     (if mv_raises v ''notification.createMany'' then m
      else m\<lparr>m_notifications := m_notifications m @
               map (new_notification kind message ssoOrgId (mnow m))
                 (zip [m_nextId m..<m_nextId m + length userIds] userIds),
             m_nextId := m_nextId m + length userIds\<rparr>)"

definition notifyUsers ::
  "menv \<Rightarrow> nat list \<Rightarrow> notification_kind \<Rightarrow> push_message \<Rightarrow> org option \<Rightarrow> mworld \<Rightarrow> mworld" where
  "notifyUsers v userIds kind message ssoOrgId m =
     (if userIds = [] then m
      else notification_push v userIds kind message
             (notification_record v userIds (notification_kind_name kind) message ssoOrgId m))"

text \<open>The connected users once each, the organisations that hold the account, or none.\<close>

definition connected_users :: "string \<Rightarrow> mworld \<Rightarrow> nat list" where
  "connected_users wabaId m =
     rev (remdups (rev (map uw_userId (filter (\<lambda>c. uw_wabaId c = wabaId) (m_connections m)))))"

definition feed_orgs :: "string \<Rightarrow> world \<Rightarrow> org option list" where
  "feed_orgs wabaId w = (let orgs = holders wabaId w in if orgs = [] then [None] else map Some orgs)"

definition notifyWaba ::
  "menv \<Rightarrow> string \<Rightarrow> notification_kind \<Rightarrow> push_message \<Rightarrow> mworld \<Rightarrow> mworld" where
  "notifyWaba v wabaId kind message m =
     (if mv_raises v ''userWhatsapp.findMany'' \<or> mv_raises v ''wabaOrganisation.findMany'' then m
      else
        let userIds = connected_users wabaId m in
        if userIds = [] then m
        else notification_push v userIds kind message
               (fold (notification_record v userIds (notification_kind_name kind) message)
                 (feed_orgs wabaId (m_core m)) m))"

section \<open>The feed\<close>

definition in_scope :: "nat \<Rightarrow> org \<Rightarrow> notification_row \<Rightarrow> bool" where
  "in_scope userId ssoOrgId n = (nt_userId n = userId \<and> (nt_org n = Some ssoOrgId \<or> nt_org n = None))"

record notification_dto =
  nd_id :: nat
  nd_kind :: string
  nd_title :: string
  nd_body :: string
  nd_link :: "string option"
  nd_readAt :: "ms option"
  nd_createdAt :: ms

definition notification_toDto :: "notification_row \<Rightarrow> notification_dto" where
  "notification_toDto n =
     \<lparr>nd_id = nt_id n, nd_kind = nt_kind n, nd_title = nt_title n, nd_body = nt_body n,
      nd_link = nt_link n, nd_readAt = nt_readAt n, nd_createdAt = nt_createdAt n\<rparr>"

definition notification_list ::
  "nat \<Rightarrow> org \<Rightarrow> int option \<Rightarrow> int option \<Rightarrow> mworld \<Rightarrow> notification_dto page_of" where
  "notification_list userId ssoOrgId page limit m =
     (let page = max 1 (nullish_def_val page 1);
          limit = min 100 (max 1 (nullish_def_val limit 20));
          rows = filter (in_scope userId ssoOrgId) (m_notifications m);
          total_rows = int (length rows)
      in paginate (map notification_toDto (page_slice page limit (newest_first nt_createdAt rows)))
           total_rows (max 1 (ceil_div total_rows limit)) page limit)"

definition unreadCount :: "nat \<Rightarrow> org \<Rightarrow> mworld \<Rightarrow> nat" where
  "unreadCount userId ssoOrgId m =
     count_rows (\<lambda>n. in_scope userId ssoOrgId n \<and> nt_readAt n = None) (m_notifications m)"

definition notification_markRead ::
  "nat \<Rightarrow> org \<Rightarrow> nat list option \<Rightarrow> mworld \<Rightarrow> (nat \<times> nat) \<times> mworld" where
  "notification_markRead userId ssoOrgId ids m =
     (let hit = (\<lambda>n. in_scope userId ssoOrgId n \<and> nt_readAt n = None \<and>
            (case ids of None \<Rightarrow> True | Some chosen \<Rightarrow> chosen = [] \<or> nt_id n \<in> set chosen));
          m' = m\<lparr>m_notifications := update_rows hit (\<lambda>n. n\<lparr>nt_readAt := Some (mnow m)\<rparr>) (m_notifications m)\<rparr>
      in ((count_rows hit (m_notifications m), unreadCount userId ssoOrgId m'), m'))"

interpretation bell: listing
  "\<lambda>page limit. notification_list userId x (Some page) (Some limit) m"
  "map notification_toDto (newest_first nt_createdAt (filter (in_scope userId x) (m_notifications m)))"
  100 1 for userId x m
  by unfold_locales (simp_all add: notification_list_def Let_def nullish_def_val_def page_slice_map)

end
