(* ===== verification/Conversations.thy ===== *)
theory Conversations
  imports Notifications
begin

text \<open>
  The conversation list: the one-line previews (\<open>src/inbox/preview.ts\<close>) and the writer that
  keeps one row per organisation, number and customer current as messages land
  (\<open>src/inbox/conversation-writer.service.ts\<close>).
\<close>

section \<open>Previews\<close>

definition MAX_PREVIEW :: nat where "MAX_PREVIEW = 120"

text \<open>A record of the module read with \<open>RECORD[key] ?? fallback\<close>; the names of
  \<open>Object.prototype\<close> are not used as types.\<close>

definition INBOUND_SUMMARY :: "(string \<times> string) list" where
  "INBOUND_SUMMARY =
     [(''image'', ''Sent a photo''), (''video'', ''Sent a video''), (''audio'', ''Sent a voice message''),
      (''document'', ''Sent a document''), (''sticker'', ''Sent a sticker''),
      (''location'', ''Shared a location''), (''contacts'', ''Shared a contact''),
      (''reaction'', ''Reacted to a message''), (''button'', ''Tapped a button''),
      (''interactive'', ''Made a choice''), (''order'', ''Sent an order''),
      (''unsupported'', ''Sent an unsupported message'')]"

definition OUTBOUND_SUMMARY :: "(string \<times> string) list" where
  "OUTBOUND_SUMMARY =
     [(''image'', ''Photo''), (''video'', ''Video''), (''audio'', ''Voice message''),
      (''document'', ''Document''), (''location'', ''Location''), (''contacts'', ''Contact''),
      (''reaction'', ''Reaction''), (''interactive'', ''Interactive message''), (''template'', ''Template'')]"

text \<open>\<open>text.replace(/\s+/g, ' ')\<close>\<close>

fun collapse_spaces :: "string \<Rightarrow> string" where
  "collapse_spaces [] = []"
| "collapse_spaces (c # cs) =
     (if js_space c
      then CHR '' '' # (case collapse_spaces cs of
                          [] \<Rightarrow> []
                        | d # ds \<Rightarrow> if js_space (hd cs) then ds else d # ds)
      else c # collapse_spaces cs)"

definition clamp :: "string \<Rightarrow> string" where
  "clamp text_in =
     (let clean_text = js_trim (collapse_spaces text_in) in
      if MAX_PREVIEW < js_length clean_text then js_take (MAX_PREVIEW - 1) clean_text @ ellipsis
      else clean_text)"

text \<open>\<open>typeof words === 'string' && words.trim()\<close>\<close>

definition words_of :: "json option \<Rightarrow> string option" where
  "words_of v = (case v of Some (JStr s) \<Rightarrow> if js_trim s = [] then None else Some s | _ \<Rightarrow> None)"

definition inboundPreview :: "string option \<Rightarrow> json \<Rightarrow> string" where
  "inboundPreview type_in payload =
     (let fields = Some payload;
          words = j_or (j_get ''body'' fields) (j_or (j_get ''caption'' fields) (j_get ''text'' fields))
      in case words_of words of
           Some s \<Rightarrow> clamp s
         | None \<Rightarrow> nullish_def_val (Option.bind type_in (map_of INBOUND_SUMMARY)) ''Sent a message'')"

definition outboundPreview :: "string \<Rightarrow> json \<Rightarrow> string option \<Rightarrow> string" where
  "outboundPreview type_in payload templateName =
     (let body = Some payload in
      if type_in = ''template'' then
        let name = (case templateName of Some n \<Rightarrow> Some (JStr n) | None \<Rightarrow> j_get ''name'' (j_get ''template'' body))
        in if j_truthy name then clamp (''Template '' @ middle_dot @ '' '' @ j_String (the name)) else ''Template''
      else
        let block = j_get type_in body;
            words = j_or (j_get ''body'' block) (j_get ''caption'' block) in
        case words_of words of
          Some s \<Rightarrow> clamp s
        | None \<Rightarrow>
            (case (if type_in = ''interactive''
                   then words_of (j_get ''text'' (j_get ''body'' (j_get ''interactive'' body))) else None) of
               Some s \<Rightarrow> clamp s
             | None \<Rightarrow> nullish_def_val (map_of OUTBOUND_SUMMARY type_in) ''Message''))"

text \<open>No preview is longer than the column shows.\<close>

lemma clamp_length: "js_length (clamp s) \<le> MAX_PREVIEW"
proof -
  have "js_length (js_take (MAX_PREVIEW - 1) t) \<le> MAX_PREVIEW - 1" for t by (rule js_length_take)
  moreover have "js_length ellipsis = 1" by (simp add: ellipsis_def code_units_def)
  moreover have "(1 :: nat) \<le> MAX_PREVIEW" by (simp add: MAX_PREVIEW_def)
  ultimately show ?thesis by (auto simp: clamp_def Let_def le_diff_conv2)
qed

lemma inboundPreview_length: "js_length (inboundPreview t p) \<le> MAX_PREVIEW"
proof -
  have "js_length s \<le> MAX_PREVIEW" if "map_of INBOUND_SUMMARY k = Some s" for k s
    using that by (auto simp: INBOUND_SUMMARY_def MAX_PREVIEW_def code_units_def split: if_splits)
  moreover have "js_length ''Sent a message'' \<le> MAX_PREVIEW" by (simp add: MAX_PREVIEW_def code_units_def)
  ultimately show ?thesis
    by (auto simp: inboundPreview_def Let_def clamp_length nullish_def_val_def bind_eq_Some_conv
        split: option.splits simp del: js_length_simps)
qed

lemma outboundPreview_length: "js_length (outboundPreview t p n) \<le> MAX_PREVIEW"
proof -
  have "js_length s \<le> MAX_PREVIEW" if "map_of OUTBOUND_SUMMARY k = Some s" for k s
    using that by (auto simp: OUTBOUND_SUMMARY_def MAX_PREVIEW_def code_units_def split: if_splits)
  moreover have "js_length ''Message'' \<le> MAX_PREVIEW" "js_length ''Template'' \<le> MAX_PREVIEW"
    by (simp_all add: MAX_PREVIEW_def code_units_def)
  ultimately show ?thesis
    by (auto simp: outboundPreview_def Let_def clamp_length nullish_def_val_def split: option.splits
        simp del: js_length_simps)
qed

section \<open>The writer\<close>

definition conversation_key :: "conversation_row \<Rightarrow> org \<times> string \<times> string" where
  "conversation_key c = (cv_org c, cv_phoneNumberId c, cv_contactPhone c)"

text \<open>\<open>conversation.upsert\<close> on the key \<open>ssoOrgId_phoneNumberId_contactPhone\<close>.\<close>

definition upsert_conversation ::
  "org \<times> string \<times> string \<Rightarrow> (nat \<Rightarrow> ms \<Rightarrow> conversation_row) \<Rightarrow> (conversation_row \<Rightarrow> conversation_row) \<Rightarrow>
   mworld \<Rightarrow> mworld" where
  "upsert_conversation k fresh change m =
     (if list_ex (\<lambda>c. conversation_key c = k) (m_conversations m)
      then m\<lparr>m_conversations := update_rows (\<lambda>c. conversation_key c = k) change (m_conversations m)\<rparr>
      else m\<lparr>m_conversations := m_conversations m @ [fresh (m_nextId m) (mnow m)],
             m_nextId := Suc (m_nextId m)\<rparr>)"

text \<open>A reply as the handler hands it over: text columns already found to be text, the name
  left out when the payload has none, the instant \<open>None\<close> when it is an invalid date, which the
  database refuses.\<close>

record inbound_input =
  ii_wabaId :: string
  ii_phoneNumberId :: string
  ii_from :: string
  ii_senderName :: "string option"
  ii_type :: "string option"
  ii_payload :: json
  ii_timestamp :: "ms option"

definition inbound_conversation :: "inbound_input \<Rightarrow> org \<Rightarrow> string \<Rightarrow> string \<Rightarrow> ms \<Rightarrow> nat \<Rightarrow> ms \<Rightarrow> conversation_row" where
  "inbound_conversation r ssoOrgId contactPhone preview at i now =
     \<lparr>cv_id = i, cv_org = ssoOrgId, cv_wabaId = ii_wabaId r, cv_phoneNumberId = ii_phoneNumberId r,
      cv_contactPhone = contactPhone, cv_contactName = ii_senderName r, cv_lastMessageAt = at,
      cv_lastDirection = Inbound, cv_lastPreview = Some preview, cv_lastInboundAt = Some at,
      cv_unreadCount = 1, cv_lastReadAt = None, cv_status = CvOpen, cv_assigneeUserId = None,
      cv_createdAt = now\<rparr>"

definition inbound_change :: "inbound_input \<Rightarrow> string \<Rightarrow> ms \<Rightarrow> conversation_row \<Rightarrow> conversation_row" where
  "inbound_change r preview at c =
     c\<lparr>cv_contactName := (if truthy (ii_senderName r) then ii_senderName r else cv_contactName c),
       cv_lastMessageAt := at, cv_lastDirection := Inbound, cv_lastPreview := Some preview,
       cv_lastInboundAt := Some at, cv_unreadCount := Suc (cv_unreadCount c), cv_status := CvOpen\<rparr>"

definition recordInbound :: "menv \<Rightarrow> inbound_input \<Rightarrow> mworld \<Rightarrow> mworld" where
  "recordInbound v r m =
     (let contactPhone = normalisePhone (ii_from r) in
      if contactPhone = [] \<or> mv_raises v ''wabaOrganisation.findMany'' then m
      else
        let preview = inboundPreview (ii_type r) (ii_payload r) in
        case ii_timestamp r of
          None \<Rightarrow> m
        | Some at \<Rightarrow>
            if mv_raises v ''conversation.upsert'' then m
            else fold (\<lambda>ssoOrgId. upsert_conversation (ssoOrgId, ii_phoneNumberId r, contactPhone)
                    (inbound_conversation r ssoOrgId contactPhone preview at) (inbound_change r preview at))
                  (holders (ii_wabaId r) (m_core m)) m)"

record outbound_input =
  oi_org :: org
  oi_wabaId :: string
  oi_phoneNumberId :: string
  oi_to :: string
  oi_type :: string
  oi_payload :: json
  oi_templateName :: "string option"
  oi_sentAt :: ms

definition outbound_conversation :: "outbound_input \<Rightarrow> string \<Rightarrow> string \<Rightarrow> nat \<Rightarrow> ms \<Rightarrow> conversation_row" where
  "outbound_conversation r contactPhone preview i now =
     \<lparr>cv_id = i, cv_org = oi_org r, cv_wabaId = oi_wabaId r, cv_phoneNumberId = oi_phoneNumberId r,
      cv_contactPhone = contactPhone, cv_contactName = None, cv_lastMessageAt = oi_sentAt r,
      cv_lastDirection = Outbound, cv_lastPreview = Some preview, cv_lastInboundAt = None,
      cv_unreadCount = 0, cv_lastReadAt = None, cv_status = CvOpen, cv_assigneeUserId = None,
      cv_createdAt = now\<rparr>"

definition outbound_change :: "outbound_input \<Rightarrow> string \<Rightarrow> conversation_row \<Rightarrow> conversation_row" where
  "outbound_change r preview c =
     c\<lparr>cv_lastMessageAt := oi_sentAt r, cv_lastDirection := Outbound, cv_lastPreview := Some preview\<rparr>"

definition recordOutbound :: "menv \<Rightarrow> outbound_input \<Rightarrow> mworld \<Rightarrow> mworld" where
  "recordOutbound v r m =
     (let contactPhone = normalisePhone (oi_to r) in
      if contactPhone = [] then m
      else
        let preview = outboundPreview (oi_type r) (oi_payload r) (oi_templateName r) in
        if mv_raises v ''conversation.upsert'' then m
        else upsert_conversation (oi_org r, oi_phoneNumberId r, contactPhone)
               (outbound_conversation r contactPhone preview) (outbound_change r preview) m)"

end
