(* ===== verification/Js_Value.thy ===== *)
theory Js_Value
  imports Json Razorpay
begin

text \<open>
  What the webhook handlers do with a JSON value of unknown shape, as JavaScript does it:
  reading a member of something that may not be there, iterating what may not be a list,
  \<open>Number\<close> of a timestamp, \<open>encodeURIComponent\<close>, and \<open>JSON.parse\<close> of the text Meta sometimes
  sends in the place of an object. Numbers are integers throughout; a numeral with a fraction
  or an exponent parses as its integer part.
\<close>

section \<open>Members and elements\<close>

definition read_error :: "string \<Rightarrow> string \<Rightarrow> http_exn" where
  "read_error what k = RuntimeError (''Cannot read properties of '' @ what @ '' (reading '' @
     [CHR 0x27] @ k @ [CHR 0x27] @ '')'')"

text \<open>\<open>v.k\<close>: throws on \<open>undefined\<close> and \<open>null\<close>, and is \<open>undefined\<close> where there is no such member.\<close>

definition js_read :: "string \<Rightarrow> json option \<Rightarrow> ('s, json option) svc" where
  "js_read k v =
     (case v of
        None \<Rightarrow> throwE (read_error ''undefined'' k)
      | Some JNull \<Rightarrow> throwE (read_error ''null'' k)
      | Some _ \<Rightarrow> retE (j_get k v))"

text \<open>The characters of a text, which iterating it gives one by one.\<close>

function text_chars :: "string \<Rightarrow> string list" where
  "text_chars [] = []"
| "text_chars (c # cs) =
     (c # takeWhile (\<lambda>d. code_units d = 0) cs) # text_chars (dropWhile (\<lambda>d. code_units d = 0) cs)"
  by pat_completeness auto
termination by (relation "measure length") (simp_all add: less_Suc_eq_le length_dropWhile_le)

text \<open>\<open>for (const x of v ?? [])\<close>\<close>

definition js_elements :: "json option \<Rightarrow> ('s, json list) svc" where
  "js_elements v =
     (case v of
        None \<Rightarrow> retE []
      | Some JNull \<Rightarrow> retE []
      | Some (JArr xs) \<Rightarrow> retE xs
      | Some (JStr s) \<Rightarrow> retE (map JStr (text_chars s))
      | Some _ \<Rightarrow> throwE (RuntimeError ''value is not iterable''))"

text \<open>\<open>v?.[0]\<close>\<close>

definition js_first :: "json option \<Rightarrow> json option" where
  "js_first v = (case v of
      Some (JArr xs) \<Rightarrow> first_of xs | Some (JObj fs) \<Rightarrow> map_of fs ''0''
    | Some (JStr s) \<Rightarrow> map_option JStr (case text_chars s of [] \<Rightarrow> None | c # _ \<Rightarrow> Some c)
    | _ \<Rightarrow> None)"

text \<open>\<open>String(v)\<close>, of \<open>undefined\<close> too.\<close>

definition js_text :: "json option \<Rightarrow> string" where
  "js_text v = (case v of None \<Rightarrow> ''undefined'' | Some x \<Rightarrow> j_String x)"

section \<open>Number\<close>

text \<open>A text of decimal digits with an optional sign, white space around it, or nothing at all;
  other numerals are not a number here.\<close>

definition text_number :: "string \<Rightarrow> int option" where
  "text_number s =
     (let t = js_trim s;
          unsigned = (\<lambda>d. if d \<noteq> [] \<and> list_all is_digit d then Some (int (str_nat d)) else None)
      in case t of
           [] \<Rightarrow> Some 0
         | c # cs \<Rightarrow>
             if c = CHR ''-'' then map_option uminus (unsigned cs)
             else if c = CHR ''+'' then unsigned cs else unsigned t)"

definition js_Number :: "json option \<Rightarrow> int option" where
  "js_Number v = (case v of
      None \<Rightarrow> None
    | Some JNull \<Rightarrow> Some 0
    | Some (JBool b) \<Rightarrow> Some (if b then 1 else 0)
    | Some (JNum n) \<Rightarrow> Some n
    | Some (JStr s) \<Rightarrow> text_number s
    | Some (JArr xs) \<Rightarrow> text_number (j_String (JArr xs))
    | Some (JObj _) \<Rightarrow> None)"

text \<open>\<open>new Date(n)\<close>: \<open>None\<close> is an invalid date.\<close>

definition js_date :: "int option \<Rightarrow> ms option" where
  "js_date n = (case n of None \<Rightarrow> None | Some t \<Rightarrow> if \<bar>t\<bar> \<le> 8640000000000000 then Some t else None)"

section \<open>encodeURIComponent\<close>

definition uri_unreserved :: "char \<Rightarrow> bool" where
  "uri_unreserved c =
     (let n = (of_char c :: nat) in
      48 \<le> n \<and> n \<le> 57 \<or> 65 \<le> n \<and> n \<le> 90 \<or> 97 \<le> n \<and> n \<le> 122 \<or> c \<in> set ''-_.!~*()'' \<or> n = 39)"

definition hex_upper :: "nat \<Rightarrow> char" where
  "hex_upper d = (if d < 10 then digit_char d else char_of (55 + d))"

definition encodeURIComponent :: "string \<Rightarrow> string" where
  "encodeURIComponent s = concat (map (\<lambda>c.
     if uri_unreserved c then [c]
     else let n = (of_char c :: nat) in [CHR ''%'', hex_upper (n div 16), hex_upper (n mod 16)]) s)"

section \<open>JSON.parse\<close>

definition json_space :: "char \<Rightarrow> bool" where
  "json_space c = (let n = (of_char c :: nat) in n = 32 \<or> n = 9 \<or> n = 10 \<or> n = 13)"

definition skip_space :: "string \<Rightarrow> string" where
  "skip_space s = dropWhile json_space s"

text \<open>A code point as UTF-8; half of a surrogate pair on its own becomes the replacement
  character, as it does when the text is written out.\<close>

definition utf8 :: "nat \<Rightarrow> string" where
  "utf8 n =
     (if n < 128 then [char_of n]
      else if n < 2048 then [char_of (192 + n div 64), char_of (128 + n mod 64)]
      else if 55296 \<le> n \<and> n < 57344 then [CHR 0xEF, CHR 0xBF, CHR 0xBD]
      else if n < 65536 then
        [char_of (224 + n div 4096), char_of (128 + n div 64 mod 64), char_of (128 + n mod 64)]
      else [char_of (240 + n div 262144), char_of (128 + n div 4096 mod 64),
            char_of (128 + n div 64 mod 64), char_of (128 + n mod 64)])"

definition hex4 :: "char \<Rightarrow> char \<Rightarrow> char \<Rightarrow> char \<Rightarrow> nat option" where
  "hex4 a b c d =
     (case (hex_value a, hex_value b, hex_value c, hex_value d) of
        (Some w, Some x, Some y, Some z) \<Rightarrow> Some (((w * 16 + x) * 16 + y) * 16 + z)
      | _ \<Rightarrow> None)"

definition simple_escape :: "char \<Rightarrow> string option" where
  "simple_escape c =
     (if c = CHR 0x22 \<or> c = CHR 0x5C \<or> c = CHR ''/'' then Some [c]
      else if c = CHR ''b'' then Some [CHR 0x08] else if c = CHR ''f'' then Some [CHR 0x0C]
      else if c = CHR ''n'' then Some [CHR 0x0A] else if c = CHR ''r'' then Some [CHR 0x0D]
      else if c = CHR ''t'' then Some [CHR 0x09] else None)"

text \<open>The rest of a string literal, up to its closing quote. \<open>high\<close> is the first half of a
  surrogate pair waiting for the second.\<close>

fun parse_chars :: "nat option \<Rightarrow> string \<Rightarrow> (string \<times> string) option" where
  "parse_chars high [] = None"
| "parse_chars high (c # cs) =
     (let waiting = (case high of None \<Rightarrow> [] | Some h \<Rightarrow> utf8 h);
          out = (\<lambda>s. map_option (\<lambda>(t, r). (waiting @ s @ t, r))) in
      if c = CHR 0x22 then Some (waiting, cs)
      else if c = CHR 0x5C then
        (case cs of
           e # r \<Rightarrow>
             if e = CHR ''u'' then
               (case r of
                  h1 # h2 # h3 # h4 # r' \<Rightarrow>
                    (case hex4 h1 h2 h3 h4 of
                       None \<Rightarrow> None
                     | Some n \<Rightarrow>
                         if 56320 \<le> n \<and> n < 57344 \<and> high \<noteq> None
                         then map_option (\<lambda>(t, r). (utf8 (65536 + (the high - 55296) * 1024 + (n - 56320)) @ t, r))
                                (parse_chars None r')
                         else if 55296 \<le> n \<and> n < 56320 then out [] (parse_chars (Some n) r')
                         else out (utf8 n) (parse_chars None r'))
                | _ \<Rightarrow> None)
             else (case simple_escape e of None \<Rightarrow> None | Some t \<Rightarrow> out t (parse_chars None r))
         | [] \<Rightarrow> None)
      else if (of_char c :: nat) < 32 then None
      else out [c] (parse_chars None cs))"

text \<open>A numeral: the digits, then a fraction and an exponent that are passed over.\<close>

definition take_digits :: "string \<Rightarrow> string \<times> string" where
  "take_digits s = (takeWhile is_digit s, dropWhile is_digit s)"

definition skip_fraction :: "string \<Rightarrow> string option" where
  "skip_fraction s = (case s of
      c # r \<Rightarrow> if c = CHR ''.'' then (case take_digits r of ([], _) \<Rightarrow> None | (_, r') \<Rightarrow> Some r') else Some s
    | [] \<Rightarrow> Some [])"

definition skip_exponent :: "string \<Rightarrow> string option" where
  "skip_exponent s = (case s of
      c # r \<Rightarrow>
        if c = CHR ''e'' \<or> c = CHR ''E'' then
          (let r1 = (case r of d # r' \<Rightarrow> if d = CHR ''+'' \<or> d = CHR ''-'' then r' else r | [] \<Rightarrow> [])
           in case take_digits r1 of ([], _) \<Rightarrow> None | (_, r') \<Rightarrow> Some r')
        else Some s
    | [] \<Rightarrow> Some [])"

definition parse_number :: "string \<Rightarrow> (json \<times> string) option" where
  "parse_number s =
     (let (neg, r) = (case s of c # cs \<Rightarrow> if c = CHR ''-'' then (True, cs) else (False, s) | [] \<Rightarrow> (False, s));
          (ds, r1) = take_digits r
      in if ds = [] \<or> (2 \<le> length ds \<and> hd ds = CHR ''0'') then None
         else Option.bind (skip_fraction r1) (\<lambda>r2. Option.bind (skip_exponent r2) (\<lambda>r3.
           Some (JNum ((if neg then - 1 else 1) * int (str_nat ds)), r3))))"

text \<open>Does the text begin so, and what follows.\<close>

fun starts :: "string \<Rightarrow> string \<Rightarrow> string option" where
  "starts [] s = Some s"
| "starts (p # ps) [] = None"
| "starts (p # ps) (c # cs) = (if p = c then starts ps cs else None)"

text \<open>The last of two members with one name wins, in the place of the first.\<close>

definition put_member :: "string \<Rightarrow> json \<Rightarrow> (string \<times> json) list \<Rightarrow> (string \<times> json) list" where
  "put_member k v fs = (k, nullish_def_val (map_of fs k) v) # filter (\<lambda>kv. fst kv \<noteq> k) fs"

text \<open>The fuel is spent one unit per value, element and member; each of those takes at least one
  character, so twice the length of the text is enough.\<close>

fun parse_value :: "nat \<Rightarrow> string \<Rightarrow> (json \<times> string) option"
and parse_elements :: "nat \<Rightarrow> string \<Rightarrow> (json list \<times> string) option"
and parse_members :: "nat \<Rightarrow> string \<Rightarrow> ((string \<times> json) list \<times> string) option" where
  "parse_value 0 s = None"
| "parse_value (Suc n) s =
     (case skip_space s of
        [] \<Rightarrow> None
      | c # r \<Rightarrow>
          if c = CHR 0x22 then map_option (\<lambda>(t, r'). (JStr t, r')) (parse_chars None r)
          else if c = CHR ''['' then
            (case skip_space r of
               d # r' \<Rightarrow> if d = CHR '']'' then Some (JArr [], r')
                         else map_option (\<lambda>(xs, q). (JArr xs, q)) (parse_elements n r)
             | [] \<Rightarrow> None)
          else if c = CHR ''{'' then
            (case skip_space r of
               d # r' \<Rightarrow> if d = CHR ''}'' then Some (JObj [], r')
                         else map_option (\<lambda>(fs, q). (JObj fs, q)) (parse_members n r)
             | [] \<Rightarrow> None)
          else (case starts ''null'' (c # r) of Some r' \<Rightarrow> Some (JNull, r')
          | None \<Rightarrow> (case starts ''true'' (c # r) of Some r' \<Rightarrow> Some (JBool True, r')
          | None \<Rightarrow> (case starts ''false'' (c # r) of Some r' \<Rightarrow> Some (JBool False, r')
          | None \<Rightarrow> parse_number (c # r)))))"
| "parse_elements 0 s = None"
| "parse_elements (Suc n) s =
     Option.bind (parse_value n s) (\<lambda>(x, r).
       case skip_space r of
         d # r' \<Rightarrow>
           if d = CHR '','' then map_option (\<lambda>(xs, q). (x # xs, q)) (parse_elements n r')
           else if d = CHR '']'' then Some ([x], r') else None
       | [] \<Rightarrow> None)"
| "parse_members 0 s = None"
| "parse_members (Suc n) s =
     (case skip_space s of
        c # r \<Rightarrow>
          if c \<noteq> CHR 0x22 then None
          else Option.bind (parse_chars None r) (\<lambda>(k, r1).
            case skip_space r1 of
              d # r2 \<Rightarrow>
                if d \<noteq> CHR '':'' then None
                else Option.bind (parse_value n r2) (\<lambda>(x, r3).
                  case skip_space r3 of
                    f # r4 \<Rightarrow>
                      if f = CHR '','' then map_option (\<lambda>(fs, q). (put_member k x fs, q)) (parse_members n r4)
                      else if f = CHR ''}'' then Some ([(k, x)], r4) else None
                  | [] \<Rightarrow> None)
            | [] \<Rightarrow> None)
      | [] \<Rightarrow> None)"

definition json_parse :: "string \<Rightarrow> json option" where
  "json_parse s =
     (case parse_value (Suc (2 * length s)) s of
        Some (v, r) \<Rightarrow> if skip_space r = [] then Some v else None
      | None \<Rightarrow> None)"

end
