(* ===== verification/Meta_Intake.thy ===== *)
theory Meta_Intake
  imports Conversations Js_Value
begin

text \<open>
  \<open>src/webhooks/webhooks.service.ts\<close> and the handlers under \<open>src/webhooks/handlers\<close>: what happens
  to everything Meta reports. Each change is stored, routed to its handler, marked, and
  forwarded to the organisations' own endpoints. The payload is JSON of unknown shape;
  a read of a member of \<open>null\<close> throws, and Prisma throws on a value its column does not take.
\<close>

section \<open>Columns\<close>

text \<open>What a text column takes: the value, nothing, or the statement throws.\<close>

definition text_column :: "json option \<Rightarrow> string option option" where
  "text_column v = (case v of None \<Rightarrow> Some None | Some JNull \<Rightarrow> Some None | Some (JStr s) \<Rightarrow> Some (Some s) | _ \<Rightarrow> None)"

section \<open>Delivery statuses (handlers/status-update.handler.ts)\<close>

definition STATUS_ORDER :: "(string \<times> message_status) list" where
  "STATUS_ORDER = [(''sent'', MSent), (''delivered'', MDelivered), (''read'', MRead), (''failed'', MFailed)]"

fun status_rank :: "message_status \<Rightarrow> nat" where
  "status_rank MSent = 0"
| "status_rank MDelivered = 1"
| "status_rank MRead = 2"
| "status_rank MFailed = 3"

record send_failure =
  sf_code :: "int option"
  sf_title :: "string option"
  sf_detail :: "string option"

definition failure_text :: "json option \<Rightarrow> string option" where
  "failure_text v = (case v of Some (JStr s) \<Rightarrow> if js_trim s = [] then None else Some (js_trim s) | _ \<Rightarrow> None)"

definition status_failure :: "json option \<Rightarrow> send_failure option" where
  "status_failure statusUpdate =
     (case asArray (j_get ''errors'' statusUpdate) of
        [] \<Rightarrow> None
      | x # _ \<Rightarrow>
          let first = (if x = JNull then JObj [] else x);
              field = (\<lambda>k. j_get k (Some first));
              title = failure_text (field ''title''); message = failure_text (field ''message'')
          in Some \<lparr>sf_code = (case field ''code'' of Some (JNum n) \<Rightarrow> Some n | _ \<Rightarrow> None),
                   sf_title = nullish title message,
                   sf_detail = nullish (failure_text (j_get ''details'' (field ''error_data'')))
                                 (if message \<noteq> title then message else None)\<rparr>)"

text \<open>The integer column holds 32 bits.\<close>

definition int4 :: "int \<Rightarrow> bool" where
  "int4 n = (- (2 ^ 31) \<le> n \<and> n < 2 ^ 31)"

definition status_change ::
  "message_status \<Rightarrow> send_failure option \<Rightarrow> ms \<Rightarrow> message_row \<Rightarrow> message_row" where
  "status_change status failure now g =
     (let g' = g\<lparr>mg_status := status, mg_updatedAt := now\<rparr> in
      case status of
        MDelivered \<Rightarrow> g'\<lparr>mg_deliveredAt := Some now\<rparr>
      | MRead \<Rightarrow> g'\<lparr>mg_readAt := Some now, mg_deliveredAt := Some (nullish_def_val (mg_deliveredAt g) now)\<rparr>
      | MFailed \<Rightarrow> g'\<lparr>mg_failedAt := Some now,
            mg_failureReason := Option.bind failure sf_title,
            mg_failureCode := Option.bind failure sf_code,
            mg_failureDetail := Option.bind failure sf_detail\<rparr>
      | MSent \<Rightarrow> g')"

text \<open>The part between the \<open>try\<close> and its \<open>catch\<close>: \<open>metaMessageId\<close> must be text to be looked up.\<close>

definition advance_status ::
  "menv \<Rightarrow> string \<Rightarrow> message_status \<Rightarrow> send_failure option \<Rightarrow> mworld \<Rightarrow> mworld" where
  "advance_status v metaMessageId status failure m =
     (if mv_raises v ''message.findUnique'' then m
      else case List.find (\<lambda>g. mg_metaMessageId g = Some metaMessageId) (m_messages m) of
        None \<Rightarrow> m
      | Some existing \<Rightarrow>
          if status_rank status \<le> status_rank (mg_status existing) then m
          else if mv_raises v ''message.update'' \<or>
            (status = MFailed \<and> (case Option.bind failure sf_code of None \<Rightarrow> False | Some n \<Rightarrow> \<not> int4 n)) then m
          else m\<lparr>m_messages := update_rows (\<lambda>g. mg_metaMessageId g = Some metaMessageId)
                   (status_change status failure (mnow m)) (m_messages m)\<rparr>)"

definition status_handle :: "menv \<Rightarrow> json \<Rightarrow> (mworld, unit) svc" where
  "status_handle v statusUpdate =
     (if statusUpdate = JNull
      then throwE (RuntimeError ''Cannot destructure property 'id' of 'statusUpdate' as it is null.'')
      else
        let su = Some statusUpdate in
        case j_get ''status'' su of
          Some (JStr s) \<Rightarrow>
            (case (map_of STATUS_ORDER s, j_get ''id'' su) of
               (Some status, Some (JStr metaMessageId)) \<Rightarrow>
                 modE (advance_status v metaMessageId status
                   (if status = MFailed then status_failure su else None))
             | _ \<Rightarrow> retE ())
        | _ \<Rightarrow> retE ())"

section \<open>Replies (handlers/inbound-message.handler.ts)\<close>

definition inbound_store ::
  "menv \<Rightarrow> string \<Rightarrow> json option \<Rightarrow> json option \<Rightarrow> json option \<Rightarrow> string \<Rightarrow> json option \<Rightarrow> json \<Rightarrow> ms option \<Rightarrow>
   mworld \<Rightarrow> mworld" where
  "inbound_store v wabaId phoneNumberId metaId senderName from_in type_in payload timestamp m =
     (case (text_column phoneNumberId, text_column metaId, text_column senderName, text_column type_in, timestamp) of
        (Some (Some phone), Some (Some i), Some sender, Some (Some t), Some at) \<Rightarrow>
          if mv_raises v ''inboundMessage.upsert'' then m
          else if list_ex (\<lambda>r. ib_metaMessageId r = i) (m_inbound m) then m
          else if \<not> list_ex (\<lambda>a. wb_wabaId a = wabaId) (w_wabas (m_core m)) then m
          else m\<lparr>m_inbound := m_inbound m @
                   [\<lparr>ib_id = m_nextId m, ib_metaMessageId = i, ib_wabaId = wabaId, ib_phoneNumberId = phone,
                     ib_from = from_in, ib_senderName = sender, ib_type = t, ib_payload = payload,
                     ib_timestamp = at, ib_createdAt = mnow m\<rparr>],
                 m_nextId := Suc (m_nextId m)\<rparr>
      | _ \<Rightarrow> m)"

text \<open>The push is titled with the sender's name when there is one; a title that is not text is
  written nowhere and sent nowhere.\<close>

definition inbound_title :: "json option \<Rightarrow> string \<Rightarrow> string option" where
  "inbound_title senderName from_in =
     (if j_truthy senderName then (case senderName of Some (JStr s) \<Rightarrow> Some s | _ \<Rightarrow> None)
      else Some (''New message from '' @ from_in))"

definition inbound_handle ::
  "menv \<Rightarrow> string \<Rightarrow> json option \<Rightarrow> json option \<Rightarrow> json \<Rightarrow> (mworld, unit) svc" where
  "inbound_handle v wabaId phoneNumberId senderName message =
     bindE (js_read ''timestamp'' (Some message)) (\<lambda>stamp.
     let msg = Some message;
         timestamp = js_date (map_option (\<lambda>n. n * 1000) (js_Number stamp));
         type_in = j_get ''type'' msg;
         payload = the (j_or (j_get (js_text type_in) msg) msg);
         from_in = js_text (j_or (j_get ''from'' msg) (Some (JStr [])));
         preview = inboundPreview (map_option j_String type_in) payload
     in
     thenE (modE (inbound_store v wabaId phoneNumberId (j_get ''id'' msg) senderName from_in type_in payload timestamp))
    (thenE (modE (case (text_column phoneNumberId, text_column senderName) of
               (Some (Some phone), Some sender) \<Rightarrow>
                 recordInbound v \<lparr>ii_wabaId = wabaId, ii_phoneNumberId = phone, ii_from = from_in,
                   ii_senderName = sender, ii_type = map_option j_String type_in, ii_payload = payload,
                   ii_timestamp = timestamp\<rparr>
             | _ \<Rightarrow> (\<lambda>m. m)))
     (modE (case inbound_title senderName from_in of
              None \<Rightarrow> (\<lambda>m. m)
            | Some title \<Rightarrow>
                notifyWaba v wabaId KInboundMessage
                  \<lparr>pm_title = title, pm_body = preview,
                   pm_link = Some (''/inbox?phone='' @ encodeURIComponent from_in),
                   pm_data = [(''wabaId'', wabaId), (''kind'', ''inboundMessage'')]\<rparr>))))"

section \<open>Templates (handlers/template-status.handler.ts, utils/rejected-reason.ts)\<close>

definition STATUS_MAP :: "(string \<times> template_status) list" where
  "STATUS_MAP =
     [(''PENDING'', TPending), (''APPROVED'', TApproved), (''REJECTED'', TRejected), (''FLAGGED'', TFlagged),
      (''DELETED'', TDeleted), (''DISABLED'', TDisabled), (''IN_APPEAL'', TIn_Appeal), (''PAUSED'', TPaused),
      (''PENDING_DELETION'', TPending_Deletion), (''ARCHIVED'', TArchived), (''UNARCHIVED'', TApproved)]"

fun template_status_name :: "template_status \<Rightarrow> string" where
  "template_status_name TPending = ''PENDING''"
| "template_status_name TApproved = ''APPROVED''"
| "template_status_name TRejected = ''REJECTED''"
| "template_status_name TFlagged = ''FLAGGED''"
| "template_status_name TDeleted = ''DELETED''"
| "template_status_name TDisabled = ''DISABLED''"
| "template_status_name TIn_Appeal = ''IN_APPEAL''"
| "template_status_name TPaused = ''PAUSED''"
| "template_status_name TPending_Deletion = ''PENDING_DELETION''"
| "template_status_name TArchived = ''ARCHIVED''"

fun STATUS_HEADLINE :: "template_status \<Rightarrow> string option" where
  "STATUS_HEADLINE TApproved = Some ''Template approved''"
| "STATUS_HEADLINE TRejected = Some ''Template rejected''"
| "STATUS_HEADLINE TPaused = Some ''Template paused by Meta''"
| "STATUS_HEADLINE TDisabled = Some ''Template disabled by Meta''"
| "STATUS_HEADLINE TFlagged = Some ''Template flagged for quality''"
| "STATUS_HEADLINE TArchived = Some ''Template archived''"
| "STATUS_HEADLINE _ = None"

definition normalizeRejectedReason :: "json option \<Rightarrow> string option" where
  "normalizeRejectedReason value =
     (case value of
        Some (JStr s) \<Rightarrow>
          let trimmed = js_trim s in
          if trimmed = [] \<or> js_upper trimmed = ''NONE'' then None else Some trimmed
      | _ \<Rightarrow> None)"

definition parseOtherInfo :: "json option \<Rightarrow> json option" where
  "parseOtherInfo raw =
     (case raw of
        Some (JStr s) \<Rightarrow>
          let trimmed = js_trim s; sentence = Some (JObj [(''description'', JStr trimmed)]) in
          if trimmed = [] then None
          else if hd trimmed \<noteq> CHR ''{'' then sentence
          else (case json_parse trimmed of None \<Rightarrow> sentence | parsed \<Rightarrow> asObject parsed)
      | _ \<Rightarrow> asObject raw)"

definition templateStatusReason :: "json option \<Rightarrow> string option" where
  "templateStatusReason value =
     (let info = parseOtherInfo (j_get ''other_info'' value) in
      nullish (normalizeRejectedReason (j_get ''description'' info))
        (nullish (normalizeRejectedReason (j_get ''title'' info))
          (normalizeRejectedReason (j_get ''reason'' value))))"

definition template_change :: "template_status \<Rightarrow> string option \<Rightarrow> ms \<Rightarrow> template_row \<Rightarrow> template_row" where
  "template_change status reason now t =
     t\<lparr>tp_status := status, tp_updatedAt := now,
       tp_rejectedReason := (case reason of
           Some r \<Rightarrow> Some r
         | None \<Rightarrow> if status = TApproved then None else tp_rejectedReason t)\<rparr>"

definition template_notify ::
  "menv \<Rightarrow> string \<Rightarrow> string \<Rightarrow> template_status \<Rightarrow> string option \<Rightarrow> (mworld, unit) svc" where
  "template_notify v metaTemplateId name status reason =
     (case STATUS_HEADLINE status of
        None \<Rightarrow> retE ()
      | Some headline \<Rightarrow>
          thenE (refuse_if (mv_raises v ''messageTemplate.findFirst'') (RuntimeError ''messageTemplate.findFirst''))
         (bindE (getE (\<lambda>m. List.find (\<lambda>t. tp_metaTemplateId t = metaTemplateId) (m_templates m))) (\<lambda>found.
          case found of
            None \<Rightarrow> retE ()
          | Some template \<Rightarrow>
              let shown = (if tp_name template \<noteq> [] then tp_name template else name) in
              thenE (modE (\<lambda>m. m\<lparr>m_alerts := m_alerts m @
                       [AlertTemplate (tp_wabaId template) (tp_id template) shown status reason]\<rparr>))
               (modE (notifyWaba v (tp_wabaId template) KTemplateStatus
                  \<lparr>pm_title = headline,
                   pm_body = (case reason of
                       Some r \<Rightarrow> shown @ '': '' @ r
                     | None \<Rightarrow> shown @ '' is now '' @
                         js_lower (replace_char CHR ''_'' CHR '' '' (template_status_name status)) @ ''.''),
                   pm_link = Some (''/templates/'' @ nat_str (tp_id template)),
                   pm_data = [(''wabaId'', tp_wabaId template), (''kind'', ''templateStatus'')]\<rparr>)))))"

definition template_handle :: "menv \<Rightarrow> json \<Rightarrow> (mworld, unit) svc" where
  "template_handle v value =
     (let payload = Some value in
      case map_of STATUS_MAP (js_text (j_get ''event'' payload)) of
        None \<Rightarrow> retE ()
      | Some status \<Rightarrow>
          let reason = templateStatusReason payload;
              metaTemplateId = js_text (j_get ''message_template_id'' payload)
          in
          thenE (modE (\<lambda>m. if mv_raises v ''messageTemplate.updateMany'' then m
                   else m\<lparr>m_templates := update_rows (\<lambda>t. tp_metaTemplateId t = metaTemplateId)
                            (template_change status reason (mnow m)) (m_templates m)\<rparr>))
           (template_notify v metaTemplateId
              (js_text (j_or (j_get ''message_template_name'' payload) (Some (JStr [])))) status reason))"

section \<open>Accounts and numbers (handlers/account.handler.ts)\<close>

definition nameStatusFor :: "json option \<Rightarrow> string option" where
  "nameStatusFor decision =
     (let value = (case decision of Some (JStr s) \<Rightarrow> js_upper s | _ \<Rightarrow> []) in
      if value = ''APPROVED'' then Some ''APPROVED''
      else if value = ''REJECTED'' \<or> value = ''DECLINED'' then Some ''DECLINED''
      else if value = ''PENDING'' \<or> value = ''PENDING_REVIEW'' then Some ''PENDING_REVIEW''
      else if value = ''EXPIRED'' then Some ''EXPIRED''
      else None)"

definition handleAccountUpdate :: "json \<Rightarrow> string \<Rightarrow> mworld \<Rightarrow> mworld" where
  "handleAccountUpdate value wabaId m =
     (let banState = j_get ''waba_ban_state'' (j_get ''ban_info'' (Some value));
          event = js_text (j_or (j_get ''event'' (Some value)) (Some (JStr [])));
          restricted = (j_truthy banState \<or>
            list_ex (\<lambda>word. contains_text word (js_upper event)) [''BAN'', ''RESTRICT'', ''DISABLE''])
      in if restricted \<and> wabaId \<noteq> []
         then m\<lparr>m_alerts := m_alerts m @ [AlertBanned wabaId (the (j_or banState (Some (JStr event))))]\<rparr>
         else m)"

text \<open>The filter of the two updates below. A member Meta left out is no filter at all.\<close>

definition number_filter :: "string option \<Rightarrow> string \<Rightarrow> phone_number_row \<Rightarrow> bool" where
  "number_filter display wabaId n =
     ((display = None \<or> display = Some (pn_displayPhoneNumber n)) \<and> (wabaId = [] \<or> pn_wabaId n = wabaId))"

definition update_numbers ::
  "(phone_number_row \<Rightarrow> bool) \<Rightarrow> (phone_number_row \<Rightarrow> phone_number_row) \<Rightarrow> mworld \<Rightarrow> mworld" where
  "update_numbers p f m = m\<lparr>m_core := (m_core m)\<lparr>w_numbers := update_rows p f (w_numbers (m_core m))\<rparr>\<rparr>"

text \<open>An argument of a statement: left out, \<open>null\<close> (refused by a required column) or text; \<open>None\<close>
  when the statement throws.\<close>

definition required_text :: "json option \<Rightarrow> string option option" where
  "required_text v = (case v of None \<Rightarrow> Some None | Some (JStr s) \<Rightarrow> Some (Some s) | _ \<Rightarrow> None)"

definition handlePhoneQualityUpdate :: "menv \<Rightarrow> json \<Rightarrow> string \<Rightarrow> mworld \<Rightarrow> mworld" where
  "handlePhoneQualityUpdate v value wabaId m =
     (let display = j_get ''display_phone_number'' (Some value); event = j_get ''event'' (Some value);
          current_limit = j_get ''current_limit'' (Some value);
          shown = (\<lambda>x. js_text (j_or x (Some (JStr []))));
          tier = (if j_truthy current_limit then Some (js_text current_limit) else None);
          m1 = (if wabaId = [] then m
                else m\<lparr>m_alerts := m_alerts m @ [AlertQuality wabaId (shown display) (shown event) tier]\<rparr>)
      in case (required_text display, required_text (if j_nullish current_limit then event else current_limit)) of
           (Some number, Some rating) \<Rightarrow>
             if mv_raises v ''wabaPhoneNumber.updateMany'' then m1
             else
               let hit = number_filter number wabaId;
                   m2 = update_numbers hit (\<lambda>n. case rating of None \<Rightarrow> n | Some r \<Rightarrow> n\<lparr>pn_qualityRating := r\<rparr>) m1
               in if mv_raises v ''wabaPhoneNumber.findFirst'' then m2
                  else (case List.find hit (w_numbers (m_core m2)) of
                      None \<Rightarrow> m2
                    | Some n \<Rightarrow>
                        if mv_raises v ''phoneQualityEvent.create'' then m2
                        else m2\<lparr>m_quality := m_quality m2 @
                          [\<lparr>qe_phoneNumberId = pn_phoneNumberId n, qe_wabaId = pn_wabaId n,
                            qe_qualityRating = js_text (j_or event (j_or current_limit (Some (JStr ''UNKNOWN'')))),
                            qe_limitTier = tier, qe_createdAt = mnow m\<rparr>]\<rparr>)
         | _ \<Rightarrow> m1)"

definition handlePhoneNameUpdate :: "menv \<Rightarrow> json \<Rightarrow> string \<Rightarrow> mworld \<Rightarrow> mworld" where
  "handlePhoneNameUpdate v value wabaId m =
     (let display = j_get ''display_phone_number'' (Some value); decision = j_get ''decision'' (Some value);
          requested = j_get ''requested_verified_name'' (Some value);
          m1 = (if wabaId = [] then m
                else m\<lparr>m_alerts := m_alerts m @ [AlertName wabaId display decision requested]\<rparr>)
      in case nameStatusFor decision of
           None \<Rightarrow> m1
         | Some nameStatus \<Rightarrow>
             if \<not> j_truthy display then m1
             else
               let name = (if nameStatus = ''APPROVED'' \<and> j_truthy requested then requested else None) in
               (case (required_text display, required_text name) of
                  (Some number, Some verified) \<Rightarrow>
                    if mv_raises v ''wabaPhoneNumber.updateMany'' then m1
                    else update_numbers (number_filter number wabaId)
                           (\<lambda>n. let n' = n\<lparr>pn_nameStatus := Some nameStatus\<rparr> in
                                case verified of None \<Rightarrow> n' | Some t \<Rightarrow> n'\<lparr>pn_verifiedName := t\<rparr>) m1
                | _ \<Rightarrow> m1))"

section \<open>The service (webhooks.service.ts)\<close>

definition resolveWabaId :: "json \<Rightarrow> json option \<Rightarrow> string" where
  "resolveWabaId entry value =
     (let fromValue = j_or (j_get ''waba_id'' (j_get ''waba_info'' value)) (j_get ''waba_id'' value);
          fallback = js_text (j_or (j_get ''id'' (Some entry)) (Some (JStr [])))
      in case fromValue of
           Some (JStr s) \<Rightarrow> if js_trim s = [] then fallback else s
         | Some (JNum n) \<Rightarrow> int_str n
         | _ \<Rightarrow> fallback)"

definition handleMessagesField :: "menv \<Rightarrow> string \<Rightarrow> json \<Rightarrow> (mworld, unit) svc" where
  "handleMessagesField v wabaId value =
     (let payload = Some value;
          phoneNumberId = j_or (j_get ''phone_number_id'' (j_get ''metadata'' payload)) (Some (JStr []));
          senderName = j_get ''name'' (j_get ''profile'' (js_first (j_get ''contacts'' payload)))
      in
      bindE (js_elements (j_get ''messages'' payload)) (\<lambda>messages.
      thenE (forE (inbound_handle v wabaId phoneNumberId senderName) messages)
     (bindE (js_elements (j_get ''statuses'' payload)) (\<lambda>statuses.
      thenE (forE (status_handle v) statuses)
     (bindE (js_elements (j_get ''errors'' payload)) (\<lambda>errs.
      forE (\<lambda>err. bindE (js_read ''code'' (Some err)) (\<lambda>_. retE ())) errs))))))"

definition routeChange :: "menv \<Rightarrow> string \<Rightarrow> string \<Rightarrow> json \<Rightarrow> (mworld, unit) svc" where
  "routeChange v field wabaId value =
     (if field = ''messages'' then handleMessagesField v wabaId value
      else if field = ''message_template_status_update'' then template_handle v value
      else if field = ''account_update'' then modE (handleAccountUpdate value wabaId)
      else if field = ''phone_number_quality_update'' then modE (handlePhoneQualityUpdate v value wabaId)
      else if field = ''phone_number_name_update'' then modE (handlePhoneNameUpdate v value wabaId)
      else retE ())"

definition update_event :: "nat \<Rightarrow> (meta_event \<Rightarrow> meta_event) \<Rightarrow> mworld \<Rightarrow> mworld" where
  "update_event i f m = m\<lparr>m_events := update_rows (\<lambda>e. me_id e = i) f (m_events m)\<rparr>"

fun exn_message :: "http_exn \<Rightarrow> string" where
  "exn_message (BadRequest s) = s"
| "exn_message (NotFound s) = s"
| "exn_message (Forbidden s) = s"
| "exn_message (PaymentRequired s) = s"
| "exn_message (TooManyRequests s _) = s"
| "exn_message (BadGateway s) = s"
| "exn_message (UniqueViolation s) = s"
| "exn_message (RuntimeError s) = s"

text \<open>\<open>webhookEvent.create\<close>, outside the \<open>try\<close>: the field must be text and the payload there.\<close>

definition store_event :: "menv \<Rightarrow> json option \<Rightarrow> string \<Rightarrow> json option \<Rightarrow> (mworld, nat \<times> string \<times> json) svc" where
  "store_event v field wabaId value m =
     (case (field, value) of
        (Some (JStr f), Some x) \<Rightarrow>
          if x = JNull \<or> mv_raises v ''webhookEvent.create'' then (Inl (RuntimeError ''webhookEvent.create''), m)
          else (Inr (m_nextId m, f, x),
                m\<lparr>m_events := m_events m @ [\<lparr>me_id = m_nextId m, me_eventType = f, me_wabaId = wabaId,
                    me_payload = x, me_processed = False, me_error = None, me_createdAt = mnow m\<rparr>],
                  m_nextId := Suc (m_nextId m)\<rparr>)
      | _ \<Rightarrow> (Inl (RuntimeError ''webhookEvent.create''), m))"

definition mark_event :: "menv \<Rightarrow> nat \<Rightarrow> (meta_event \<Rightarrow> meta_event) \<Rightarrow> (mworld, unit) svc" where
  "mark_event v i f =
     thenE (refuse_if (mv_raises v ''webhookEvent.update'') (RuntimeError ''webhookEvent.update''))
       (modE (update_event i f))"

definition forward_event :: "menv \<Rightarrow> string \<Rightarrow> nat \<Rightarrow> string \<Rightarrow> json \<Rightarrow> mworld \<Rightarrow> mworld" where
  "forward_event v wabaId i field value m =
     m\<lparr>m_hooks := enqueue (mv_hooks v) wabaId i field (describeEvent field (Some value)) (Some value) (m_hooks m)\<rparr>"

definition process_change :: "menv \<Rightarrow> json \<Rightarrow> json \<Rightarrow> (mworld, unit) svc" where
  "process_change v entry change =
     thenE (refuse_if (change = JNull)
              (RuntimeError ''Cannot destructure property 'field' of 'change' as it is null.''))
    (let value = j_get ''value'' (Some change); wabaId = resolveWabaId entry value in
     bindE (store_event v (j_get ''field'' (Some change)) wabaId value) (\<lambda>(i, field, x).
     thenE (catchE
              (thenE (routeChange v field wabaId x) (mark_event v i (\<lambda>e. e\<lparr>me_processed := True\<rparr>)))
              (\<lambda>err. mark_event v i (\<lambda>e. e\<lparr>me_error := Some (exn_message err)\<rparr>)))
      (modE (forward_event v wabaId i field x))))"

definition processPayload :: "menv \<Rightarrow> json \<Rightarrow> (mworld, unit) svc" where
  "processPayload v body =
     bindE (js_read ''object'' (Some body)) (\<lambda>kind.
     if kind \<noteq> Some (JStr ''whatsapp_business_account'') then retE ()
     else
       bindE (js_elements (j_get ''entry'' (Some body))) (\<lambda>entries.
       forE (\<lambda>entry.
         bindE (js_read ''changes'' (Some entry)) (\<lambda>changes_in.
         bindE (js_elements changes_in) (\<lambda>changes.
         forE (process_change v entry) changes))) entries))"

section \<open>The middleware and the controller\<close>

text \<open>\<open>received = signature.replace('sha256=', '')\<close>: the first occurrence.\<close>

fun remove_first :: "string \<Rightarrow> string \<Rightarrow> string" where
  "remove_first p [] = []"
| "remove_first p (c # cs) =
     (if take (length p) (c # cs) = p then drop (length p) (c # cs) else c # remove_first p cs)"

text \<open>\<open>WebhookSignatureMiddleware\<close>: the raw body is authenticated before anything reads it; \<open>hmac\<close> is
  the digest's bytes.\<close>

definition signature_accepted ::
  "(string \<Rightarrow> string \<Rightarrow> string) \<Rightarrow> string option \<Rightarrow> string option \<Rightarrow> string option \<Rightarrow> bool" where
  "signature_accepted hmac appSecret signature rawBody =
     (case rawBody of
        None \<Rightarrow> False
      | Some raw \<Rightarrow> truthy signature \<and> truthy appSecret \<and>
          hex_decode (remove_first ''sha256='' (the signature)) = hmac (the appSecret) raw)"

text \<open>A POST to \<open>/webhooks\<close>: refused, or acknowledged and processed, whatever that throws.\<close>

definition receive ::
  "menv \<Rightarrow> string option \<Rightarrow> string option \<Rightarrow> string option \<Rightarrow> json \<Rightarrow> mworld \<Rightarrow> bool \<times> mworld" where
  "receive v appSecret signature rawBody body m =
     (if signature_accepted (e_hmac (mv_core v)) appSecret signature rawBody
      then (True, snd (processPayload v body m)) else (False, m))"

definition webhook_verify :: "string option \<Rightarrow> string option \<Rightarrow> string option \<Rightarrow> string \<Rightarrow> http_exn + string" where
  "webhook_verify verifyToken mode token challenge =
     (if mode \<noteq> Some ''subscribe'' \<or> token \<noteq> verifyToken
      then Inl (Forbidden ''Webhook verification failed'') else Inr challenge)"

section \<open>What the console reads\<close>

record webhook_config =
  wc_callbackUrl :: string
  wc_subscribed :: bool
  wc_signatureHeader :: string
  wc_fields :: "string list"
  wc_verifyTokenConfigured :: bool

definition SUBSCRIBED_FIELDS :: "string list" where
  "SUBSCRIBED_FIELDS =
     [''messages'', ''message_template_status_update'', ''account_update'', ''phone_number_quality_update'',
      ''phone_number_name_update'']"

definition getConfig :: "string option \<Rightarrow> string \<Rightarrow> webhook_config" where
  "getConfig verifyToken callbackUrl =
     \<lparr>wc_callbackUrl = callbackUrl, wc_subscribed = truthy verifyToken,
      wc_signatureHeader = ''X-Hub-Signature-256'', wc_fields = SUBSCRIBED_FIELDS,
      wc_verifyTokenConfigured = truthy verifyToken\<rparr>"

record webhook_event_dto =
  wd_id :: nat
  wd_eventType :: string
  wd_described :: described_event
  wd_wabaId :: string
  wd_processed :: bool
  wd_error :: "string option"
  wd_createdAt :: ms

definition event_toDto :: "meta_event \<Rightarrow> webhook_event_dto" where
  "event_toDto e =
     \<lparr>wd_id = me_id e, wd_eventType = me_eventType e,
      wd_described = describeEvent (me_eventType e) (Some (me_payload e)), wd_wabaId = me_wabaId e,
      wd_processed = me_processed e, wd_error = me_error e, wd_createdAt = me_createdAt e\<rparr>"

definition getRecentEvents ::
  "org \<Rightarrow> string \<Rightarrow> int option \<Rightarrow> int option \<Rightarrow> (mworld, webhook_event_dto page_of) svc" where
  "getRecentEvents ssoOrgId wabaId page limit m =
     (if \<not> (list_ex (\<lambda>a. wb_wabaId a = wabaId) (w_wabas (m_core m)) \<and> membership_holds ssoOrgId wabaId (m_core m))
      then (Inl (Forbidden ''WABA does not belong to your organisation''), m)
      else
        let page = max 1 (nullish_def_val page 1);
            limit = min 100 (max 1 (nullish_def_val limit 20));
            rows = filter (\<lambda>e. me_wabaId e = wabaId) (m_events m);
            total_rows = int (length rows)
        in (Inr (paginate (map event_toDto (page_slice page limit (newest_first me_createdAt rows)))
                   total_rows (ceil_div total_rows limit) page limit), m))"

end
