(* ===== verification/Contacts.thy ===== *)
theory Contacts
  imports Paging Plan_Limits
begin

text \<open>
  \<open>src/contacts/contacts.service.ts\<close>: an organisation's address book, one row per phone
  number, held to the plan's limit, with the opt-out a send is checked against. The state is
  the shared database of \<^theory_text>\<open>Db\<close>.
\<close>

section \<open>Requests and answers\<close>

record create_contact_dto =
  cc_phone :: string
  cc_name :: "string option"
  cc_email :: "string option"
  cc_metadata :: "json option"

text \<open>A field of an update is left out, \<open>null\<close> or a value.\<close>

record update_contact_dto =
  uc_name :: "string option option"
  uc_email :: "string option option"
  uc_optedOut :: "bool option option"
  uc_metadata :: "json option"

record contact_dto =
  cd_id :: nat
  cd_phone :: string
  cd_name :: "string option"
  cd_email :: "string option"
  cd_optedOut :: bool
  cd_metadata :: "json option"
  cd_createdAt :: ms
  cd_updatedAt :: ms

definition contact_toDto :: "contact_row \<Rightarrow> contact_dto" where
  "contact_toDto c =
     \<lparr>cd_id = ct_id c, cd_phone = ct_phone c, cd_name = ct_name c, cd_email = ct_email c,
      cd_optedOut = ct_optedOut c, cd_metadata = ct_metadata c, cd_createdAt = ct_createdAt c,
      cd_updatedAt = ct_updatedAt c\<rparr>"

definition contact_by_phone :: "world \<Rightarrow> org \<Rightarrow> string \<Rightarrow> contact_row option" where
  "contact_by_phone w ssoOrgId phone =
     List.find (\<lambda>c. ct_org c = ssoOrgId \<and> ct_phone c = phone) (w_contacts w)"

definition contacts_held :: "org \<Rightarrow> world \<Rightarrow> nat" where
  "contacts_held ssoOrgId w = count_rows (\<lambda>c. ct_org c = ssoOrgId) (w_contacts w)"

section \<open>Methods\<close>

definition assertRoomFor :: "env \<Rightarrow> org \<Rightarrow> int \<Rightarrow> (world, unit) svc" where
  "assertRoomFor e ssoOrgId adding w =
     (let held = int (contacts_held ssoOrgId w); limits = limits_forOrg w ssoOrgId in
      case el_contacts limits of
        None \<Rightarrow> (Inr (), w)
      | Some most \<Rightarrow>
          if held + adding \<le> most then (Inr (), w)
          else
            let plan = (if truthy (el_planName limits)
                        then ''The '' @ the (el_planName limits) @ '' plan'' else ''Your plan'');
                fix_it = (case cheapestPlanAllowing e w MaxContacts (held + adding) of
                    None \<Rightarrow> ''Upgrade the plan or remove some first.''
                  | Some up \<Rightarrow> of_name up @ '' holds '' @
                      (case of_value up of None \<Rightarrow> ''any number'' | Some n \<Rightarrow> int_str n) @ '' '' @ em_dash @
                      '' move to it from your subscription page, or remove some first.'')
            in (Inl (BadRequest (plan @ '' includes '' @ int_str most @ '' contacts, and you have '' @
                  int_str held @ ''. Importing '' @ int_str adding @ '' would take you past it '' @
                  em_dash @ '' '' @ fix_it)), w))"

definition contact_create :: "env \<Rightarrow> org \<Rightarrow> create_contact_dto \<Rightarrow> (world, contact_dto) svc" where
  "contact_create e ssoOrgId dto =
     bindE (getE (\<lambda>w. contact_by_phone w ssoOrgId (cc_phone dto))) (\<lambda>existing.
     thenE (refuse_if (existing \<noteq> None) (BadRequest ''A contact with this phone number already exists''))
    (thenE (assertRoomFor e ssoOrgId 1)
     (\<lambda>w. let contact = \<lparr>ct_id = w_nextId w, ct_org = ssoOrgId, ct_phone = cc_phone dto,
               ct_name = cc_name dto, ct_email = cc_email dto, ct_optedOut = False, ct_optedOutAt = None,
               ct_metadata = j_or (cc_metadata dto) None, ct_createdAt = e_now e, ct_updatedAt = e_now e\<rparr>
          in (Inr (contact_toDto contact),
              w\<lparr>w_contacts := w_contacts w @ [contact], w_nextId := Suc (w_nextId w)\<rparr>))))"

text \<open>Paged when asked for a page or a size, else the whole list.\<close>

definition contact_findAll :: "org \<Rightarrow> int option \<Rightarrow> int option \<Rightarrow> world \<Rightarrow> contact_dto list + contact_dto page_of" where
  "contact_findAll ssoOrgId page limit w =
     (let rows = newest_first ct_createdAt (filter (\<lambda>c. ct_org c = ssoOrgId) (w_contacts w)) in
      if page \<noteq> None \<or> limit \<noteq> None then
        let page = max 1 (nullish_def_val page 1);
            limit = min 100 (max 1 (nullish_def_val limit 20));
            total_rows = int (contacts_held ssoOrgId w)
        in Inr (paginate (map contact_toDto (page_slice page limit rows)) total_rows
                  (ceil_div total_rows limit) page limit)
      else Inl (map contact_toDto rows))"

definition contact_owned :: "org \<Rightarrow> nat \<Rightarrow> (world, contact_row) svc" where
  "contact_owned ssoOrgId i w =
     (case List.find (\<lambda>c. ct_id c = i) (w_contacts w) of
        None \<Rightarrow> (Inl (NotFound ''Contact not found''), w)
      | Some contact \<Rightarrow>
          if ct_org contact \<noteq> ssoOrgId then (Inl (NotFound ''Contact not found''), w)
          else (Inr contact, w))"

definition contact_findOne :: "org \<Rightarrow> nat \<Rightarrow> (world, contact_dto) svc" where
  "contact_findOne ssoOrgId i = bindE (contact_owned ssoOrgId i) (\<lambda>contact. retE (contact_toDto contact))"

text \<open>What the update sends to the database; the flag may not be \<open>null\<close> there.\<close>

definition contact_changes :: "ms \<Rightarrow> update_contact_dto \<Rightarrow> contact_row \<Rightarrow> contact_row" where
  "contact_changes now dto c =
     (let c1 = (case uc_name dto of None \<Rightarrow> c | Some v \<Rightarrow> c\<lparr>ct_name := v\<rparr>);
          c2 = (case uc_email dto of None \<Rightarrow> c1 | Some v \<Rightarrow> c1\<lparr>ct_email := v\<rparr>);
          c3 = (case uc_optedOut dto of
                  Some (Some b) \<Rightarrow> c2\<lparr>ct_optedOut := b,
                    ct_optedOutAt := (if b then Some (nullish_def_val (ct_optedOutAt c) now) else None)\<rparr>
                | _ \<Rightarrow> c2);
          c4 = (case uc_metadata dto of None \<Rightarrow> c3 | Some v \<Rightarrow> c3\<lparr>ct_metadata := Some v\<rparr>)
      in c4\<lparr>ct_updatedAt := now\<rparr>)"

definition contact_update :: "env \<Rightarrow> org \<Rightarrow> nat \<Rightarrow> update_contact_dto \<Rightarrow> (world, contact_dto) svc" where
  "contact_update e ssoOrgId i dto =
     bindE (contact_owned ssoOrgId i) (\<lambda>contact.
     thenE (refuse_if (uc_optedOut dto = Some None \<or> uc_metadata dto = Some JNull)
              (RuntimeError ''contact.update''))
     (\<lambda>w. (Inr (contact_toDto (contact_changes (e_now e) dto contact)),
           w\<lparr>w_contacts := update_rows (\<lambda>c. ct_id c = i) (contact_changes (e_now e) dto) (w_contacts w)\<rparr>)))"

definition contact_remove :: "org \<Rightarrow> nat \<Rightarrow> (world, unit) svc" where
  "contact_remove ssoOrgId i =
     bindE (contact_owned ssoOrgId i) (\<lambda>_.
     modE (\<lambda>w. w\<lparr>w_contacts := filter (\<lambda>c. ct_id c \<noteq> i) (w_contacts w)\<rparr>))"

definition isOptedOut :: "world \<Rightarrow> org \<Rightarrow> string \<Rightarrow> bool" where
  "isOptedOut w ssoOrgId phone =
     (case contact_by_phone w ssoOrgId phone of None \<Rightarrow> False | Some c \<Rightarrow> ct_optedOut c)"

text \<open>Page by page the address book is the list that is answered when no page is asked for.\<close>

interpretation contact_list: listing
  "\<lambda>page limit. projr (contact_findAll x (Some page) (Some limit) w)"
  "projl (contact_findAll x None None w)" 100 0 for x w
  by unfold_locales
    (simp_all add: contact_findAll_def Let_def nullish_def_val_def page_slice_map contacts_held_def
      count_rows_def ceil_div_nonneg max_def min_def)

section \<open>The address book\<close>

text \<open>
  One row per number and organisation, ids apart, and a date only while opted out. Rows opted
  out before the date was kept have none.
\<close>

definition contact_key :: "contact_row \<Rightarrow> org \<times> string" where
  "contact_key c = (ct_org c, ct_phone c)"

definition contact_ok :: "contact_row \<Rightarrow> bool" where
  "contact_ok c = (ct_optedOut c \<or> ct_optedOutAt c = None)"

definition undated_opt_outs :: "world \<Rightarrow> nat set" where
  "undated_opt_outs w = set (map ct_id (filter (\<lambda>c. ct_optedOut c \<and> ct_optedOutAt c = None) (w_contacts w)))"

definition contacts_ok :: "world \<Rightarrow> bool" where
  "contacts_ok w =
     (distinct (map contact_key (w_contacts w)) \<and> distinct (map ct_id (w_contacts w)) \<and>
      (\<forall>c \<in> set (w_contacts w). contact_ok c \<and> ct_id c < w_nextId w))"

inductive contact_step :: "world \<Rightarrow> world \<Rightarrow> bool" where
  creates: "contact_step w (snd (contact_create e x dto w))"
| updates: "contact_step w (snd (contact_update e x i ud w))"
| removes: "contact_step w (snd (contact_remove x i w))"

inductive_cases contact_stepE: "contact_step w w'"

lemma contact_by_phone_None:
  "contact_by_phone w x p = None \<longleftrightarrow> (\<forall>c \<in> set (w_contacts w). contact_key c \<noteq> (x, p))"
  by (auto simp: contact_by_phone_def find_eq_None contact_key_def)

lemma contact_changes_fields [simp]:
  "ct_id (contact_changes now dto c) = ct_id c" "contact_key (contact_changes now dto c) = contact_key c"
  "ct_org (contact_changes now dto c) = ct_org c" "ct_phone (contact_changes now dto c) = ct_phone c"
  "contact_ok c \<Longrightarrow> contact_ok (contact_changes now dto c)"
  "ct_optedOut (contact_changes now dto c) \<Longrightarrow> ct_optedOutAt (contact_changes now dto c) = None \<Longrightarrow>
    ct_optedOut c \<and> ct_optedOutAt c = None"
  by (auto simp: contact_changes_def contact_key_def contact_ok_def Let_def split: option.splits if_splits)

lemma assertRoomFor_state [simp]: "snd (assertRoomFor e x n w) = w"
  by (simp add: assertRoomFor_def Let_def split: option.split)

lemma contact_owned_cases:
  obtains (found) c where "c \<in> set (w_contacts w)" "ct_id c = i" "ct_org c = x" "contact_owned x i w = (Inr c, w)"
  | (missing) "contact_owned x i w = (Inl (NotFound ''Contact not found''), w)"
proof (cases "List.find (\<lambda>c. ct_id c = i) (w_contacts w)")
  case None
  then show thesis by (intro missing) (simp add: contact_owned_def)
next
  case (Some c)
  show thesis
  proof (cases "ct_org c = x")
    case True
    with Some show thesis by (intro found [of c]) (auto simp: contact_owned_def dest: find_SomeD)
  next
    case False
    with Some show thesis by (intro missing) (simp add: contact_owned_def)
  qed
qed

lemma contact_create_cases:
  obtains (refused) err where "contact_create e x dto w = (Inl err, w)"
  | (made) c where "contact_by_phone w x (cc_phone dto) = None" "assertRoomFor e x 1 w = (Inr (), w)"
      "contact_key c = (x, cc_phone dto)" "ct_id c = w_nextId w" "contact_ok c" "\<not> ct_optedOut c"
      "contact_create e x dto w = (Inr (contact_toDto c), w\<lparr>w_contacts := w_contacts w @ [c], w_nextId := Suc (w_nextId w)\<rparr>)"
proof (cases "contact_by_phone w x (cc_phone dto)")
  case (Some c)
  then show thesis by (intro refused) (simp add: contact_create_def)
next
  case None
  show thesis
  proof (cases "assertRoomFor e x 1 w")
    case (Pair r w')
    have w': "w' = w" using assertRoomFor_state [of e x 1 w] Pair by simp
    show thesis
    proof (cases r)
      case (Inl err)
      then show thesis using None Pair w' by (intro refused) (simp add: contact_create_def thenE_def)
    next
      case (Inr u)
      then show thesis using None Pair w'
        by (intro made) (simp_all add: contact_create_def thenE_def Let_def contact_key_def contact_ok_def)
    qed
  qed
qed

lemma contacts_ok_create:
  assumes "contacts_ok w"
  shows "contacts_ok (snd (contact_create e x dto w))"
proof (cases rule: contact_create_cases [of e x dto w])
  case (made c)
  have "contact_key c \<notin> contact_key ` set (w_contacts w)" using made(1,3) by (auto simp: contact_by_phone_None)
  then show ?thesis using assms made(4,5,7) by (auto simp: contacts_ok_def)
qed (use assms in simp)

lemma contacts_ok_update:
  assumes "contacts_ok w"
  shows "contacts_ok (snd (contact_update e x i dto w))"
proof (cases rule: contact_owned_cases [of w i x])
  case (found c)
  show ?thesis
  proof (cases "uc_optedOut dto = Some None \<or> uc_metadata dto = Some JNull")
    case False
    let ?rows = "update_rows (\<lambda>c. ct_id c = i) (contact_changes (e_now e) dto) (w_contacts w)"
    have "map contact_key ?rows = map contact_key (w_contacts w)" "map ct_id ?rows = map ct_id (w_contacts w)"
      by (rule map_key_update_rows, simp)+
    then show ?thesis using assms found(4) False
      by (auto simp: contact_update_def contacts_ok_def set_update_rows)
  qed (use assms found in \<open>simp add: contact_update_def\<close>)
qed (use assms in \<open>simp add: contact_update_def\<close>)

lemma contacts_ok_remove:
  assumes "contacts_ok w"
  shows "contacts_ok (snd (contact_remove x i w))"
  by (cases rule: contact_owned_cases [of w i x])
    (use assms in \<open>auto simp: contact_remove_def contacts_ok_def distinct_map inj_on_def\<close>)

lemma contacts_ok_step: "contact_step w w' \<Longrightarrow> contacts_ok w \<Longrightarrow> contacts_ok w'"
  by (erule contact_stepE) (simp_all add: contacts_ok_create contacts_ok_update contacts_ok_remove)

lemma undated_iff:
  "i \<in> undated_opt_outs w \<longleftrightarrow> (\<exists>c \<in> set (w_contacts w). ct_id c = i \<and> ct_optedOut c \<and> ct_optedOutAt c = None)"
  by (auto simp: undated_opt_outs_def)

text \<open>No operation leaves an opt-out without its date that was not one before.\<close>

lemma undated_step: "contact_step w w' \<Longrightarrow> undated_opt_outs w' \<subseteq> undated_opt_outs w"
proof (erule contact_stepE)
  fix e x dto assume "w' = snd (contact_create e x dto w)"
  then show ?thesis
    by (cases rule: contact_create_cases [of e x dto w]) (auto simp: undated_iff)
next
  fix e x i dto assume "w' = snd (contact_update e x i dto w)"
  then show ?thesis
  proof (cases rule: contact_owned_cases [of w i x])
    case (found c)
    assume w': "w' = snd (contact_update e x i dto w)"
    show ?thesis
    proof (cases "uc_optedOut dto = Some None \<or> uc_metadata dto = Some JNull")
      case False
      have "w_contacts w' = update_rows (\<lambda>c. ct_id c = i) (contact_changes (e_now e) dto) (w_contacts w)"
        using found(4) False by (simp add: w' contact_update_def)
      then show ?thesis
        by (auto simp: undated_iff set_update_rows dest!: contact_changes_fields(6) split: if_splits) blast+
    qed (use w' found in \<open>simp add: contact_update_def\<close>)
  qed (simp add: contact_update_def)
next
  fix x i assume "w' = snd (contact_remove x i w)"
  then show ?thesis
    by (cases rule: contact_owned_cases [of w i x]) (auto simp: contact_remove_def undated_iff)
qed

end
