(* ===== verification/Messaging.thy ===== *)
theory Messaging
  imports Conversations Contacts Js_Value
begin

text \<open>
  \<open>src/messaging/messaging.service.ts\<close>: a send, from the number's cached account to the row of
  the message Meta accepted, and the lists and figures read back from those rows.
\<close>

section \<open>Requests\<close>

datatype interactive_type = IButton | IList | ICta_Url

fun interactive_type_name :: "interactive_type \<Rightarrow> string" where
  "interactive_type_name IButton = ''button''"
| "interactive_type_name IList = ''list''"
| "interactive_type_name ICta_Url = ''cta_url''"

record reply_button =
  rb_id :: string
  rb_title :: string

record list_row =
  lr_id :: string
  lr_title :: string
  lr_description :: "string option"

record list_section =
  ls_title :: string
  ls_rows :: "list_row list"

text \<open>A reply in a thread is a send without its routing; coordinates are JSON numbers.\<close>

record send_reply_dto =
  sd_type :: message_type
  sd_text :: "string option"
  sd_mediaUrl :: "string option"
  sd_caption :: "string option"
  sd_templateName :: "string option"
  sd_templateLanguage :: "string option"
  sd_templateComponents :: "json list option"
  sd_latitude :: "json option"
  sd_longitude :: "json option"
  sd_locationName :: "string option"
  sd_locationAddress :: "string option"
  sd_interactiveType :: "interactive_type option"
  sd_interactiveBodyText :: "string option"
  sd_interactiveHeaderText :: "string option"
  sd_interactiveFooterText :: "string option"
  sd_interactiveButtons :: "reply_button list option"
  sd_interactiveButtonLabel :: "string option"
  sd_interactiveSections :: "list_section list option"
  sd_interactiveCtaDisplayText :: "string option"
  sd_interactiveCtaUrl :: "string option"

record send_message_dto = send_reply_dto +
  sd_phoneNumberId :: string
  sd_to :: string

section \<open>The payload Meta is sent\<close>

text \<open>A member whose value is \<open>undefined\<close> is not written.\<close>

definition member :: "string \<Rightarrow> json option \<Rightarrow> (string \<times> json) list" where
  "member k v = (case v of None \<Rightarrow> [] | Some x \<Rightarrow> [(k, x)])"

definition text_member :: "string \<Rightarrow> string option \<Rightarrow> (string \<times> json) list" where
  "text_member k s = member k (map_option JStr s)"

text \<open>\<open>...(s ? { k: s } : {})\<close>\<close>

definition if_given :: "string \<Rightarrow> string option \<Rightarrow> (string \<times> json) list" where
  "if_given k s = (if truthy s then text_member k s else [])"

definition media_payload :: "'x send_reply_dto_scheme \<Rightarrow> json" where
  "media_payload dto = JObj (text_member ''link'' (sd_mediaUrl dto) @ if_given ''caption'' (sd_caption dto))"

definition button_payload :: "reply_button \<Rightarrow> json" where
  "button_payload b = JObj [(''type'', JStr ''reply''),
     (''reply'', JObj [(''id'', JStr (rb_id b)), (''title'', JStr (rb_title b))])]"

definition section_payload :: "list_section \<Rightarrow> json" where
  "section_payload s = JObj [(''title'', JStr (ls_title s)),
     (''rows'', JArr (map (\<lambda>r. JObj ([(''id'', JStr (lr_id r)), (''title'', JStr (lr_title r))] @
        if_given ''description'' (lr_description r))) (ls_rows s)))]"

definition buildInteractivePayload :: "'x send_reply_dto_scheme \<Rightarrow> json" where
  "buildInteractivePayload dto =
     JObj (text_member ''type'' (map_option interactive_type_name (sd_interactiveType dto)) @
       [(''body'', JObj (text_member ''text'' (sd_interactiveBodyText dto)))] @
       (if truthy (sd_interactiveHeaderText dto)
        then [(''header'', JObj [(''type'', JStr ''text''), (''text'', JStr (the (sd_interactiveHeaderText dto)))])] else []) @
       (if truthy (sd_interactiveFooterText dto)
        then [(''footer'', JObj [(''text'', JStr (the (sd_interactiveFooterText dto)))])] else []) @
       (case sd_interactiveType dto of
          Some IButton \<Rightarrow>
            [(''action'', JObj [(''buttons'',
                JArr (map button_payload (nullish_def_val (sd_interactiveButtons dto) [])))])]
        | Some IList \<Rightarrow>
            [(''action'', JObj (text_member ''button'' (sd_interactiveButtonLabel dto) @
               [(''sections'', JArr (map section_payload (nullish_def_val (sd_interactiveSections dto) [])))]))]
        | Some ICta_Url \<Rightarrow>
            [(''action'', JObj [(''name'', JStr ''cta_url''),
               (''parameters'', JObj (text_member ''display_text'' (sd_interactiveCtaDisplayText dto) @
                  text_member ''url'' (sd_interactiveCtaUrl dto)))])]
        | None \<Rightarrow> []))"

definition type_payload :: "'x send_reply_dto_scheme \<Rightarrow> json option" where
  "type_payload dto =
     (case sd_type dto of
        TText \<Rightarrow> Some (JObj (text_member ''body'' (sd_text dto)))
      | TImage \<Rightarrow> Some (media_payload dto)
      | TVideo \<Rightarrow> Some (media_payload dto)
      | TAudio \<Rightarrow> Some (JObj (text_member ''link'' (sd_mediaUrl dto)))
      | TDocument \<Rightarrow> Some (media_payload dto)
      | TTemplate \<Rightarrow> Some (JObj (text_member ''name'' (sd_templateName dto) @
            [(''language'', JObj (text_member ''code'' (sd_templateLanguage dto)))] @
            (case sd_templateComponents dto of
               None \<Rightarrow> [] | Some cs \<Rightarrow> if cs = [] then [] else [(''components'', JArr cs)])))
      | TLocation \<Rightarrow> Some (JObj (member ''latitude'' (sd_latitude dto) @ member ''longitude'' (sd_longitude dto) @
            if_given ''name'' (sd_locationName dto) @ if_given ''address'' (sd_locationAddress dto)))
      | TInteractive \<Rightarrow> Some (buildInteractivePayload dto)
      | TReaction \<Rightarrow> None
      | TContacts \<Rightarrow> None)"

definition buildMetaPayload :: "send_message_dto \<Rightarrow> json" where
  "buildMetaPayload dto =
     JObj ([(''messaging_product'', JStr ''whatsapp''), (''recipient_type'', JStr ''individual''),
            (''to'', JStr (sd_to dto)), (''type'', JStr (message_type_name (sd_type dto)))] @
           member (message_type_name (sd_type dto)) (type_payload dto))"

section \<open>Meta's errors (common/utils/meta-error.ts)\<close>

definition graph_error_body :: "graph_answer \<Rightarrow> json option" where
  "graph_error_body answer = (case answer of GraphRefused _ body _ \<Rightarrow> j_get ''error'' body | _ \<Rightarrow> None)"

definition isMetaAuthFailure :: "graph_answer \<Rightarrow> bool" where
  "isMetaAuthFailure answer =
     (case answer of
        GraphRefused status body _ \<Rightarrow>
          status = 401 \<or> j_get ''code'' (j_get ''error'' body) = Some (JNum 190) \<or>
          j_get ''type'' (j_get ''error'' body) = Some (JStr ''OAuthException'')
      | _ \<Rightarrow> False)"

definition metaErrorMessage :: "graph_answer \<Rightarrow> json option" where
  "metaErrorMessage answer =
     j_or (j_get ''error_user_msg'' (graph_error_body answer)) (j_get ''message'' (graph_error_body answer))"

definition answer_text :: "graph_answer \<Rightarrow> string" where
  "answer_text answer = (case answer of GraphOk _ \<Rightarrow> [] | GraphRefused _ _ s \<Rightarrow> s | GraphLost s \<Rightarrow> s)"

text \<open>\<open>logMetaError\<close>: the words for the caller, and a mail when the account's token was rejected.\<close>

definition logMetaError :: "graph_answer \<Rightarrow> string \<Rightarrow> mworld \<Rightarrow> json option \<times> mworld" where
  "logMetaError answer wabaId m =
     (j_or (metaErrorMessage answer) (Some (JStr (answer_text answer))),
      if wabaId \<noteq> [] \<and> isMetaAuthFailure answer
      then m\<lparr>m_alerts := m_alerts m @ [AlertToken wabaId (metaErrorMessage answer)]\<rparr> else m)"

section \<open>Sending\<close>

record send_response =
  sx_id :: nat
  sx_metaMessageId :: "string option"
  sx_phoneNumberId :: string
  sx_to :: string
  sx_type :: message_type
  sx_status :: message_status
  sx_createdAt :: ms

text \<open>The checks a send passes before anything leaves: the number is known, the organisation
  holds its account, an API key limited to an account is limited to this one, the account has
  been paid for, the recipient has not opted out. The answer is the account and its token.\<close>

definition send_gates ::
  "menv \<Rightarrow> org \<Rightarrow> send_message_dto \<Rightarrow> string option \<Rightarrow> (mworld, string \<times> string) svc" where
  "send_gates v ssoOrgId dto scopedWabaId =
     bindE (getE (\<lambda>m. getPhoneCache (mnow m) (sd_phoneNumberId dto) (w_redis (m_core m)))) (\<lambda>phoneCache.
     case phoneCache of
       None \<Rightarrow> throwE (NotFound (''Phone number '' @ sd_phoneNumberId dto @ '' not found. Run a phone sync first.''))
     | Some (wabaId, accessToken) \<Rightarrow>
         bindE (getE (\<lambda>m. membership_holds ssoOrgId wabaId (m_core m))) (\<lambda>held.
         thenE (refuse_if (\<not> held) (Forbidden ''Phone number does not belong to your organisation''))
        (thenE (refuse_if (truthy scopedWabaId \<and> Some wabaId \<noteq> scopedWabaId)
                  (Forbidden (''Phone number '' @ sd_phoneNumberId dto @ '' belongs to WABA '' @ wabaId @
                    ''; this API key is scoped to '' @ nullish_def_val scopedWabaId [])))
        (thenE (\<lambda>m. in_core (requireAccess (core_env v m) ssoOrgId wabaId) m)
        (bindE (getE (\<lambda>m. isOptedOut (m_core m) ssoOrgId (sd_to dto))) (\<lambda>optedOut.
         thenE (refuse_if optedOut (BadRequest (''Recipient '' @ sd_to dto @ '' has opted out of messages'')))
        (retE (wabaId, accessToken))))))))"

text \<open>The request and its answer: the id of the message, or the refusal passed on.\<close>

definition graph_send ::
  "menv \<Rightarrow> send_message_dto \<Rightarrow> string \<Rightarrow> string \<Rightarrow> (mworld, json option) svc" where
  "graph_send v dto wabaId plainToken m =
     (let request = \<lparr>gr_phoneNumberId = sd_phoneNumberId dto, gr_body = buildMetaPayload dto, gr_token = plainToken\<rparr>;
          answer = mv_graph v (m_graph m) request;
          m' = m\<lparr>m_graph := m_graph m @ [request]\<rparr>
      in case answer of
           GraphOk body \<Rightarrow> (Inr (j_get ''id'' (js_first (j_get ''messages'' body))), m')
         | _ \<Rightarrow>
             let (metaMessage, m2) = logMetaError answer wabaId m' in
             (Inl (BadRequest (if j_truthy metaMessage then js_text metaMessage else ''Failed to send message'')), m2))"

text \<open>\<open>message.create\<close>\<close>

definition create_message ::
  "menv \<Rightarrow> nat \<Rightarrow> org \<Rightarrow> send_message_dto \<Rightarrow> json option \<Rightarrow> (mworld, message_row) svc" where
  "create_message v userId ssoOrgId dto metaMessageId m =
     (case (case metaMessageId of None \<Rightarrow> Some None | Some JNull \<Rightarrow> Some None | Some (JStr s) \<Rightarrow> Some (Some s) | _ \<Rightarrow> None) of
        None \<Rightarrow> (Inl (RuntimeError ''message.create''), m)
      | Some metaId \<Rightarrow>
          if mv_raises v ''message.create'' then (Inl (RuntimeError ''message.create''), m)
          else if metaId \<noteq> None \<and> list_ex (\<lambda>g. mg_metaMessageId g = metaId) (m_messages m)
          then (Inl (UniqueViolation ''Message.metaMessageId''), m)
          else
            let message = \<lparr>mg_id = m_nextId m, mg_metaMessageId = metaId, mg_phoneNumberId = sd_phoneNumberId dto,
                  mg_to = sd_to dto, mg_type = sd_type dto, mg_payload = buildMetaPayload dto, mg_status = MSent,
                  mg_userId = userId, mg_org = ssoOrgId,
                  mg_templateName = (if sd_type dto = TTemplate then sd_templateName dto else None),
                  mg_deliveredAt = None, mg_readAt = None, mg_failedAt = None, mg_failureReason = None,
                  mg_failureCode = None, mg_failureDetail = None, mg_createdAt = mnow m, mg_updatedAt = mnow m\<rparr>
            in (Inr message, m\<lparr>m_messages := m_messages m @ [message], m_nextId := Suc (m_nextId m)\<rparr>))"

definition send_summary :: "send_message_dto \<Rightarrow> org \<Rightarrow> string \<Rightarrow> message_row \<Rightarrow> outbound_input" where
  "send_summary dto ssoOrgId wabaId message =
     \<lparr>oi_org = ssoOrgId, oi_wabaId = wabaId, oi_phoneNumberId = sd_phoneNumberId dto, oi_to = sd_to dto,
      oi_type = message_type_name (sd_type dto), oi_payload = buildMetaPayload dto,
      oi_templateName = mg_templateName message, oi_sentAt = mg_createdAt message\<rparr>"

definition sendMessage ::
  "menv \<Rightarrow> nat \<Rightarrow> org \<Rightarrow> send_message_dto \<Rightarrow> string option \<Rightarrow> (mworld, send_response) svc" where
  "sendMessage v userId ssoOrgId dto scopedWabaId =
     bindE (send_gates v ssoOrgId dto scopedWabaId) (\<lambda>(wabaId, accessToken).
     case mv_decrypt v accessToken of
       None \<Rightarrow> throwE (RuntimeError ''decrypt'')
     | Some plainToken \<Rightarrow>
         bindE (graph_send v dto wabaId plainToken) (\<lambda>metaMessageId.
         bindE (create_message v userId ssoOrgId dto metaMessageId) (\<lambda>message.
         thenE (modE (recordOutbound v (send_summary dto ssoOrgId wabaId message)))
          (retE \<lparr>sx_id = mg_id message, sx_metaMessageId = mg_metaMessageId message,
             sx_phoneNumberId = mg_phoneNumberId message, sx_to = mg_to message, sx_type = mg_type message,
             sx_status = mg_status message, sx_createdAt = mg_createdAt message\<rparr>))))"

section \<open>Reading the log\<close>

record message_error =
  mr_code :: "int option"
  mr_title :: "string option"
  mr_detail :: "string option"

definition message_error_of :: "message_row \<Rightarrow> message_error option" where
  "message_error_of g =
     (if mg_status g = MFailed \<and> (truthy (mg_failureReason g) \<or> truthy (mg_failureDetail g) \<or>
           (case mg_failureCode g of None \<Rightarrow> False | Some n \<Rightarrow> n \<noteq> 0))
      then Some \<lparr>mr_code = mg_failureCode g,
                 mr_title = (if truthy (mg_failureReason g) then mg_failureReason g else None),
                 mr_detail = (if truthy (mg_failureDetail g) then mg_failureDetail g else None)\<rparr>
      else None)"

record message_item =
  mi_id :: nat
  mi_metaMessageId :: "string option"
  mi_phoneNumberId :: string
  mi_to :: string
  mi_type :: message_type
  mi_status :: message_status
  mi_templateName :: "string option"
  mi_createdAt :: ms
  mi_updatedAt :: ms
  mi_error :: "message_error option"
  mi_payload :: "json option"

definition toListItem :: "message_row \<Rightarrow> message_item" where
  "toListItem g =
     \<lparr>mi_id = mg_id g, mi_metaMessageId = mg_metaMessageId g, mi_phoneNumberId = mg_phoneNumberId g,
      mi_to = mg_to g, mi_type = mg_type g, mi_status = mg_status g, mi_templateName = mg_templateName g,
      mi_createdAt = mg_createdAt g, mi_updatedAt = mg_updatedAt g, mi_error = message_error_of g,
      mi_payload = None\<rparr>"

definition scopedNumbers :: "string \<Rightarrow> world \<Rightarrow> string list" where
  "scopedNumbers wabaId w = map pn_phoneNumberId (filter (\<lambda>n. pn_wabaId n = wabaId) (w_numbers w))"

definition visible_message :: "org \<Rightarrow> string option \<Rightarrow> world \<Rightarrow> message_row \<Rightarrow> bool" where
  "visible_message ssoOrgId scopedWabaId w g =
     (mg_org g = ssoOrgId \<and>
      (truthy scopedWabaId \<longrightarrow> mg_phoneNumberId g \<in> set (scopedNumbers (the scopedWabaId) w)))"

definition message_findAll ::
  "org \<Rightarrow> int option \<Rightarrow> int option \<Rightarrow> string option \<Rightarrow> mworld \<Rightarrow> message_item list + message_item page_of" where
  "message_findAll ssoOrgId page limit scopedWabaId m =
     (let rows = newest_first mg_createdAt (filter (visible_message ssoOrgId scopedWabaId (m_core m)) (m_messages m)) in
      if page \<noteq> None \<or> limit \<noteq> None then
        let page = max 1 (nullish_def_val page 1);
            limit = min 100 (max 1 (nullish_def_val limit 20));
            total_rows = int (length rows)
        in Inr (paginate (map toListItem (page_slice page limit rows)) total_rows
                  (ceil_div total_rows limit) page limit)
      else Inl (map toListItem rows))"

interpretation message_list: listing
  "\<lambda>page limit. projr (message_findAll x (Some page) (Some limit) scope m)"
  "projl (message_findAll x None None scope m)" 100 0 for x scope m
  by unfold_locales
    (simp_all add: message_findAll_def Let_def nullish_def_val_def page_slice_map ceil_div_nonneg max_def min_def)

definition message_findOne ::
  "org \<Rightarrow> nat \<Rightarrow> string option \<Rightarrow> (mworld, message_item) svc" where
  "message_findOne ssoOrgId messageId scopedWabaId m =
     (case List.find (\<lambda>g. mg_id g = messageId) (m_messages m) of
        None \<Rightarrow> (Inl (NotFound ''Message not found''), m)
      | Some message \<Rightarrow>
          if \<not> visible_message ssoOrgId scopedWabaId (m_core m) message
          then (Inl (NotFound ''Message not found''), m)
          else (Inr ((toListItem message)\<lparr>mi_payload := Some (mg_payload message)\<rparr>), m))"

section \<open>Analytics\<close>

record status_totals =
  st_sent :: nat
  st_delivered :: nat
  st_read :: nat
  st_failed :: nat
  st_total :: nat

record daily_point =
  dp_date :: string
  dp_delivered :: nat
  dp_failed :: nat

text \<open>A rate is in thousandths: \<open>Math.round(n * 1000) / 1000\<close>.\<close>

record message_analytics =
  ma_rangeDays :: int
  ma_totals :: status_totals
  ma_deliveryRate :: int
  ma_readRate :: int
  ma_series :: "daily_point list"

definition iso_date :: "ms \<Rightarrow> string" where
  "iso_date t = take 10 (toISOString t)"

text \<open>Midnight where the server is, \<open>offset\<close> milliseconds ahead of UTC all year.\<close>

definition local_midnight :: "int \<Rightarrow> ms \<Rightarrow> ms" where
  "local_midnight offset t = (t + offset) div ms_per_day * ms_per_day - offset"

definition range_days :: "int \<Rightarrow> int" where
  "range_days days = min (max days 1) 90"

definition analytics_since :: "int \<Rightarrow> int \<Rightarrow> ms \<Rightarrow> ms" where
  "analytics_since offset days now = local_midnight offset now - (range_days days - 1) * ms_per_day"

definition status_totals_of :: "message_row list \<Rightarrow> status_totals" where
  "status_totals_of rows =
     (let n = (\<lambda>s. count_rows (\<lambda>g. mg_status g = s) rows) in
      \<lparr>st_sent = n MSent, st_delivered = n MDelivered, st_read = n MRead, st_failed = n MFailed,
       st_total = length rows\<rparr>)"

definition daily_series :: "int \<Rightarrow> ms \<Rightarrow> message_row list \<Rightarrow> daily_point list" where
  "daily_series days since rows =
     map (\<lambda>i. let date = iso_date (since + int i * ms_per_day);
                  on_day = (\<lambda>g. iso_date (mg_createdAt g) = date)
              in \<lparr>dp_date = date,
                  dp_delivered = count_rows (\<lambda>g. on_day g \<and> mg_status g \<in> {MDelivered, MRead}) rows,
                  dp_failed = count_rows (\<lambda>g. on_day g \<and> mg_status g = MFailed) rows\<rparr>)
       [0..<nat days]"

definition message_analytics_of ::
  "int \<Rightarrow> org \<Rightarrow> int option \<Rightarrow> string option \<Rightarrow> mworld \<Rightarrow> message_analytics" where
  "message_analytics_of offset ssoOrgId days scopedWabaId m =
     (let days = nullish_def_val days 14;
          since = analytics_since offset days (mnow m);
          rows = filter (\<lambda>g. visible_message ssoOrgId scopedWabaId (m_core m) g \<and> since \<le> mg_createdAt g) (m_messages m);
          totals = status_totals_of rows;
          reached = st_delivered totals + st_read totals
      in \<lparr>ma_rangeDays = range_days days, ma_totals = totals,
          ma_deliveryRate = (if st_total totals = 0 then 0
                             else js_round_div (1000 * int reached) (int (st_total totals))),
          ma_readRate = (if reached = 0 then 0 else js_round_div (1000 * int (st_read totals)) (int reached)),
          ma_series = daily_series (range_days days) since rows\<rparr>)"

end
