(* ===== verification/Inbox.thy ===== *)
theory Inbox
  imports Messaging
begin

text \<open>
  \<open>src/inbox/inbox.service.ts\<close> and \<open>inbox-media.service.ts\<close>: the conversation list and its search, one thread read in pages
  by a cursor, and what a person does to it: read, close, assign, reply within Meta's window.
\<close>

section \<open>The window\<close>

definition WINDOW_MS :: ms where "WINDOW_MS = 86400000"

definition MEDIA_TYPES :: "string list" where
  "MEDIA_TYPES = [''image'', ''video'', ''audio'', ''document'', ''sticker'']"

definition THREAD_PAGE :: int where "THREAD_PAGE = 50"

text \<open>Open until the instant given, or closed.\<close>

definition windowFor :: "ms \<Rightarrow> ms option \<Rightarrow> ms option" where
  "windowFor now lastInboundAt =
     (case lastInboundAt of
        None \<Rightarrow> None
      | Some at \<Rightarrow> if now < at + WINDOW_MS then Some (at + WINDOW_MS) else None)"

section \<open>Answers\<close>

record conversation_dto =
  vd_id :: nat
  vd_wabaId :: string
  vd_phoneNumberId :: string
  vd_contactPhone :: string
  vd_contactName :: "string option"
  vd_savedName :: "string option"
  vd_optedOut :: bool
  vd_lastPreview :: string
  vd_lastDirection :: direction
  vd_lastMessageAt :: ms
  vd_lastInboundAt :: "ms option"
  vd_unreadCount :: nat
  vd_status :: conversation_status
  vd_assigneeUserId :: "nat option"
  vd_window :: "ms option"

record thread_message =
  tm_id :: string
  tm_direction :: direction
  tm_metaMessageId :: "string option"
  tm_type :: string
  tm_payload :: json
  tm_timestamp :: ms
  tm_status :: "message_status option"
  tm_templateName :: "string option"
  tm_error :: "message_error option"
  tm_senderName :: "string option"
  tm_mediaUrl :: "string option"

record thread_dto =
  td_conversation :: conversation_dto
  td_messages :: "thread_message list"
  td_nextCursor :: "ms option"
  td_historyDays :: "int option"

text \<open>\<open>s ? { k: s } : {}\<close>: an empty text is left out as a missing one is.\<close>

definition shown_text :: "string option \<Rightarrow> string option" where
  "shown_text s = (if truthy s then s else None)"

definition toConversationDto :: "ms \<Rightarrow> conversation_row \<Rightarrow> contact_row option \<Rightarrow> conversation_dto" where
  "toConversationDto now c contact =
     \<lparr>vd_id = cv_id c, vd_wabaId = cv_wabaId c, vd_phoneNumberId = cv_phoneNumberId c,
      vd_contactPhone = cv_contactPhone c, vd_contactName = shown_text (cv_contactName c),
      vd_savedName = shown_text (Option.bind contact ct_name),
      vd_optedOut = (case contact of None \<Rightarrow> False | Some k \<Rightarrow> ct_optedOut k),
      vd_lastPreview = nullish_def_val (cv_lastPreview c) [], vd_lastDirection = cv_lastDirection c,
      vd_lastMessageAt = cv_lastMessageAt c, vd_lastInboundAt = cv_lastInboundAt c,
      vd_unreadCount = cv_unreadCount c, vd_status = cv_status c, vd_assigneeUserId = cv_assigneeUserId c,
      vd_window = windowFor now (cv_lastInboundAt c)\<rparr>"

definition toOutboundMessage :: "message_row \<Rightarrow> thread_message" where
  "toOutboundMessage g =
     \<lparr>tm_id = ''out:'' @ nat_str (mg_id g), tm_direction = Outbound,
      tm_metaMessageId = shown_text (mg_metaMessageId g), tm_type = message_type_name (mg_type g),
      tm_payload = mg_payload g, tm_timestamp = mg_createdAt g, tm_status = Some (mg_status g),
      tm_templateName = shown_text (mg_templateName g), tm_error = message_error_of g,
      tm_senderName = None, tm_mediaUrl = None\<rparr>"

definition toInboundMessage :: "inbound_row \<Rightarrow> thread_message" where
  "toInboundMessage r =
     (let hasMedia = (ib_type r \<in> set MEDIA_TYPES \<and>
            (case j_get ''id'' (Some (ib_payload r)) of Some (JStr _) \<Rightarrow> True | _ \<Rightarrow> False)) in
      \<lparr>tm_id = ''in:'' @ nat_str (ib_id r), tm_direction = Inbound,
       tm_metaMessageId = Some (ib_metaMessageId r), tm_type = ib_type r, tm_payload = ib_payload r,
       tm_timestamp = ib_timestamp r, tm_status = None, tm_templateName = None, tm_error = None,
       tm_senderName = shown_text (ib_senderName r),
       tm_mediaUrl = (if hasMedia then Some (''/inbox/media/'' @ nat_str (ib_id r)) else None)\<rparr>)"

section \<open>The list\<close>

record conversation_query =
  cq_page :: "int option"
  cq_limit :: "int option"
  cq_status :: "conversation_status option"
  cq_search :: "string option"
  cq_phoneNumberId :: "string option"
  cq_wabaId :: "string option"
  cq_unreadOnly :: bool

text \<open>\<open>contains\<close> on either the name, whatever its case, or the digits of the number.\<close>

definition searchFilter :: "string \<Rightarrow> conversation_row \<Rightarrow> bool" where
  "searchFilter search c =
     (let digits = normalisePhone search in
      (case cv_contactName c of None \<Rightarrow> False | Some n \<Rightarrow> contains_text (js_lower search) (js_lower n)) \<or>
      (digits \<noteq> [] \<and> contains_text digits (cv_contactPhone c)))"

definition given_is :: "string option \<Rightarrow> string \<Rightarrow> bool" where
  "given_is wanted x = (truthy wanted \<longrightarrow> wanted = Some x)"

definition conversation_where ::
  "org \<Rightarrow> conversation_query \<Rightarrow> string option \<Rightarrow> conversation_row \<Rightarrow> bool" where
  "conversation_where ssoOrgId query scopedWabaId c =
     (cv_org c = ssoOrgId \<and>
      (if truthy (cq_wabaId query) then cq_wabaId query = Some (cv_wabaId c)
       else given_is scopedWabaId (cv_wabaId c)) \<and>
      given_is (cq_phoneNumberId query) (cv_phoneNumberId c) \<and>
      (case cq_status query of None \<Rightarrow> True | Some s \<Rightarrow> cv_status c = s) \<and>
      (cq_unreadOnly query \<longrightarrow> 0 < cv_unreadCount c) \<and>
      (truthy (cq_search query) \<longrightarrow> searchFilter (the (cq_search query)) c))"

text \<open>The saved contact behind a thread: keyed on the digits, the last row read wins.\<close>

definition contactFor :: "org \<Rightarrow> world \<Rightarrow> string \<Rightarrow> contact_row option" where
  "contactFor ssoOrgId w contactPhone =
     List.find (\<lambda>k. ct_org k = ssoOrgId \<and> normalisePhone (ct_phone k) = contactPhone) (rev (w_contacts w))"

definition inbox_list ::
  "org \<Rightarrow> conversation_query \<Rightarrow> string option \<Rightarrow> mworld \<Rightarrow> conversation_dto page_of" where
  "inbox_list ssoOrgId query scopedWabaId m =
     (let page = max 1 (nullish_def_val (cq_page query) 1);
          limit = min 100 (max 1 (nullish_def_val (cq_limit query) 30));
          rows = newest_first cv_lastMessageAt
            (filter (conversation_where ssoOrgId query scopedWabaId) (m_conversations m));
          total_rows = int (length rows)
      in paginate (map (\<lambda>c. toConversationDto (mnow m) c (contactFor ssoOrgId (m_core m) (cv_contactPhone c)))
             (page_slice page limit rows))
           total_rows (ceil_div total_rows limit) page limit)"

definition asking :: "conversation_query \<Rightarrow> int \<Rightarrow> int \<Rightarrow> conversation_query" where
  "asking query page limit = query\<lparr>cq_page := Some page, cq_limit := Some limit\<rparr>"

lemma conversation_where_asking [simp]:
  "conversation_where x (asking query page limit) scope = conversation_where x query scope"
  by (rule ext) (simp add: conversation_where_def asking_def)

interpretation thread_list: listing
  "\<lambda>page limit. inbox_list x (asking query page limit) scope m"
  "map (\<lambda>c. toConversationDto (mnow m) c (contactFor x (m_core m) (cv_contactPhone c)))
     (newest_first cv_lastMessageAt (filter (conversation_where x query scope) (m_conversations m)))"
  100 0 for x query scope m
  by unfold_locales
    (simp_all add: inbox_list_def Let_def nullish_def_val_def page_slice_map ceil_div_nonneg max_def min_def
      asking_def conversation_where_asking [unfolded asking_def])

section \<open>One thread\<close>

definition requireConversation :: "org \<Rightarrow> nat \<Rightarrow> string option \<Rightarrow> (mworld, conversation_row) svc" where
  "requireConversation ssoOrgId conversationId scopedWabaId m =
     (case List.find (\<lambda>c. cv_id c = conversationId \<and> cv_org c = ssoOrgId \<and> given_is scopedWabaId (cv_wabaId c))
             (m_conversations m) of
        None \<Rightarrow> (Inl (NotFound ''Conversation not found''), m)
      | Some c \<Rightarrow> (Inr c, m))"

definition spellingsOf :: "string \<Rightarrow> string list" where
  "spellingsOf contactPhone = [contactPhone, CHR ''+'' # contactPhone]"

text \<open>\<open>before\<close> as the client wrote it and the instant \<open>new Date\<close> reads in it, if any.\<close>

definition parseCursor :: "(string \<Rightarrow> ms option) \<Rightarrow> string option \<Rightarrow> http_exn + ms option" where
  "parseCursor date_of before =
     (if \<not> truthy before then Inr None
      else case date_of (the before) of
        None \<Rightarrow> Inl (BadRequest ''`before` must be an ISO 8601 timestamp'')
      | Some at \<Rightarrow> Inr (Some at))"

definition before_cursor :: "ms option \<Rightarrow> ms \<Rightarrow> bool" where
  "before_cursor before t = (case before of None \<Rightarrow> True | Some b \<Rightarrow> t < b)"

definition thread_outbound :: "conversation_row \<Rightarrow> ms option \<Rightarrow> mworld \<Rightarrow> message_row list" where
  "thread_outbound c before m =
     filter (\<lambda>g. mg_org g = cv_org c \<and> mg_phoneNumberId g = cv_phoneNumberId c \<and>
         mg_to g \<in> set (spellingsOf (cv_contactPhone c)) \<and> before_cursor before (mg_createdAt g)) (m_messages m)"

definition thread_inbound :: "conversation_row \<Rightarrow> ms option \<Rightarrow> mworld \<Rightarrow> inbound_row list" where
  "thread_inbound c before m =
     filter (\<lambda>r. ib_phoneNumberId r = cv_phoneNumberId c \<and> ib_from r \<in> set (spellingsOf (cv_contactPhone c)) \<and>
         before_cursor before (ib_timestamp r)) (m_inbound m)"

text \<open>A page of each side, merged newest first and cut back to one page; the cursor is the
  oldest message shown.\<close>

definition thread_page ::
  "conversation_row \<Rightarrow> ms option \<Rightarrow> int \<Rightarrow> mworld \<Rightarrow> thread_message list \<times> ms option" where
  "thread_page c before limit m =
     (let outbound = take (nat limit) (newest_first mg_createdAt (thread_outbound c before m));
          inbound = take (nat limit) (newest_first ib_timestamp (thread_inbound c before m));
          merged = newest_first tm_timestamp (map toOutboundMessage outbound @ map toInboundMessage inbound);
          page = take (nat limit) merged;
          more = (limit < int (length merged) \<or> int (length page) = limit)
      in (page, if more \<and> page \<noteq> [] then Some (tm_timestamp (last page)) else None))"

definition inbox_thread ::
  "(string \<Rightarrow> ms option) \<Rightarrow> org \<Rightarrow> nat \<Rightarrow> string option \<Rightarrow> int option \<Rightarrow> string option \<Rightarrow> (mworld, thread_dto) svc" where
  "inbox_thread date_of ssoOrgId conversationId before limit scopedWabaId =
     bindE (requireConversation ssoOrgId conversationId scopedWabaId) (\<lambda>c.
     let limit = min 100 (max 1 (nullish_def_val limit THREAD_PAGE)) in
     bindE (ok_or (parseCursor date_of before)) (\<lambda>cursor.
     getE (\<lambda>m.
       let (page, nextCursor) = thread_page c cursor limit m;
           historyDays = el_historyDays (limits_forOrg (m_core m) ssoOrgId)
       in \<lparr>td_conversation = toConversationDto (mnow m) c (contactFor ssoOrgId (m_core m) (cv_contactPhone c)),
           td_messages = rev page, td_nextCursor = nextCursor,
           td_historyDays = (if historyDays = Some 0 then None else historyDays)\<rparr>)))"

section \<open>Acting on a thread\<close>

definition update_conversation ::
  "org \<Rightarrow> nat \<Rightarrow> (conversation_row \<Rightarrow> conversation_row) \<Rightarrow> conversation_row \<Rightarrow> (mworld, conversation_dto) svc" where
  "update_conversation ssoOrgId conversationId f c m =
     (Inr (toConversationDto (mnow m) (f c) (contactFor ssoOrgId (m_core m) (cv_contactPhone (f c)))),
      m\<lparr>m_conversations := update_rows (\<lambda>r. cv_id r = conversationId) f (m_conversations m)\<rparr>)"

definition inbox_markRead :: "org \<Rightarrow> nat \<Rightarrow> string option \<Rightarrow> (mworld, conversation_dto) svc" where
  "inbox_markRead ssoOrgId conversationId scopedWabaId =
     bindE (requireConversation ssoOrgId conversationId scopedWabaId) (\<lambda>c m.
     update_conversation ssoOrgId conversationId
       (\<lambda>r. r\<lparr>cv_unreadCount := 0, cv_lastReadAt := Some (mnow m)\<rparr>) c m)"

record update_conversation_dto =
  ud_status :: "conversation_status option"
  ud_assigneeUserId :: "nat option option"

definition inbox_update ::
  "org \<Rightarrow> nat \<Rightarrow> update_conversation_dto \<Rightarrow> string option \<Rightarrow> (mworld, conversation_dto) svc" where
  "inbox_update ssoOrgId conversationId dto scopedWabaId =
     bindE (requireConversation ssoOrgId conversationId scopedWabaId)
       (update_conversation ssoOrgId conversationId
          (\<lambda>r. r\<lparr>cv_status := nullish_def_val (ud_status dto) (cv_status r),
                cv_assigneeUserId := (case ud_assigneeUserId dto of None \<Rightarrow> cv_assigneeUserId r | Some a \<Rightarrow> a)\<rparr>))"

definition inbox_reply ::
  "menv \<Rightarrow> nat \<Rightarrow> org \<Rightarrow> nat \<Rightarrow> send_reply_dto \<Rightarrow> string option \<Rightarrow> (mworld, send_response) svc" where
  "inbox_reply v userId ssoOrgId conversationId dto scopedWabaId =
     bindE (requireConversation ssoOrgId conversationId scopedWabaId) (\<lambda>c.
     bindE (getE (\<lambda>m. windowFor (mnow m) (cv_lastInboundAt c))) (\<lambda>window.
     thenE (refuse_if (window = None \<and> sd_type dto \<noteq> TTemplate)
              (BadRequest (if cv_lastInboundAt c \<noteq> None
                 then ''The 24-hour customer service window has closed. Only an approved template can be sent until the customer replies again.''
                 else ''This customer has never replied, so only an approved template can be sent to open the conversation.'')))
      (sendMessage v userId ssoOrgId
         (send_reply_dto.extend dto (send_message_dto.fields (cv_phoneNumberId c) (cv_contactPhone c))) scopedWabaId)))"

section \<open>Media (src/inbox/inbox-media.service.ts)\<close>

text \<open>Meta's side: the answer to the lookup of a media id and the headers of a download, \<open>None\<close>
  when the call throws. The stream of bytes stands for the URL it comes from.\<close>

record media_service =
  ms_lookup :: "string \<Rightarrow> string \<Rightarrow> json option option"
  ms_download :: "string \<Rightarrow> string \<Rightarrow> (string option \<times> string option) option"

record media_stream =
  mm_stream :: string
  mm_contentType :: string
  mm_contentLength :: "int option option"
  mm_filename :: "string option"

definition tokenFor :: "menv \<Rightarrow> string \<Rightarrow> (mworld, string) svc" where
  "tokenFor v phoneNumberId m =
     (case getPhoneCache (mnow m) phoneNumberId (w_redis (m_core m)) of
        None \<Rightarrow> (Inl (NotFound (''Phone number '' @ phoneNumberId @ '' not found. Run a phone sync first.'')), m)
      | Some (_, accessToken) \<Rightarrow>
          (case mv_decrypt v accessToken of None \<Rightarrow> (Inl (RuntimeError ''decrypt''), m) | Some t \<Rightarrow> (Inr t, m)))"

definition cache_media_url :: "string \<Rightarrow> string \<Rightarrow> int \<Rightarrow> mworld \<Rightarrow> mworld" where
  "cache_media_url mediaId url ttl m =
     m\<lparr>m_core := (m_core m)\<lparr>w_redis := setMediaUrl (mnow m) mediaId url ttl (w_redis (m_core m))\<rparr>\<rparr>"

definition resolveUrl :: "media_service \<Rightarrow> string \<Rightarrow> string \<Rightarrow> (mworld, string) svc" where
  "resolveUrl s mediaId token m =
     (let cached = getMediaUrl (mnow m) mediaId (w_redis (m_core m)) in
      if truthy cached then (Inr (the cached), m)
      else case ms_lookup s mediaId token of
        None \<Rightarrow> (Inl (NotFound ''Media is no longer available from WhatsApp''), m)
      | Some body \<Rightarrow>
          (case j_get ''url'' body of
             Some (JStr url) \<Rightarrow>
               if url = [] then (Inl (NotFound ''WhatsApp returned no download URL for this media''), m)
               else (Inr url, cache_media_url mediaId url 300 m)
           | _ \<Rightarrow> (Inl (NotFound ''WhatsApp returned no download URL for this media''), m)))"

definition text_of :: "json option \<Rightarrow> string option" where
  "text_of v = (case v of Some (JStr s) \<Rightarrow> Some s | _ \<Rightarrow> None)"

definition visible_reply :: "org \<Rightarrow> string option \<Rightarrow> world \<Rightarrow> inbound_row \<Rightarrow> bool" where
  "visible_reply ssoOrgId scopedWabaId w r =
     (membership_holds ssoOrgId (ib_wabaId r) w \<and> given_is scopedWabaId (ib_wabaId r))"

definition media_fetch ::
  "menv \<Rightarrow> media_service \<Rightarrow> org \<Rightarrow> nat \<Rightarrow> string option \<Rightarrow> (mworld, media_stream) svc" where
  "media_fetch v s ssoOrgId inboundMessageId scopedWabaId =
     bindE (getE (\<lambda>m. List.find (\<lambda>r. ib_id r = inboundMessageId \<and> visible_reply ssoOrgId scopedWabaId (m_core m) r)
              (m_inbound m))) (\<lambda>message.
     case message of
       None \<Rightarrow> throwE (NotFound ''Message not found'')
     | Some r \<Rightarrow>
         let payload = Some (ib_payload r); mediaId = text_of (j_get ''id'' payload) in
         thenE (refuse_if (\<not> truthy mediaId) (NotFound ''This message carries no media''))
        (bindE (tokenFor v (ib_phoneNumberId r)) (\<lambda>token.
         bindE (resolveUrl s (the mediaId) token) (\<lambda>url m.
         case ms_download s url token of
           None \<Rightarrow> (Inl (NotFound ''Media could not be fetched from WhatsApp''),
                     cache_media_url (the mediaId) [] 1 m)
         | Some (contentType, contentLength) \<Rightarrow>
             (Inr \<lparr>mm_stream = url,
                   mm_contentType = nullish_def_val contentType
                     (nullish_def_val (text_of (j_get ''mime_type'' payload)) ''application/octet-stream''),
                   mm_contentLength = (if truthy contentLength
                     then Some (text_number (the contentLength)) else None),
                   mm_filename = text_of (j_get ''filename'' payload)\<rparr>, m)))))"

end
