(* ===== verification/Messaging_State.thy ===== *)
theory Messaging_State
  imports Tables Meta_Intake Inbox
begin

text \<open>
  The messaging tables however the service is driven: what is well formed about each row, the
  keys the migrations put on the tables, and that everything that can happen keeps it: Meta's
  payloads, signed or not and of any shape, sends, replies, and what people do in the inbox
  and with their notifications.
\<close>

section \<open>Well-formed rows\<close>

definition message_ok :: "message_row \<Rightarrow> bool" where
  "message_ok g =
     ((mg_status g = MDelivered \<longrightarrow> mg_deliveredAt g \<noteq> None) \<and>
      (mg_status g = MRead \<longrightarrow> mg_readAt g \<noteq> None \<and> mg_deliveredAt g \<noteq> None) \<and>
      (mg_readAt g \<noteq> None \<longrightarrow> mg_deliveredAt g \<noteq> None) \<and>
      (mg_status g = MFailed \<longleftrightarrow> mg_failedAt g \<noteq> None) \<and>
      (mg_status g \<noteq> MFailed \<longrightarrow>
         mg_failureReason g = None \<and> mg_failureCode g = None \<and> mg_failureDetail g = None) \<and>
      (\<forall>n. mg_failureCode g = Some n \<longrightarrow> int4 n))"

definition conversation_ok :: "conversation_row \<Rightarrow> bool" where
  "conversation_ok c =
     (cv_contactPhone c \<noteq> [] \<and> list_all is_digit (cv_contactPhone c) \<and>
      (\<forall>s. cv_lastPreview c = Some s \<longrightarrow> js_length s \<le> MAX_PREVIEW) \<and>
      (cv_lastDirection c = Inbound \<longrightarrow> cv_lastInboundAt c = Some (cv_lastMessageAt c)) \<and>
      (0 < cv_unreadCount c \<longrightarrow> cv_lastInboundAt c \<noteq> None))"

definition event_ok :: "meta_event \<Rightarrow> bool" where
  "event_ok e = (me_payload e \<noteq> JNull \<and> \<not> (me_processed e \<and> me_error e \<noteq> None))"

definition messaging_ok :: "mworld \<Rightarrow> bool" where
  "messaging_ok m =
     (table_ok mg_id mg_metaMessageId message_ok (m_nextId m) (m_messages m) \<and>
      table_ok ib_id (\<lambda>r. Some (ib_metaMessageId r)) (\<lambda>_. True) (m_nextId m) (m_inbound m) \<and>
      table_ok cv_id (\<lambda>c. Some (conversation_key c)) conversation_ok (m_nextId m) (m_conversations m) \<and>
      table_ok me_id (\<lambda>_. None :: unit option) event_ok (m_nextId m) (m_events m) \<and>
      table_ok nt_id (\<lambda>_. None :: unit option) (\<lambda>_. True) (m_nextId m) (m_notifications m) \<and>
      distinct (map dv_token (m_devices m)) \<and> distinct (map np_userId (m_prefs m)))"

lemma messaging_okD:
  assumes "messaging_ok m"
  shows "table_ok mg_id mg_metaMessageId message_ok (m_nextId m) (m_messages m)"
    and "table_ok ib_id (\<lambda>r. Some (ib_metaMessageId r)) (\<lambda>_. True) (m_nextId m) (m_inbound m)"
    and "table_ok cv_id (\<lambda>c. Some (conversation_key c)) conversation_ok (m_nextId m) (m_conversations m)"
    and "table_ok me_id (\<lambda>_. None :: unit option) event_ok (m_nextId m) (m_events m)"
    and "table_ok nt_id (\<lambda>_. None :: unit option) (\<lambda>_. True) (m_nextId m) (m_notifications m)"
    and "distinct (map dv_token (m_devices m))" "distinct (map np_userId (m_prefs m))"
  using assms by (simp_all add: messaging_ok_def)

text \<open>One table changes, the others stay; ids may have been given out.\<close>

lemma ok_tables:
  assumes "messaging_ok m" "m_nextId m \<le> n"
  shows ok_messages: "table_ok mg_id mg_metaMessageId message_ok n gs \<Longrightarrow>
      messaging_ok (m\<lparr>m_messages := gs, m_nextId := n\<rparr>)"
    and ok_inbound: "table_ok ib_id (\<lambda>r. Some (ib_metaMessageId r)) (\<lambda>_. True) n rs \<Longrightarrow>
      messaging_ok (m\<lparr>m_inbound := rs, m_nextId := n\<rparr>)"
    and ok_conversations: "table_ok cv_id (\<lambda>c. Some (conversation_key c)) conversation_ok n cs \<Longrightarrow>
      messaging_ok (m\<lparr>m_conversations := cs, m_nextId := n\<rparr>)"
    and ok_events: "table_ok me_id (\<lambda>_. None :: unit option) event_ok n es \<Longrightarrow>
      messaging_ok (m\<lparr>m_events := es, m_nextId := n\<rparr>)"
    and ok_notifications: "table_ok nt_id (\<lambda>_. None :: unit option) (\<lambda>_. True) n ns \<Longrightarrow>
      messaging_ok (m\<lparr>m_notifications := ns, m_nextId := n\<rparr>)"
  using assms by (auto simp: messaging_ok_def intro: table_ok_mono)

lemma ok_other [simp]:
  "messaging_ok (m\<lparr>m_core := c\<rparr>) = messaging_ok m" "messaging_ok (m\<lparr>m_hooks := h\<rparr>) = messaging_ok m"
  "messaging_ok (m\<lparr>m_pushes := p\<rparr>) = messaging_ok m" "messaging_ok (m\<lparr>m_alerts := a\<rparr>) = messaging_ok m"
  "messaging_ok (m\<lparr>m_graph := g\<rparr>) = messaging_ok m" "messaging_ok (m\<lparr>m_quality := q\<rparr>) = messaging_ok m"
  "messaging_ok (m\<lparr>m_templates := t\<rparr>) = messaging_ok m"
  by (simp_all add: messaging_ok_def)

section \<open>Notifications\<close>

lemma deliver_keeps:
  assumes "messaging_ok m"
  shows "messaging_ok (snd (deliver v tokens message m))"
proof -
  define m1 where "m1 = snd (sendToTokens v tokens message m)"
  have "messaging_ok m1" using assms
    by (auto simp: m1_def sendToTokens_def Let_def split: option.split)
  moreover have "snd (deliver v tokens message m) = m1 \<or>
      (\<exists>p. snd (deliver v tokens message m) = m1\<lparr>m_devices := filter p (m_devices m1)\<rparr>)"
    by (auto simp: deliver_def m1_def Let_def split: prod.split)
  ultimately show ?thesis by (auto simp: messaging_ok_def distinct_map_filter)
qed

lemma notification_push_keeps: "messaging_ok m \<Longrightarrow> messaging_ok (notification_push v us k p m)"
  by (simp add: notification_push_def Let_def deliver_keeps)

lemma notification_record_keeps:
  assumes "messaging_ok m"
  shows "messaging_ok (notification_record v userIds k p x m)"
proof (cases "mv_raises v ''notification.createMany''")
  case False
  let ?n' = "m_nextId m + length userIds"
  let ?new = "map (new_notification k p x (mnow m)) (zip [m_nextId m..<?n'] userIds)"
  have "map nt_id ?new = map fst (zip [m_nextId m..<?n'] userIds)"
    by (simp add: new_notification_def comp_def)
  also have "\<dots> = [m_nextId m..<?n']" by (simp add: map_fst_zip_take)
  finally have "table_ok nt_id (\<lambda>_. None :: unit option) (\<lambda>_. True) ?n' (m_notifications m @ ?new)"
    by (intro table_ok_append [OF messaging_okD(5) [OF assms]]) (simp_all add: map_filter_None)
  then show ?thesis using False assms ok_notifications [of m ?n']
    by (simp add: notification_record_def)
qed (use assms in \<open>simp add: notification_record_def\<close>)

lemma fold_keeps: "(\<And>x s. x \<in> set xs \<Longrightarrow> I s \<Longrightarrow> I (f x s)) \<Longrightarrow> I s \<Longrightarrow> I (fold f xs s)"
  by (induction xs arbitrary: s) auto

lemma notifyWaba_keeps: "messaging_ok m \<Longrightarrow> messaging_ok (notifyWaba v a k p m)"
  unfolding notifyWaba_def Let_def
  by (auto intro!: notification_push_keeps fold_keeps [where I = messaging_ok] notification_record_keeps)

lemma notifyUsers_keeps: "messaging_ok m \<Longrightarrow> messaging_ok (notifyUsers v us k p x m)"
  by (simp add: notifyUsers_def notification_push_keeps notification_record_keeps)

lemma registerToken_keeps:
  assumes "messaging_ok m"
  shows "messaging_ok (snd (registerToken u x dto m))"
proof -
  let ?key = "\<lambda>d. dv_token d = rt_token dto"
  have "map dv_token (update_rows ?key (\<lambda>_. r) (m_devices m)) = map dv_token (m_devices m)"
    if "dv_token r = rt_token dto" for r
    by (rule map_key_update_rows) (simp add: that)
  then show ?thesis using assms
    by (auto simp: registerToken_def Let_def messaging_ok_def list_ex_iff)
qed

lemma removeToken_keeps: "messaging_ok m \<Longrightarrow> messaging_ok (snd (removeToken u t m))"
  by (auto simp: removeToken_def Let_def messaging_ok_def distinct_map_filter)

lemma updatePreferences_keeps:
  assumes "messaging_ok m"
  shows "messaging_ok (snd (updatePreferences v u dto m))"
proof -
  have "map np_userId (update_rows (\<lambda>p. np_userId p = u) (apply_preferences dto) (m_prefs m)) =
      map np_userId (m_prefs m)"
    by (rule map_key_update_rows) (simp add: apply_preferences_def)
  moreover have "np_userId (apply_preferences dto (DEFAULT_PREFERENCES u)) = u"
    by (simp add: apply_preferences_def DEFAULT_PREFERENCES_def)
  ultimately show ?thesis using assms
    by (auto simp: updatePreferences_def Let_def messaging_ok_def preference_row_def find_eq_None)
qed

lemma notification_markRead_keeps:
  assumes "messaging_ok m"
  shows "messaging_ok (snd (notification_markRead u x ids m))"
proof -
  have "table_ok nt_id (\<lambda>_. None :: unit option) (\<lambda>_. True) (m_nextId m)
      (update_rows p (\<lambda>n. n\<lparr>nt_readAt := t\<rparr>) (m_notifications m))" for p t
    by (rule table_ok_update [OF messaging_okD(5) [OF assms]]) simp
  then show ?thesis using assms by (simp add: notification_markRead_def Let_def messaging_ok_def)
qed

section \<open>Conversations\<close>

lemma upsert_conversation_keeps:
  assumes "messaging_ok m"
    and "conversation_key (fresh (m_nextId m) (mnow m)) = k" "cv_id (fresh (m_nextId m) (mnow m)) = m_nextId m"
    and "conversation_ok (fresh (m_nextId m) (mnow m))"
    and "\<And>c. conversation_key (change c) = conversation_key c \<and> cv_id (change c) = cv_id c \<and>
      (conversation_ok c \<longrightarrow> conversation_ok (change c))"
  shows "messaging_ok (upsert_conversation k fresh change m)"
proof (cases "list_ex (\<lambda>c. conversation_key c = k) (m_conversations m)")
  case True
  have "table_ok cv_id (\<lambda>c. Some (conversation_key c)) conversation_ok (m_nextId m)
      (update_rows (\<lambda>c. conversation_key c = k) change (m_conversations m))"
    by (rule table_ok_update [OF messaging_okD(3) [OF assms(1)]]) (simp add: assms(5))
  then show ?thesis using True assms(1) by (simp add: upsert_conversation_def messaging_ok_def)
next
  case False
  have "table_ok cv_id (\<lambda>c. Some (conversation_key c)) conversation_ok (Suc (m_nextId m))
      (m_conversations m @ [fresh (m_nextId m) (mnow m)])"
    by (rule table_ok_snoc [OF messaging_okD(3) [OF assms(1)]])
      (use False assms(2-4) in \<open>auto simp: list_ex_iff\<close>)
  then show ?thesis using False ok_conversations [OF assms(1), of "Suc (m_nextId m)"]
    by (simp add: upsert_conversation_def)
qed

lemma normalisePhone_digits: "list_all is_digit (normalisePhone s)"
  by (simp add: normalisePhone_def list_all_iff)

lemma recordInbound_keeps:
  assumes "messaging_ok m"
  shows "messaging_ok (recordInbound v r m)"
proof -
  let ?phone = "normalisePhone (ii_from r)" and ?preview = "inboundPreview (ii_type r) (ii_payload r)"
  have step: "messaging_ok (upsert_conversation (x, ii_phoneNumberId r, ?phone)
      (inbound_conversation r x ?phone ?preview at) (inbound_change r ?preview at) s)"
    if "messaging_ok s" "?phone \<noteq> []" for x at s
    by (rule upsert_conversation_keeps [OF that(1)])
      (simp_all add: inbound_conversation_def inbound_change_def conversation_key_def conversation_ok_def
        that(2) normalisePhone_digits inboundPreview_length)
  show ?thesis
    by (auto simp: recordInbound_def Let_def assms split: option.split
        intro!: fold_keeps [where I = messaging_ok] step)
qed

lemma recordOutbound_keeps:
  assumes "messaging_ok m"
  shows "messaging_ok (recordOutbound v r m)"
proof -
  let ?phone = "normalisePhone (oi_to r)"
  let ?preview = "outboundPreview (oi_type r) (oi_payload r) (oi_templateName r)"
  have "messaging_ok (upsert_conversation (oi_org r, oi_phoneNumberId r, ?phone)
      (outbound_conversation r ?phone ?preview) (outbound_change r ?preview) m)"
    if "?phone \<noteq> []"
    by (rule upsert_conversation_keeps [OF assms])
      (simp_all add: outbound_conversation_def outbound_change_def conversation_key_def conversation_ok_def
        that normalisePhone_digits outboundPreview_length)
  then show ?thesis using assms by (simp add: recordOutbound_def Let_def)
qed

lemma update_conversation_keeps:
  assumes "messaging_ok m"
    and "\<And>c. conversation_key (f c) = conversation_key c \<and> cv_id (f c) = cv_id c \<and>
      (conversation_ok c \<longrightarrow> conversation_ok (f c))"
  shows "messaging_ok (snd (update_conversation x i f c m))"
proof -
  have "table_ok cv_id (\<lambda>c. Some (conversation_key c)) conversation_ok (m_nextId m)
      (update_rows (\<lambda>r. cv_id r = i) f (m_conversations m))"
    by (rule table_ok_update [OF messaging_okD(3) [OF assms(1)]]) (simp add: assms(2))
  then show ?thesis using assms(1) by (simp add: update_conversation_def messaging_ok_def)
qed

section \<open>Meta's payloads\<close>

lemma status_change_ok:
  assumes "message_ok g" "status_rank (mg_status g) < status_rank status"
    and "status = MFailed \<Longrightarrow> (case Option.bind failure sf_code of None \<Rightarrow> True | Some n \<Rightarrow> int4 n)"
  shows "message_ok (status_change status failure now g)"
proof -
  have unfailed: "mg_status g \<noteq> MFailed" using assms(2) by (cases status) auto
  show ?thesis
  proof (cases status)
    case MFailed
    with assms(1,3) show ?thesis
      by (auto simp: status_change_def message_ok_def split: option.splits)
  qed (use assms(1,2) unfailed in \<open>auto simp: status_change_def message_ok_def\<close>)
qed

lemma status_change_key [simp]:
  "mg_id (status_change s f now g) = mg_id g" "mg_metaMessageId (status_change s f now g) = mg_metaMessageId g"
  "mg_status (status_change s f now g) = s"
  by (cases s; simp add: status_change_def)+

lemma advance_status_keeps:
  assumes "messaging_ok m"
  shows "messaging_ok (advance_status v i status failure m)"
proof -
  note tab = messaging_okD(1) [OF assms]
  { fix g
    assume g: "List.find (\<lambda>g. mg_metaMessageId g = Some i) (m_messages m) = Some g"
      and rank: "status_rank (mg_status g) < status_rank status"
      and code: "\<not> (status = MFailed \<and> (case Option.bind failure sf_code of None \<Rightarrow> False | Some n \<Rightarrow> \<not> int4 n))"
    have "table_ok mg_id mg_metaMessageId message_ok (m_nextId m)
        (update_rows (\<lambda>g. mg_metaMessageId g = Some i) (status_change status failure (mnow m)) (m_messages m))"
    proof (rule table_ok_update [OF tab])
      fix r assume r: "r \<in> set (m_messages m)" "mg_metaMessageId r = Some i"
      then have "r = g" using table_ok_key [OF tab r(1)] find_SomeD [OF g] by metis
      with rank code show "mg_id (status_change status failure (mnow m) r) = mg_id r \<and>
          mg_metaMessageId (status_change status failure (mnow m) r) = mg_metaMessageId r \<and>
          (message_ok r \<longrightarrow> message_ok (status_change status failure (mnow m) r))"
        by (auto intro!: status_change_ok split: option.splits)
    qed
    then have "messaging_ok (m\<lparr>m_messages := update_rows (\<lambda>g. mg_metaMessageId g = Some i)
        (status_change status failure (mnow m)) (m_messages m)\<rparr>)"
      using assms by (simp add: messaging_ok_def) }
  then show ?thesis using assms by (simp add: advance_status_def split: option.split)
qed

lemma keeps_mod_const: "(\<And>s. I s \<Longrightarrow> I (f s)) \<Longrightarrow> keeps I (modE f)"
  by (rule keeps_modE)

lemma keeps_json [keeps_intros]:
  "keeps I (js_read k x)" "keeps I (js_elements x)"
  by (auto simp: js_read_def js_elements_def intro!: keeps_basic split: option.splits json.splits)

lemma keeps_status_handle: "keeps messaging_ok (status_handle v su)"
  by (auto simp: status_handle_def Let_def intro!: keeps_basic keeps_modE advance_status_keeps
      split: option.splits json.splits)

lemma inbound_store_keeps:
  assumes "messaging_ok m"
  shows "messaging_ok (inbound_store v a phone i sender from_in t payload at m)"
proof -
  have "messaging_ok (m\<lparr>m_inbound := m_inbound m @ [r], m_nextId := Suc (m_nextId m)\<rparr>)"
    if "ib_id r = m_nextId m" "\<not> list_ex (\<lambda>x. ib_metaMessageId x = ib_metaMessageId r) (m_inbound m)" for r
    by (rule ok_inbound [OF assms], simp, rule table_ok_snoc [OF messaging_okD(2) [OF assms]])
      (use that in \<open>auto simp: list_ex_iff\<close>)
  then show ?thesis using assms
    by (auto simp: inbound_store_def split: option.splits)
qed

lemma keeps_inbound_handle: "keeps messaging_ok (inbound_handle v a phone sender message)"
  unfolding inbound_handle_def Let_def
  by (intro keeps_bindE keeps_json keeps_thenE keeps_modE)
    (auto intro: inbound_store_keeps recordInbound_keeps notifyWaba_keeps split: option.splits)

lemma keeps_template_notify: "keeps messaging_ok (template_notify v i name status reason)"
  unfolding template_notify_def Let_def
  by (auto intro!: keeps_basic keeps_thenE keeps_bindE keeps_modE notifyWaba_keeps split: option.split)

lemma keeps_template_handle: "keeps messaging_ok (template_handle v value)"
  unfolding template_handle_def Let_def
  by (auto intro!: keeps_basic keeps_thenE keeps_modE keeps_template_notify split: option.split)

lemma account_handlers_keep [simp]:
  "messaging_ok (handleAccountUpdate x a m) = messaging_ok m"
  "messaging_ok (handlePhoneQualityUpdate v x a m) = messaging_ok m"
  "messaging_ok (handlePhoneNameUpdate v x a m) = messaging_ok m"
  by (simp_all add: handleAccountUpdate_def handlePhoneQualityUpdate_def handlePhoneNameUpdate_def
      update_numbers_def Let_def split: option.split)

lemma keeps_handleMessagesField: "keeps messaging_ok (handleMessagesField v a value)"
  unfolding handleMessagesField_def Let_def
  by (intro keeps_bindE keeps_thenE keeps_forE keeps_json keeps_basic keeps_inbound_handle keeps_status_handle)

lemma keeps_routeChange: "keeps messaging_ok (routeChange v field a value)"
  unfolding routeChange_def
  by (intro keeps_if keeps_handleMessagesField keeps_template_handle keeps_modE keeps_basic) simp_all

lemma store_event_keeps: "keeps messaging_ok (store_event v field a value)"
proof (rule keepsI)
  fix m assume ok: "messaging_ok m"
  have "messaging_ok (m\<lparr>m_events := m_events m @ [e], m_nextId := Suc (m_nextId m)\<rparr>)"
    if "me_id e = m_nextId m" "event_ok e" for e
    by (rule ok_events [OF ok], simp, rule table_ok_snoc [OF messaging_okD(4) [OF ok]]) (use that in simp_all)
  then show "messaging_ok (snd (store_event v field a value m))" using ok
    by (auto simp: store_event_def event_ok_def split: option.splits json.splits)
qed

text \<open>An event is marked once: processed when its handler returned, with the error when it threw.\<close>

definition open_event :: "nat \<Rightarrow> mworld \<Rightarrow> bool" where
  "open_event i m = (\<forall>e \<in> set (m_events m). me_id e = i \<longrightarrow> \<not> me_processed e \<and> me_error e = None)"

lemma update_event_keeps:
  assumes "messaging_ok m" "\<And>e. e \<in> set (m_events m) \<Longrightarrow> me_id e = i \<Longrightarrow> event_ok e \<Longrightarrow> event_ok (f e)"
    "\<And>e. me_id (f e) = me_id e"
  shows "messaging_ok (update_event i f m)"
proof -
  have "table_ok me_id (\<lambda>_. None :: unit option) event_ok (m_nextId m)
      (update_rows (\<lambda>e. me_id e = i) f (m_events m))"
    by (rule table_ok_update [OF messaging_okD(4) [OF assms(1)]]) (simp add: assms(2,3))
  then show ?thesis using assms(1) by (simp add: update_event_def messaging_ok_def)
qed

text \<open>No handler touches the stored events or the outbox.\<close>

definition apart :: "meta_event list \<Rightarrow> hook_world \<Rightarrow> mworld \<Rightarrow> bool" where
  "apart es h m = (m_events m = es \<and> m_hooks m = h)"

lemma apart_simps [simp]:
  "apart es h (m\<lparr>m_core := c\<rparr>) = apart es h m" "apart es h (m\<lparr>m_messages := gs\<rparr>) = apart es h m"
  "apart es h (m\<lparr>m_inbound := rs\<rparr>) = apart es h m" "apart es h (m\<lparr>m_conversations := cs\<rparr>) = apart es h m"
  "apart es h (m\<lparr>m_templates := ts\<rparr>) = apart es h m" "apart es h (m\<lparr>m_quality := qs\<rparr>) = apart es h m"
  "apart es h (m\<lparr>m_devices := ds\<rparr>) = apart es h m" "apart es h (m\<lparr>m_notifications := ns\<rparr>) = apart es h m"
  "apart es h (m\<lparr>m_pushes := ps\<rparr>) = apart es h m" "apart es h (m\<lparr>m_alerts := as\<rparr>) = apart es h m"
  "apart es h (m\<lparr>m_nextId := n\<rparr>) = apart es h m" "apart es h (m\<lparr>m_graph := g\<rparr>) = apart es h m"
  by (simp_all add: apart_def)

lemma deliver_apart [simp]: "apart es h (snd (deliver v ts p m)) = apart es h m"
  by (auto simp: deliver_def sendToTokens_def Let_def split: prod.split option.split)

lemma notifications_apart [simp]:
  "apart es h (notification_push v us k p m) = apart es h m"
  "apart es h (notification_record v us kn p x m) = apart es h m"
  by (simp_all add: notification_push_def notification_record_def Let_def)

lemma fold_apart: "(\<And>x s. apart es h (f x s) = apart es h s) \<Longrightarrow> apart es h (fold f xs m) = apart es h m"
  by (induction xs arbitrary: m) simp_all

lemma notifyWaba_apart [simp]: "apart es h (notifyWaba v a k p m) = apart es h m"
  by (simp add: notifyWaba_def Let_def fold_apart)

lemma recordInbound_apart [simp]: "apart es h (recordInbound v r m) = apart es h m"
  by (simp add: recordInbound_def upsert_conversation_def Let_def fold_apart split: option.split)

lemma handlers_apart [simp]:
  "apart es h (advance_status v i s f m) = apart es h m"
  "apart es h (inbound_store v a phone i' sender from_in t payload at m) = apart es h m"
  "apart es h (handleAccountUpdate x a m) = apart es h m"
  "apart es h (handlePhoneQualityUpdate v x a m) = apart es h m"
  "apart es h (handlePhoneNameUpdate v x a m) = apart es h m"
  by (simp_all add: advance_status_def inbound_store_def handleAccountUpdate_def handlePhoneQualityUpdate_def
      handlePhoneNameUpdate_def update_numbers_def Let_def split: option.split)

lemma keeps_apart_status: "keeps (apart es h) (status_handle v su)"
  by (auto simp: status_handle_def Let_def intro!: keeps_basic keeps_modE split: option.splits json.splits)

lemma keeps_apart_inbound: "keeps (apart es h) (inbound_handle v a phone sender message)"
  unfolding inbound_handle_def Let_def
  by (intro keeps_bindE keeps_json keeps_thenE keeps_modE) (auto split: option.splits)

lemma keeps_apart_template: "keeps (apart es h) (template_handle v value)"
  unfolding template_handle_def template_notify_def Let_def
  by (auto intro!: keeps_basic keeps_thenE keeps_bindE keeps_modE split: option.split)

lemma keeps_apart_route: "keeps (apart es h) (routeChange v field a value)"
  unfolding routeChange_def handleMessagesField_def Let_def
  by (intro keeps_if keeps_bindE keeps_thenE keeps_forE keeps_json keeps_basic keeps_modE
      keeps_apart_inbound keeps_apart_status keeps_apart_template) simp_all

section \<open>One change\<close>

text \<open>What becomes of a change the database takes: stored, handled, marked, forwarded.\<close>

definition marked :: "http_exn + unit \<Rightarrow> meta_event \<Rightarrow> meta_event" where
  "marked r e = (case r of Inr _ \<Rightarrow> e\<lparr>me_processed := True\<rparr> | Inl err \<Rightarrow> e\<lparr>me_error := Some (exn_message err)\<rparr>)"

lemma marked_fields [simp]:
  "me_id (marked r e) = me_id e" "me_eventType (marked r e) = me_eventType e"
  "me_wabaId (marked r e) = me_wabaId e" "me_payload (marked r e) = me_payload e"
  by (cases r; simp add: marked_def)+

lemma process_change_run:
  assumes "store_event v (j_get ''field'' (Some change)) (resolveWabaId entry (j_get ''value'' (Some change)))
      (j_get ''value'' (Some change)) m = (Inr (i, field, x), m1)"
    and "change \<noteq> JNull" "routeChange v field (resolveWabaId entry (j_get ''value'' (Some change))) x m1 = (r, m2)"
    and "\<not> mv_raises v ''webhookEvent.update''"
  shows "process_change v entry change m =
    (Inr (), forward_event v (resolveWabaId entry (j_get ''value'' (Some change))) i field x
       (update_event i (marked r) m2))"
  using assms
  by (cases r) (simp_all add: process_change_def Let_def thenE_def mark_event_def catchE_def marked_def [abs_def])

lemma process_change_cases:
  assumes "process_change v entry change m = (r, m')"
  obtains (refused) "m' = m"
  | (stopped) i field x m1 r2 m2 where
      "store_event v (j_get ''field'' (Some change)) (resolveWabaId entry (j_get ''value'' (Some change)))
         (j_get ''value'' (Some change)) m = (Inr (i, field, x), m1)"
      "routeChange v field (resolveWabaId entry (j_get ''value'' (Some change))) x m1 = (r2, m2)" "m' = m2"
  | (handled) i field x m1 r2 m2 where
      "store_event v (j_get ''field'' (Some change)) (resolveWabaId entry (j_get ''value'' (Some change)))
         (j_get ''value'' (Some change)) m = (Inr (i, field, x), m1)"
      "routeChange v field (resolveWabaId entry (j_get ''value'' (Some change))) x m1 = (r2, m2)"
      "m' = forward_event v (resolveWabaId entry (j_get ''value'' (Some change))) i field x
         (update_event i (marked r2) m2)"
proof (cases "change = JNull")
  case True
  then show thesis using assms refused by (simp add: process_change_def Let_def thenE_def)
next
  case nonnull: False
  let ?a = "resolveWabaId entry (j_get ''value'' (Some change))"
  obtain r1 m1 where store: "store_event v (j_get ''field'' (Some change)) ?a (j_get ''value'' (Some change)) m = (r1, m1)"
    by (cases "store_event v (j_get ''field'' (Some change)) ?a (j_get ''value'' (Some change)) m")
  show thesis
  proof (cases r1)
    case (Inl err)
    have "m1 = m" using store Inl by (auto simp: store_event_def split: option.splits json.splits if_splits)
    then show thesis using assms refused store nonnull Inl by (simp add: process_change_def Let_def thenE_def)
  next
    case (Inr q)
    obtain i field x where q: "q = (i, field, x)" by (cases q)
    obtain r2 m2 where route: "routeChange v field ?a x m1 = (r2, m2)"
      by (cases "routeChange v field ?a x m1")
    show thesis
    proof (cases "mv_raises v ''webhookEvent.update''")
      case False
      with assms show thesis
        using handled [OF store [unfolded Inr q] route] process_change_run [OF store [unfolded Inr q] nonnull route]
        by simp
    next
      case True
      then have "process_change v entry change m = (Inl (RuntimeError ''webhookEvent.update''), m2)"
        using store Inr q route nonnull
        by (cases r2) (simp_all add: process_change_def Let_def thenE_def mark_event_def catchE_def)
      then show thesis using assms stopped [OF store [unfolded Inr q] route] by simp
    qed
  qed
qed

lemma store_event_run:
  assumes "store_event v field a value m = (Inr (i, f, x), m1)"
  shows "field = Some (JStr f)" "value = Some x" "x \<noteq> JNull" "i = m_nextId m"
    "m1 = m\<lparr>m_events := m_events m @ [\<lparr>me_id = i, me_eventType = f, me_wabaId = a, me_payload = x,
       me_processed = False, me_error = None, me_createdAt = mnow m\<rparr>], m_nextId := Suc (m_nextId m)\<rparr>"
  using assms by (auto simp: store_event_def split: option.splits json.splits if_splits)

lemma process_change_keeps: "keeps messaging_ok (process_change v entry change)"
proof (rule keepsI)
  fix m assume ok: "messaging_ok m"
  obtain r m' where run: "process_change v entry change m = (r, m')"
    by (cases "process_change v entry change m")
  then have "messaging_ok m'"
  proof (cases rule: process_change_cases)
    case (stopped i field x m1 r2 m2)
    have "messaging_ok m1" using keepsD [OF store_event_keeps ok stopped(1)] .
    then show ?thesis using keepsD [OF keeps_routeChange _ stopped(2)] stopped(3) by simp
  next
    case (handled i field x m1 r2 m2)
    have ok1: "messaging_ok m1" using keepsD [OF store_event_keeps ok handled(1)] .
    then have ok2: "messaging_ok m2" using keepsD [OF keeps_routeChange _ handled(2)] by simp
    have "apart (m_events m1) (m_hooks m1) m1" by (simp add: apart_def)
    then have same: "m_events m2 = m_events m1"
      using keepsD [OF keeps_apart_route _ handled(2)] by (auto simp: apart_def)
    have old: "me_id e < i" if "e \<in> set (m_events m)" for e
      using table_ok_rowD [OF messaging_okD(4) [OF ok] that] store_event_run(4) [OF handled(1)] by simp
    have "messaging_ok (update_event i (marked r2) m2)"
    proof (rule update_event_keeps [OF ok2])
      fix e assume e: "e \<in> set (m_events m2)" "me_id e = i" "event_ok e"
      have "e \<in> set (m_events m) \<or> \<not> me_processed e \<and> me_error e = None"
        using e(1) same store_event_run(5) [OF handled(1)] by (simp, elim disjE, simp_all)
      then have "\<not> me_processed e \<and> me_error e = None" using e(2) old by blast
      with e(3) show "event_ok (marked r2 e)" by (auto simp: marked_def event_ok_def split: sum.split)
    qed simp
    then show ?thesis using handled(3) by (simp add: forward_event_def)
  qed (use ok in simp)
  then show "messaging_ok (snd (process_change v entry change m))" using run by simp
qed

lemma keeps_processPayload: "keeps messaging_ok (processPayload v body)"
  unfolding processPayload_def
  by (intro keeps_bindE keeps_if keeps_forE keeps_json keeps_basic process_change_keeps)

lemma receive_keeps: "messaging_ok m \<Longrightarrow> messaging_ok (snd (receive v secret sig raw body m))"
  using keeps_processPayload [of v body] by (simp add: receive_def keeps_def)

section \<open>Sends and the inbox\<close>

lemma keeps_in_core: "keeps messaging_ok (\<lambda>m. in_core (f m) m)"
  by (auto simp: keeps_def in_core_def Let_def split: prod.split)

lemma keeps_send_gates: "keeps messaging_ok (send_gates v x dto scope)"
  unfolding send_gates_def
  by (intro keeps_bindE keeps_thenE keeps_basic keeps_in_core keeps_option)
    (auto intro!: keeps_bindE keeps_thenE keeps_basic keeps_in_core split: prod.split)

lemma keeps_graph_send: "keeps messaging_ok (graph_send v dto a token)"
  by (auto simp: keeps_def graph_send_def logMetaError_def Let_def split: graph_answer.split)

lemma create_message_ok:
  assumes "messaging_ok m"
  shows "messaging_ok (snd (create_message v u x dto i m))"
proof -
  have "messaging_ok (m\<lparr>m_messages := m_messages m @ [g], m_nextId := Suc (m_nextId m)\<rparr>)"
    if "mg_id g = m_nextId m" "message_ok g"
      "mg_metaMessageId g = None \<or> \<not> list_ex (\<lambda>y. mg_metaMessageId y = mg_metaMessageId g) (m_messages m)" for g
    by (rule ok_messages [OF assms], simp, rule table_ok_snoc [OF messaging_okD(1) [OF assms]])
      (use that in \<open>auto simp: list_ex_iff\<close>)
  then show ?thesis using assms
    by (auto simp: create_message_def message_ok_def Let_def split: option.splits json.splits)
qed

lemma keeps_sendMessage: "keeps messaging_ok (sendMessage v u x dto scope)"
  unfolding sendMessage_def
  by (intro keeps_bindE keeps_send_gates)
    (auto intro!: keeps_option keeps_basic keeps_bindE keeps_thenE keeps_modE keeps_graph_send
      keepsI [of _ "create_message _ _ _ _ _"] create_message_ok recordOutbound_keeps split: prod.split)

lemma requireConversation_state [simp]: "snd (requireConversation x i scope m) = m"
  by (simp add: requireConversation_def split: option.split)

lemma keeps_requireConversation: "keeps I (requireConversation x i scope)"
  by (simp add: keeps_def)

lemma keeps_inbox_markRead: "keeps messaging_ok (inbox_markRead x i scope)"
  unfolding inbox_markRead_def
  by (intro keeps_bindE keeps_requireConversation keepsI update_conversation_keeps)
    (simp_all add: conversation_key_def conversation_ok_def)

lemma keeps_inbox_update: "keeps messaging_ok (inbox_update x i dto scope)"
  unfolding inbox_update_def
  by (intro keeps_bindE keeps_requireConversation keepsI update_conversation_keeps)
    (simp_all add: conversation_key_def conversation_ok_def)

lemma keeps_inbox_reply: "keeps messaging_ok (inbox_reply v u x i dto scope)"
  unfolding inbox_reply_def
  by (intro keeps_bindE keeps_thenE keeps_requireConversation keeps_basic keeps_sendMessage)

lemma keeps_media_fetch: "keeps messaging_ok (media_fetch v s x i scope)"
proof -
  have "keeps messaging_ok (tokenFor v phone)" for phone
    by (auto simp: keeps_def tokenFor_def split: option.split)
  moreover have "keeps messaging_ok (resolveUrl s media token)" for media token
    by (auto simp: keeps_def resolveUrl_def cache_media_url_def Let_def split: option.split json.split)
  ultimately show ?thesis
    unfolding media_fetch_def Let_def
    by (intro keeps_bindE keeps_basic keeps_option keeps_thenE)
      (auto simp: cache_media_url_def intro!: keepsI split: option.split)
qed

section \<open>Everything that can happen\<close>

text \<open>The billing side and the outbox do what they do in their own tables.\<close>

inductive messaging_step :: "mworld \<Rightarrow> mworld \<Rightarrow> bool" where
  received: "messaging_step m (snd (receive v secret signature raw body m))"
| sent: "messaging_step m (snd (sendMessage v u x dto scope m))"
| replied: "messaging_step m (snd (inbox_reply v u x i dto' scope m))"
| marked_read: "messaging_step m (snd (inbox_markRead x i scope m))"
| filed: "messaging_step m (snd (inbox_update x i ud scope m))"
| viewed: "messaging_step m (snd (media_fetch v s x i scope m))"
| registered: "messaging_step m (snd (registerToken u x rt m))"
| unregistered: "messaging_step m (snd (removeToken u token m))"
| preferred: "messaging_step m (snd (updatePreferences v u up m))"
| pushed: "messaging_step m (snd (sendToUser v u message m))"
| notified: "messaging_step m (notifyUsers v us kind message org' m)"
| read_feed: "messaging_step m (snd (notification_markRead u x ids m))"
| billing_side: "messaging_step m (m\<lparr>m_core := c\<rparr>)"
| outbox_side: "messaging_step m (m\<lparr>m_hooks := h\<rparr>)"

inductive_cases messaging_stepE: "messaging_step m m'"

inductive messaging_reachable :: "mworld \<Rightarrow> mworld \<Rightarrow> bool" for m\<^sub>0 where
  start: "messaging_reachable m\<^sub>0 m\<^sub>0"
| step: "messaging_reachable m\<^sub>0 m \<Longrightarrow> messaging_step m m' \<Longrightarrow> messaging_reachable m\<^sub>0 m'"

lemmas messaging_keeps = keeps_sendMessage keeps_inbox_reply keeps_inbox_markRead keeps_inbox_update keeps_media_fetch

lemma messaging_ok_step:
  assumes "messaging_step m m'" "messaging_ok m"
  shows "messaging_ok m'"
  using assms(1)
  by (rule messaging_stepE)
    (use assms(2) messaging_keeps [unfolded keeps_def] in
      \<open>simp_all add: receive_keeps registerToken_keeps removeToken_keeps updatePreferences_keeps sendToUser_def
        deliver_keeps notifyUsers_keeps notification_markRead_keeps\<close>)

lemma messaging_ok_reachable: "messaging_reachable m\<^sub>0 m \<Longrightarrow> messaging_ok m\<^sub>0 \<Longrightarrow> messaging_ok m"
  by (induction rule: messaging_reachable.induct) (auto intro: messaging_ok_step)

lemma messaging_ok_start: "messaging_ok messaging_world"
  by (simp add: messaging_ok_def messaging_world_def)

text \<open>C25: whatever Meta sends, of whatever shape, and whatever is sent, answered and marked in
  between, every stored row is of its type: message, reply and conversation keys are unique, a
  read message has its delivery and its reading dated, a failed one its failure and no other
  one any, a failure code fits its column, a preview its length, a conversation is keyed on
  digits alone, an unread one has a reply, and no event is both processed and in error.\<close>
theorem messaging_rows_well_typed:
  assumes "messaging_reachable m\<^sub>0 m" "messaging_ok m\<^sub>0"
  shows "distinct (List.map_filter mg_metaMessageId (m_messages m)) \<and>
    distinct (map ib_metaMessageId (m_inbound m)) \<and>
    distinct (map conversation_key (m_conversations m)) \<and>
    list_all message_ok (m_messages m) \<and> list_all conversation_ok (m_conversations m) \<and>
    list_all event_ok (m_events m) \<and> distinct (map dv_token (m_devices m))"
proof -
  have filter_all: "List.map_filter (\<lambda>r. Some (f r)) rows = map f rows" for f :: "'x \<Rightarrow> 'y" and rows
    by (induction rows) (simp_all add: List.map_filter_simps)
  have "messaging_ok m" using messaging_ok_reachable assms by blast
  then show ?thesis by (simp add: messaging_ok_def table_ok_def list_all_iff filter_all)
qed

text \<open>A reply of no known shape, from a number written in prose, then a read receipt for it.\<close>

definition odd_payload :: json where
  "odd_payload = JObj [(''object'', JStr ''whatsapp_business_account''), (''entry'', JArr [JObj [
     (''id'', JStr ''waba1''), (''changes'', JArr [JObj [(''field'', JStr ''messages''), (''value'', JObj [
       (''messages'', JArr [JObj [(''id'', JNum 5), (''from'', JStr ''+91 98''), (''timestamp'', JStr ''1700'')]]),
       (''statuses'', JStr ''x'')])]])]])]"

theorem messaging_rows_well_typed_witness:
  "let m = snd (receive sample_menv (Some ''s'') (Some ''sha256=abcd'') (Some ''raw'') odd_payload messaging_world) in
   list_all conversation_ok (m_conversations m) \<and> length (m_conversations m) = 1 \<and>
   length (m_events m) = 1 \<and> length (m_inbound m) = 0"
proof -
  let ?m = "snd (receive sample_menv (Some ''s'') (Some ''sha256=abcd'') (Some ''raw'') odd_payload messaging_world)"
  have "messaging_reachable messaging_world ?m"
    by (rule messaging_reachable.step [OF messaging_reachable.start messaging_step.received])
  from messaging_rows_well_typed [OF this messaging_ok_start]
  have "list_all conversation_ok (m_conversations ?m)" by blast
  moreover have "length (m_conversations ?m) = 1 \<and> length (m_events ?m) = 1 \<and> length (m_inbound ?m) = 0"
    by code_simp
  ultimately show ?thesis unfolding Let_def by blast
qed

end
