(* ===== verification/Intake_Facts.thy ===== *)
theory Intake_Facts
  imports Messaging_State "HOL-Library.Multiset"
begin

text \<open>
  What becomes of what Meta reports: every change is kept once, marked and forwarded whatever
  its handler did; delivery statuses only move forward, in whatever order the reports come; a
  reply reaches every organisation that holds the account and nobody else.
\<close>

section \<open>Every change is kept and forwarded\<close>

text \<open>A change the database takes: a named field and a value that is there.\<close>

definition storable :: "json \<Rightarrow> bool" where
  "storable change =
     (case (j_get ''field'' (Some change), j_get ''value'' (Some change)) of
        (Some (JStr _), Some x) \<Rightarrow> x \<noteq> JNull | _ \<Rightarrow> False)"

definition json_list :: "json option \<Rightarrow> json list option" where
  "json_list v = (case v of None \<Rightarrow> Some [] | Some (JArr xs) \<Rightarrow> Some xs | _ \<Rightarrow> None)"

definition regular_entry :: "json \<Rightarrow> bool" where
  "regular_entry entry =
     (entry \<noteq> JNull \<and>
      (case json_list (j_get ''changes'' (Some entry)) of None \<Rightarrow> False | Some cs \<Rightarrow> list_all storable cs))"

definition regular_payload :: "json \<Rightarrow> bool" where
  "regular_payload body =
     (j_get ''object'' (Some body) = Some (JStr ''whatsapp_business_account'') \<and>
      (case json_list (j_get ''entry'' (Some body)) of None \<Rightarrow> False | Some es \<Rightarrow> list_all regular_entry es))"

text \<open>The changes of a payload in order, each with the entry it came in.\<close>

definition payload_changes :: "json \<Rightarrow> (json \<times> json) list" where
  "payload_changes body =
     concat (map (\<lambda>entry. map (Pair entry) (asArray (j_get ''changes'' (Some entry))))
       (asArray (j_get ''entry'' (Some body))))"

text \<open>What is stored of a change, and what the outbox is told of it.\<close>

definition change_stored :: "json \<times> json \<Rightarrow> string \<times> string \<times> json" where
  "change_stored p =
     (let value = j_get ''value'' (Some (snd p)) in
      (nullish_def_val (text_of (j_get ''field'' (Some (snd p)))) [], resolveWabaId (fst p) value, the value))"

definition event_stored :: "meta_event \<Rightarrow> string \<times> string \<times> json" where
  "event_stored e = (me_eventType e, me_wabaId e, me_payload e)"

definition event_answered :: "meta_event \<Rightarrow> bool" where
  "event_answered e = (me_processed e \<noteq> (me_error e \<noteq> None))"

definition delivery_of :: "hook_delivery \<Rightarrow> nat \<times> nat option" where
  "delivery_of d = (hd_endpointId d, hd_eventId d)"

definition event_deliveries :: "hook_endpoint list \<Rightarrow> meta_event \<Rightarrow> (nat \<times> nat option) list" where
  "event_deliveries endpoints e =
     map (\<lambda>p. (he_id p, Some (me_id e)))
       (filter (listening (me_wabaId e) (de_kind (describeEvent (me_eventType e) (Some (me_payload e))))) endpoints)"

lemma enqueue_deliveries:
  assumes "\<not> hk_raises h ''webhookEndpoint.findMany''"
  shows "hw_endpoints (enqueue h a i t d raw w) = hw_endpoints w \<and> hw_clock (enqueue h a i t d raw w) = hw_clock w \<and>
    map delivery_of (hw_deliveries (enqueue h a i t d raw w)) =
      map delivery_of (hw_deliveries w) @
      map (\<lambda>p. (he_id p, Some i)) (filter (listening a (de_kind d)) (hw_endpoints w))"
proof -
  define add :: "ms \<Rightarrow> hook_world \<Rightarrow> hook_endpoint \<Rightarrow> hook_world" where "add now w p = w\<lparr>hw_deliveries := hw_deliveries w @
      [new_delivery h a i t d raw now (he_id p) (hw_nextId w)], hw_nextId := Suc (hw_nextId w)\<rparr>" for now w p
  have "hw_endpoints (foldl (add now) w ps) = hw_endpoints w \<and> hw_clock (foldl (add now) w ps) = hw_clock w \<and>
      map delivery_of (hw_deliveries (foldl (add now) w ps)) =
        map delivery_of (hw_deliveries w) @ map (\<lambda>p. (he_id p, Some i)) ps" for now ps w
    by (induction ps arbitrary: w) (simp_all add: add_def delivery_of_def new_delivery_def)
  from this [of "hw_clock w" w "filter (listening a (de_kind d)) (hw_endpoints w)"] show ?thesis
    using assms by (simp add: enqueue_def Let_def add_def [abs_def])
qed

text \<open>\<open>m'\<close> is \<open>m\<close> after the changes \<open>ps\<close>.\<close>

definition taken_in :: "(json \<times> json) list \<Rightarrow> mworld \<Rightarrow> mworld \<Rightarrow> bool" where
  "taken_in ps m m' =
     (\<exists>new. m_events m' = m_events m @ new \<and> map event_stored new = map change_stored ps \<and>
        list_all event_answered new \<and> hw_endpoints (m_hooks m') = hw_endpoints (m_hooks m) \<and>
        map delivery_of (hw_deliveries (m_hooks m')) =
          map delivery_of (hw_deliveries (m_hooks m)) @
          concat (map (event_deliveries (hw_endpoints (m_hooks m))) new))"

lemma taken_in_trans:
  assumes "taken_in ps m m1" "taken_in qs m1 m2"
  shows "taken_in (ps @ qs) m m2"
proof -
  obtain new1 where 1: "m_events m1 = m_events m @ new1" "map event_stored new1 = map change_stored ps"
      "list_all event_answered new1" "hw_endpoints (m_hooks m1) = hw_endpoints (m_hooks m)"
      "map delivery_of (hw_deliveries (m_hooks m1)) = map delivery_of (hw_deliveries (m_hooks m)) @
         concat (map (event_deliveries (hw_endpoints (m_hooks m))) new1)"
    using assms(1) unfolding taken_in_def by blast
  obtain new2 where 2: "m_events m2 = m_events m1 @ new2" "map event_stored new2 = map change_stored qs"
      "list_all event_answered new2" "hw_endpoints (m_hooks m2) = hw_endpoints (m_hooks m1)"
      "map delivery_of (hw_deliveries (m_hooks m2)) = map delivery_of (hw_deliveries (m_hooks m1)) @
         concat (map (event_deliveries (hw_endpoints (m_hooks m1))) new2)"
    using assms(2) unfolding taken_in_def by blast
  show ?thesis unfolding taken_in_def using 1 2 by (intro exI [of _ "new1 @ new2"]) simp
qed

lemma change_taken_in:
  assumes "messaging_ok m" "storable change"
    and "\<not> mv_raises v ''webhookEvent.create''" "\<not> mv_raises v ''webhookEvent.update''"
    and "\<not> hk_raises (mv_hooks v) ''webhookEndpoint.findMany''"
  obtains m' where "process_change v entry change m = (Inr (), m')" "taken_in [(entry, change)] m m'"
proof -
  let ?val = "j_get ''value'' (Some change)"
  let ?a = "resolveWabaId entry ?val" and ?i = "m_nextId m"
  obtain f x where fx: "j_get ''field'' (Some change) = Some (JStr f)" "?val = Some x" "x \<noteq> JNull"
    using assms(2) by (auto simp: storable_def split: option.splits json.splits)
  have nonnull: "change \<noteq> JNull" using fx(1) by (auto simp: j_get_def)
  define e where "e = \<lparr>me_id = ?i, me_eventType = f, me_wabaId = ?a, me_payload = x, me_processed = False,
      me_error = None, me_createdAt = mnow m\<rparr>"
  define m1 where "m1 = m\<lparr>m_events := m_events m @ [e], m_nextId := Suc ?i\<rparr>"
  have store: "store_event v (j_get ''field'' (Some change)) ?a ?val m = (Inr (?i, f, x), m1)"
    using fx assms(3) by (simp add: store_event_def e_def m1_def)
  obtain r m2 where route: "routeChange v f ?a x m1 = (r, m2)" by (cases "routeChange v f ?a x m1")
  have "apart (m_events m1) (m_hooks m1) m1" by (simp add: apart_def)
  then have same: "m_events m2 = m_events m @ [e]" "m_hooks m2 = m_hooks m"
    using keepsD [OF keeps_apart_route _ route] by (auto simp: apart_def m1_def)
  have fresh: "me_id y \<noteq> ?i" if "y \<in> set (m_events m)" for y
    using table_ok_rowD [OF messaging_okD(4) [OF assms(1)] that] by simp
  then have mark: "m_events (update_event ?i (marked r) m2) = m_events m @ [marked r e]"
    by (simp add: update_event_def same update_rows_append update_rows_none e_def)
  define m' where "m' = forward_event v ?a ?i f x (update_event ?i (marked r) m2)"
  have run: "process_change v entry change m = (Inr (), m')"
    unfolding m'_def by (rule process_change_run [OF store nonnull route assms(4)])
  have "event_stored (marked r e) = change_stored (entry, change)"
    by (simp add: event_stored_def change_stored_def e_def Let_def fx text_of_def)
  moreover have "event_answered (marked r e)"
    by (cases r) (simp_all add: event_answered_def marked_def e_def)
  moreover have "hw_endpoints (m_hooks m') = hw_endpoints (m_hooks m) \<and>
      map delivery_of (hw_deliveries (m_hooks m')) =
        map delivery_of (hw_deliveries (m_hooks m)) @ event_deliveries (hw_endpoints (m_hooks m)) (marked r e)"
    using enqueue_deliveries [OF assms(5)]
    by (simp add: m'_def forward_event_def update_event_def same event_deliveries_def e_def)
  moreover have "m_events m' = m_events m @ [marked r e]"
    using mark by (simp add: m'_def forward_event_def)
  ultimately have "taken_in [(entry, change)] m m'"
    unfolding taken_in_def by (intro exI [of _ "[marked r e]"]) simp
  with run show thesis by (rule that)
qed

lemma changes_taken_in:
  assumes "messaging_ok m" "list_all storable (map snd ps)"
    and "\<not> mv_raises v ''webhookEvent.create''" "\<not> mv_raises v ''webhookEvent.update''"
    and "\<not> hk_raises (mv_hooks v) ''webhookEndpoint.findMany''"
  shows "\<exists>m'. forE (\<lambda>(entry, change). process_change v entry change) ps m = (Inr (), m') \<and> taken_in ps m m'"
  using assms(1,2)
proof (induction ps arbitrary: m)
  case Nil
  then show ?case by (simp add: taken_in_def)
next
  case (Cons p ps)
  obtain entry change where p: "p = (entry, change)" by (cases p)
  obtain m1 where m1: "process_change v entry change m = (Inr (), m1)" "taken_in [p] m m1"
    using change_taken_in [OF Cons.prems(1) _ assms(3-5), of change entry] Cons.prems(2) p by auto
  have "messaging_ok m1" by (rule keepsD [OF process_change_keeps Cons.prems(1) m1(1)])
  then obtain m' where "forE (\<lambda>(entry, change). process_change v entry change) ps m1 = (Inr (), m')" "taken_in ps m1 m'"
    using Cons.IH Cons.prems(2) by auto
  then show ?case using m1 p taken_in_trans [OF m1(2)] by (auto simp: thenE_def)
qed

lemma forE_append: "forE f (xs @ ys) = thenE (forE f xs) (forE f ys)"
  by (induction xs) (auto simp: thenE_def bindE_def fun_eq_iff split: prod.splits sum.splits)

lemma forE_concat: "forE f (concat xss) = forE (forE f) xss"
  by (induction xss) (simp_all add: forE_append)

lemma forE_map: "forE f (map g xs) = forE (\<lambda>x. f (g x)) xs"
  by (induction xs) simp_all

lemma forE_cong: "xs = ys \<Longrightarrow> (\<And>x. x \<in> set ys \<Longrightarrow> f x = g x) \<Longrightarrow> forE f xs = forE g ys"
  by (induction xs arbitrary: ys) auto

lemma js_elements_list: "json_list x = Some xs \<Longrightarrow> js_elements x = retE xs \<and> asArray x = xs"
  by (auto simp: json_list_def js_elements_def asArray_def split: option.splits json.splits)

lemma js_read_nonnull: "x \<noteq> JNull \<Longrightarrow> js_read k (Some x) = retE (j_get k (Some x))"
  by (cases x) (simp_all add: js_read_def)

lemma processPayload_regular:
  assumes "regular_payload body"
  shows "processPayload v body = forE (\<lambda>(entry, change). process_change v entry change) (payload_changes body)"
    and "list_all storable (map snd (payload_changes body))"
proof -
  obtain es where es: "json_list (j_get ''entry'' (Some body)) = Some es" "list_all regular_entry es"
    using assms by (auto simp: regular_payload_def split: option.splits)
  have kind: "j_get ''object'' (Some body) = Some (JStr ''whatsapp_business_account'')"
    using assms by (simp add: regular_payload_def)
  then have body: "body \<noteq> JNull" by (auto simp: j_get_def)
  have entry: "bindE (js_read ''changes'' (Some entry)) (\<lambda>changes_in.
        bindE (js_elements changes_in) (\<lambda>changes. forE (process_change v entry) changes)) =
      forE (\<lambda>(entry, change). process_change v entry change)
        (map (Pair entry) (asArray (j_get ''changes'' (Some entry)))) \<and>
      list_all storable (asArray (j_get ''changes'' (Some entry)))"
    if "entry \<in> set es" for entry
  proof -
    have "regular_entry entry" using es(2) that by (simp add: list_all_iff)
    then obtain cs where "json_list (j_get ''changes'' (Some entry)) = Some cs" "list_all storable cs" "entry \<noteq> JNull"
      by (auto simp: regular_entry_def split: option.splits)
    then show ?thesis by (simp add: js_read_nonnull js_elements_list forE_map)
  qed
  show "processPayload v body = forE (\<lambda>(entry, change). process_change v entry change) (payload_changes body)"
    using es(1) entry
    by (simp add: processPayload_def js_read_nonnull [OF body] kind js_elements_list payload_changes_def
        forE_concat forE_map cong: forE_cong)
  show "list_all storable (map snd (payload_changes body))"
    using es(1) entry by (auto simp: payload_changes_def js_elements_list list_all_iff)
qed

text \<open>C26: a payload of changes Meta could have sent is taken in completely: one stored event per
  change, in order, under the account it is about, each marked as processed or with the error
  its handler threw, and each queued once for every endpoint that listens for it, whatever
  the handlers did, threw or failed to write.\<close>
theorem changes_kept_and_forwarded:
  assumes "messaging_ok m" "regular_payload body"
    and "\<not> mv_raises v ''webhookEvent.create''" "\<not> mv_raises v ''webhookEvent.update''"
    and "\<not> hk_raises (mv_hooks v) ''webhookEndpoint.findMany''"
  shows "\<exists>new m'. processPayload v body m = (Inr (), m') \<and> m_events m' = m_events m @ new \<and>
    map event_stored new = map change_stored (payload_changes body) \<and> list_all event_answered new \<and>
    map delivery_of (hw_deliveries (m_hooks m')) =
      map delivery_of (hw_deliveries (m_hooks m)) @
      concat (map (event_deliveries (hw_endpoints (m_hooks m))) new)"
  using changes_taken_in [OF assms(1) processPayload_regular(2) [OF assms(2)] assms(3-5)]
  by (auto simp: processPayload_regular(1) [OF assms(2)] taken_in_def)

text \<open>Two reports in one payload: the first makes its handler throw, the second is read.\<close>

definition two_changes :: json where
  "two_changes = JObj [(''object'', JStr ''whatsapp_business_account''), (''entry'', JArr [JObj [
     (''id'', JStr ''waba1''), (''changes'', JArr
       [JObj [(''field'', JStr ''messages''), (''value'', JObj [(''statuses'', JArr [JNull])])],
        JObj [(''field'', JStr ''account_update''), (''value'', JObj [(''event'', JStr ''x'')])]])]])]"

theorem changes_kept_and_forwarded_witness:
  "let m = snd (processPayload sample_menv two_changes messaging_world) in
   map event_stored (m_events m) = map change_stored (payload_changes two_changes) \<and>
   map me_processed (m_events m) = [False, True]"
proof -
  let ?m = "snd (processPayload sample_menv two_changes messaging_world)"
  have "regular_payload two_changes" by code_simp
  moreover have "\<not> mv_raises sample_menv s" "\<not> hk_raises (mv_hooks sample_menv) s" for s
    by (simp_all add: sample_menv_def plain_hooks_def)
  ultimately obtain new m' where run: "processPayload sample_menv two_changes messaging_world = (Inr (), m')"
      "m_events m' = m_events messaging_world @ new"
      "map event_stored new = map change_stored (payload_changes two_changes)"
    using changes_kept_and_forwarded [OF messaging_ok_start] by blast
  have "m_events messaging_world = []" by (simp add: messaging_world_def)
  with run have "map event_stored (m_events ?m) = map change_stored (payload_changes two_changes)" by simp
  moreover have "case processPayload sample_menv two_changes messaging_world of
      (r, m) \<Rightarrow> map me_processed (m_events m) = [False, True]" by code_simp
  ultimately show ?thesis unfolding Let_def run(1) by simp
qed

section \<open>Statuses only move forward\<close>

definition at_instant :: "ms \<Rightarrow> mworld \<Rightarrow> mworld" where
  "at_instant t m = m\<lparr>m_hooks := (m_hooks m)\<lparr>hw_clock := t\<rparr>\<rparr>"

text \<open>Reports handled one after the other, each at its instant.\<close>

definition status_run :: "menv \<Rightarrow> (ms \<times> json) list \<Rightarrow> mworld \<Rightarrow> mworld" where
  "status_run v reports m = foldl (\<lambda>m (t, report). snd (status_handle v report (at_instant t m))) m reports"

definition reported_status :: "string \<Rightarrow> json \<Rightarrow> message_status option" where
  "reported_status i report =
     (case (j_get ''status'' (Some report), j_get ''id'' (Some report)) of
        (Some (JStr s), Some (JStr x)) \<Rightarrow> if x = i then map_of STATUS_ORDER s else None
      | _ \<Rightarrow> None)"

text \<open>A failure whose code the column takes.\<close>

definition code_fits :: "json \<Rightarrow> bool" where
  "code_fits report =
     (case Option.bind (status_failure (Some report)) sf_code of None \<Rightarrow> True | Some n \<Rightarrow> int4 n)"

definition status_of_message :: "string \<Rightarrow> mworld \<Rightarrow> message_status option" where
  "status_of_message i m =
     map_option mg_status (List.find (\<lambda>g. mg_metaMessageId g = Some i) (m_messages m))"

definition furthest :: "message_status \<Rightarrow> message_status \<Rightarrow> message_status" where
  "furthest s a = (if status_rank a < status_rank s then s else a)"

lemma status_rank_inj [simp]: "status_rank a = status_rank b \<longleftrightarrow> a = b"
  by (cases a; cases b; simp)

lemma furthest_commute: "furthest s \<circ> furthest t = furthest t \<circ> furthest s"
proof
  fix a
  show "(furthest s \<circ> furthest t) a = (furthest t \<circ> furthest s) a"
    by (cases "status_rank s" "status_rank t" rule: linorder_cases) (auto simp: furthest_def)
qed

lemma fold_furthest:
  "fold furthest ss a \<in> set (a # ss) \<and> (\<forall>s \<in> set (a # ss). status_rank s \<le> status_rank (fold furthest ss a))"
proof (induction ss arbitrary: a)
  case (Cons s ss)
  let ?b = "furthest s a"
  have "?b \<in> {a, s}" "status_rank a \<le> status_rank ?b" "status_rank s \<le> status_rank ?b"
    by (auto simp: furthest_def)
  then show ?case using Cons.IH [of ?b] by (auto intro: order_trans)
qed simp

lemma status_of_advance:
  assumes "\<not> mv_raises v ''message.findUnique''" "\<not> mv_raises v ''message.update''"
    and "status = MFailed \<Longrightarrow> (case Option.bind failure sf_code of None \<Rightarrow> True | Some n \<Rightarrow> int4 n)"
  shows "status_of_message i (advance_status v j status failure m) =
    map_option (if j = i then furthest status else (\<lambda>a. a)) (status_of_message i m)"
proof (cases "List.find (\<lambda>g. mg_metaMessageId g = Some j) (m_messages m)")
  case None
  then show ?thesis using assms(1)
    by (cases "j = i") (simp_all add: advance_status_def status_of_message_def option.map_ident)
next
  case (Some g)
  have code: "\<not> (status = MFailed \<and> (case Option.bind failure sf_code of None \<Rightarrow> False | Some n \<Rightarrow> \<not> int4 n))"
    using assms(3) by (auto split: option.splits)
  have "List.find (\<lambda>g. mg_metaMessageId g = Some i)
      (update_rows (\<lambda>g. mg_metaMessageId g = Some j) (status_change status failure now) (m_messages m)) =
    map_option (\<lambda>g. if mg_metaMessageId g = Some j then status_change status failure now g else g)
      (List.find (\<lambda>g. mg_metaMessageId g = Some i) (m_messages m))" for now
    by (rule find_update_rows) simp
  note found = this
  have change: "mg_status (status_change status failure now h) = status" for now h by simp
  show ?thesis
  proof (cases "j = i")
    case True
    have g: "mg_metaMessageId g = Some j" using find_SomeD [OF Some] by simp
    show ?thesis
      using assms(1,2) code found [of "mnow m"] unfolding True [symmetric]
      by (auto simp: advance_status_def status_of_message_def furthest_def Some g)
  next
    case False
    have "map_option (\<lambda>h. mg_status (if mg_metaMessageId h = Some j then status_change status failure now h else h))
        (List.find (\<lambda>h. mg_metaMessageId h = Some i) (m_messages m)) =
      map_option mg_status (List.find (\<lambda>h. mg_metaMessageId h = Some i) (m_messages m))" for now
      using False by (intro option.map_cong0) (auto dest: find_SomeD)
    then show ?thesis using Some False assms(1,2) code found
      by (simp add: advance_status_def status_of_message_def option.map_comp comp_def option.map_ident)
  qed
qed

lemma status_of_handle:
  assumes "\<not> mv_raises v ''message.findUnique''" "\<not> mv_raises v ''message.update''" "code_fits report"
  shows "status_of_message i (snd (status_handle v report (at_instant t m))) =
    map_option (case reported_status i report of None \<Rightarrow> (\<lambda>a. a) | Some s \<Rightarrow> furthest s) (status_of_message i m)"
proof -
  have same: "status_of_message i (at_instant t m) = status_of_message i m"
    by (simp add: status_of_message_def at_instant_def)
  have unnamed: "j_get k (Some JNull) = None" for k by (simp add: j_get_def)
  have failed: "status_of_message i (advance_status v j MFailed (status_failure (Some report)) m') =
      map_option (if j = i then furthest MFailed else (\<lambda>a. a)) (status_of_message i m')" for j m'
    using assms(3) by (intro status_of_advance [OF assms(1,2)]) (simp add: code_fits_def)
  have moved: "status_of_message i (advance_status v j s None m') =
      map_option (if j = i then furthest s else (\<lambda>a. a)) (status_of_message i m')" for j s m'
    by (rule status_of_advance [OF assms(1,2)]) simp
  show ?thesis
    by (auto simp: status_handle_def reported_status_def Let_def option.map_ident unnamed failed moved same
        split: option.splits json.splits)
qed

lemma status_of_run:
  assumes "\<not> mv_raises v ''message.findUnique''" "\<not> mv_raises v ''message.update''"
    and "list_all code_fits (map snd reports)"
  shows "status_of_message i (status_run v reports m) =
    map_option (fold furthest (List.map_filter (reported_status i) (map snd reports))) (status_of_message i m)"
  using assms(3)
proof (induction reports arbitrary: m)
  case Nil
  then show ?case by (simp add: status_run_def List.map_filter_simps option.map_ident id_def)
next
  case (Cons r reports)
  obtain t report where r: "r = (t, report)" by (cases r)
  have "status_run v (r # reports) m = status_run v reports (snd (status_handle v report (at_instant t m)))"
    by (simp add: status_run_def r)
  then show ?case
    using Cons status_of_handle [OF assms(1,2), of report i t m] r
    by (auto simp: List.map_filter_simps option.map_comp comp_def split: option.split)
qed

lemma mset_map_filter:
  "mset (List.map_filter f xs) = {#the (f x). x \<in># filter_mset (\<lambda>x. f x \<noteq> None) (mset xs)#}"
  by (induction xs) (auto simp: List.map_filter_simps split: option.split)

text \<open>C27: reports about a message may arrive in any order, more than once and among reports about
  other messages: the status recorded is the furthest of those reported and the one it had, so
  two orders of the same reports end alike and no report ever takes a message back.\<close>
theorem status_order_independent:
  assumes "\<not> mv_raises v ''message.findUnique''" "\<not> mv_raises v ''message.update''"
    and "list_all code_fits (map snd reports)" "mset (map snd reports') = mset (map snd reports)"
    and "status_of_message i m = Some a"
  shows "\<exists>s. status_of_message i (status_run v reports m) = Some s \<and>
    status_of_message i (status_run v reports' m) = Some s \<and>
    s \<in> insert a (set (List.map_filter (reported_status i) (map snd reports))) \<and>
    (\<forall>t \<in> insert a (set (List.map_filter (reported_status i) (map snd reports))). status_rank t \<le> status_rank s)"
proof -
  let ?ss = "List.map_filter (reported_status i) (map snd reports)"
  let ?ss' = "List.map_filter (reported_status i) (map snd reports')"
  have "list_all code_fits (map snd reports')"
    using assms(3) mset_eq_setD [OF assms(4)] by (simp add: list_all_iff del: set_map)
  moreover have "mset ?ss' = mset ?ss" by (simp only: mset_map_filter assms(4))
  then have "fold furthest ?ss' = fold furthest ?ss"
    by (intro fold_multiset_equiv furthest_commute)
  ultimately show ?thesis
    using fold_furthest [of ?ss a] assms(5)
      status_of_run [OF assms(1-3), of i m] status_of_run [OF assms(1,2), of reports' i m]
    by (intro exI [of _ "fold furthest ?ss a"]) simp
qed

definition sample_message :: message_row where
  "sample_message =
     \<lparr>mg_id = 1, mg_metaMessageId = Some ''wamid.1'', mg_phoneNumberId = ''pn1'', mg_to = ''919822010210'',
      mg_type = TText, mg_payload = JObj [], mg_status = MSent, mg_userId = 1, mg_org = ''acme'',
      mg_templateName = None, mg_deliveredAt = None, mg_readAt = None, mg_failedAt = None,
      mg_failureReason = None, mg_failureCode = None, mg_failureDetail = None, mg_createdAt = 0,
      mg_updatedAt = 0\<rparr>"

definition report :: "string \<Rightarrow> json" where
  "report s = JObj [(''id'', JStr ''wamid.1''), (''status'', JStr s)]"

text \<open>The reading reported before the delivery, and a delivery reported twice.\<close>

theorem status_order_independent_witness:
  "let m = messaging_world\<lparr>m_messages := [sample_message]\<rparr>;
       early = [(5, report ''read''), (9, report ''delivered''), (9, report ''delivered'')];
       late = [(5, report ''delivered''), (6, report ''delivered''), (7, report ''read'')] in
   status_of_message ''wamid.1'' (status_run sample_menv early m) =
   status_of_message ''wamid.1'' (status_run sample_menv late m)"
proof -
  let ?m = "messaging_world\<lparr>m_messages := [sample_message]\<rparr>"
  let ?early = "[(5, report ''read''), (9, report ''delivered''), (9, report ''delivered'')]"
  let ?late = "[(5, report ''delivered''), (6, report ''delivered''), (7, report ''read'')]"
  have "\<not> mv_raises sample_menv s" for s by (simp add: sample_menv_def)
  moreover have "list_all code_fits (map snd ?early)" by code_simp
  moreover have "mset (map snd ?late) = mset (map snd ?early)" by simp
  moreover have "status_of_message ''wamid.1'' ?m = Some MSent" by code_simp
  ultimately obtain s where "status_of_message ''wamid.1'' (status_run sample_menv ?early ?m) = Some s"
      "status_of_message ''wamid.1'' (status_run sample_menv ?late ?m) = Some s"
    using status_order_independent [of sample_menv ?early ?late "''wamid.1''" ?m MSent] by blast
  then show ?thesis unfolding Let_def by (rule trans [OF _ sym])
qed

section \<open>A reply reaches every organisation that holds the account\<close>

definition conversation_at :: "mworld \<Rightarrow> org \<times> string \<times> string \<Rightarrow> conversation_row option" where
  "conversation_at m k = List.find (\<lambda>c. conversation_key c = k) (m_conversations m)"

definition unread_at :: "mworld \<Rightarrow> org \<times> string \<times> string \<Rightarrow> nat" where
  "unread_at m k = (case conversation_at m k of None \<Rightarrow> 0 | Some c \<Rightarrow> cv_unreadCount c)"

lemma conversation_at_upsert:
  assumes "conversation_key (fresh (m_nextId m) (mnow m)) = k" "\<And>c. conversation_key (change c) = conversation_key c"
  shows "conversation_at (upsert_conversation k fresh change m) k' =
    (if k' = k then Some (case conversation_at m k of None \<Rightarrow> fresh (m_nextId m) (mnow m) | Some c \<Rightarrow> change c)
     else conversation_at m k')"
proof (cases "list_ex (\<lambda>c. conversation_key c = k) (m_conversations m)")
  case True
  then have "conversation_at m k \<noteq> None" by (auto simp: conversation_at_def list_ex_iff find_eq_None)
  then obtain c where "conversation_at m k = Some c" by blast
  moreover have "conversation_at (upsert_conversation k fresh change m) k' =
      map_option (\<lambda>c. if conversation_key c = k then change c else c) (conversation_at m k')"
    using True assms(2) by (simp add: upsert_conversation_def conversation_at_def find_update_rows)
  moreover have "conversation_key d = k'" if "conversation_at m k' = Some d" for d
    using that by (auto simp: conversation_at_def dest: find_SomeD)
  ultimately show ?thesis
    by (cases "k' = k"; cases "conversation_at m k'") simp_all
next
  case False
  then have "conversation_at m k = None" by (simp add: conversation_at_def list_ex_iff find_eq_None)
  then show ?thesis using False assms(1)
    by (auto simp: upsert_conversation_def conversation_at_def find_append nullish_def split: option.splits)
qed

lemma upsert_conversation_core [simp]: "m_core (upsert_conversation k fresh change m) = m_core m"
  by (simp add: upsert_conversation_def)

text \<open>What a reply leaves in the thread of an organisation that had it at \<open>before\<close>.\<close>

definition answered_by :: "conversation_row option \<Rightarrow> ms \<Rightarrow> conversation_row \<Rightarrow> bool" where
  "answered_by before at c =
     (cv_unreadCount c = Suc (case before of None \<Rightarrow> 0 | Some b \<Rightarrow> cv_unreadCount b) \<and>
      cv_status c = CvOpen \<and> cv_lastInboundAt c = Some at \<and> cv_lastMessageAt c = at \<and>
      cv_lastDirection c = Inbound)"

definition reply_upsert :: "inbound_input \<Rightarrow> string \<Rightarrow> string \<Rightarrow> ms \<Rightarrow> org \<Rightarrow> mworld \<Rightarrow> mworld" where
  "reply_upsert r customer preview at x =
     upsert_conversation (x, ii_phoneNumberId r, customer) (inbound_conversation r x customer preview at)
       (inbound_change r preview at)"

lemma reply_upsert_at:
  "(k = (x, ii_phoneNumberId r, customer) \<longrightarrow>
      (\<exists>c. conversation_at (reply_upsert r customer preview at x m) k = Some c \<and> answered_by (conversation_at m k) at c)) \<and>
   (k \<noteq> (x, ii_phoneNumberId r, customer) \<longrightarrow>
      conversation_at (reply_upsert r customer preview at x m) k = conversation_at m k)"
proof -
  let ?k = "(x, ii_phoneNumberId r, customer)"
  have "conversation_at (reply_upsert r customer preview at x m) k =
      (if k = ?k then Some (case conversation_at m ?k of
          None \<Rightarrow> inbound_conversation r x customer preview at (m_nextId m) (mnow m)
        | Some c \<Rightarrow> inbound_change r preview at c)
      else conversation_at m k)"
    unfolding reply_upsert_def
    by (rule conversation_at_upsert) (simp_all add: inbound_conversation_def inbound_change_def conversation_key_def)
  then show ?thesis
    by (auto simp: answered_by_def inbound_conversation_def inbound_change_def split: option.split)
qed

lemma reply_upsert_fold:
  assumes "distinct orgs"
  shows "(fst k \<in> set orgs \<and> snd k = (ii_phoneNumberId r, customer) \<longrightarrow>
      (\<exists>c. conversation_at (fold (reply_upsert r customer preview at) orgs m) k = Some c \<and>
           answered_by (conversation_at m k) at c)) \<and>
    (\<not> (fst k \<in> set orgs \<and> snd k = (ii_phoneNumberId r, customer)) \<longrightarrow>
      conversation_at (fold (reply_upsert r customer preview at) orgs m) k = conversation_at m k)"
  using assms
proof (induction orgs arbitrary: m)
  case (Cons x orgs)
  let ?m1 = "reply_upsert r customer preview at x m"
  note one = reply_upsert_at [of k x r customer preview at m]
  note rest = Cons.IH [of ?m1]
  show ?case
  proof (cases "k = (x, ii_phoneNumberId r, customer)")
    case True
    then have "fst k \<notin> set orgs" using Cons.prems by simp
    then show ?thesis using True one rest Cons.prems by simp
  next
    case False
    then have "fst k \<in> set (x # orgs) \<and> snd k = (ii_phoneNumberId r, customer) \<longleftrightarrow>
        fst k \<in> set orgs \<and> snd k = (ii_phoneNumberId r, customer)" by (cases k) auto
    then show ?thesis using False one rest Cons.prems by simp
  qed
qed simp

lemma recordInbound_eq:
  assumes "\<not> mv_raises v ''wabaOrganisation.findMany''" "\<not> mv_raises v ''conversation.upsert''"
    and "ii_timestamp r = Some at" "normalisePhone (ii_from r) \<noteq> []"
  shows "recordInbound v r m = fold (reply_upsert r (normalisePhone (ii_from r))
      (inboundPreview (ii_type r) (ii_payload r)) at) (holders (ii_wabaId r) (m_core m)) m"
  using assms by (simp add: recordInbound_def Let_def reply_upsert_def [abs_def])

text \<open>C28: a reply is put in the thread of every organisation that holds the account it came to,
  however that customer's number is spelt: one more unread there, the thread open again and the
  reply's instant its newest. No thread of another organisation, number or customer moves.\<close>
theorem reply_reaches_every_holder:
  assumes "\<not> mv_raises v ''wabaOrganisation.findMany''" "\<not> mv_raises v ''conversation.upsert''"
    and "ii_timestamp r = Some at" "normalisePhone (ii_from r) = customer" "customer \<noteq> []"
    and "distinct (holders (ii_wabaId r) (m_core m))"
  shows "if membership_holds x (ii_wabaId r) (m_core m) \<and> (phone, who) = (ii_phoneNumberId r, customer)
    then \<exists>c. conversation_at (recordInbound v r m) (x, phone, who) = Some c \<and>
      answered_by (conversation_at m (x, phone, who)) at c
    else conversation_at (recordInbound v r m) (x, phone, who) = conversation_at m (x, phone, who)"
  using reply_upsert_fold [OF assms(6), where k = "(x, phone, who)" and r = r and customer = customer and at = at and m = m]
    assms(5)
  by (simp add: recordInbound_eq [OF assms(1-3)] assms(4) set_holders split: if_split)

definition sample_reply :: inbound_input where
  "sample_reply =
     \<lparr>ii_wabaId = ''waba1'', ii_phoneNumberId = ''pn1'', ii_from = ''+91 98'', ii_senderName = None,
      ii_type = Some ''text'', ii_payload = JObj [(''body'', JStr ''hi'')], ii_timestamp = Some 7\<rparr>"

theorem reply_reaches_every_holder_witness:
  "unread_at (recordInbound sample_menv sample_reply messaging_world) (''acme'', ''pn1'', ''9198'') = 1 \<and>
   conversation_at (recordInbound sample_menv sample_reply messaging_world) (''rival'', ''pn1'', ''9198'') = None"
proof -
  have "\<not> mv_raises sample_menv s" for s by (simp add: sample_menv_def)
  moreover have "normalisePhone (ii_from sample_reply) = ''9198''" "ii_timestamp sample_reply = Some 7"
    "distinct (holders (ii_wabaId sample_reply) (m_core messaging_world))"
    "membership_holds ''acme'' (ii_wabaId sample_reply) (m_core messaging_world)"
    "\<not> membership_holds ''rival'' (ii_wabaId sample_reply) (m_core messaging_world)"
    "ii_phoneNumberId sample_reply = ''pn1''" "conversation_at messaging_world k = None" for k
    by (code_simp, code_simp, code_simp, code_simp, code_simp, code_simp,
        simp add: conversation_at_def messaging_world_def)
  ultimately show ?thesis
    using reply_reaches_every_holder [where v = sample_menv and r = sample_reply and at = 7 and customer = "''9198''"
        and m = messaging_world and x = "''acme''" and phone = "''pn1''" and who = "''9198''"]
      reply_reaches_every_holder [where v = sample_menv and r = sample_reply and at = 7 and customer = "''9198''"
        and m = messaging_world and x = "''rival''" and phone = "''pn1''" and who = "''9198''"]
    by (auto simp: unread_at_def answered_by_def)
qed

end
