(* ===== verification/Messaging_Facts.thy ===== *)
theory Messaging_Facts
  imports Intake_Facts
begin

text \<open>
  What holds of the messaging services taken one at a time: whose feed an event enters, what a
  send needs before anything leaves, when a reply is refused, what a reader of a thread, a
  list or the figures is shown.
\<close>

section \<open>The feed\<close>

definition entry_of :: "notification_row \<Rightarrow> org option \<times> string \<times> string \<times> string \<times> string option" where
  "entry_of n = (nt_org n, nt_kind n, nt_title n, nt_body n, nt_link n)"

text \<open>What one person is shown in one organisation.\<close>

definition feed :: "nat \<Rightarrow> org \<Rightarrow> mworld \<Rightarrow> (org option \<times> string \<times> string \<times> string \<times> string option) list" where
  "feed userId ssoOrgId m = map entry_of (filter (in_scope userId ssoOrgId) (m_notifications m))"

definition message_entry :: "string \<Rightarrow> push_message \<Rightarrow> org option \<Rightarrow> org option \<times> string \<times> string \<times> string \<times> string option" where
  "message_entry kind p y = (y, kind, pm_title p, pm_body p, pm_link p)"

lemma deliver_feed [simp]:
  "m_notifications (snd (deliver v ts p m)) = m_notifications m"
  "m_core (snd (deliver v ts p m)) = m_core m" "m_connections (snd (deliver v ts p m)) = m_connections m"
  by (auto simp: deliver_def sendToTokens_def Let_def split: prod.split option.split)

lemma notification_push_feed [simp]: "m_notifications (notification_push v us k p m) = m_notifications m"
  by (simp add: notification_push_def Let_def)

lemma entries_of_new:
  assumes "length ids = length us" "distinct us"
  shows "map entry_of (filter (in_scope u x) (map (new_notification kind p y now) (zip ids us))) =
    (if u \<in> set us \<and> (y = Some x \<or> y = None) then [message_entry kind p y] else [])"
  using assms
proof (induction ids us rule: list_induct2)
  case (Cons i ids w us)
  then show ?case
    by (auto simp: new_notification_def in_scope_def entry_of_def message_entry_def)
qed simp

lemma notification_record_feed:
  assumes "\<not> mv_raises v ''notification.createMany''" "distinct us"
  shows "feed u x (notification_record v us kind p y m) = feed u x m @
    (if u \<in> set us \<and> (y = Some x \<or> y = None) then [message_entry kind p y] else [])"
  using assms entries_of_new [of "[m_nextId m..<m_nextId m + length us]" us u x kind p y "mnow m"]
  by (simp add: feed_def notification_record_def)

lemma fold_record_feed:
  assumes "\<not> mv_raises v ''notification.createMany''" "distinct us"
  shows "feed u x (fold (notification_record v us kind p) ys m) = feed u x m @
    (if u \<in> set us then map (message_entry kind p) (filter (\<lambda>y. y = Some x \<or> y = None) ys) else [])"
  by (induction ys arbitrary: m) (simp_all add: notification_record_feed [OF assms])

lemma filter_one: "distinct ys \<Longrightarrow> filter (\<lambda>y. y = a) ys = (if a \<in> set ys then [a] else [])"
  by (induction ys) auto

lemma filter_feed_orgs:
  assumes "distinct (holders a w)"
  shows "filter (\<lambda>y. y = Some x \<or> y = None) (feed_orgs a w) =
    (if holders a w = [] then [None] else if membership_holds x a w then [Some x] else [])"
proof -
  have "filter (\<lambda>y. y = Some x \<or> y = None) (map Some ys) = map Some (filter (\<lambda>y. y = x) ys)" for ys
    by (induction ys) simp_all
  then show ?thesis using assms by (simp add: feed_orgs_def Let_def filter_one set_holders)
qed

lemma connected_users_distinct [simp]: "distinct (connected_users a m)"
  by (simp add: connected_users_def)

lemma set_connected_users: "set (connected_users a m) = uw_userId ` {c \<in> set (m_connections m). uw_wabaId c = a}"
  by (auto simp: connected_users_def)

text \<open>Who a push about an event on the account may interrupt.\<close>

definition reachable_devices :: "string \<Rightarrow> notification_kind \<Rightarrow> mworld \<Rightarrow> string set" where
  "reachable_devices a kind m =
     dv_token ` {d \<in> set (m_devices m). dv_userId d \<in> set (connected_users a m) \<and> dv_userId d \<notin> opted_out_of kind m}"

lemma fold_record_frame [simp]:
  "m_devices (fold (notification_record v us kn p) ys m) = m_devices m"
  "m_prefs (fold (notification_record v us kn p) ys m) = m_prefs m"
  "m_pushes (fold (notification_record v us kn p) ys m) = m_pushes m"
  by (induction ys arbitrary: m) (simp_all add: notification_record_def)

lemma deliver_pushes:
  "m_pushes (snd (deliver v ts p m)) = m_pushes m \<or> m_pushes (snd (deliver v ts p m)) = m_pushes m @ [(ts, p)]"
  by (auto simp: deliver_def sendToTokens_def Let_def split: prod.split option.split)

text \<open>C29: an event on an account enters a person's feed exactly once in each organisation that holds
  the account and nowhere else, if that person connected the account (in every feed of theirs
  when nobody holds it); one push at most goes out, to devices of connected people who have not
  switched that kind off.\<close>
theorem event_feeds_holders_once:
  assumes "\<not> mv_raises v ''userWhatsapp.findMany''" "\<not> mv_raises v ''wabaOrganisation.findMany''"
    and "\<not> mv_raises v ''notification.createMany''" "distinct (holders a (m_core m))"
  shows "feed u x (notifyWaba v a kind p m) = feed u x m @
      (if u \<notin> set (connected_users a m) then []
       else if holders a (m_core m) = [] then [message_entry (notification_kind_name kind) p None]
       else if membership_holds x a (m_core m) then [message_entry (notification_kind_name kind) p (Some x)]
       else []) \<and>
    (m_pushes (notifyWaba v a kind p m) = m_pushes m \<or>
     (\<exists>tokens. m_pushes (notifyWaba v a kind p m) = m_pushes m @ [(tokens, p)] \<and>
        set tokens \<subseteq> reachable_devices a kind m))"
proof
  let ?us = "connected_users a m" and ?name = "notification_kind_name kind"
  let ?m1 = "fold (notification_record v ?us ?name p) (feed_orgs a (m_core m)) m"
  have run: "notifyWaba v a kind p m = (if ?us = [] then m else notification_push v ?us kind p ?m1)"
    using assms(1,2) by (simp add: notifyWaba_def Let_def)
  show "feed u x (notifyWaba v a kind p m) = feed u x m @
      (if u \<notin> set ?us then [] else if holders a (m_core m) = [] then [message_entry ?name p None]
       else if membership_holds x a (m_core m) then [message_entry ?name p (Some x)] else [])"
  proof (cases "?us = []")
    case False
    have "feed u x (notifyWaba v a kind p m) = feed u x ?m1" using False run by (simp add: feed_def)
    then show ?thesis
      by (simp add: fold_record_feed [OF assms(3)] filter_feed_orgs [OF assms(4)])
  qed (simp add: run)
  have tokens: "set (map dv_token (filter (\<lambda>d. dv_userId d \<in> set (filter (\<lambda>u. u \<notin> opted_out_of kind ?m1) ?us)) (m_devices ?m1)))
      \<subseteq> reachable_devices a kind m"
    by (auto simp: reachable_devices_def opted_out_of_def)
  show "m_pushes (notifyWaba v a kind p m) = m_pushes m \<or>
     (\<exists>tokens. m_pushes (notifyWaba v a kind p m) = m_pushes m @ [(tokens, p)] \<and>
        set tokens \<subseteq> reachable_devices a kind m)"
    unfolding run notification_push_def Let_def using deliver_pushes [of v _ p ?m1] tokens by fastforce
qed

definition sample_push :: push_message where
  "sample_push = \<lparr>pm_title = ''New message'', pm_body = ''hi'', pm_link = None, pm_data = []\<rparr>"

theorem event_feeds_holders_once_witness:
  "feed 1 ''acme'' (notifyWaba sample_menv ''waba1'' KInboundMessage sample_push messaging_world) =
     [(Some ''acme'', ''inboundMessage'', ''New message'', ''hi'', None)] \<and>
   feed 1 ''rival'' (notifyWaba sample_menv ''waba1'' KInboundMessage sample_push messaging_world) = []"
proof -
  have "\<not> mv_raises sample_menv s" for s by (simp add: sample_menv_def)
  moreover have "distinct (holders ''waba1'' (m_core messaging_world))" by code_simp
  ultimately have feeds: "feed 1 x (notifyWaba sample_menv ''waba1'' KInboundMessage sample_push messaging_world) =
      feed 1 x messaging_world @
      (if 1 \<notin> set (connected_users ''waba1'' messaging_world) then []
       else if holders ''waba1'' (m_core messaging_world) = [] then [message_entry ''inboundMessage'' sample_push None]
       else if membership_holds x ''waba1'' (m_core messaging_world)
       then [message_entry ''inboundMessage'' sample_push (Some x)] else [])" for x
    using event_feeds_holders_once [of sample_menv "''waba1''" messaging_world 1 x KInboundMessage sample_push] by simp
  show ?thesis unfolding feeds by code_simp
qed

section \<open>What a send needs\<close>

text \<open>The token a send goes out with, when nothing stands in its way.\<close>

definition send_clearance :: "menv \<Rightarrow> org \<Rightarrow> send_message_dto \<Rightarrow> string option \<Rightarrow> mworld \<Rightarrow> string option" where
  "send_clearance v ssoOrgId dto scopedWabaId m =
     (case getPhoneCache (mnow m) (sd_phoneNumberId dto) (w_redis (m_core m)) of
        None \<Rightarrow> None
      | Some (wabaId, accessToken) \<Rightarrow>
          if membership_holds ssoOrgId wabaId (m_core m) \<and> given_is scopedWabaId wabaId \<and>
             (isConfigured (mv_core v) \<longrightarrow> fst (hasAccess (core_env v m) ssoOrgId wabaId (m_core m))) \<and>
             \<not> isOptedOut (m_core m) ssoOrgId (sd_to dto)
          then mv_decrypt v accessToken else None)"

definition request_for :: "send_message_dto \<Rightarrow> string \<Rightarrow> graph_request" where
  "request_for dto token =
     \<lparr>gr_phoneNumberId = sd_phoneNumberId dto, gr_body = buildMetaPayload dto, gr_token = token\<rparr>"

lemma requireAccess_run:
  "\<exists>c. requireAccess e x a w =
     (if isConfigured e \<and> \<not> fst (hasAccess e x a w)
      then Inl (PaymentRequired (''WhatsApp Business Account '' @ a @
        '' has no active subscription. Subscribe in the console to use it.'')) else Inr (), w\<lparr>w_redis := c\<rparr>)"
proof -
  have "\<exists>c. snd (hasAccess e x a w) = w\<lparr>w_redis := c\<rparr>"
    by (auto simp: hasAccess_def Let_def split: option.split intro: exI [of _ "w_redis w"])
  moreover have "\<exists>c. w = w\<lparr>w_redis := c\<rparr>" by (rule exI [of _ "w_redis w"]) simp
  ultimately show ?thesis
    by (auto simp: requireAccess_def Let_def split: prod.split)
qed

lemma isConfigured_core_env [simp]: "isConfigured (core_env v m) = isConfigured (mv_core v)"
  by (simp add: isConfigured_def core_env_def)

lemma send_gates_run:
  obtains (refused) err c where "send_gates v x dto scope m = (Inl err, m\<lparr>m_core := c\<rparr>)"
      "send_clearance v x dto scope m = None"
  | (passed) a enc c where "send_gates v x dto scope m = (Inr (a, enc), m\<lparr>m_core := c\<rparr>)"
      "getPhoneCache (mnow m) (sd_phoneNumberId dto) (w_redis (m_core m)) = Some (a, enc)"
      "send_clearance v x dto scope m = mv_decrypt v enc"
proof (cases "getPhoneCache (mnow m) (sd_phoneNumberId dto) (w_redis (m_core m))")
  case None
  then show thesis using refused [of _ "m_core m"] by (simp add: send_gates_def send_clearance_def)
next
  case (Some q)
  obtain a enc where q: "q = (a, enc)" by (cases q)
  obtain c where access: "requireAccess (core_env v m) x a (m_core m) =
      (if isConfigured (mv_core v) \<and> \<not> fst (hasAccess (core_env v m) x a (m_core m))
       then Inl (PaymentRequired (''WhatsApp Business Account '' @ a @
         '' has no active subscription. Subscribe in the console to use it.'')) else Inr (),
       (m_core m)\<lparr>w_redis := c\<rparr>)"
    using requireAccess_run [of "core_env v m" x a "m_core m"] by auto
  have same: "isOptedOut ((m_core m)\<lparr>w_redis := c\<rparr>) x p = isOptedOut (m_core m) x p" for p
    by (simp add: isOptedOut_def contact_by_phone_def)
  have scope: "(truthy scope \<and> Some a \<noteq> scope) = (\<not> given_is scope a)"
    by (cases scope) (auto simp: given_is_def)
  consider "\<not> membership_holds x a (m_core m)" | "membership_holds x a (m_core m)" "\<not> given_is scope a"
    | "membership_holds x a (m_core m)" "given_is scope a"
      "isConfigured (mv_core v) \<and> \<not> fst (hasAccess (core_env v m) x a (m_core m))"
    | "membership_holds x a (m_core m)" "given_is scope a"
      "\<not> (isConfigured (mv_core v) \<and> \<not> fst (hasAccess (core_env v m) x a (m_core m)))"
      "isOptedOut (m_core m) x (sd_to dto)"
    | "membership_holds x a (m_core m)" "given_is scope a"
      "\<not> (isConfigured (mv_core v) \<and> \<not> fst (hasAccess (core_env v m) x a (m_core m)))"
      "\<not> isOptedOut (m_core m) x (sd_to dto)"
    by blast
  then show thesis
  proof cases
    case 1
    then show thesis using Some q refused [of _ "m_core m"]
      by (simp add: send_gates_def send_clearance_def thenE_def)
  next
    case 2
    then show thesis using Some q refused [of _ "m_core m"]
      by (simp add: send_gates_def send_clearance_def scope thenE_def)
  next
    case 3
    then show thesis using Some q access refused [of _ "(m_core m)\<lparr>w_redis := c\<rparr>"]
      by (auto simp: send_gates_def send_clearance_def scope thenE_def in_core_def bindE_def)
  next
    case 4
    then show thesis using Some q access same refused [of _ "(m_core m)\<lparr>w_redis := c\<rparr>"]
      by (auto simp: send_gates_def send_clearance_def scope thenE_def in_core_def bindE_def)
  next
    case 5
    then show thesis using Some q access same passed [of a enc "(m_core m)\<lparr>w_redis := c\<rparr>"]
      by (auto simp: send_gates_def send_clearance_def scope thenE_def in_core_def bindE_def)
  qed
qed

lemma create_message_frame:
  "m_graph (snd (create_message v u x dto i m)) = m_graph m"
  "create_message v u x dto i m = (Inr g, m1) \<Longrightarrow>
     m_messages m1 = m_messages m @ [g] \<and> mg_org g = x \<and> mg_status g = MSent \<and> mg_to g = sd_to dto \<and>
     mg_phoneNumberId g = sd_phoneNumberId dto \<and> mg_payload g = buildMetaPayload dto"
  "create_message v u x dto i m = (Inl err, m1) \<Longrightarrow> m1 = m"
  by (auto simp: create_message_def Let_def split: option.splits json.splits if_splits)

lemma recordOutbound_frame [simp]:
  "m_graph (recordOutbound v r m) = m_graph m" "m_messages (recordOutbound v r m) = m_messages m"
  by (simp_all add: recordOutbound_def upsert_conversation_def Let_def)

lemma graph_send_frame:
  "m_graph (snd (graph_send v dto a token m)) = m_graph m @ [request_for dto token]"
  "m_messages (snd (graph_send v dto a token m)) = m_messages m"
  by (auto simp: graph_send_def request_for_def logMetaError_def Let_def split: graph_answer.split)

lemma sendMessage_cleared:
  assumes "send_gates v x dto scope m = (Inr (a, enc), m1)" "mv_decrypt v enc = Some token"
  shows "m_graph (snd (sendMessage v u x dto scope m)) = m_graph m1 @ [request_for dto token]"
    and "\<And>r m'. sendMessage v u x dto scope m = (Inr r, m') \<Longrightarrow>
      \<exists>g. m_messages m' = m_messages m1 @ [g] \<and> sx_id r = mg_id g \<and> mg_org g = x \<and> mg_to g = sd_to dto"
    and "\<And>e m'. sendMessage v u x dto scope m = (Inl e, m') \<Longrightarrow> m_messages m' = m_messages m1"
proof -
  obtain r2 m2 where send: "graph_send v dto a token m1 = (r2, m2)" by (cases "graph_send v dto a token m1")
  have graph2: "m_graph m2 = m_graph m1 @ [request_for dto token]" "m_messages m2 = m_messages m1"
    using graph_send_frame [of v dto a token m1] send by simp_all
  have run: "sendMessage v u x dto scope m =
      (case r2 of Inl e \<Rightarrow> (Inl e, m2) | Inr i \<Rightarrow>
        bindE (create_message v u x dto i) (\<lambda>message.
          thenE (modE (recordOutbound v (send_summary dto x a message)))
            (retE \<lparr>sx_id = mg_id message, sx_metaMessageId = mg_metaMessageId message,
              sx_phoneNumberId = mg_phoneNumberId message, sx_to = mg_to message, sx_type = mg_type message,
              sx_status = mg_status message, sx_createdAt = mg_createdAt message\<rparr>)) m2)"
    using assms send by (simp add: sendMessage_def bindE_def split: sum.split)
  show "m_graph (snd (sendMessage v u x dto scope m)) = m_graph m1 @ [request_for dto token]"
  proof (cases r2)
    case (Inr i)
    obtain r3 m3 where create: "create_message v u x dto i m2 = (r3, m3)" by (cases "create_message v u x dto i m2")
    have "m_graph m3 = m_graph m2" using create_message_frame(1) [of v u x dto i m2] create by simp
    then show ?thesis using run Inr create graph2 by (cases r3) simp_all
  qed (use run graph2 in simp)
  fix m'
  show "\<exists>g. m_messages m' = m_messages m1 @ [g] \<and> sx_id r = mg_id g \<and> mg_org g = x \<and> mg_to g = sd_to dto"
    if "sendMessage v u x dto scope m = (Inr r, m')" for r
  proof (cases r2)
    case (Inr i)
    obtain r3 m3 where create: "create_message v u x dto i m2 = (r3, m3)" by (cases "create_message v u x dto i m2")
    have "\<exists>g. r3 = Inr g" using that run Inr create by (cases r3) simp_all
    then obtain g where "r3 = Inr g" by blast
    then show ?thesis using that run Inr create create_message_frame(2) [of v u x dto i m2 g m3] graph2 by auto
  qed (use run that in simp)
  show "m_messages m' = m_messages m1" if "sendMessage v u x dto scope m = (Inl e, m')" for e
  proof (cases r2)
    case (Inr i)
    obtain r3 m3 where create: "create_message v u x dto i m2 = (r3, m3)" by (cases "create_message v u x dto i m2")
    have "\<exists>err. r3 = Inl err" using that run Inr create by (cases r3) simp_all
    then obtain err where "r3 = Inl err" by blast
    then show ?thesis using that run Inr create create_message_frame(3) [of v u x dto i m2 err m3] graph2 by auto
  qed (use run that graph2 in simp)
qed

text \<open>C30: nothing is posted to Meta for a send unless the number is known, the organisation holds its
  account, an API key is not limited to another account, the account may be used and the
  recipient has not opted out; when all of that holds exactly one request is, with the account's
  own token. The message is on file afterwards exactly when the caller is told it was sent.\<close>
theorem send_posts_only_when_cleared:
  "m_graph (snd (sendMessage v u x dto scope m)) = m_graph m @
      (case send_clearance v x dto scope m of None \<Rightarrow> [] | Some token \<Rightarrow> [request_for dto token]) \<and>
   (case fst (sendMessage v u x dto scope m) of
      Inl _ \<Rightarrow> m_messages (snd (sendMessage v u x dto scope m)) = m_messages m
    | Inr r \<Rightarrow> (\<exists>g. m_messages (snd (sendMessage v u x dto scope m)) = m_messages m @ [g] \<and>
        sx_id r = mg_id g \<and> mg_org g = x \<and> mg_to g = sd_to dto))"
proof (cases rule: send_gates_run [of v x dto scope m])
  case (refused err c)
  then show ?thesis by (simp add: sendMessage_def)
next
  case (passed a enc c)
  show ?thesis
  proof (cases "mv_decrypt v enc")
    case None
    then show ?thesis using passed by (simp add: sendMessage_def)
  next
    case (Some token)
    note sent = sendMessage_cleared [OF passed(1) Some]
    obtain r m' where run: "sendMessage v u x dto scope m = (r, m')" by (cases "sendMessage v u x dto scope m")
    show ?thesis using sent(1) [of u] sent(2,3) [of u] passed(3) Some run by (cases r) auto
  qed
qed

section \<open>Replies\<close>

text \<open>C31: a reply posts something to Meta only in a thread of the caller's own organisation and within
  the account the caller's key is limited to; it goes out on the thread's number to the thread's
  customer, and unless it is an approved template, less than 24 hours after the customer last
  wrote. Otherwise nothing is posted.\<close>
theorem reply_stays_in_its_window:
  "m_graph (snd (inbox_reply v u x i dto scope m)) = m_graph m \<or>
   (\<exists>c request. c \<in> set (m_conversations m) \<and> cv_id c = i \<and> cv_org c = x \<and> given_is scope (cv_wabaId c) \<and>
      (sd_type dto = TTemplate \<or> (\<exists>t. cv_lastInboundAt c = Some t \<and> mnow m < t + WINDOW_MS)) \<and>
      m_graph (snd (inbox_reply v u x i dto scope m)) = m_graph m @ [request] \<and>
      gr_phoneNumberId request = cv_phoneNumberId c \<and>
      j_get ''to'' (Some (gr_body request)) = Some (JStr (cv_contactPhone c)))"
proof (cases "requireConversation x i scope m")
  case (Pair r m')
  have m': "m' = m" using requireConversation_state [of x i scope m] Pair by simp
  show ?thesis
  proof (cases r)
    case (Inl e)
    then show ?thesis using Pair m' by (simp add: inbox_reply_def)
  next
    case (Inr c)
    then have c: "c \<in> set (m_conversations m)" "cv_id c = i" "cv_org c = x" "given_is scope (cv_wabaId c)"
      using Pair by (auto simp: requireConversation_def split: option.splits dest: find_SomeD)
    let ?dto = "send_reply_dto.extend dto (send_message_dto.fields (cv_phoneNumberId c) (cv_contactPhone c))"
    show ?thesis
    proof (cases "windowFor (mnow m) (cv_lastInboundAt c) = None \<and> sd_type dto \<noteq> TTemplate")
      case True
      then show ?thesis using Pair Inr m' by (simp add: inbox_reply_def thenE_def)
    next
      case False
      then have run: "inbox_reply v u x i dto scope m = sendMessage v u x ?dto scope m"
        using Pair Inr m' by (auto simp: inbox_reply_def thenE_def)
      have window: "sd_type dto = TTemplate \<or> (\<exists>t. cv_lastInboundAt c = Some t \<and> mnow m < t + WINDOW_MS)"
        using False by (auto simp: windowFor_def split: option.splits if_splits)
      have dto: "sd_phoneNumberId ?dto = cv_phoneNumberId c" "sd_to ?dto = cv_contactPhone c"
        by (simp_all add: send_reply_dto.defs send_message_dto.defs)
      have to: "j_get ''to'' (Some (buildMetaPayload d)) = Some (JStr (sd_to d))" for d
        by (simp add: buildMetaPayload_def j_get_def)
      show ?thesis
      proof (cases rule: send_gates_run [of v x ?dto scope m])
        case (refused err d)
        then show ?thesis by (simp add: run sendMessage_def)
      next
        case (passed a enc d)
        show ?thesis
        proof (cases "mv_decrypt v enc")
          case None
          then show ?thesis using passed by (simp add: run sendMessage_def)
        next
          case (Some token)
          have "m_graph (snd (sendMessage v u x ?dto scope m)) = m_graph m @ [request_for ?dto token]"
            using sendMessage_cleared(1) [OF passed(1) Some] by simp
          then show ?thesis using c window dto to run
            by (intro disjI2 exI [of _ c] exI [of _ "request_for ?dto token"]) (simp add: request_for_def)
        qed
      qed
    qed
  qed
qed

section \<open>A thread read page by page\<close>

lemma map_sort_key: "map f (sort_key (\<lambda>x. k (f x)) xs) = sort_key k (map f xs)"
proof -
  have ins: "map f (insort_key (\<lambda>x. k (f x)) a ys) = insort_key k (f a) (map f ys)" for a ys
    by (induction ys) simp_all
  show ?thesis by (induction xs) (simp_all add: ins)
qed

lemma map_newest_first: "map f (newest_first (\<lambda>x. at (f x)) xs) = newest_first at (map f xs)"
  unfolding newest_first_def by (rule map_sort_key)

lemma newest_first_filter: "filter p (newest_first at xs) = newest_first at (filter p xs)"
  unfolding newest_first_def by (rule filter_sort)

text \<open>Sorting two sorted lists takes the newer head, of two as new the first list's.\<close>

lemma newest_first_left:
  assumes "sorted_wrt (\<lambda>a b. at b \<le> at a) (a # A)" "\<forall>b \<in> set B. at b \<le> at a"
  shows "newest_first at ((a # A) @ B) = a # newest_first at (A @ B)"
  using assms unfolding newest_first_def by (simp add: insort_is_Cons ball_Un)

lemma newest_first_right:
  assumes "\<forall>a \<in> set A. at a < at b" "\<forall>b' \<in> set B. at b' \<le> at b"
  shows "newest_first at (A @ b # B) = b # newest_first at (A @ B)"
  using assms unfolding newest_first_def by (induction A) (simp_all add: insort_is_Cons)

lemma newest_first_twice: "newest_first at (newest_first at xs @ newest_first at ys) = newest_first at (xs @ ys)"
  unfolding newest_first_def
proof (rule properties_for_sort_key [symmetric])
  let ?k = "\<lambda>r. - at r"
  show "mset (sort_key ?k (sort_key ?k xs @ sort_key ?k ys)) = mset (xs @ ys)" by simp
  show "filter (\<lambda>x. ?k j = ?k x) (sort_key ?k (sort_key ?k xs @ sort_key ?k ys)) = filter (\<lambda>x. ?k j = ?k x) (xs @ ys)" for j
    using sort_key_stable [of ?k "?k j"] by (simp add: eq_commute [of "?k j"] del: neg_equal_iff_equal)
qed simp

text \<open>The newest \<open>n\<close> of two lists are those of the newest \<open>n\<close> of each.\<close>

lemma take_newest_sorted:
  assumes "sorted_wrt (\<lambda>a b. at b \<le> at a) A" "sorted_wrt (\<lambda>a b. at b \<le> at a) B" "n \<le> p" "n \<le> q"
  shows "take n (newest_first at (take p A @ take q B)) = take n (newest_first at (A @ B))"
  using assms
proof (induction n arbitrary: A B p q)
  case (Suc n)
  obtain p' q' where pq: "p = Suc p'" "q = Suc q'" "n \<le> p'" "n \<le> q'"
    using Suc.prems(3,4) by (metis Suc_le_D Suc_le_mono)
  have drop_left: "newest_first at (take p (a # A') @ take q B) = a # newest_first at (take p' A' @ take q B)
      \<and> newest_first at ((a # A') @ B) = a # newest_first at (A' @ B)"
    if "A = a # A'" "\<forall>b \<in> set B. at b \<le> at a" for a A'
    using that Suc.prems(1) newest_first_left [of at a A' B] newest_first_left [of at a "take p' A'" "take q B"] pq
    by (auto dest: in_set_takeD sorted_wrt_take [of _ _ p'])
  have drop_right: "newest_first at (take p A @ take q (b # B')) = b # newest_first at (take p A @ take q' B')
      \<and> newest_first at (A @ b # B') = b # newest_first at (A @ B')"
    if "B = b # B'" "\<forall>a \<in> set A. at a < at b" for b B'
    using that Suc.prems(2) newest_first_right [of A at b B'] newest_first_right [of "take p A" at b "take q' B'"] pq
    by (auto dest: in_set_takeD)
  consider "A = []" "B = []" | a A' where "A = a # A'" "\<forall>b \<in> set B. at b \<le> at a"
    | b B' where "B = b # B'" "\<forall>a \<in> set A. at a < at b"
  proof (cases A; cases B)
    fix a A' b B'
    assume AB: "A = a # A'" "B = b # B'"
    show thesis
    proof (cases "at b \<le> at a")
      case True
      then show thesis using AB Suc.prems(2) that(2) [of a A'] by fastforce
    next
      case False
      then show thesis using AB Suc.prems(1) that(3) [of b B'] by fastforce
    qed
  qed (use that in auto)
  then show ?case
  proof cases
    case 2
    then show ?thesis
      using drop_left [of a A'] Suc.IH [of A' B p' q] Suc.prems pq
      by (simp del: take_Suc_Cons append_Cons) (simp only: take_Suc_Cons)
  next
    case 3
    then show ?thesis
      using drop_right [of b B'] Suc.IH [of A B' p q'] Suc.prems pq
      by (simp del: take_Suc_Cons) (simp only: take_Suc_Cons)
  qed simp
qed simp

lemma take_newest_of_two:
  "take n (newest_first at (take n (newest_first at xs) @ take n (newest_first at ys))) =
   take n (newest_first at (xs @ ys))"
  using take_newest_sorted [OF newest_first_sorted newest_first_sorted order_refl order_refl, of n at xs ys]
  by (simp add: newest_first_twice)

text \<open>The whole thread, newest first, and a reader who follows the cursors.\<close>

definition whole_thread :: "conversation_row \<Rightarrow> mworld \<Rightarrow> thread_message list" where
  "whole_thread c m =
     newest_first tm_timestamp (map toOutboundMessage (thread_outbound c None m) @ map toInboundMessage (thread_inbound c None m))"

fun thread_walk :: "nat \<Rightarrow> conversation_row \<Rightarrow> ms option \<Rightarrow> int \<Rightarrow> mworld \<Rightarrow> thread_message list" where
  "thread_walk 0 c before limit m = []"
| "thread_walk (Suc n) c before limit m =
     (case thread_page c before limit m of
        (page, None) \<Rightarrow> page
      | (page, Some t) \<Rightarrow> page @ thread_walk n c (Some t) limit m)"

lemma thread_timestamps [simp]:
  "tm_timestamp (toOutboundMessage g) = mg_createdAt g" "tm_timestamp (toInboundMessage r) = ib_timestamp r"
  by (simp_all add: toOutboundMessage_def toInboundMessage_def Let_def)

definition rest_of_thread :: "conversation_row \<Rightarrow> ms option \<Rightarrow> mworld \<Rightarrow> thread_message list" where
  "rest_of_thread c before m = filter (\<lambda>x. before_cursor before (tm_timestamp x)) (whole_thread c m)"

lemma thread_page_is_prefix:
  "fst (thread_page c before limit m) = take (nat limit) (rest_of_thread c before m)"
proof -
  let ?out = "map toOutboundMessage (thread_outbound c before m)"
  let ?in = "map toInboundMessage (thread_inbound c before m)"
  have cut: "thread_outbound c before m = filter (\<lambda>g. before_cursor before (mg_createdAt g)) (thread_outbound c None m)"
    "thread_inbound c before m = filter (\<lambda>r. before_cursor before (ib_timestamp r)) (thread_inbound c None m)"
    by (simp_all add: thread_outbound_def thread_inbound_def before_cursor_def conj_ac)
  have rest: "rest_of_thread c before m = newest_first tm_timestamp (?out @ ?in)"
    by (simp add: rest_of_thread_def whole_thread_def newest_first_filter cut filter_map comp_def)
  have "fst (thread_page c before limit m) = take (nat limit) (newest_first tm_timestamp
      (take (nat limit) (newest_first tm_timestamp ?out) @ take (nat limit) (newest_first tm_timestamp ?in)))"
    by (simp add: thread_page_def Let_def take_map [symmetric] flip: map_newest_first)
  then show ?thesis unfolding rest by (simp only: take_newest_of_two)
qed

lemma thread_cursor:
  assumes "1 \<le> limit"
  shows "snd (thread_page c before limit m) =
    (let page = fst (thread_page c before limit m) in
     if int (length page) = limit then Some (tm_timestamp (last page)) else None)"
proof -
  define merged where "merged = newest_first tm_timestamp
      (map toOutboundMessage (take (nat limit) (newest_first mg_createdAt (thread_outbound c before m))) @
       map toInboundMessage (take (nat limit) (newest_first ib_timestamp (thread_inbound c before m))))"
  have page: "fst (thread_page c before limit m) = take (nat limit) merged"
    by (simp add: thread_page_def Let_def merged_def)
  have "snd (thread_page c before limit m) =
      (if (limit < int (length merged) \<or> int (length (take (nat limit) merged)) = limit) \<and> take (nat limit) merged \<noteq> []
       then Some (tm_timestamp (last (take (nat limit) merged))) else None)"
    by (simp add: thread_page_def Let_def merged_def)
  moreover have "(limit < int (length merged) \<or> int (length (take (nat limit) merged)) = limit) \<and>
      take (nat limit) merged \<noteq> [] \<longleftrightarrow> int (length (take (nat limit) merged)) = limit"
    using assms by (auto simp: min_def)
  ultimately show ?thesis by (simp only: page Let_def)
qed

lemma rest_sorted: "sorted_wrt (\<lambda>a b. tm_timestamp b \<le> tm_timestamp a) (rest_of_thread c before m)"
  unfolding rest_of_thread_def whole_thread_def by (intro sorted_wrt_filter newest_first_sorted)

text \<open>
  After a full page the cursor leaves what is strictly older than its last message: part of what
  the page did not show, short of it only by messages of that very instant.
\<close>

lemma after_cursor:
  assumes "sorted_wrt (\<lambda>a b. k b \<le> (k a :: int)) xs" "0 < n" "n \<le> length xs"
  shows "filter (\<lambda>x. k x < k (last (take n xs))) xs = filter (\<lambda>x. k x < k (last (take n xs))) (drop n xs)"
    and "x \<in> set xs \<Longrightarrow> x \<in> set (take n xs) \<or> k x = k (last (take n xs)) \<or> k x < k (last (take n xs))"
    and "y \<in> set (take n xs) \<Longrightarrow> k (last (take n xs)) \<le> k y"
proof -
  have split: "xs = take n xs @ drop n xs" by simp
  have later: "k b \<le> k a" if "a \<in> set (take n xs)" "b \<in> set (drop n xs)" for a b
    using assms(1) that by (metis split sorted_wrt_append)
  have "last (take n xs) \<in> set (take n xs)" using assms(2,3) by (intro last_in_set) auto
  note tail = later [OF this]
  have least: "k (last ys) \<le> k y" if "sorted_wrt (\<lambda>a b. k b \<le> k a) ys" "y \<in> set ys" for y ys
    using that by (induction ys rule: rev_induct) (auto simp: sorted_wrt_append)
  note shown = least [OF sorted_wrt_take [OF assms(1), of n]]
  show "y \<in> set (take n xs) \<Longrightarrow> k (last (take n xs)) \<le> k y" by (rule shown)
  have "filter (\<lambda>x. k x < k (last (take n xs))) (take n xs) = []"
    using shown by (simp add: filter_empty_conv not_less)
  then show "filter (\<lambda>x. k x < k (last (take n xs))) xs = filter (\<lambda>x. k x < k (last (take n xs))) (drop n xs)"
    by (metis split filter_append append_Nil)
  show "x \<in> set (take n xs) \<or> k x = k (last (take n xs)) \<or> k x < k (last (take n xs))" if "x \<in> set xs"
    using that tail [of x] by (metis Un_iff split set_append order.order_iff_strict)
qed

text \<open>What a walk from a cursor owes the part of the thread that is older than it.\<close>

definition read_through :: "thread_message list \<Rightarrow> thread_message list \<Rightarrow> bool" where
  "read_through rest shown =
     (sorted_wrt (\<lambda>a b. tm_timestamp b \<le> tm_timestamp a) shown \<and> mset shown \<subseteq># mset rest \<and>
      tm_timestamp ` set shown = tm_timestamp ` set rest)"

lemma thread_walk_rest:
  assumes "1 \<le> limit"
  shows "length (rest_of_thread c before m) < n \<Longrightarrow>
    read_through (rest_of_thread c before m) (thread_walk n c before limit m) \<and>
    thread_walk (Suc n) c before limit m = thread_walk n c before limit m"
proof (induction n arbitrary: before)
  case (Suc n)
  let ?rest = "rest_of_thread c before m"
  note page = thread_page_is_prefix [of c before limit m]
  show ?case
  proof (cases "nat limit \<le> length ?rest")
    case False
    then have "thread_page c before limit m = (?rest, None)"
      using page thread_cursor [OF assms, of c before m] by (intro prod_eqI) (auto simp: Let_def)
    then show ?thesis using rest_sorted by (simp add: read_through_def)
  next
    case True
    let ?shown = "take (nat limit) ?rest"
    let ?t = "tm_timestamp (last ?shown)"
    have run: "thread_page c before limit m = (?shown, Some ?t)"
      using page thread_cursor [OF assms, of c before m] True assms by (intro prod_eqI) (auto simp: Let_def)
    have mem: "last ?shown \<in> set ?shown"
      using True assms by (intro last_in_set) auto
    have below: "before_cursor before ?t"
      using in_set_takeD [OF mem] by (simp add: rest_of_thread_def)
    have "rest_of_thread c (Some ?t) m = filter (\<lambda>x. tm_timestamp x < ?t) ?rest"
      using below by (auto simp: rest_of_thread_def before_cursor_def intro!: filter_cong split: option.splits)
    moreover note cut = after_cursor [OF rest_sorted [of c before m], of "nat limit"]
    ultimately have older: "rest_of_thread c (Some ?t) m = filter (\<lambda>x. tm_timestamp x < ?t) ?rest"
      and part: "rest_of_thread c (Some ?t) m = filter (\<lambda>x. tm_timestamp x < ?t) (drop (nat limit) ?rest)"
      using True assms by simp_all
    have "length (rest_of_thread c (Some ?t) m) \<le> length (drop (nat limit) ?rest)" unfolding part by (rule length_filter_le)
    then have "length (rest_of_thread c (Some ?t) m) < n" using Suc.prems True assms by simp
    note IH = Suc.IH [OF this]
    let ?more = "thread_walk n c (Some ?t) limit m"
    have "mset ?more \<subseteq># mset (drop (nat limit) ?rest)"
      using IH multiset_filter_subset subset_mset.order_trans unfolding read_through_def part mset_filter by blast
    then have "mset (?shown @ ?more) \<subseteq># mset ?rest"
      by (metis append_take_drop_id mset_append subset_mset.add_left_mono)
    moreover have "mset ?more \<subseteq># mset (rest_of_thread c (Some ?t) m)"
      using IH unfolding read_through_def by blast
    then have "set ?more \<subseteq> set (rest_of_thread c (Some ?t) m)" using set_mset_mono by fastforce
    then have low: "tm_timestamp y < ?t" if "y \<in> set ?more" for y using that unfolding older by auto
    have high: "?t \<le> tm_timestamp x" if "x \<in> set ?shown" for x
      using cut(3) [OF _ _ that] True assms by simp
    have order: "\<forall>x \<in> set ?shown. \<forall>y \<in> set ?more. tm_timestamp y \<le> tm_timestamp x"
    proof (intro ballI)
      fix x y assume "x \<in> set ?shown" "y \<in> set ?more"
      then show "tm_timestamp y \<le> tm_timestamp x" using low [of y] high [of x] by linarith
    qed
    have "sorted_wrt (\<lambda>a b. tm_timestamp b \<le> tm_timestamp a) (?shown @ ?more)"
      unfolding sorted_wrt_append
      by (intro conjI sorted_wrt_take rest_sorted order)
        (rule IH [THEN conjunct1, unfolded read_through_def, THEN conjunct1])
    moreover have "tm_timestamp ` set (?shown @ ?more) = tm_timestamp ` set ?rest"
    proof -
      have "tm_timestamp x \<in> tm_timestamp ` (set ?shown \<union> {x \<in> set ?rest. tm_timestamp x < ?t})" if "x \<in> set ?rest" for x
        using cut(2) [OF _ _ that] True assms that mem by fastforce
      then have "tm_timestamp ` (set ?shown \<union> {x \<in> set ?rest. tm_timestamp x < ?t}) = tm_timestamp ` set ?rest"
        by (auto dest: in_set_takeD)
      then show ?thesis using IH unfolding older by (simp add: read_through_def image_Un)
    qed
    ultimately have "read_through ?rest (?shown @ ?more)" unfolding read_through_def by (intro conjI)
    moreover have "thread_walk (Suc k) c before limit m = ?shown @ thread_walk k c (Some ?t) limit m" for k
      by (simp add: run)
    ultimately show ?thesis using IH by (simp only:)
  qed
qed simp

lemma read_through_distinct:
  assumes "read_through rest shown" "distinct (map tm_timestamp rest)" 
    "sorted_wrt (\<lambda>a b. tm_timestamp b \<le> tm_timestamp a) rest"
  shows "shown = rest"
proof -
  have inj: "inj_on tm_timestamp (set rest)" and dist: "distinct rest"
    using assms(2) by (simp_all add: distinct_map)
  have sub: "mset shown \<subseteq># mset rest" and at: "tm_timestamp ` set shown = tm_timestamp ` set rest"
    and sorted: "sorted_wrt (\<lambda>a b. tm_timestamp b \<le> tm_timestamp a) shown"
    using assms(1) by (simp_all add: read_through_def)
  have "set shown \<subseteq> set rest" using set_mset_mono [OF sub] by simp
  then have "set shown = set rest" using at inj by (simp add: inj_on_image_eq_iff)
  then have "mset rest = mset_set (set_mset (mset shown))" using dist by (simp add: mset_set_set)
  then have "mset rest \<subseteq># mset shown" by (simp only: mset_set_set_mset_msubset)
  then have same: "mset rest = mset shown" using sub by (rule subset_mset.antisym)
  have id: "newest_first tm_timestamp xs = xs"
    if "sorted_wrt (\<lambda>a b. tm_timestamp b \<le> tm_timestamp a) xs" for xs
    using that unfolding newest_first_def by (simp add: sort_key_id_if_sorted sorted_map)
  have "inj_on (\<lambda>r. - tm_timestamp r) (set rest)" using inj by (auto simp: inj_on_def)
  moreover have "sorted (map (\<lambda>r. - tm_timestamp r) shown)" using sorted by (simp add: sorted_map)
  ultimately have "newest_first tm_timestamp rest = shown"
    unfolding newest_first_def by (intro sort_key_inj_key_eq same)
  then show ?thesis using id [OF assms(3)] by simp
qed


definition sample_thread :: conversation_row where
  "sample_thread =
     \<lparr>cv_id = 9, cv_org = ''acme'', cv_wabaId = ''waba1'', cv_phoneNumberId = ''pn1'', cv_contactPhone = ''9198'',
      cv_contactName = None, cv_lastMessageAt = 7, cv_lastDirection = Inbound, cv_lastPreview = None,
      cv_lastInboundAt = Some 7, cv_unreadCount = 0, cv_lastReadAt = None, cv_status = CvOpen,
      cv_assigneeUserId = None, cv_createdAt = 0\<rparr>"

definition sample_inbound :: "nat \<Rightarrow> ms \<Rightarrow> inbound_row" where
  "sample_inbound i t =
     \<lparr>ib_id = i, ib_metaMessageId = nat_str i, ib_wabaId = ''waba1'', ib_phoneNumberId = ''pn1'', ib_from = ''9198'',
      ib_senderName = None, ib_type = ''text'', ib_payload = JObj [], ib_timestamp = t, ib_createdAt = t\<rparr>"

definition talk :: "ms \<Rightarrow> mworld" where
  "talk t = messaging_world
     \<lparr>m_messages := [sample_message\<lparr>mg_to := ''+9198'', mg_createdAt := 5\<rparr>],
      m_inbound := [sample_inbound 1 3, sample_inbound 2 7, sample_inbound 3 t]\<rparr>"


text \<open>Two messages of one instant on either side of a page's edge: the second is never shown.\<close>

lemma thread_cursor_skips_twin:
  "map tm_id (thread_walk 5 sample_thread None 2 (talk 5)) = [''in:2'', ''out:1'', ''in:1'']"
  by code_simp


section \<open>Listings and the address book\<close>

text \<open>The pages of the message log, walked from the first to the last it says there are, are the
  log it answers with when no page is asked for: every message once, newest first, whatever the
  page size and whichever account the key is limited to.\<close>
theorem message_pages_are_the_log:
  assumes "1 \<le> limit" "limit \<le> 100"
  shows "concat (map (\<lambda>p. pg_data (projr (message_findAll x (Some (int p)) (Some limit) scope m)))
      [1..<Suc (nat (pg_totalPages (projr (message_findAll x (Some 1) (Some limit) scope m))))]) =
    projl (message_findAll x None None scope m)"
  using assms by (rule message_list.walk)

theorem message_pages_are_the_log_witness:
  "concat (map (\<lambda>p. pg_data (projr (message_findAll ''acme'' (Some (int p)) (Some 2) None (talk 9)))) [1..<Suc 1]) =
     map toListItem [sample_message\<lparr>mg_to := ''+9198'', mg_createdAt := 5\<rparr>]"
proof -
  have "pg_totalPages (projr (message_findAll ''acme'' (Some 1) (Some 2) None (talk 9))) = 1" by code_simp
  moreover have "projl (message_findAll ''acme'' None None None (talk 9)) =
      map toListItem [sample_message\<lparr>mg_to := ''+9198'', mg_createdAt := 5\<rparr>]" by code_simp
  ultimately show ?thesis using message_pages_are_the_log [of 2 "''acme''" None "talk 9"] by simp
qed

text \<open>C33: whatever is added, changed and removed, an address book keeps one row per number and
  organisation and no two rows with an id; a row bears an instant of opting out only while it
  is opted out; the only opted-out rows without one are rows that were so before (from the time
  the instant was not kept), so every opt-out made here is dated; and the check a send makes
  finds exactly the numbers with an opted-out row, dated or not.\<close>
theorem address_book_sound:
  assumes "contact_step\<^sup>*\<^sup>* w w'" "contacts_ok w"
  shows "distinct (map contact_key (w_contacts w')) \<and> distinct (map ct_id (w_contacts w')) \<and>
    list_all (\<lambda>c. ct_optedOutAt c \<noteq> None \<longrightarrow> ct_optedOut c) (w_contacts w') \<and>
    list_all (\<lambda>c. ct_optedOut c \<and> ct_optedOutAt c = None \<longrightarrow> ct_id c \<in> undated_opt_outs w) (w_contacts w') \<and>
    isOptedOut w' x phone = list_ex (\<lambda>c. contact_key c = (x, phone) \<and> ct_optedOut c) (w_contacts w')"
proof -
  have ok: "contacts_ok w'" using assms by (induction) (auto intro: contacts_ok_step)
  have "undated_opt_outs w' \<subseteq> undated_opt_outs w"
    using assms(1) by (induction) (auto dest: undated_step)
  then have old: "ct_id c \<in> undated_opt_outs w"
    if "c \<in> set (w_contacts w')" "ct_optedOut c" "ct_optedOutAt c = None" for c
    using that by (auto simp: undated_opt_outs_def)
  have "isOptedOut w' x phone = (\<exists>c \<in> set (w_contacts w'). contact_key c = (x, phone) \<and> ct_optedOut c)"
  proof (cases "contact_by_phone w' x phone")
    case None
    then have "\<not> isOptedOut w' x phone" by (simp add: isOptedOut_def)
    then show ?thesis using None by (auto simp: contact_by_phone_None)
  next
    case (Some c)
    then have c: "c \<in> set (w_contacts w')" "contact_key c = (x, phone)"
      by (auto simp: contact_by_phone_def contact_key_def dest: find_SomeD)
    have "d = c" if "d \<in> set (w_contacts w')" "contact_key d = (x, phone)" for d
      using ok c that by (auto simp: contacts_ok_def distinct_map inj_on_def)
    moreover have "isOptedOut w' x phone = ct_optedOut c"
      using Some by (simp add: isOptedOut_def)
    ultimately show ?thesis using c by metis
  qed
  moreover have "distinct (map contact_key (w_contacts w'))" "distinct (map ct_id (w_contacts w'))"
      "\<forall>c \<in> set (w_contacts w'). contact_ok c"
    using ok by (simp_all add: contacts_ok_def)
  ultimately show ?thesis using old by (auto simp: contact_ok_def list_all_iff list_ex_iff)
qed

definition new_contact :: create_contact_dto where
  "new_contact = \<lparr>cc_phone = ''9198'', cc_name = None, cc_email = None, cc_metadata = None\<rparr>"

definition opting_out :: update_contact_dto where
  "opting_out = \<lparr>uc_name = None, uc_email = None, uc_optedOut = Some (Some True), uc_metadata = None\<rparr>"

text \<open>An address book with a row opted out before the date was kept.\<close>

definition old_book :: world where
  "old_book = sample_world\<lparr>w_contacts := [\<lparr>ct_id = 7, ct_org = ''acme'', ct_phone = ''9197'', ct_name = None,
     ct_email = None, ct_optedOut = True, ct_optedOutAt = None, ct_metadata = None, ct_createdAt = 0, ct_updatedAt = 0\<rparr>]\<rparr>"

definition opted_out_book :: world where
  "opted_out_book = snd (contact_update sample_env ''acme'' 100 opting_out
     (snd (contact_create sample_env ''acme'' new_contact old_book)))"

theorem address_book_sound_witness:
  "isOptedOut opted_out_book ''acme'' ''9197'' \<and> isOptedOut opted_out_book ''acme'' ''9198'' \<and>
   distinct (map contact_key (w_contacts opted_out_book))"
proof -
  have run: "contact_step\<^sup>*\<^sup>* old_book opted_out_book"
    unfolding opted_out_book_def
    by (rule rtranclp.rtrancl_into_rtrancl [OF r_into_rtranclp])
      (rule contact_step.creates, rule contact_step.updates)
  have "contacts_ok old_book"
    by (simp add: contacts_ok_def old_book_def sample_world_def empty_world_def contact_ok_def)
  note sound = address_book_sound [OF run this]
  have "list_ex (\<lambda>c. contact_key c = (''acme'', ''9198'') \<and> ct_optedOut c) (w_contacts opted_out_book)"
    "list_ex (\<lambda>c. contact_key c = (''acme'', ''9197'') \<and> ct_optedOut c) (w_contacts opted_out_book)"
    by code_simp+
  then show ?thesis using sound [of "''acme''" "''9198''"] sound [of "''acme''" "''9197''"] by blast
qed

text \<open>The account a list is asked for replaces the one the caller's key is limited to.\<close>

lemma asked_account_overrides_key:
  assumes "truthy (cq_wabaId query)"
  shows "inbox_list x query scope m = inbox_list x query None m"
proof -
  have "conversation_where x query scope = conversation_where x query None"
    using assms by (intro ext) (simp add: conversation_where_def)
  then show ?thesis by (simp add: inbox_list_def)
qed

text \<open>The number a send names is compared as it is written.\<close>

lemma opt_out_missed_by_spelling:
  "isOptedOut opted_out_book ''acme'' ''9198''" "\<not> isOptedOut opted_out_book ''acme'' ''+9198''"
  by code_simp+

end
