(* ===== verification/Retention.thy ===== *)
theory Retention
  imports Msg_Db Js_Value
begin

text \<open>
  \<open>src/webhooks/retention.service.ts\<close> and the nightly half of \<open>webhooks.scheduler.ts\<close>: deleting what
  the deployment said it would not keep. Delivery log and stored events go after a number of
  days, a few thousand rows a statement; message history goes after the window of the plan of
  each organisation, when the deployment says so.
\<close>

section \<open>Settings\<close>

definition DEFAULT_EVENT_RETENTION_DAYS :: int where "DEFAULT_EVENT_RETENTION_DAYS = 30"

definition BATCH :: nat where "BATCH = 5000"

definition MAX_BATCHES :: nat where "MAX_BATCHES = 20"

definition cutoff :: "ms \<Rightarrow> int \<Rightarrow> ms" where
  "cutoff now days = now - days * (24 * 60 * 60 * 1000)"

text \<open>What the constructor reads. A number of days that is not a number makes an invalid date,
  and a statement with one throws.\<close>

record retention_config =
  rc_eventDays :: "int option"
  rc_enforcePlanRetention :: bool

definition retention_config_of :: "string option \<Rightarrow> string option \<Rightarrow> retention_config" where
  "retention_config_of eventDays enforced =
     \<lparr>rc_eventDays = (case eventDays of None \<Rightarrow> Some DEFAULT_EVENT_RETENTION_DAYS | Some s \<Rightarrow> text_number s),
      rc_enforcePlanRetention = (nullish_def_val enforced ''false'' = ''true'')\<rparr>"

record retention_result =
  rr_events :: nat
  rr_deliveries :: nat
  rr_messages :: nat
  rr_inbound :: nat

section \<open>Deleting in batches\<close>

text \<open>\<open>DELETE ... WHERE id IN (SELECT id ... LIMIT n)\<close>: the rows that go, and the rows that stay.\<close>

fun delete_some :: "nat \<Rightarrow> ('r \<Rightarrow> bool) \<Rightarrow> 'r list \<Rightarrow> 'r list \<times> 'r list" where
  "delete_some n p [] = ([], [])"
| "delete_some n p (r # rows) =
     (case n of
        0 \<Rightarrow> ([], r # rows)
      | Suc k \<Rightarrow>
          if p r then (let (gone, rest) = delete_some k p rows in (r # gone, rest))
          else (let (gone, rest) = delete_some n p rows in (gone, r # rest)))"

text \<open>\<open>deleteBatched\<close>, with the passes it has left.\<close>

fun deleteBatched :: "nat \<Rightarrow> ('r \<Rightarrow> bool) \<Rightarrow> 'r list \<Rightarrow> 'r list \<times> 'r list" where
  "deleteBatched 0 p rows = ([], rows)"
| "deleteBatched (Suc passes) p rows =
     (let (gone, rest) = delete_some BATCH p rows in
      if length gone < BATCH then (gone, rest)
      else (let (more, rest') = deleteBatched passes p rest in (gone @ more, rest')))"

section \<open>The sweep\<close>

definition settled_delivery :: "ms \<Rightarrow> hook_delivery \<Rightarrow> bool" where
  "settled_delivery before d = (hd_createdAt d < before \<and> hd_status d \<in> {HSent, HAbandoned})"

definition sweep_deliveries :: "menv \<Rightarrow> ms \<Rightarrow> (mworld, nat) svc" where
  "sweep_deliveries v before m =
     (if mv_raises v ''webhookDelivery.delete'' then (Inl (RuntimeError ''webhookDelivery.delete''), m)
      else
        let (gone, rest) = deleteBatched MAX_BATCHES (settled_delivery before) (hw_deliveries (m_hooks m))
        in (Inr (length gone), m\<lparr>m_hooks := (m_hooks m)\<lparr>hw_deliveries := rest\<rparr>\<rparr>))"

text \<open>Deleting an event nulls the link of the deliveries that point at it.\<close>

definition sweep_events :: "menv \<Rightarrow> ms \<Rightarrow> (mworld, nat) svc" where
  "sweep_events v before m =
     (if mv_raises v ''webhookEvent.delete'' then (Inl (RuntimeError ''webhookEvent.delete''), m)
      else
        let (gone, rest) = deleteBatched MAX_BATCHES (\<lambda>e. me_createdAt e < before) (m_events m);
            unlink = (\<lambda>d. case hd_eventId d of None \<Rightarrow> False | Some i \<Rightarrow> i \<in> set (map me_id gone))
        in (Inr (length gone),
            m\<lparr>m_events := rest,
              m_hooks := (m_hooks m)\<lparr>hw_deliveries :=
                update_rows unlink (\<lambda>d. d\<lparr>hd_eventId := None\<rparr>) (hw_deliveries (m_hooks m))\<rparr>\<rparr>))"

text \<open>\<open>deleteMany\<close> for one organisation; a dry run counts and logs instead.\<close>

definition sent_before :: "org \<Rightarrow> ms \<Rightarrow> message_row \<Rightarrow> bool" where
  "sent_before ssoOrgId before g = (mg_org g = ssoOrgId \<and> mg_createdAt g < before)"

definition received_before :: "org \<Rightarrow> ms \<Rightarrow> world \<Rightarrow> inbound_row \<Rightarrow> bool" where
  "received_before ssoOrgId before w r =
     (membership_holds ssoOrgId (ib_wabaId r) w \<and> ib_createdAt r < before)"

definition sweep_org :: "menv \<Rightarrow> bool \<Rightarrow> org \<Rightarrow> retention_result \<Rightarrow> (mworld, retention_result) svc" where
  "sweep_org v enforce ssoOrgId res m =
     (case el_historyDays (limits_forOrg (m_core m) ssoOrgId) of
        None \<Rightarrow> (Inr res, m)
      | Some days \<Rightarrow>
          if days = 0 \<or> \<not> enforce then (Inr res, m)
          else if mv_raises v ''message.deleteMany'' then (Inl (RuntimeError ''message.deleteMany''), m)
          else
            let before = cutoff (mnow m) days;
                out = sent_before ssoOrgId before; into = received_before ssoOrgId before (m_core m);
                m' = m\<lparr>m_messages := filter (\<lambda>g. \<not> out g) (m_messages m)\<rparr>
            in if mv_raises v ''inboundMessage.deleteMany'' then (Inl (RuntimeError ''inboundMessage.deleteMany''), m')
               else (Inr (res\<lparr>rr_messages := rr_messages res + count_rows out (m_messages m),
                              rr_inbound := rr_inbound res + count_rows into (m_inbound m)\<rparr>),
                     m'\<lparr>m_inbound := filter (\<lambda>r. \<not> into r) (m_inbound m)\<rparr>))"

text \<open>\<open>findMany\<close> with \<open>distinct\<close>: each organisation once.\<close>

definition history_orgs :: "world \<Rightarrow> org list" where
  "history_orgs w = remdups (map wo_org (w_wabaOrgs w))"

fun sweep_orgs :: "menv \<Rightarrow> bool \<Rightarrow> org list \<Rightarrow> retention_result \<Rightarrow> (mworld, retention_result) svc" where
  "sweep_orgs v enforce [] res = retE res"
| "sweep_orgs v enforce (x # xs) res = bindE (sweep_org v enforce x res) (sweep_orgs v enforce xs)"

definition sweepMessageHistory :: "menv \<Rightarrow> bool \<Rightarrow> retention_result \<Rightarrow> (mworld, retention_result) svc" where
  "sweepMessageHistory v enforce res m = sweep_orgs v enforce (history_orgs (m_core m)) res m"

definition retention_sweep :: "retention_config \<Rightarrow> menv \<Rightarrow> (mworld, retention_result) svc" where
  "retention_sweep c v =
     bindE (getE (\<lambda>m. Option.bind (rc_eventDays c) (\<lambda>days. js_date (Some (cutoff (mnow m) days))))) (\<lambda>at.
     case at of
       None \<Rightarrow> throwE (RuntimeError ''Invalid time value'')
     | Some before \<Rightarrow>
         bindE (sweep_deliveries v before) (\<lambda>deliveries.
         bindE (sweep_events v before) (\<lambda>events.
         sweepMessageHistory v (rc_enforcePlanRetention c)
           \<lparr>rr_events = events, rr_deliveries = deliveries, rr_messages = 0, rr_inbound = 0\<rparr>)))"

text \<open>\<open>pruneExpired\<close>, every night: what the sweep throws is logged.\<close>

definition pruneExpired :: "retention_config \<Rightarrow> menv \<Rightarrow> mworld \<Rightarrow> mworld" where
  "pruneExpired c v m = snd (retention_sweep c v m)"

section \<open>What a batch takes\<close>

lemma delete_some_parts:
  "fst (delete_some n p rows) = take n (filter p rows)"
  "filter p (snd (delete_some n p rows)) = drop n (filter p rows)"
  "filter (\<lambda>r. \<not> p r) (snd (delete_some n p rows)) = filter (\<lambda>r. \<not> p r) rows"
  by (induction n p rows rule: delete_some.induct) (simp_all add: case_prod_beta Let_def split: nat.split)

lemma deleteBatched_parts:
  "fst (deleteBatched k p rows) = take (k * BATCH) (filter p rows)"
  "filter p (snd (deleteBatched k p rows)) = drop (k * BATCH) (filter p rows)"
  "filter (\<lambda>r. \<not> p r) (snd (deleteBatched k p rows)) = filter (\<lambda>r. \<not> p r) rows"
proof (induction k arbitrary: rows)
  case (Suc k)
  have run: "deleteBatched (Suc k) p rows =
      (if length (filter p rows) < BATCH then delete_some BATCH p rows
       else (fst (delete_some BATCH p rows) @ fst (deleteBatched k p (snd (delete_some BATCH p rows))),
             snd (deleteBatched k p (snd (delete_some BATCH p rows)))))" for rows
    by (auto simp: case_prod_beta Let_def delete_some_parts prod_eq_iff)
  {
    case 1
    show ?case unfolding run by (simp add: delete_some_parts take_add Suc.IH)
  next
    case 2
    show ?case unfolding run by (simp add: delete_some_parts add.commute Suc.IH)
  next
    case 3
    show ?case unfolding run by (simp add: delete_some_parts Suc.IH)
  }
qed simp_all

lemma deleteBatched_all:
  assumes "count_rows p rows \<le> MAX_BATCHES * BATCH"
  shows "deleteBatched MAX_BATCHES p rows = (filter p rows, filter (\<lambda>r. \<not> p r) rows)"
proof (rule prod_eqI)
  show "fst (deleteBatched MAX_BATCHES p rows) = fst (filter p rows, filter (\<lambda>r. \<not> p r) rows)"
    using assms by (simp add: deleteBatched_parts count_rows_def)
  have "filter p (snd (deleteBatched MAX_BATCHES p rows)) = []"
    using assms by (simp add: deleteBatched_parts count_rows_def)
  then have "snd (deleteBatched MAX_BATCHES p rows) = filter (\<lambda>r. \<not> p r) (snd (deleteBatched MAX_BATCHES p rows))"
    by (simp add: filter_empty_conv)
  then show "snd (deleteBatched MAX_BATCHES p rows) = snd (filter p rows, filter (\<lambda>r. \<not> p r) rows)"
    by (simp add: deleteBatched_parts)
qed

section \<open>What a night deletes\<close>

text \<open>The window of an organisation's plan, where there is one.\<close>

definition history_window :: "world \<Rightarrow> ms \<Rightarrow> org \<Rightarrow> ms option" where
  "history_window w now x =
     (case el_historyDays (limits_forOrg w x) of
        None \<Rightarrow> None | Some days \<Rightarrow> if days = 0 then None else Some (cutoff now days))"

definition past_window :: "world \<Rightarrow> ms \<Rightarrow> org \<Rightarrow> ms \<Rightarrow> bool" where
  "past_window w now x t = (case history_window w now x of None \<Rightarrow> False | Some before \<Rightarrow> t < before)"

lemma sweep_org_enforced:
  assumes "\<not> mv_raises v ''message.deleteMany''" "\<not> mv_raises v ''inboundMessage.deleteMany''"
  shows "\<exists>res'. sweep_org v True x res m = (Inr res', m
     \<lparr>m_messages := filter (\<lambda>g. \<not> (mg_org g = x \<and> past_window (m_core m) (mnow m) x (mg_createdAt g))) (m_messages m),
      m_inbound := filter (\<lambda>r. \<not> (membership_holds x (ib_wabaId r) (m_core m) \<and>
        past_window (m_core m) (mnow m) x (ib_createdAt r))) (m_inbound m)\<rparr>)"
proof (cases "history_window (m_core m) (mnow m) x")
  case None
  then show ?thesis
    by (auto simp: sweep_org_def past_window_def history_window_def split: option.splits if_splits)
next
  case (Some before)
  then show ?thesis using assms
    by (auto simp: sweep_org_def past_window_def history_window_def sent_before_def received_before_def
        split: option.splits if_splits)
qed

lemma sweep_orgs_enforced:
  assumes "\<not> mv_raises v ''message.deleteMany''" "\<not> mv_raises v ''inboundMessage.deleteMany''"
  shows "\<exists>res'. sweep_orgs v True xs res m = (Inr res', m
     \<lparr>m_messages := filter (\<lambda>g. \<not> (mg_org g \<in> set xs \<and> past_window (m_core m) (mnow m) (mg_org g) (mg_createdAt g)))
        (m_messages m),
      m_inbound := filter (\<lambda>r. \<not> (\<exists>x \<in> set xs. membership_holds x (ib_wabaId r) (m_core m) \<and>
        past_window (m_core m) (mnow m) x (ib_createdAt r))) (m_inbound m)\<rparr>)"
proof (induction xs arbitrary: res m)
  case (Cons x xs)
  obtain res1 m1 where one: "sweep_org v True x res m = (Inr res1, m1)"
    and m1: "m1 = m
     \<lparr>m_messages := filter (\<lambda>g. \<not> (mg_org g = x \<and> past_window (m_core m) (mnow m) x (mg_createdAt g))) (m_messages m),
      m_inbound := filter (\<lambda>r. \<not> (membership_holds x (ib_wabaId r) (m_core m) \<and>
        past_window (m_core m) (mnow m) x (ib_createdAt r))) (m_inbound m)\<rparr>"
    using sweep_org_enforced [OF assms] by blast
  obtain res2 m2 where two: "sweep_orgs v True xs res1 m1 = (Inr res2, m2)"
    and m2: "m2 = m1
     \<lparr>m_messages := filter (\<lambda>g. \<not> (mg_org g \<in> set xs \<and> past_window (m_core m1) (mnow m1) (mg_org g) (mg_createdAt g)))
        (m_messages m1),
      m_inbound := filter (\<lambda>r. \<not> (\<exists>x \<in> set xs. membership_holds x (ib_wabaId r) (m_core m1) \<and>
        past_window (m_core m1) (mnow m1) x (ib_createdAt r))) (m_inbound m1)\<rparr>"
    using Cons.IH by blast
  have same: "m_core m1 = m_core m" "mnow m1 = mnow m" by (simp_all add: m1 mnow_def)
  have "sweep_orgs v True (x # xs) res m = (Inr res2, m2)" using one two by simp
  moreover have "m2 = m
     \<lparr>m_messages := filter (\<lambda>g. \<not> (mg_org g \<in> set (x # xs) \<and> past_window (m_core m) (mnow m) (mg_org g) (mg_createdAt g)))
        (m_messages m),
      m_inbound := filter (\<lambda>r. \<not> (\<exists>y \<in> set (x # xs). membership_holds y (ib_wabaId r) (m_core m) \<and>
        past_window (m_core m) (mnow m) y (ib_createdAt r))) (m_inbound m)\<rparr>"
    unfolding m2 same
    by (simp add: m1) (rule arg_cong2 [where f = "\<lambda>gs rs. m\<lparr>m_messages := gs, m_inbound := rs\<rparr>"];
      rule filter_cong; blast)
  ultimately show ?case by blast
qed simp

lemma set_history_orgs: "x \<in> set (history_orgs w) \<longleftrightarrow> (\<exists>a. membership_holds x a w)"
  by (auto simp: history_orgs_def membership_holds_iff)

definition unlinked :: "meta_event list \<Rightarrow> hook_delivery \<Rightarrow> hook_delivery" where
  "unlinked gone d =
     (case hd_eventId d of
        None \<Rightarrow> d | Some i \<Rightarrow> if i \<in> set (map me_id gone) then d\<lparr>hd_eventId := None\<rparr> else d)"

lemma update_rows_unlinked:
  "update_rows (\<lambda>d. case hd_eventId d of None \<Rightarrow> False | Some i \<Rightarrow> i \<in> set (map me_id gone))
     (\<lambda>d. d\<lparr>hd_eventId := None\<rparr>) rows = map (unlinked gone) rows"
  by (auto simp: update_rows_def unlinked_def split: option.split)


text \<open>Two organisations hold one account; the plan of the first keeps thirty days.\<close>

definition old_reply :: inbound_row where
  "old_reply =
     \<lparr>ib_id = 1, ib_metaMessageId = ''wamid.1'', ib_wabaId = ''waba1'', ib_phoneNumberId = ''pn1'',
      ib_from = ''9198'', ib_senderName = None, ib_type = ''text'', ib_payload = JObj [],
      ib_timestamp = - 2000000000, ib_createdAt = - 2000000000\<rparr>"

definition night_before :: mworld where
  "night_before = messaging_world
     \<lparr>m_inbound := [old_reply, old_reply\<lparr>ib_id := 2, ib_createdAt := 0\<rparr>],
      m_core := sample_world\<lparr>w_wabaOrgs := w_wabaOrgs sample_world @
        [\<lparr>wo_wabaId = ''waba1'', wo_org = ''beta'', wo_userId = 2, wo_orgName = None\<rparr>]\<rparr>\<rparr>"

definition strict_retention :: retention_config where
  "strict_retention = retention_config_of None (Some ''true'')"


end
