(* ===== verification/Mail_Outbox.thy ===== *)
theory Mail_Outbox
  imports Msg_Db Js_Value
begin

text \<open>
  \<open>src/mail/mail.service.ts\<close>, \<open>support-mailbox.ts\<close> and what of \<open>mail.controller.ts\<close>
  changes state: one e-mail at a time, held back from addresses that bounced
  or asked us to stop, recorded, and tried again while it fails. SES, the digest that signs the
  unsubscribe links and the failing statements are parameters; what the layout makes of the parts
  of a message (\<open>mail.templates.ts\<close>) is text.
\<close>

section \<open>Messages\<close>

datatype mail_kind =
    Transactional | EmailTemplateStatus | EmailDailySummary | EmailWeeklySummary | EmailProductNews

fun mail_kind_name :: "mail_kind \<Rightarrow> string" where
  "mail_kind_name Transactional = ''transactional''"
| "mail_kind_name EmailTemplateStatus = ''emailTemplateStatus''"
| "mail_kind_name EmailDailySummary = ''emailDailySummary''"
| "mail_kind_name EmailWeeklySummary = ''emailWeeklySummary''"
| "mail_kind_name EmailProductNews = ''emailProductNews''"

text \<open>The column a kind is switched off in.\<close>

fun wants_mail :: "mail_kind \<Rightarrow> notification_preference \<Rightarrow> bool" where
  "wants_mail Transactional p = True"
| "wants_mail EmailTemplateStatus p = np_emailTemplateStatus p"
| "wants_mail EmailDailySummary p = np_emailDailySummary p"
| "wants_mail EmailWeeklySummary p = np_emailWeeklySummary p"
| "wants_mail EmailProductNews p = np_emailProductNews p"

fun switch_off :: "mail_kind \<Rightarrow> notification_preference \<Rightarrow> notification_preference" where
  "switch_off Transactional p = p"
| "switch_off EmailTemplateStatus p = p\<lparr>np_emailTemplateStatus := False\<rparr>"
| "switch_off EmailDailySummary p = p\<lparr>np_emailDailySummary := False\<rparr>"
| "switch_off EmailWeeklySummary p = p\<lparr>np_emailWeeklySummary := False\<rparr>"
| "switch_off EmailProductNews p = p\<lparr>np_emailProductNews := False\<rparr>"

definition UNSUBSCRIBABLE :: "mail_kind list" where
  "UNSUBSCRIBABLE = [EmailTemplateStatus, EmailDailySummary, EmailWeeklySummary, EmailProductNews]"

record recipient =
  rcp_userId :: nat
  rcp_email :: string
  rcp_firstName :: "string option"

text \<open>The content is base64, which stands for the bytes.\<close>

record mail_attachment =
  att_filename :: string
  att_contentType :: string
  att_content :: string

record send_options =
  so_kind :: mail_kind
  so_template :: string
  so_subject :: string
  so_heading :: string
  so_intro :: string
  so_facts :: "(string \<times> string) list"
  so_paragraphs :: "string list"
  so_action :: "(string \<times> string) option"
  so_footnote :: "string option"
  so_attachments :: "mail_attachment list"

text \<open>What the layout is handed.\<close>

record layout_options =
  lo_heading :: string
  lo_intro :: string
  lo_facts :: "(string \<times> string) list"
  lo_paragraphs :: "string list"
  lo_action :: "(string \<times> string) option"
  lo_footnote :: "string option"
  lo_unsubscribeUrl :: "string option"

record ses_message =
  sm_to :: string
  sm_subject :: string
  sm_layout :: layout_options
  sm_unsubscribeUrl :: "string option"
  sm_attachments :: "mail_attachment list"

datatype ses_result = SesOk "string option" | SesFailed string

section \<open>State and environment\<close>

datatype mail_status = MlSent | MlFailed | MlSuppressed | MlSkipped | MlAbandoned

text \<open>A stored payload that is missing or of another shape than the service writes is \<open>None\<close>.\<close>

record mail_row =
  ml_id :: nat
  ml_userId :: "nat option"
  ml_email :: string
  ml_kind :: string
  ml_subject :: string
  ml_status :: mail_status
  ml_messageId :: "string option"
  ml_error :: "string option"
  ml_attempts :: nat
  ml_retryAt :: "ms option"
  ml_payload :: "(recipient \<times> send_options) option"

record suppression_row =
  sr_email :: string
  sr_reason :: string
  sr_detail :: "string option"

record mail_world =
  mw_log :: "mail_row list"
  mw_suppressed :: "suppression_row list"
  mw_prefs :: "notification_preference list"
  mw_users :: "user_row list"
  mw_connections :: "user_whatsapp list"
  mw_ses :: "ses_message list"
  mw_now :: ms
  mw_nextId :: nat

record mail_env =
  mx_enabled :: bool
  mx_ses :: "ses_message list \<Rightarrow> ses_message \<Rightarrow> ses_result"
  mx_digest :: "string \<Rightarrow> string \<Rightarrow> string"
  mx_secret :: string
  mx_base :: "string option"
  mx_raises :: "string \<Rightarrow> bool"

text \<open>A statement that may fail.\<close>

definition db_call :: "mail_env \<Rightarrow> string \<Rightarrow> (mail_world, 'a) svc \<Rightarrow> (mail_world, 'a) svc" where
  "db_call x name f = thenE (refuse_if (mx_raises x name) (RuntimeError name)) f"

section \<open>Recipients\<close>

definition recipientsByIds :: "nat list \<Rightarrow> mail_world \<Rightarrow> recipient list" where
  "recipientsByIds userIds w =
     (if userIds = [] then []
      else map (\<lambda>u. \<lparr>rcp_userId = us_id u, rcp_email = the (us_email u), rcp_firstName = us_firstName u\<rparr>)
             (filter (\<lambda>u. us_id u \<in> set userIds \<and> us_email u \<noteq> None) (mw_users w)))"

definition recipientsForWaba :: "string \<Rightarrow> mail_world \<Rightarrow> recipient list" where
  "recipientsForWaba wabaId w =
     recipientsByIds (rev (remdups (rev (map uw_userId (filter (\<lambda>c. uw_wabaId c = wabaId) (mw_connections w)))))) w"

section \<open>Preferences, suppression and unsubscribing\<close>

definition pref_row :: "nat \<Rightarrow> mail_world \<Rightarrow> notification_preference option" where
  "pref_row userId w = List.find (\<lambda>p. np_userId p = userId) (mw_prefs w)"

definition mail_wanted :: "nat \<Rightarrow> mail_kind \<Rightarrow> mail_world \<Rightarrow> bool" where
  "mail_wanted userId kind w =
     (if kind = Transactional \<or> userId = 0 then True
      else case pref_row userId w of
        None \<Rightarrow> kind = EmailTemplateStatus \<or> kind = EmailDailySummary
      | Some row \<Rightarrow> wants_mail kind row)"

definition isSuppressed :: "string \<Rightarrow> mail_world \<Rightarrow> bool" where
  "isSuppressed email w = list_ex (\<lambda>r. sr_email r = js_lower email) (mw_suppressed w)"

definition suppress :: "mail_env \<Rightarrow> string \<Rightarrow> string \<Rightarrow> string option \<Rightarrow> (mail_world, unit) svc" where
  "suppress x email reason detail =
     db_call x ''mailSuppression.upsert'' (modE (\<lambda>w.
       let row = \<lparr>sr_email = js_lower email, sr_reason = reason, sr_detail = detail\<rparr> in
       if isSuppressed email w
       then w\<lparr>mw_suppressed := update_rows (\<lambda>r. sr_email r = js_lower email) (\<lambda>_. row) (mw_suppressed w)\<rparr>
       else w\<lparr>mw_suppressed := mw_suppressed w @ [row]\<rparr>))"

text \<open>\<open>base.replace(/\/$/, '')\<close> and the path.\<close>

definition appUrl :: "mail_env \<Rightarrow> string \<Rightarrow> string" where
  "appUrl x path =
     (let base = nullish_def_val (mx_base x) [] in
      (if base \<noteq> [] \<and> last base = CHR ''/'' then butlast base else base) @ path)"

text \<open>The digest is the hexadecimal text of the HMAC; the kind in a link may be any text.\<close>

definition signUnsubscribe :: "mail_env \<Rightarrow> nat \<Rightarrow> string \<Rightarrow> string" where
  "signUnsubscribe x userId kind = mx_digest x (mx_secret x) (nat_str userId @ '':'' @ kind)"

definition unsubscribeUrl :: "mail_env \<Rightarrow> nat \<Rightarrow> mail_kind \<Rightarrow> string" where
  "unsubscribeUrl x userId kind =
     appUrl x (''/unsubscribe?u='' @ nat_str userId @ ''&k='' @ encodeURIComponent (mail_kind_name kind) @
       ''&t='' @ signUnsubscribe x userId (mail_kind_name kind))"

definition verifyUnsubscribe :: "mail_env \<Rightarrow> nat \<Rightarrow> string \<Rightarrow> string \<Rightarrow> bool" where
  "verifyUnsubscribe x userId kind token = (signUnsubscribe x userId kind = token)"

definition kind_of :: "string \<Rightarrow> mail_kind option" where
  "kind_of name = List.find (\<lambda>k. mail_kind_name k = name) UNSUBSCRIBABLE"

text \<open>What the columns of a new row default to (\<open>prisma/schema.prisma\<close>). The row belongs to a user.\<close>

definition DEFAULT_COLUMNS :: "nat \<Rightarrow> notification_preference" where
  "DEFAULT_COLUMNS userId =
     \<lparr>np_userId = userId, np_inboundMessage = True, np_templateStatus = True, np_emailTemplateStatus = True,
      np_emailDailySummary = True, np_emailWeeklySummary = False, np_emailProductNews = False\<rparr>"

definition applyUnsubscribe :: "mail_env \<Rightarrow> nat \<Rightarrow> string \<Rightarrow> (mail_world, unit) svc" where
  "applyUnsubscribe x userId kind =
     (if kind = ''all'' then
        bindE (getE (\<lambda>w. List.find (\<lambda>u. us_id u = userId) (mw_users w))) (\<lambda>user.
        case Option.bind user us_email of
          None \<Rightarrow> retE ()
        | Some email \<Rightarrow> if email = [] then retE () else suppress x email ''unsubscribe'' None)
      else case kind_of kind of
        None \<Rightarrow> retE ()
      | Some k \<Rightarrow>
          db_call x ''notificationPreference.upsert'' (\<lambda>w.
            if pref_row userId w \<noteq> None
            then (Inr (), w\<lparr>mw_prefs := update_rows (\<lambda>p. np_userId p = userId) (switch_off k) (mw_prefs w)\<rparr>)
            else if \<not> list_ex (\<lambda>u. us_id u = userId) (mw_users w)
            then (Inl (RuntimeError ''notificationPreference.upsert''), w)
            else (Inr (), w\<lparr>mw_prefs := mw_prefs w @ [switch_off k (DEFAULT_COLUMNS userId)]\<rparr>)))"

text \<open>\<open>POST /mail/unsubscribe\<close>\<close>

definition unsubscribe :: "mail_env \<Rightarrow> nat \<Rightarrow> string \<Rightarrow> string \<Rightarrow> (mail_world, unit) svc" where
  "unsubscribe x userId kind token =
     thenE (refuse_if (\<not> verifyUnsubscribe x userId kind token) (BadRequest ''This unsubscribe link is not valid.''))
       (applyUnsubscribe x userId kind)"

section \<open>Sending\<close>

definition MAX_MAIL_RETRIES :: nat where "MAX_MAIL_RETRIES = 3"

definition MAIL_BACKOFF_MINUTES :: "int list" where "MAIL_BACKOFF_MINUTES = [5, 30, 120]"

definition MAIL_LEASE_MINUTES :: int where "MAIL_LEASE_MINUTES = 10"

definition mail_nextRetryAt :: "nat \<Rightarrow> ms \<Rightarrow> ms option" where
  "mail_nextRetryAt attempts now =
     (if 1 \<le> attempts \<and> attempts - 1 < length MAIL_BACKOFF_MINUTES
      then Some (now + MAIL_BACKOFF_MINUTES ! (attempts - 1) * 60000) else None)"

record mail_outcome =
  mo_status :: mail_status
  mo_messageId :: "string option"
  mo_error :: "string option"

definition held_back :: "mail_status \<Rightarrow> mail_outcome" where
  "held_back status = \<lparr>mo_status = status, mo_messageId = None, mo_error = None\<rparr>"

definition ses_message_for :: "mail_env \<Rightarrow> recipient \<Rightarrow> send_options \<Rightarrow> ses_message" where
  "ses_message_for x r opts =
     (let url = (if so_kind opts = Transactional then None else Some (unsubscribeUrl x (rcp_userId r) (so_kind opts))) in
      \<lparr>sm_to = rcp_email r, sm_subject = so_subject opts,
       sm_layout = \<lparr>lo_heading = so_heading opts, lo_intro = so_intro opts, lo_facts = so_facts opts,
         lo_paragraphs = so_paragraphs opts,
         lo_action = map_option (\<lambda>(label, path). (label, appUrl x path)) (so_action opts),
         lo_footnote = so_footnote opts, lo_unsubscribeUrl = url\<rparr>,
       sm_unsubscribeUrl = url, sm_attachments = so_attachments opts\<rparr>)"

text \<open>\<open>attempt\<close>: the checks and the call, for a first send and for every retry.\<close>

definition mail_attempt :: "mail_env \<Rightarrow> recipient \<Rightarrow> send_options \<Rightarrow> (mail_world, mail_outcome) svc" where
  "mail_attempt x r opts =
     db_call x ''mailSuppression.findUnique''
    (bindE (getE (isSuppressed (rcp_email r))) (\<lambda>suppressed.
     if suppressed then retE (held_back MlSuppressed)
     else
       thenE (refuse_if (so_kind opts \<noteq> Transactional \<and> rcp_userId r \<noteq> 0 \<and>
                mx_raises x ''notificationPreference.findUnique'') (RuntimeError ''notificationPreference.findUnique''))
      (bindE (getE (mail_wanted (rcp_userId r) (so_kind opts))) (\<lambda>wanted.
       if \<not> wanted then retE (held_back MlSkipped)
       else (\<lambda>w.
         let message = ses_message_for x r opts; w' = w\<lparr>mw_ses := mw_ses w @ [message]\<rparr> in
         case mx_ses x (mw_ses w) message of
           SesOk messageId \<Rightarrow> (Inr \<lparr>mo_status = MlSent, mo_messageId = messageId, mo_error = None\<rparr>, w')
         | SesFailed detail \<Rightarrow> (Inr \<lparr>mo_status = MlFailed, mo_messageId = None, mo_error = Some detail\<rparr>, w'))))))"

text \<open>\<open>log\<close>: only a failure keeps what the message was made of.\<close>

definition mail_log :: "mail_env \<Rightarrow> recipient \<Rightarrow> send_options \<Rightarrow> mail_outcome \<Rightarrow> mail_world \<Rightarrow> mail_world" where
  "mail_log x r opts outcome w =
     (if mx_raises x ''mailLog.create'' then w
      else
        let failed = (mo_status outcome = MlFailed);
            row = \<lparr>ml_id = mw_nextId w, ml_userId = (if rcp_userId r = 0 then None else Some (rcp_userId r)),
              ml_email = rcp_email r, ml_kind = so_template opts, ml_subject = so_subject opts,
              ml_status = mo_status outcome, ml_messageId = mo_messageId outcome, ml_error = mo_error outcome,
              ml_attempts = 1, ml_retryAt = (if failed then mail_nextRetryAt 1 (mw_now w) else None),
              ml_payload = (if failed then Some (r, opts) else None)\<rparr>
        in w\<lparr>mw_log := mw_log w @ [row], mw_nextId := Suc (mw_nextId w)\<rparr>)"

definition sendTo :: "mail_env \<Rightarrow> recipient \<Rightarrow> send_options \<Rightarrow> mail_world \<Rightarrow> bool \<times> mail_world" where
  "sendTo x r opts w =
     (if \<not> mx_enabled x then (False, w)
      else case mail_attempt x r opts w of
        (Inl err, w') \<Rightarrow> (False, w')
      | (Inr outcome, w') \<Rightarrow> (mo_status outcome = MlSent, mail_log x r opts outcome w'))"

fun sendToAll :: "mail_env \<Rightarrow> recipient list \<Rightarrow> send_options \<Rightarrow> mail_world \<Rightarrow> nat \<times> mail_world" where
  "sendToAll x [] opts w = (0, w)"
| "sendToAll x (r # rs) opts w =
     (let (ok, w1) = sendTo x r opts w; (n, w2) = sendToAll x rs opts w1 in ((if ok then Suc n else n), w2))"

definition sendRaw :: "mail_env \<Rightarrow> string \<Rightarrow> send_options \<Rightarrow> mail_world \<Rightarrow> bool \<times> mail_world" where
  "sendRaw x email opts = sendTo x \<lparr>rcp_userId = 0, rcp_email = email, rcp_firstName = None\<rparr> opts"

section \<open>Retrying\<close>

record retry_result =
  rt_retried :: nat
  rt_sent :: nat
  rt_abandoned :: nat

definition update_mail :: "nat \<Rightarrow> (mail_row \<Rightarrow> mail_row) \<Rightarrow> mail_world \<Rightarrow> mail_world" where
  "update_mail i f w = w\<lparr>mw_log := update_rows (\<lambda>r. ml_id r = i) f (mw_log w)\<rparr>"

text \<open>\<open>settle\<close>: an error or a message id is written only when it is given.\<close>

definition mail_settle ::
  "mail_env \<Rightarrow> nat \<Rightarrow> mail_status \<Rightarrow> nat \<Rightarrow> string option option \<Rightarrow> string option \<Rightarrow> (mail_world, unit) svc" where
  "mail_settle x i status attempts err messageId =
     db_call x ''mailLog.update'' (modE (update_mail i (\<lambda>r. r
       \<lparr>ml_status := status, ml_attempts := attempts, ml_retryAt := None, ml_payload := None,
        ml_messageId := (if truthy messageId then messageId else ml_messageId r),
        ml_error := nullish_def_val err (ml_error r)\<rparr>)))"

definition due_mail :: "ms \<Rightarrow> mail_row \<Rightarrow> bool" where
  "due_mail now r = (ml_status r = MlFailed \<and> (case ml_retryAt r of None \<Rightarrow> False | Some t \<Rightarrow> t \<le> now))"

text \<open>The compare-and-set that gives a row to one replica, and its lease.\<close>

definition claim_mail :: "nat \<Rightarrow> ms \<Rightarrow> mail_world \<Rightarrow> bool \<times> mail_world" where
  "claim_mail i now w =
     (let hit = (\<lambda>r. ml_id r = i \<and> due_mail now r) in
      (list_ex hit (mw_log w),
       w\<lparr>mw_log := update_rows hit (\<lambda>r. r\<lparr>ml_retryAt := Some (now + MAIL_LEASE_MINUTES * 60000)\<rparr>) (mw_log w)\<rparr>))"

text \<open>\<open>parsePayload\<close>\<close>

definition parsePayload :: "(recipient \<times> send_options) option \<Rightarrow> (recipient \<times> send_options) option" where
  "parsePayload payload =
     (case payload of
        None \<Rightarrow> None
      | Some (r, opts) \<Rightarrow>
          if rcp_email r = [] \<or> so_subject opts = [] \<or> so_template opts = [] then None else Some (r, opts))"

text \<open>The counts of a sweep, which its rows share: what a row counted before it threw stays counted.\<close>

type_synonym mail_sweep = "mail_world \<times> retry_result"

definition in_mail :: "(mail_world, 'a) svc \<Rightarrow> (mail_sweep, 'a) svc" where
  "in_mail f s = (case f (fst s) of (r, w) \<Rightarrow> (r, (w, snd s)))"

definition tally :: "(retry_result \<Rightarrow> retry_result) \<Rightarrow> (mail_sweep, unit) svc" where
  "tally f = modE (\<lambda>(w, res). (w, f res))"

definition tally_retried :: "(mail_sweep, unit) svc" where
  "tally_retried = tally (\<lambda>res. res\<lparr>rt_retried := Suc (rt_retried res)\<rparr>)"

definition tally_sent :: "(mail_sweep, unit) svc" where
  "tally_sent = tally (\<lambda>res. res\<lparr>rt_sent := Suc (rt_sent res)\<rparr>)"

definition tally_abandoned :: "(mail_sweep, unit) svc" where
  "tally_abandoned = tally (\<lambda>res. res\<lparr>rt_abandoned := Suc (rt_abandoned res)\<rparr>)"

text \<open>What is done with the outcome of a retry, the last of \<open>attempts\<close>.\<close>

definition after_retry :: "mail_env \<Rightarrow> nat \<Rightarrow> nat \<Rightarrow> ms \<Rightarrow> mail_outcome \<Rightarrow> (mail_sweep, unit) svc" where
  "after_retry x i attempts now outcome =
     (case mo_status outcome of
        MlSent \<Rightarrow> thenE (in_mail (mail_settle x i MlSent attempts (Some None) (mo_messageId outcome))) tally_sent
      | MlFailed \<Rightarrow>
          (case (if MAX_MAIL_RETRIES < attempts then None else mail_nextRetryAt attempts now) of
             None \<Rightarrow> thenE (in_mail (mail_settle x i MlAbandoned attempts (map_option Some (mo_error outcome)) None))
                       tally_abandoned
           | Some retryAt \<Rightarrow>
               in_mail (db_call x ''mailLog.update'' (modE (update_mail i (\<lambda>r. r
                   \<lparr>ml_attempts := attempts, ml_retryAt := Some retryAt, ml_error := mo_error outcome\<rparr>)))))
      | status \<Rightarrow> thenE (in_mail (mail_settle x i status attempts None None)) tally_abandoned)"

definition retryRow :: "mail_env \<Rightarrow> mail_row \<Rightarrow> ms \<Rightarrow> (mail_sweep, unit) svc" where
  "retryRow x row now =
     bindE (in_mail (db_call x ''mailLog.updateMany''
              (\<lambda>w. (Inr (fst (claim_mail (ml_id row) now w)), snd (claim_mail (ml_id row) now w))))) (\<lambda>claimed.
     if \<not> claimed then retE ()
     else case parsePayload (ml_payload row) of
       None \<Rightarrow>
         thenE (in_mail (mail_settle x (ml_id row) MlAbandoned (ml_attempts row) (Some (Some ''no payload'')) None))
           tally_abandoned
     | Some (r, opts) \<Rightarrow>
         thenE tally_retried
        (bindE (in_mail (mail_attempt x r opts)) (after_retry x (ml_id row) (Suc (ml_attempts row)) now)))"

text \<open>A row that throws does not stop the rest.\<close>

fun retry_rows :: "mail_env \<Rightarrow> mail_row list \<Rightarrow> ms \<Rightarrow> mail_sweep \<Rightarrow> mail_sweep" where
  "retry_rows x [] now s = s"
| "retry_rows x (row # rows) now s = retry_rows x rows now (snd (retryRow x row now s))"

definition retryFailed :: "mail_env \<Rightarrow> nat \<Rightarrow> (mail_world, retry_result) svc" where
  "retryFailed x limit =
     (let none = \<lparr>rt_retried = 0, rt_sent = 0, rt_abandoned = 0\<rparr> in
      if \<not> mx_enabled x then retE none
      else
        db_call x ''mailLog.findMany'' (\<lambda>w.
          let due = take limit (sort_key (\<lambda>r. nullish_def_val (ml_retryAt r) 0) (filter (due_mail (mw_now w)) (mw_log w)));
              (w', res) = retry_rows x due (mw_now w) (w, none)
          in (Inr res, w')))"

section \<open>SES feedback (POST /mail/events)\<close>

text \<open>The addresses are read one by one, each suppressed before the next is read.\<close>

definition suppress_address :: "mail_env \<Rightarrow> string \<Rightarrow> string option \<Rightarrow> json \<Rightarrow> (mail_world, unit) svc" where
  "suppress_address x reason detail who =
     bindE (js_read ''emailAddress'' (Some who)) (\<lambda>address.
     if \<not> j_truthy address then retE ()
     else case address of
       Some (JStr email) \<Rightarrow> suppress x email reason detail
     | _ \<Rightarrow> throwE (RuntimeError ''email.toLowerCase is not a function''))"

definition sns_notification :: "mail_env \<Rightarrow> json \<Rightarrow> (mail_world, unit) svc" where
  "sns_notification x notification =
     bindE (js_read ''notificationType'' (Some notification)) (\<lambda>kind.
     let n = Some notification; type_in = j_or kind (j_get ''eventType'' n); bounce = j_get ''bounce'' n;
         complaint = j_get ''complaint'' n
     in
     thenE (if type_in = Some (JStr ''Bounce'') \<and> j_truthy bounce \<and>
               j_get ''bounceType'' bounce = Some (JStr ''Permanent'')
            then bindE (js_elements (j_get ''bouncedRecipients'' bounce))
                   (forE (suppress_address x ''bounce'' (Some ''Permanent'')))
            else retE ())
      (if type_in = Some (JStr ''Complaint'') \<and> j_truthy complaint
       then bindE (js_elements (j_get ''complainedRecipients'' complaint))
              (forE (suppress_address x ''complaint'' None))
       else retE ()))"

definition sesEvents :: "mail_env \<Rightarrow> string option \<Rightarrow> json \<Rightarrow> mail_world \<Rightarrow> mail_world" where
  "sesEvents x messageType body w =
     (if messageType = Some ''SubscriptionConfirmation'' \<or> body = JNull \<or>
         j_get ''Type'' (Some body) = Some (JStr ''SubscriptionConfirmation'') then w
      else case json_parse (js_text (j_or (j_get ''Message'' (Some body)) (Some (JStr ''{}'')))) of
        None \<Rightarrow> w
      | Some notification \<Rightarrow> snd (sns_notification x notification w))"

section \<open>Where a support topic goes (support-mailbox.ts)\<close>

definition safe_tag :: "string \<Rightarrow> bool" where
  "safe_tag t = (t \<noteq> [] \<and> list_all (\<lambda>c. is_digit c \<or> c = CHR ''-'' \<or>
     (97 \<le> (of_char c :: nat) \<and> (of_char c :: nat) \<le> 122)) t)"

text \<open>The part before the last \<open>@\<close> and the part after it.\<close>

definition before_last_at :: "string \<Rightarrow> string" where
  "before_last_at s = rev (drop 1 (dropWhile (\<lambda>c. c \<noteq> CHR ''@'') (rev s)))"

definition after_last_at :: "string \<Rightarrow> string" where
  "after_last_at s = rev (takeWhile (\<lambda>c. c \<noteq> CHR ''@'') (rev s))"

definition resolveSupportMailbox ::
  "string \<Rightarrow> string option \<Rightarrow> string option \<Rightarrow> bool option \<Rightarrow> string option" where
  "resolveSupportMailbox topic base_in override_in tagging =
     (let override = map_option js_trim override_in; base = map_option js_trim base_in in
      if truthy override then override
      else if \<not> truthy base then None
      else
        let t = js_lower (js_trim topic); b = the base in
        if tagging = Some False \<or> t = ''support'' \<or> \<not> safe_tag t \<or> before_last_at b = [] then base
        else Some (takeWhile (\<lambda>c. c \<noteq> CHR ''+'') (before_last_at b) @ ''+'' @ t @ ''@'' @ after_last_at b))"

end
