(* ===== verification/Mail_Facts.thy ===== *)
theory Mail_Facts
  imports Mail_Outbox Tables Svc_Logic
begin

text \<open>
  What holds of the outgoing mail over any sequence of sends, retries, unsubscribes and bounce
  reports: rows settle after four attempts, and an address that asked us to stop is never
  written to again.
\<close>

section \<open>The log\<close>

definition mail_row_ok :: "mail_row \<Rightarrow> bool" where
  "mail_row_ok r =
     (1 \<le> ml_attempts r \<and> ml_attempts r \<le> Suc MAX_MAIL_RETRIES \<and>
      (ml_status r = MlFailed) = (ml_retryAt r \<noteq> None) \<and> (ml_status r = MlFailed) = (ml_payload r \<noteq> None) \<and>
      (ml_status r = MlFailed \<longrightarrow> ml_attempts r \<le> MAX_MAIL_RETRIES))"

definition mail_ok :: "mail_world \<Rightarrow> bool" where
  "mail_ok w = table_ok ml_id (\<lambda>_. None :: unit option) mail_row_ok (mw_nextId w) (mw_log w)"

text \<open>A row that is being retried.\<close>

definition retrying :: "nat \<Rightarrow> mail_world \<Rightarrow> bool" where
  "retrying i w = (mail_ok w \<and> (\<forall>r \<in> set (mw_log w). ml_id r = i \<longrightarrow> ml_status r = MlFailed))"

lemma mail_ok_cong [simp]:
  "mail_ok (w\<lparr>mw_ses := a\<rparr>) = mail_ok w" "mail_ok (w\<lparr>mw_suppressed := b\<rparr>) = mail_ok w"
  "mail_ok (w\<lparr>mw_prefs := c\<rparr>) = mail_ok w" "mail_ok (w\<lparr>mw_users := d\<rparr>) = mail_ok w"
  "mail_ok (w\<lparr>mw_now := t\<rparr>) = mail_ok w" "retrying i (w\<lparr>mw_ses := a\<rparr>) = retrying i w"
  by (simp_all add: mail_ok_def retrying_def)

lemma mail_ok_update:
  assumes "mail_ok w"
    and "\<And>r. r \<in> set (mw_log w) \<Longrightarrow> ml_id r = i \<Longrightarrow> mail_row_ok r \<Longrightarrow> ml_id (f r) = ml_id r \<and> mail_row_ok (f r)"
  shows "mail_ok (update_mail i f w)"
proof -
  have table: "table_ok ml_id (\<lambda>_. None :: unit option) mail_row_ok (mw_nextId w) (mw_log w)"
    using assms(1) by (simp add: mail_ok_def)
  show ?thesis unfolding mail_ok_def update_mail_def
    using table_ok_rowD [OF table] assms(2) by simp (rule table_ok_update [OF table], simp_all)
qed

lemma retry_instants [simp]:
  "mail_nextRetryAt 1 now \<noteq> None" "mail_nextRetryAt (Suc 0) now \<noteq> None"
  "MAX_MAIL_RETRIES = 3"
  by (simp_all add: mail_nextRetryAt_def MAIL_BACKOFF_MINUTES_def MAX_MAIL_RETRIES_def)

section \<open>Steps that keep an invariant\<close>

lemma keeps_db_call [keeps_intros]: "keeps I f \<Longrightarrow> keeps I (db_call x name f)"
  unfolding db_call_def by (intro keeps_intros)

lemma keeps_in_mail [keeps_intros]: "keeps I f \<Longrightarrow> keeps (\<lambda>s. I (fst s)) (in_mail f)"
  unfolding keeps_def in_mail_def by (auto split: prod.split)

lemma keeps_tally [keeps_intros]: "keeps (\<lambda>s. I (fst s)) (tally f)"
  unfolding tally_def by (rule keeps_modE) (simp add: case_prod_beta)

lemmas tallies = tally_retried_def tally_sent_def tally_abandoned_def

text \<open>An attempt writes to SES and nothing else, and only to an address that is not held back.\<close>

lemma keeps_mail_attempt:
  assumes "\<And>w m. I w \<Longrightarrow> sm_to m = rcp_email r \<Longrightarrow> \<not> isSuppressed (rcp_email r) w \<Longrightarrow> I (w\<lparr>mw_ses := mw_ses w @ [m]\<rparr>)"
  shows "keeps I (mail_attempt x r opts)"
proof (rule keepsI)
  fix w assume I: "I w"
  show "I (snd (mail_attempt x r opts w))"
    using I assms [OF I, of "ses_message_for x r opts"]
    by (auto simp: mail_attempt_def db_call_def thenE_def bindE_def refuse_if_def ses_message_for_def Let_def
        split: ses_result.split)
qed

lemma mail_ok_attempt: "keeps mail_ok (mail_attempt x r opts)"
  by (rule keeps_mail_attempt) simp

lemma mail_ok_log:
  assumes "mail_ok w"
  shows "mail_ok (mail_log x r opts outcome w)"
proof (cases "mx_raises x ''mailLog.create''")
  case False
  then show ?thesis using assms
    by (cases "mo_status outcome")
      (auto simp: mail_log_def Let_def mail_ok_def mail_row_ok_def intro!: table_ok_snoc)
qed (use assms in \<open>simp add: mail_log_def\<close>)

lemma mail_ok_sendTo: "mail_ok w \<Longrightarrow> mail_ok (snd (sendTo x r opts w))"
  using mail_ok_attempt [of x r opts]
  by (auto simp: sendTo_def keeps_def mail_ok_log split: prod.split sum.split)

lemma mail_ok_settle:
  assumes "status \<noteq> MlFailed" "1 \<le> attempts" "attempts \<le> 4"
  shows "valid mail_ok (mail_settle x i status attempts err mid) (\<lambda>_. mail_ok) (\<lambda>_. mail_ok)"
  unfolding mail_settle_def
  by (rule keeps_valid, intro keeps_intros, rule mail_ok_update)
    (use assms in \<open>simp_all add: mail_row_ok_def\<close>)

text \<open>A claim leaves the row failed, for its next turn.\<close>

lemma claim_mail_ok:
  assumes "mail_ok w"
  shows "mail_ok (snd (claim_mail i now w))" "fst (claim_mail i now w) \<Longrightarrow> retrying i (snd (claim_mail i now w))"
proof -
  show ok: "mail_ok (snd (claim_mail i now w))"
    using assms unfolding mail_ok_def claim_mail_def
    by (simp add: Let_def) (rule table_ok_update, simp_all add: mail_row_ok_def due_mail_def)
  assume "fst (claim_mail i now w)"
  then obtain r where r: "r \<in> set (mw_log w)" "ml_id r = i" "due_mail now r"
    by (auto simp: claim_mail_def list_ex_iff Let_def)
  have "s = r" if "s \<in> set (mw_log w)" "ml_id s = i" for s
    by (rule table_ok_id [OF assms [unfolded mail_ok_def]]) (use that r in simp_all)
  then have failed: "ml_status s = MlFailed" if "s \<in> set (mw_log w)" "ml_id s = i" for s
    using that r(3) by (metis due_mail_def)
  have "ml_status s = MlFailed" if "s \<in> set (mw_log (snd (claim_mail i now w)))" "ml_id s = i" for s
  proof -
    have "\<exists>s\<^sub>0 \<in> set (mw_log w). s = (if ml_id s\<^sub>0 = i \<and> due_mail now s\<^sub>0
        then s\<^sub>0\<lparr>ml_retryAt := Some (now + MAIL_LEASE_MINUTES * 60000)\<rparr> else s\<^sub>0)"
      using that(1) by (auto simp: claim_mail_def Let_def set_update_rows)
    then obtain s\<^sub>0 where "s\<^sub>0 \<in> set (mw_log w)" "ml_id s\<^sub>0 = ml_id s" "ml_status s\<^sub>0 = ml_status s"
      by (auto split: if_splits)
    then show ?thesis using failed that(2) by metis
  qed
  with ok show "retrying i (snd (claim_mail i now w))" by (simp add: retrying_def)
qed

section \<open>A retry\<close>

lemma valid_in_mail:
  "valid P f Q E \<Longrightarrow> valid (\<lambda>s. P (fst s)) (in_mail f) (\<lambda>x s. Q x (fst s)) (\<lambda>e s. E e (fst s))"
  by (auto simp: valid_def in_mail_def split: prod.splits sum.splits)

lemma retrying_ok: "retrying i w \<Longrightarrow> mail_ok w"
  by (simp add: retrying_def)

lemma mail_ok_reschedule:
  assumes "1 \<le> attempts" "attempts \<le> 3"
  shows "valid (retrying i) (db_call x n (modE (update_mail i (\<lambda>r. r
      \<lparr>ml_attempts := attempts, ml_retryAt := Some t, ml_error := err\<rparr>)))) (\<lambda>_. mail_ok) (\<lambda>_. mail_ok)"
proof -
  have "mail_ok (update_mail i (\<lambda>r. r\<lparr>ml_attempts := attempts, ml_retryAt := Some t, ml_error := err\<rparr>) w)"
    if "retrying i w" for w
    by (rule mail_ok_update) (use that assms in \<open>auto simp: retrying_def mail_row_ok_def\<close>)
  then show ?thesis by (auto simp: db_call_def valid_def refuse_if_def retrying_ok)
qed

lemma valid_tally: "valid (\<lambda>s. I (fst s)) (tally f) (\<lambda>_ s. I (fst s)) E"
  by (auto simp: valid_def tally_def)

lemma after_retry_ok:
  assumes "1 \<le> k" "k \<le> 3"
  shows "valid (\<lambda>s. retrying i (fst s)) (after_retry x i (Suc k) now outcome)
    (\<lambda>_ s. mail_ok (fst s)) (\<lambda>_ s. mail_ok (fst s))"
proof -
  have settles: "valid (\<lambda>s. retrying i (fst s))
      (thenE (in_mail (mail_settle x i status (Suc k) err mid)) (tally f)) (\<lambda>_ s. mail_ok (fst s)) (\<lambda>_ s. mail_ok (fst s))"
    if "status \<noteq> MlFailed" for status err mid f
    by (rule valid_thenE [OF valid_pre [OF valid_in_mail [OF mail_ok_settle]]])
      (use that assms in \<open>auto intro: valid_tally retrying_ok\<close>)
  show ?thesis
  proof (cases "mo_status outcome")
    case MlFailed
    show ?thesis
    proof (cases "if MAX_MAIL_RETRIES < Suc k then None else mail_nextRetryAt (Suc k) now")
      case None
      then show ?thesis using MlFailed settles by (simp add: after_retry_def tallies)
    next
      case (Some t)
      then have "Suc k \<le> 3" by (simp split: if_splits)
      with Some MlFailed show ?thesis
        using valid_in_mail [OF mail_ok_reschedule [where attempts = "Suc k" and i = i and x = x
          and n = "''mailLog.update''" and t = t and err = "mo_error outcome"]]
        by (simp add: after_retry_def)
    qed
  qed (use settles in \<open>simp_all add: after_retry_def tallies\<close>)
qed

lemma retryRow_ok:
  assumes "1 \<le> ml_attempts row" "ml_attempts row \<le> 3"
  shows "keeps (\<lambda>s. mail_ok (fst s)) (retryRow x row now)"
proof -
  let ?ok = "\<lambda>s :: mail_sweep. mail_ok (fst s)" and ?i = "ml_id row"
  have claim: "valid ?ok (in_mail (db_call x ''mailLog.updateMany''
        (\<lambda>w. (Inr (fst (claim_mail ?i now w)), snd (claim_mail ?i now w)))))
      (\<lambda>claimed s. mail_ok (fst s) \<and> (claimed \<longrightarrow> retrying ?i (fst s))) (\<lambda>_. ?ok)"
    by (auto simp: valid_def in_mail_def db_call_def refuse_if_def claim_mail_ok thenE_def)
  have attempt: "valid (\<lambda>s. retrying ?i (fst s)) (in_mail (mail_attempt x r opts)) (\<lambda>_ s. retrying ?i (fst s)) (\<lambda>_. ?ok)" for r opts
    by (rule valid_weaken [OF valid_in_mail [OF keeps_valid [OF keeps_mail_attempt [of "retrying ?i"]]]])
      (auto intro: retrying_ok)
  have rest: "valid (\<lambda>s. retrying ?i (fst s))
      (case parsePayload (ml_payload row) of
         None \<Rightarrow> thenE (in_mail (mail_settle x ?i MlAbandoned (ml_attempts row) (Some (Some ''no payload'')) None)) tally_abandoned
       | Some (r, opts) \<Rightarrow> thenE tally_retried
           (bindE (in_mail (mail_attempt x r opts)) (after_retry x ?i (Suc (ml_attempts row)) now)))
      (\<lambda>_. ?ok) (\<lambda>_. ?ok)"
  proof (cases "parsePayload (ml_payload row)")
    case None
    have "valid (\<lambda>s. retrying ?i (fst s)) (thenE (in_mail
        (mail_settle x ?i MlAbandoned (ml_attempts row) (Some (Some ''no payload'')) None)) (tally f)) (\<lambda>_. ?ok) (\<lambda>_. ?ok)" for f
      by (rule valid_thenE [OF valid_pre [OF valid_in_mail [OF mail_ok_settle]]])
        (use assms in \<open>auto intro: valid_tally retrying_ok\<close>)
    with None show ?thesis by (simp add: tallies)
  next
    case (Some p)
    obtain r opts where p: "p = (r, opts)" by fastforce
    have "valid (\<lambda>s. retrying ?i (fst s)) (thenE (tally f)
        (bindE (in_mail (mail_attempt x r opts)) (after_retry x ?i (Suc (ml_attempts row)) now))) (\<lambda>_. ?ok) (\<lambda>_. ?ok)" for f
      by (rule valid_thenE [OF valid_tally valid_bindE [OF attempt after_retry_ok [OF assms]]])
    with Some p show ?thesis by (simp add: tallies)
  qed
  have "valid ?ok (retryRow x row now) (\<lambda>_. ?ok) (\<lambda>_. ?ok)"
    unfolding retryRow_def
  proof (rule valid_bindE [OF claim], rule valid_if)
    fix claimed :: bool
    show "valid (\<lambda>s. mail_ok (fst s) \<and> (claimed \<longrightarrow> retrying ?i (fst s))) (retE ()) (\<lambda>_. ?ok) (\<lambda>_. ?ok)"
      by (rule valid_basic) simp
    assume "\<not> \<not> claimed"
    then show "valid (\<lambda>s. mail_ok (fst s) \<and> (claimed \<longrightarrow> retrying ?i (fst s)))
      (case parsePayload (ml_payload row) of
         None \<Rightarrow> thenE (in_mail (mail_settle x ?i MlAbandoned (ml_attempts row) (Some (Some ''no payload'')) None)) tally_abandoned
       | Some (r, opts) \<Rightarrow> thenE tally_retried
           (bindE (in_mail (mail_attempt x r opts)) (after_retry x ?i (Suc (ml_attempts row)) now)))
      (\<lambda>_. ?ok) (\<lambda>_. ?ok)"
      by (intro valid_pre [OF rest]) simp
  qed
  then show ?thesis by (rule valid_keeps)
qed

lemma retry_rows_ok:
  "(\<And>row. row \<in> set rows \<Longrightarrow> 1 \<le> ml_attempts row \<and> ml_attempts row \<le> 3) \<Longrightarrow> mail_ok (fst s) \<Longrightarrow>
   mail_ok (fst (retry_rows x rows now s))"
proof (induction rows arbitrary: s)
  case (Cons row rows)
  have "mail_ok (fst (snd (retryRow x row now s)))"
    using retryRow_ok [of row x now] Cons.prems by (cases s) (simp add: keeps_def)
  then show ?case using Cons by simp
qed simp

lemma mail_ok_retryFailed: "keeps mail_ok (retryFailed x limit)"
proof -
  have "mail_ok (fst (retry_rows x (take limit (sort_key k (filter (due_mail t) (mw_log w)))) t (w, res)))"
    if "mail_ok w" for k :: "mail_row \<Rightarrow> ms" and t w res
  proof (rule retry_rows_ok)
    fix row assume "row \<in> set (take limit (sort_key k (filter (due_mail t) (mw_log w))))"
    then have "row \<in> set (mw_log w)" "due_mail t row" by (auto dest: in_set_takeD)
    then show "1 \<le> ml_attempts row \<and> ml_attempts row \<le> 3"
      using that by (auto simp: mail_ok_def table_ok_def mail_row_ok_def due_mail_def)
  qed (use that in simp)
  then have "keeps mail_ok (\<lambda>w. let due = take limit (sort_key (\<lambda>r. nullish_def_val (ml_retryAt r) 0)
        (filter (due_mail (mw_now w)) (mw_log w)));
      (w', res) = retry_rows x due (mw_now w) (w, \<lparr>rt_retried = 0, rt_sent = 0, rt_abandoned = 0\<rparr>) in (Inr res, w'))"
    by (simp add: keeps_def Let_def case_prod_beta)
  then show ?thesis unfolding retryFailed_def Let_def by (intro keeps_intros)
qed

section \<open>Everything that happens to the mail\<close>

text \<open>Beside the methods: time passes, and the console and sign-in change preferences and users.\<close>

inductive mail_step :: "mail_env \<Rightarrow> mail_world \<Rightarrow> mail_world \<Rightarrow> bool" for x where
  sends: "mail_step x w (snd (sendTo x r opts w))"
| retries: "mail_step x w (snd (retryFailed x limit w))"
| suppresses: "mail_step x w (snd (suppress x email reason detail w))"
| unsubscribes: "mail_step x w (snd (unsubscribe x userId kind token w))"
| reports: "mail_step x w (sesEvents x messageType body w)"
| waits: "0 \<le> d \<Longrightarrow> mail_step x w (w\<lparr>mw_now := mw_now w + d\<rparr>)"
| prefers: "mail_step x w (w\<lparr>mw_prefs := prefs\<rparr>)"
| signs_in: "mail_step x w (w\<lparr>mw_users := users\<rparr>)"

lemma keeps_suppress:
  assumes "\<And>w rows. I w \<Longrightarrow> set (map sr_email (mw_suppressed w)) \<subseteq> set (map sr_email rows) \<Longrightarrow> I (w\<lparr>mw_suppressed := rows\<rparr>)"
  shows "keeps I (suppress x email reason detail)"
  unfolding suppress_def
proof (intro keeps_intros)
  fix w assume I: "I w"
  let ?row = "\<lparr>sr_email = js_lower email, sr_reason = reason, sr_detail = detail\<rparr>"
  have "map sr_email (update_rows (\<lambda>r. sr_email r = js_lower email) (\<lambda>_. ?row) (mw_suppressed w)) =
      map sr_email (mw_suppressed w)"
    by (rule map_key_update_rows) simp
  then show "I (let row = ?row in if isSuppressed email w
      then w\<lparr>mw_suppressed := update_rows (\<lambda>r. sr_email r = js_lower email) (\<lambda>_. row) (mw_suppressed w)\<rparr>
      else w\<lparr>mw_suppressed := mw_suppressed w @ [row]\<rparr>)"
    unfolding Let_def by (auto intro!: assms [OF I] simp del: set_map)
qed

lemma keeps_unsubscribe:
  assumes "\<And>w rows. I w \<Longrightarrow> set (map sr_email (mw_suppressed w)) \<subseteq> set (map sr_email rows) \<Longrightarrow> I (w\<lparr>mw_suppressed := rows\<rparr>)"
    and "\<And>w prefs. I w \<Longrightarrow> I (w\<lparr>mw_prefs := prefs\<rparr>)"
  shows "keeps I (unsubscribe x userId kind token)"
  unfolding unsubscribe_def applyUnsubscribe_def
  by (intro keeps_intros keeps_suppress assms(1)) (auto intro: keepsI simp: assms(2))

lemma keeps_sesEvents:
  assumes "\<And>w rows. I w \<Longrightarrow> set (map sr_email (mw_suppressed w)) \<subseteq> set (map sr_email rows) \<Longrightarrow> I (w\<lparr>mw_suppressed := rows\<rparr>)"
    and "I w"
  shows "I (sesEvents x messageType body w)"
proof -
  have one: "keeps I (suppress_address x reason detail who)" for reason detail who
  proof -
    have "keeps I (case a of JStr email \<Rightarrow> suppress x email reason detail
        | _ \<Rightarrow> throwE (RuntimeError ''email.toLowerCase is not a function''))" for a
      by (auto intro: keeps_intros keeps_suppress assms(1) split: json.split)
    moreover have "keeps I (js_read k v)" for k v
      by (auto simp: js_read_def intro: keeps_intros split: option.split json.split)
    ultimately show ?thesis unfolding suppress_address_def by (intro keeps_intros)
  qed
  have elements: "keeps I (js_elements v)" for v
    by (auto simp: js_elements_def intro: keeps_intros split: option.split json.split)
  have "keeps I (js_read k v)" for k v
    by (auto simp: js_read_def intro: keeps_intros split: option.split json.split)
  then have "keeps I (sns_notification x n)" for n
    unfolding sns_notification_def Let_def by (intro keeps_intros elements one)
  then show ?thesis using assms(2) by (auto simp: sesEvents_def keeps_def split: option.split)
qed

lemma mail_ok_step:
  assumes "mail_step x w w'" "mail_ok w"
  shows "mail_ok w'"
  using assms(1)
proof (cases rule: mail_step.cases)
  case (retries limit)
  then show ?thesis using mail_ok_retryFailed assms(2) by (auto simp: keeps_def)
next
  case (suppresses email reason detail)
  then show ?thesis using keeps_suppress [of mail_ok x email reason detail] assms(2) by (simp add: keeps_def)
next
  case (unsubscribes userId kind token)
  then show ?thesis using keeps_unsubscribe [of mail_ok x userId kind token] assms(2) by (simp add: keeps_def)
next
  case (reports messageType body)
  then show ?thesis using keeps_sesEvents [of mail_ok w x messageType body] assms(2) by simp
qed (use assms(2) mail_ok_sendTo in simp_all)

section \<open>A small outbox\<close>

text \<open>SES refuses the first message it is handed.\<close>

definition slow_ses :: mail_env where
  "slow_ses = \<lparr>mx_enabled = True,
     mx_ses = (\<lambda>sent m. if length sent = 0 then SesFailed ''Throttling'' else SesOk (Some ''m-1'')),
     mx_digest = (\<lambda>key text. key @ text), mx_secret = ''k'', mx_base = Some ''https://app/'', mx_raises = (\<lambda>_. False)\<rparr>"

definition notice :: send_options where
  "notice = \<lparr>so_kind = Transactional, so_template = ''invoice'', so_subject = ''Invoice'', so_heading = ''Invoice'',
     so_intro = ''Attached.'', so_facts = [], so_paragraphs = [], so_action = None, so_footnote = None,
     so_attachments = []\<rparr>"

definition empty_outbox :: mail_world where
  "empty_outbox = \<lparr>mw_log = [], mw_suppressed = [\<lparr>sr_email = ''x@y'', sr_reason = ''bounce'', sr_detail = None\<rparr>],
     mw_prefs = [], mw_users = [], mw_connections = [], mw_ses = [], mw_now = 0, mw_nextId = 1\<rparr>"

definition reader :: "string \<Rightarrow> recipient" where
  "reader email = \<lparr>rcp_userId = 0, rcp_email = email, rcp_firstName = None\<rparr>"

text \<open>Two first sends, one of them to an address held back; five minutes later, the sweep.\<close>

definition after_sends :: mail_world where
  "after_sends = snd (sendTo slow_ses (reader ''X@y'') notice (snd (sendTo slow_ses (reader ''a@b'') notice empty_outbox)))"

definition after_sweep :: mail_world where
  "after_sweep = snd (retryFailed slow_ses 10 (after_sends\<lparr>mw_now := mw_now after_sends + 300000\<rparr>))"

lemma after_sweep_reached: "(mail_step slow_ses)\<^sup>*\<^sup>* empty_outbox after_sweep"
proof -
  note steps = rtranclp.rtrancl_into_rtrancl
  have "(mail_step slow_ses)\<^sup>*\<^sup>* empty_outbox after_sends"
    unfolding after_sends_def by (rule steps [OF steps [OF rtranclp.rtrancl_refl]]) (rule mail_step.sends)+
  then have "(mail_step slow_ses)\<^sup>*\<^sup>* empty_outbox (after_sends\<lparr>mw_now := mw_now after_sends + 300000\<rparr>)"
    by (rule steps) (simp add: mail_step.waits)
  then show ?thesis unfolding after_sweep_def by (rule steps) (rule mail_step.retries)
qed

text \<open>C35: whatever is sent, retried, refused by SES, unsubscribed or reported as bounced, in any order:
  every row of the mail log has at most four attempts, is due for another exactly while it is
  failed, and keeps what the message was made of exactly that long; after the fourth it is
  settled.\<close>
theorem mail_rows_settle:
  assumes "(mail_step x)\<^sup>*\<^sup>* w\<^sub>0 w" "mail_ok w\<^sub>0"
  shows "distinct (map ml_id (mw_log w)) \<and>
    list_all (\<lambda>r. ml_attempts r \<in> {1, 2, 3, 4} \<and>
      (ml_status r = MlFailed) = (ml_retryAt r \<noteq> None) \<and> (ml_status r = MlFailed) = (ml_payload r \<noteq> None) \<and>
      (ml_attempts r = 4 \<longrightarrow> ml_status r \<noteq> MlFailed)) (mw_log w)"
proof -
  have "mail_ok w" using assms by (induction) (auto intro: mail_ok_step)
  then show ?thesis by (auto simp: mail_ok_def table_ok_def mail_row_ok_def list_all_iff)
qed

theorem mail_rows_settle_witness:
  "distinct (map ml_id (mw_log after_sweep)) \<and> list_all (\<lambda>r. ml_attempts r \<in> {1, 2, 3, 4}) (mw_log after_sweep) \<and>
   map (\<lambda>r. (ml_status r, ml_attempts r)) (mw_log after_sweep) = [(MlSent, 2), (MlSuppressed, 1)]"
proof -
  have "mail_ok empty_outbox" by (simp add: mail_ok_def empty_outbox_def table_ok_def)
  from mail_rows_settle [OF after_sweep_reached this]
  have "distinct (map ml_id (mw_log after_sweep)) \<and> list_all (\<lambda>r. ml_attempts r \<in> {1, 2, 3, 4}) (mw_log after_sweep)"
    by (auto simp: list_all_iff)
  moreover have "map (\<lambda>r. (ml_status r, ml_attempts r)) (mw_log after_sweep) = [(MlSent, 2), (MlSuppressed, 1)]"
    by code_simp
  ultimately show ?thesis by blast
qed

section \<open>Whom we stopped writing to\<close>

text \<open>\<open>a\<close> is held back, and nothing was handed to SES for it since the messages \<open>n\<close>.\<close>

definition left_alone :: "string \<Rightarrow> ses_message list \<Rightarrow> mail_world \<Rightarrow> bool" where
  "left_alone a n w =
     (a \<in> set (map sr_email (mw_suppressed w)) \<and>
      (\<exists>new. mw_ses w = n @ new \<and> list_all (\<lambda>m. js_lower (sm_to m) \<noteq> a) new))"

lemma left_alone_sent:
  "left_alone a n w \<Longrightarrow> js_lower (sm_to m) \<noteq> a \<Longrightarrow> left_alone a n (w\<lparr>mw_ses := mw_ses w @ [m]\<rparr>)"
  by (auto simp: left_alone_def intro: exI [of _ "_ @ [m]"])

lemma left_alone_cong [simp]:
  "left_alone a n (w\<lparr>mw_log := b\<rparr>) = left_alone a n w" "left_alone a n (w\<lparr>mw_prefs := c\<rparr>) = left_alone a n w"
  "left_alone a n (w\<lparr>mw_users := d\<rparr>) = left_alone a n w" "left_alone a n (w\<lparr>mw_now := t\<rparr>) = left_alone a n w"
  "left_alone a n (w\<lparr>mw_log := b, mw_nextId := i\<rparr>) = left_alone a n w"
  "left_alone a n (update_mail j f w) = left_alone a n w"
  by (simp_all add: left_alone_def update_mail_def)

lemma left_alone_suppressed:
  "left_alone a n w \<Longrightarrow> set (map sr_email (mw_suppressed w)) \<subseteq> set (map sr_email rows) \<Longrightarrow>
   left_alone a n (w\<lparr>mw_suppressed := rows\<rparr>)"
  by (auto simp: left_alone_def)

lemma left_alone_attempt: "keeps (left_alone a n) (mail_attempt x r opts)"
  by (rule keeps_mail_attempt) (auto intro!: left_alone_sent simp: left_alone_def isSuppressed_def list_ex_iff)

lemma left_alone_sendTo: "left_alone a n w \<Longrightarrow> left_alone a n (snd (sendTo x r opts w))"
  using left_alone_attempt [of a n x r opts]
  by (auto simp: sendTo_def keeps_def mail_log_def Let_def split: prod.split sum.split)

lemma left_alone_settle: "keeps (left_alone a n) (mail_settle x i status attempts err mid)"
  unfolding mail_settle_def by (intro keeps_intros) simp

lemma left_alone_after: "keeps (\<lambda>s. left_alone a n (fst s)) (after_retry x i k now outcome)"
proof -
  have "keeps (\<lambda>s. left_alone a n (fst s)) (in_mail (db_call x nm (modE (update_mail i f))))" for nm f
    by (intro keeps_intros) simp
  then show ?thesis
    unfolding after_retry_def tallies
    by (auto intro!: keeps_intros left_alone_settle split: mail_status.split)
qed

lemma left_alone_retryRow: "keeps (\<lambda>s. left_alone a n (fst s)) (retryRow x row now)"
proof -
  let ?I = "left_alone a n"
  have "keeps ?I (\<lambda>w. (Inr (fst (claim_mail i now w)), snd (claim_mail i now w)))" for i
    by (simp add: keeps_def claim_mail_def Let_def)
  moreover have "keeps (\<lambda>s. ?I (fst s)) (bindE (in_mail (mail_attempt x r opts)) (after_retry x i k now))" for r opts i k
    by (intro keeps_intros left_alone_attempt left_alone_after)
  moreover have "keeps (\<lambda>s. ?I (fst s)) (case p of (r, opts) \<Rightarrow> thenE (tally f)
      (bindE (in_mail (mail_attempt x r opts)) (after_retry x i k now)))" for p f i k
    by (cases p) (auto intro!: keeps_intros left_alone_attempt left_alone_after)
  ultimately show ?thesis
    unfolding retryRow_def tallies by (intro keeps_intros left_alone_settle)
qed

lemma left_alone_retryFailed: "keeps (left_alone a n) (retryFailed x limit)"
proof -
  have "left_alone a n (fst s) \<Longrightarrow> left_alone a n (fst (retry_rows x rows t s))" for rows t s
  proof (induction rows arbitrary: s)
    case (Cons row rows)
    then show ?case using left_alone_retryRow [of a n x row t] by (cases s) (simp add: keeps_def)
  qed simp
  from this [of "(_, _)"] show ?thesis
    unfolding retryFailed_def Let_def
    by (intro keeps_intros) (simp add: keeps_def case_prod_beta)
qed

lemma left_alone_step:
  assumes "mail_step x w w'" "left_alone a n w"
  shows "left_alone a n w'"
  using assms(1)
proof (cases rule: mail_step.cases)
  case (retries limit)
  then show ?thesis using left_alone_retryFailed assms(2) by (auto simp: keeps_def)
next
  case (suppresses email reason detail)
  then show ?thesis using keeps_suppress [of "left_alone a n" x email reason detail] left_alone_suppressed assms(2)
    by (simp add: keeps_def)
next
  case (unsubscribes userId kind token)
  then show ?thesis using keeps_unsubscribe [of "left_alone a n" x userId kind token] left_alone_suppressed assms(2)
    by (simp add: keeps_def)
next
  case (reports messageType body)
  then show ?thesis using keeps_sesEvents [of "left_alone a n" w x messageType body] left_alone_suppressed assms(2)
    by simp
qed (use assms(2) left_alone_sendTo in simp_all)



end
