(* ===== verification/Sign_In.thy ===== *)
theory Sign_In
  imports Js_Value Org_Directory Msg_Db
begin

text \<open>
  Who is asking and for which organisation: the sign-in service as its client sees it
  (\<open>src/auth/sso.service.ts\<close>), the offline check of its tokens (\<open>sso-token.service.ts\<close>), the
  organisations a session may enter (\<open>org-access.service.ts\<close>), signing in, out and selecting an
  organisation (\<open>auth.service.ts\<close>) and the check in front of every console request
  (\<open>src/user/middleware/auth.middleware.ts\<close>). The sign-in service's answers, base64url,
  \<open>jsonwebtoken\<close> and the keys \<open>node:crypto\<close> makes are parameters. A member the sign-in service
  documents as a text is one or is missing.
\<close>

section \<open>State and environment\<close>

text \<open>An organisation as the sign-in service lists it, and as the switcher shows it.\<close>

type_synonym sso_org = "string \<times> string \<times> string option"

record org_summary =
  om_id :: org
  om_name :: string
  om_slug :: "string option"
  om_agencyOrgId :: "org option"

definition summary_of :: "sso_org \<Rightarrow> org_summary" where
  "summary_of o' = \<lparr>om_id = fst o', om_name = fst (snd o'), om_slug = snd (snd o'), om_agencyOrgId = None\<rparr>"

record token_data =
  td_accessToken :: string
  td_refreshToken :: string
  td_expiresIn :: int
  td_tokenType :: "string option"

record sso_user_info =
  ui_ssoId :: string
  ui_email :: string
  ui_firstName :: string
  ui_lastName :: string
  ui_ssoOrgId :: "string option"
  ui_role :: "string option"

record sso_profile =
  sp_ssoId :: string
  sp_email :: string
  sp_firstName :: string
  sp_lastName :: string
  sp_username :: string
  sp_emailVerified :: bool
  sp_imageUrl :: string
  sp_createdAt :: "string option"
  sp_updatedAt :: "string option"

record sso_claims =
  cl_sub :: string
  cl_email :: string
  cl_sid :: string
  cl_scope :: string
  cl_impersonatedBy :: "string option"
  cl_exp :: int
  cl_iat :: int

text \<open>The service's ring of keys: the keys it holds by their id, when each reason for fetching was
  last acted on, and the fetches made (the flag says which were for an unknown key).\<close>

record key_ring =
  kr_keys :: "(string \<times> string) list"
  kr_loadedAt :: ms
  kr_rotationCheckedAt :: ms
  kr_fetches :: "(ms \<times> bool) list"

text \<open>\<open>aw_ssoIds\<close> is the column \<open>ssoId\<close> of the users.\<close>

record auth_world =
  aw_core :: world
  aw_ssoIds :: "(string \<times> nat) list"
  aw_ring :: key_ring
  aw_now :: ms

record auth_env =
  ax_core :: env
  ax_organizations :: "string \<Rightarrow> graph_answer"
  ax_create :: "string \<Rightarrow> string \<Rightarrow> string \<Rightarrow> graph_answer"
  ax_profile :: "string \<Rightarrow> graph_answer"
  ax_exchange :: "string \<Rightarrow> string \<Rightarrow> graph_answer"
  ax_jwks :: graph_answer
  ax_decoded :: "string \<Rightarrow> json option"
  ax_public :: "json \<Rightarrow> string option"
  ax_jwt :: "string \<Rightarrow> string \<Rightarrow> string \<Rightarrow> string \<Rightarrow> ms \<Rightarrow> json option"
  ax_issuer :: string
  ax_audience :: string

definition auth_env_at :: "auth_env \<Rightarrow> auth_world \<Rightarrow> env" where
  "auth_env_at x w = (ax_core x)\<lparr>e_now := aw_now w\<rparr>"

definition with_redis :: "(redis \<Rightarrow> redis) \<Rightarrow> auth_world \<Rightarrow> auth_world" where
  "with_redis f w = w\<lparr>aw_core := (aw_core w)\<lparr>w_redis := f (w_redis (aw_core w))\<rparr>\<rparr>"

definition session_at :: "string \<Rightarrow> auth_world \<Rightarrow> sso_session option" where
  "session_at sid w = getSsoSession (aw_now w) sid (w_redis (aw_core w))"

text \<open>The time to live \<open>setSsoSession\<close> defaults to: thirty days.\<close>

definition SESSION_TTL :: int where "SESSION_TTL = 2592000"

definition put_session :: "string \<Rightarrow> sso_session \<Rightarrow> auth_world \<Rightarrow> auth_world" where
  "put_session sid s w = with_redis (setSsoSession (aw_now w) sid s SESSION_TTL) w"

text \<open>A text member, an integer member.\<close>

definition text_field :: "string \<Rightarrow> json option \<Rightarrow> string option" where
  "text_field k v = (case j_get k v of Some (JStr s) \<Rightarrow> Some s | _ \<Rightarrow> None)"

definition int_field :: "string \<Rightarrow> json option \<Rightarrow> int option" where
  "int_field k v = (case j_get k v of Some (JNum n) \<Rightarrow> Some n | _ \<Rightarrow> None)"

text \<open>\<open>data?.data ?? data\<close>\<close>

definition unwrapped :: "json option \<Rightarrow> json option" where
  "unwrapped data = j_or (j_get ''data'' data) data"

text \<open>\<open>error.response?.data?.message ?? words\<close>\<close>

definition refusal_text :: "graph_answer \<Rightarrow> string \<Rightarrow> string" where
  "refusal_text answer words =
     (case answer of GraphRefused _ body _ \<Rightarrow> nullish_def_val (text_field ''message'' body) words | _ \<Rightarrow> words)"

section \<open>The sign-in service (sso.service.ts)\<close>

definition listOrganizations :: "auth_env \<Rightarrow> string \<Rightarrow> sso_org list" where
  "listOrganizations x token =
     (case ax_organizations x token of
        GraphOk data \<Rightarrow>
          (case unwrapped data of
             Some (JArr entries) \<Rightarrow>
               map (\<lambda>e. (the (text_field ''id'' (Some e)), nullish_def_val (text_field ''name'' (Some e)) [],
                         text_field ''slug'' (Some e)))
                 (filter (\<lambda>e. text_field ''id'' (Some e) \<noteq> None) entries)
           | _ \<Rightarrow> [])
      | _ \<Rightarrow> [])"

text \<open>\<open>slugify\<close>; NFKD leaves ASCII text as it is.\<close>

definition slug_char :: "char \<Rightarrow> bool" where
  "slug_char c = (is_digit c \<or> (97 \<le> (of_char c :: nat) \<and> (of_char c :: nat) \<le> 122))"

function dash_runs :: "string \<Rightarrow> string" where
  "dash_runs [] = []"
| "dash_runs (c # cs) =
     (if slug_char c then c # dash_runs cs
      else CHR ''-'' # dash_runs (dropWhile (\<lambda>d. \<not> slug_char d) cs))"
  by pat_completeness auto
termination by (relation "measure length") (simp_all add: less_Suc_eq_le length_dropWhile_le)

definition drop_last_dashes :: "string \<Rightarrow> string" where
  "drop_last_dashes s = rev (dropWhile (\<lambda>c. c = CHR ''-'') (rev s))"

definition slugify :: "string \<Rightarrow> string" where
  "slugify name =
     (let dashed = drop_last_dashes (dropWhile (\<lambda>c. c = CHR ''-'') (dash_runs (js_lower name)));
          slug = drop_last_dashes (take 48 dashed)
      in if slug = [] then ''organisation'' else slug)"

definition createOrganization :: "auth_env \<Rightarrow> string \<Rightarrow> string \<Rightarrow> ('s, sso_org) svc" where
  "createOrganization x token name =
     (let answer = ax_create x token name (slugify name) in
      case answer of
        GraphOk data \<Rightarrow>
          (let created = unwrapped data in
           case text_field ''id'' created of
             None \<Rightarrow> throwE (BadRequest ''Malformed organisation response from SSO'')
           | Some i \<Rightarrow> retE (i, nullish_def_val (text_field ''name'' created) name, text_field ''slug'' created))
      | GraphRefused status _ _ \<Rightarrow>
          throwE ((if status = 401 \<or> status = 403 then Unauthorized else BadRequest)
            (refusal_text answer ''Failed to create organisation''))
      | GraphLost _ \<Rightarrow> throwE (BadRequest ''Failed to create organisation''))"

definition getProfile :: "auth_env \<Rightarrow> string \<Rightarrow> sso_profile option" where
  "getProfile x token =
     (case ax_profile x token of
        GraphOk data \<Rightarrow>
          (let u = unwrapped data; text = (\<lambda>k. nullish_def_val (text_field k u) []) in
           case text_field ''id'' u of
             None \<Rightarrow> None
           | Some i \<Rightarrow> Some
               \<lparr>sp_ssoId = i, sp_email = text ''email'', sp_firstName = text ''firstName'',
                sp_lastName = text ''lastName'', sp_username = text ''username'',
                sp_emailVerified = (j_get ''emailVerified'' u = Some (JBool True)),
                sp_imageUrl = text ''imageUrl'', sp_createdAt = text_field ''createdAt'' u,
                sp_updatedAt = text_field ''updatedAt'' u\<rparr>)
      | _ \<Rightarrow> None)"

text \<open>What the token endpoint documents: both tokens and the seconds they are good for.\<close>

definition token_data_of :: "json option \<Rightarrow> token_data option" where
  "token_data_of data =
     (let d = j_get ''data'' data in
      case (text_field ''accessToken'' d, text_field ''refreshToken'' d, int_field ''expiresIn'' d) of
        (Some a, Some r, Some n) \<Rightarrow>
          Some \<lparr>td_accessToken = a, td_refreshToken = r, td_expiresIn = n, td_tokenType = text_field ''tokenType'' d\<rparr>
      | _ \<Rightarrow> None)"

definition exchangeCode :: "auth_env \<Rightarrow> string \<Rightarrow> string \<Rightarrow> (auth_world, token_data) svc" where
  "exchangeCode x code verifier =
     (case ax_exchange x code verifier of
        GraphOk data \<Rightarrow>
          (case token_data_of data of
             None \<Rightarrow> throwE (RuntimeError ''Cannot read the token answer'')
           | Some t \<Rightarrow> retE t)
      | answer \<Rightarrow> throwE (Unauthorized (refusal_text answer ''SSO token exchange failed'')))"

text \<open>The claims of a token, read without checking it.\<close>

definition first_text :: "string list \<Rightarrow> json option \<Rightarrow> string option" where
  "first_text ks v = fold (\<lambda>k found. nullish found (text_field k v)) ks None"

definition decodeUserInfo :: "auth_env \<Rightarrow> string \<Rightarrow> (auth_world, sso_user_info) svc" where
  "decodeUserInfo x token =
     (let failed = throwE (Unauthorized ''Failed to decode SSO token'') in
      case split_on CHR ''.'' token of
        _ # payload # _ \<Rightarrow>
          (let d = ax_decoded x payload; i = text_field ''sub'' d; email = text_field ''email'' d in
           if d = None \<or> \<not> truthy i \<or> \<not> truthy email then failed
           else retE
             \<lparr>ui_ssoId = the i, ui_email = the email,
              ui_firstName = nullish_def_val (first_text [''firstName'', ''given_name'', ''first_name''] d) [],
              ui_lastName = nullish_def_val (first_text [''lastName'', ''family_name'', ''last_name''] d) [],
              ui_ssoOrgId = first_text [''orgId'', ''org_id'', ''activeOrgId'', ''active_org_id''] d,
              ui_role = first_text [''role'', ''orgRole'', ''org_role''] d\<rparr>)
      | _ \<Rightarrow> failed)"

section \<open>The ring of signing keys (sso-token.service.ts)\<close>

definition ROTATION_COOLDOWN_MS :: int where "ROTATION_COOLDOWN_MS = 30000"

definition EMPTY_RING_COOLDOWN_MS :: int where "EMPTY_RING_COOLDOWN_MS = 5000"

text \<open>One published key after another; an entry that is nothing throws, which ends the fetch.\<close>

definition put_key :: "string \<Rightarrow> string \<Rightarrow> (string \<times> string) list \<Rightarrow> (string \<times> string) list" where
  "put_key kid key keys = (kid, key) # filter (\<lambda>p. fst p \<noteq> kid) keys"

fun collect_keys :: "auth_env \<Rightarrow> json list \<Rightarrow> (string \<times> string) list \<Rightarrow> (string \<times> string) list option" where
  "collect_keys x [] keys = Some keys"
| "collect_keys x (jwk # jwks) keys =
     (if jwk = JNull then None
      else if text_field ''kty'' (Some jwk) \<noteq> Some ''RSA'' \<or> \<not> truthy (text_field ''kid'' (Some jwk))
      then collect_keys x jwks keys
      else if j_truthy (j_get ''alg'' (Some jwk)) \<and> text_field ''alg'' (Some jwk) \<noteq> Some ''RS256''
      then collect_keys x jwks keys
      else case ax_public x jwk of
             None \<Rightarrow> collect_keys x jwks keys
           | Some key \<Rightarrow> collect_keys x jwks (put_key (the (text_field ''kid'' (Some jwk))) key keys))"

definition published_keys :: "auth_env \<Rightarrow> (string \<times> string) list" where
  "published_keys x =
     (case ax_jwks x of
        GraphOk data \<Rightarrow>
          (case j_or (j_get ''keys'' data) (j_get ''keys'' (j_get ''data'' data)) of
             Some (JArr jwks) \<Rightarrow> nullish_def_val (collect_keys x jwks []) []
           | _ \<Rightarrow> [])
      | _ \<Rightarrow> [])"

text \<open>A ring that answers with no usable key leaves the ones that are held.\<close>

definition loadKeys :: "auth_env \<Rightarrow> bool \<Rightarrow> auth_world \<Rightarrow> auth_world" where
  "loadKeys x rotation w =
     (let now = aw_now w; ring = aw_ring w in
      if (if rotation then now - kr_rotationCheckedAt ring < ROTATION_COOLDOWN_MS
          else now - kr_loadedAt ring < EMPTY_RING_COOLDOWN_MS) then w
      else
        let asked = (if rotation then ring\<lparr>kr_rotationCheckedAt := now\<rparr> else ring\<lparr>kr_loadedAt := now\<rparr>)
              \<lparr>kr_fetches := kr_fetches ring @ [(now, rotation)]\<rparr>;
            keys = published_keys x
        in w\<lparr>aw_ring := (if keys = [] then asked else asked\<lparr>kr_keys := keys\<rparr>)\<rparr>)"

definition kidOf :: "auth_env \<Rightarrow> string \<Rightarrow> (auth_world, string) svc" where
  "kidOf x token =
     (case split_on CHR ''.'' token of
        [] \<Rightarrow> throwE (Unauthorized ''Malformed token'')
      | header # _ \<Rightarrow>
          if header = [] then throwE (Unauthorized ''Malformed token'')
          else (case ax_decoded x header of
             None \<Rightarrow> throwE (Unauthorized ''Malformed token'')
           | Some JNull \<Rightarrow> throwE (Unauthorized ''Malformed token'')
           | Some d \<Rightarrow>
               if text_field ''alg'' (Some d) \<noteq> Some ''RS256'' then throwE (Unauthorized ''Unsupported token algorithm'')
               else if \<not> truthy (text_field ''kid'' (Some d)) then throwE (Unauthorized ''Token names no key'')
               else retE (the (text_field ''kid'' (Some d)))))"

definition held_key :: "string \<Rightarrow> auth_world \<Rightarrow> string option" where
  "held_key kid w = map_of (kr_keys (aw_ring w)) kid"

definition keyFor :: "auth_env \<Rightarrow> string \<Rightarrow> (auth_world, string option) svc" where
  "keyFor x kid =
     thenE (modE (\<lambda>w. if kr_keys (aw_ring w) = [] then loadKeys x False w else w)) (getE (held_key kid))"

definition sso_verify :: "auth_env \<Rightarrow> string \<Rightarrow> (auth_world, sso_claims) svc" where
  "sso_verify x token =
     bindE (kidOf x token) (\<lambda>kid.
     bindE (keyFor x kid) (\<lambda>known.
     bindE (if known = None then thenE (modE (loadKeys x True)) (getE (held_key kid)) else retE known) (\<lambda>key.
     case key of
       None \<Rightarrow> throwE (Unauthorized ''Unknown SSO signing key'')
     | Some k \<Rightarrow>
         bindE (getE (\<lambda>w. ax_jwt x k (ax_issuer x) (ax_audience x) token (aw_now w))) (\<lambda>payload.
         case payload of
           None \<Rightarrow> throwE (Unauthorized ''Invalid or expired token'')
         | Some p \<Rightarrow>
             let sub = text_field ''sub'' (Some p); sid = first_text [''sid'', ''sessionId''] (Some p) in
             if \<not> truthy sub \<or> \<not> truthy sid then throwE (Unauthorized ''SSO token is missing required claims'')
             else retE
               \<lparr>cl_sub = the sub, cl_email = nullish_def_val (text_field ''email'' (Some p)) [], cl_sid = the sid,
                cl_scope = nullish_def_val (text_field ''scope'' (Some p)) [],
                cl_impersonatedBy = text_field ''impersonatedBy'' (Some p),
                cl_exp = nullish_def_val (int_field ''exp'' (Some p)) 0,
                cl_iat = nullish_def_val (int_field ''iat'' (Some p)) 0\<rparr>))))"

section \<open>Who may act inside which organisation (org-access.service.ts)\<close>

text \<open>A session read back from the store is an ordinary object: reading one of these names off its
  \<open>grants\<close> finds what every object inherits, which is truthy and has neither role nor agency.\<close>

definition OBJECT_PROTOTYPE :: "string list" where
  "OBJECT_PROTOTYPE =
     [''constructor'', ''__proto__'', ''hasOwnProperty'', ''isPrototypeOf'', ''propertyIsEnumerable'',
      ''toLocaleString'', ''toString'', ''valueOf'', ''__defineGetter__'', ''__defineSetter__'',
      ''__lookupGetter__'', ''__lookupSetter__'']"

datatype found_grant = Granted org_grant | Inherited

definition cached_grant :: "sso_session \<Rightarrow> org \<Rightarrow> found_grant option" where
  "cached_grant s orgId =
     (case ss_grants s of
        None \<Rightarrow> None
      | Some gs \<Rightarrow>
          (case map_of gs orgId of
             Some g \<Rightarrow> Some (Granted g)
           | None \<Rightarrow> if orgId \<in> set OBJECT_PROTOTYPE then Some Inherited else None))"

text \<open>The session, rebuilt from the sign-in service when its record is gone.\<close>

definition session_or_rebuilt :: "auth_env \<Rightarrow> string \<Rightarrow> string \<Rightarrow> (auth_world, sso_session) svc" where
  "session_or_rebuilt x sid token =
     bindE (getE (session_at sid)) (\<lambda>existing.
     case existing of
       Some s \<Rightarrow> retE s
     | None \<Rightarrow>
         bindE (decodeUserInfo x token) (\<lambda>info.
         let rebuilt = \<lparr>ss_ssoId = ui_ssoId info, ss_email = None, ss_firstName = None, ss_lastName = None,
               ss_username = None, ss_emailVerified = None, ss_imageUrl = None, ss_ssoCreatedAt = None,
               ss_orgs = listOrganizations x token, ss_grants = Some []\<rparr>
         in thenE (modE (put_session sid rebuilt)) (retE rebuilt)))"

definition put_grant :: "org \<Rightarrow> org_grant \<Rightarrow> (org \<times> org_grant) list option \<Rightarrow> (org \<times> org_grant) list" where
  "put_grant orgId g gs = (orgId, g) # filter (\<lambda>p. fst p \<noteq> orgId) (nullish_def_val gs [])"

definition record_grant :: "string \<Rightarrow> org \<Rightarrow> org_grant \<Rightarrow> auth_world \<Rightarrow> auth_world" where
  "record_grant sid orgId g w =
     (case session_at sid w of
        None \<Rightarrow> w
      | Some s \<Rightarrow> put_session sid (s\<lparr>ss_grants := Some (put_grant orgId g (ss_grants s))\<rparr>) w)"

text \<open>Membership at the sign-in service, or an agency and its client here.\<close>

definition resolve_grant :: "org_settings list \<Rightarrow> sso_org list \<Rightarrow> org \<Rightarrow> org_grant option" where
  "resolve_grant rows orgs orgId =
     (if list_ex (\<lambda>o'. fst o' = orgId) orgs then Some \<lparr>og_role = ''member'', og_agencyOrgId = None\<rparr>
      else
        let agencyOrgId = ov_agencyOrgId (settings_get rows orgId) in
        if \<not> truthy agencyOrgId then None
        else if list_ex (\<lambda>o'. fst o' = the agencyOrgId) orgs
        then Some \<lparr>og_role = ''agency'', og_agencyOrgId = agencyOrgId\<rparr>
        else None)"

definition grantFor :: "auth_env \<Rightarrow> string \<Rightarrow> org \<Rightarrow> string \<Rightarrow> (auth_world, found_grant option) svc" where
  "grantFor x sid orgId token =
     bindE (session_or_rebuilt x sid token) (\<lambda>s.
     case cached_grant s orgId of
       Some g \<Rightarrow> retE (Some g)
     | None \<Rightarrow>
         bindE (getE (\<lambda>w. resolve_grant (w_settings (aw_core w)) (ss_orgs s) orgId)) (\<lambda>g.
         case g of
           None \<Rightarrow> retE None
         | Some g' \<Rightarrow> thenE (modE (record_grant sid orgId g')) (retE (Some (Granted g')))))"

text \<open>The names are asked of the directory one client after another.\<close>

definition org_named :: "auth_env \<Rightarrow> org \<Rightarrow> auth_world \<Rightarrow> string option \<times> auth_world" where
  "org_named x orgId w =
     (let (n, c) = org_name (auth_env_at x w) (Some orgId) (aw_core w) in (n, w\<lparr>aw_core := c\<rparr>))"

fun client_summaries ::
  "auth_env \<Rightarrow> org \<Rightarrow> (org \<times> string option) list \<Rightarrow> auth_world \<Rightarrow> org_summary list \<times> auth_world" where
  "client_summaries x agency [] w = ([], w)"
| "client_summaries x agency ((i, label) # clients) w =
     (let (named, w1) = (if label = None then org_named x i w else (label, w));
          (rest, w2) = client_summaries x agency clients w1
      in (\<lparr>om_id = i, om_name = nullish_def_val named ''Client'', om_slug = None, om_agencyOrgId = Some agency\<rparr> # rest,
          w2))"

fun clients_of_all :: "auth_env \<Rightarrow> sso_org list \<Rightarrow> auth_world \<Rightarrow> org_summary list \<times> auth_world" where
  "clients_of_all x [] w = ([], w)"
| "clients_of_all x (o' # orgs) w =
     (let rows = w_settings (aw_core w);
          (mine, w1) = (if ov_isAgency (settings_get rows (fst o'))
                        then client_summaries x (fst o') (clientRoster rows (fst o')) w else ([], w));
          (rest, w2) = clients_of_all x orgs w1
      in (mine @ rest, w2))"

definition withClients :: "auth_env \<Rightarrow> sso_org list \<Rightarrow> auth_world \<Rightarrow> org_summary list \<times> auth_world" where
  "withClients x orgs w = (let (clients, w') = clients_of_all x orgs w in (map summary_of orgs @ clients, w'))"

text \<open>A method that does not throw, as one that might.\<close>

definition runE :: "('s \<Rightarrow> 'a \<times> 's) \<Rightarrow> ('s, 'a) svc" where
  "runE f s = (let (a, s') = f s in (Inr a, s'))"

section \<open>Signing in and out (auth.service.ts)\<close>

record session_tokens =
  st_accessToken :: string
  st_refreshToken :: string
  st_expiresIn :: int
  st_tokenType :: string

definition sessionTokens :: "token_data \<Rightarrow> session_tokens" where
  "sessionTokens t =
     \<lparr>st_accessToken = td_accessToken t, st_refreshToken = td_refreshToken t, st_expiresIn = td_expiresIn t,
      st_tokenType = nullish_def_val (td_tokenType t) ''Bearer''\<rparr>"

text \<open>\<open>a || b\<close> on texts.\<close>

definition or_text :: "string option \<Rightarrow> string \<Rightarrow> string" where
  "or_text a b = (if truthy a then the a else b)"

text \<open>\<open>findOrCreateBySsoId\<close> (\<open>user.service.ts\<close>): only what is not empty is written.\<close>

definition contact_details :: "string \<Rightarrow> string \<Rightarrow> string \<Rightarrow> user_row \<Rightarrow> user_row" where
  "contact_details email first_nm last_nm u =
     u\<lparr>us_email := (if email = [] then us_email u else Some email),
       us_firstName := (if first_nm = [] then us_firstName u else Some first_nm),
       us_lastName := (if last_nm = [] then us_lastName u else Some last_nm)\<rparr>"

definition findOrCreateBySsoId ::
  "string \<Rightarrow> string \<Rightarrow> string \<Rightarrow> string \<Rightarrow> auth_world \<Rightarrow> nat \<times> auth_world" where
  "findOrCreateBySsoId ssoId email first_nm last_nm w =
     (let c = aw_core w; details = contact_details email first_nm last_nm in
      case map_of (aw_ssoIds w) ssoId of
        Some i \<Rightarrow> (i, w\<lparr>aw_core := c\<lparr>w_users := update_rows (\<lambda>u. us_id u = i) details (w_users c)\<rparr>\<rparr>)
      | None \<Rightarrow>
          (let i = w_nextId c in
           (i, w\<lparr>aw_ssoIds := aw_ssoIds w @ [(ssoId, i)],
                 aw_core := c\<lparr>w_nextId := Suc i, w_users := w_users c @
                   [details \<lparr>us_id = i, us_email = None, us_firstName = None, us_lastName = None\<rparr>]\<rparr>\<rparr>)))"

definition remember_in :: "auth_env \<Rightarrow> (string \<times> string) list \<Rightarrow> auth_world \<Rightarrow> auth_world" where
  "remember_in x orgs w = w\<lparr>aw_core := remember_orgs (auth_env_at x w) orgs (aw_core w)\<rparr>"

definition named_orgs :: "sso_org list \<Rightarrow> (string \<times> string) list" where
  "named_orgs orgs = map (\<lambda>o'. (fst o', fst (snd o'))) orgs"

definition handleCallback ::
  "auth_env \<Rightarrow> string \<Rightarrow> string \<Rightarrow> (auth_world, (nat \<times> org_summary list) \<times> session_tokens) svc" where
  "handleCallback x code verifier =
     bindE (exchangeCode x code verifier) (\<lambda>tokens.
     bindE (sso_verify x (td_accessToken tokens)) (\<lambda>claims.
     bindE (decodeUserInfo x (td_accessToken tokens)) (\<lambda>info.
     let organisations = listOrganizations x (td_accessToken tokens);
         profile = getProfile x (td_accessToken tokens);
         email = or_text (map_option sp_email profile) (or_text (Some (cl_email claims)) (ui_email info));
         first_nm = or_text (map_option sp_firstName profile) (ui_firstName info);
         last_nm = or_text (map_option sp_lastName profile) (ui_lastName info)
     in
     bindE (runE (findOrCreateBySsoId (ui_ssoId info) email first_nm last_nm)) (\<lambda>user.
     thenE (modE (put_session (cl_sid claims)
       \<lparr>ss_ssoId = ui_ssoId info, ss_email = Some email, ss_firstName = Some first_nm, ss_lastName = Some last_nm,
        ss_username = Some (nullish_def_val (map_option sp_username profile) []),
        ss_emailVerified = Some (nullish_def_val (map_option sp_emailVerified profile) False),
        ss_imageUrl = Some (nullish_def_val (map_option sp_imageUrl profile) []),
        ss_ssoCreatedAt = Option.bind profile sp_createdAt, ss_orgs = organisations, ss_grants = Some []\<rparr>))
    (thenE (modE (remember_in x (named_orgs organisations)))
    (bindE (runE (withClients x organisations)) (\<lambda>shown.
     retE ((user, shown), sessionTokens tokens))))))))"

text \<open>The sign-in service's own \<open>logout\<close> never throws; only the record here is modelled.\<close>

definition auth_logout :: "string \<Rightarrow> auth_world \<Rightarrow> auth_world" where
  "auth_logout sid = with_redis (deleteSsoSession sid)"

definition listOrganisations :: "auth_env \<Rightarrow> string \<Rightarrow> string \<Rightarrow> auth_world \<Rightarrow> org_summary list \<times> auth_world" where
  "listOrganisations x sid token w =
     withClients x (case session_at sid w of Some s \<Rightarrow> ss_orgs s | None \<Rightarrow> listOrganizations x token) w"

record org_access =
  oa_orgId :: org
  oa_organisation :: org_summary
  oa_role :: "string option"
  oa_agencyOrgId :: "org option"

definition grant_role :: "found_grant \<Rightarrow> string option" where
  "grant_role g = (case g of Granted r \<Rightarrow> Some (og_role r) | Inherited \<Rightarrow> None)"

definition grant_agency :: "found_grant \<Rightarrow> org option" where
  "grant_agency g = (case g of Granted r \<Rightarrow> og_agencyOrgId r | Inherited \<Rightarrow> None)"

definition describe_org :: "auth_env \<Rightarrow> string \<Rightarrow> org \<Rightarrow> org option \<Rightarrow> auth_world \<Rightarrow> org_summary \<times> auth_world" where
  "describe_org x sid orgId agencyOrgId w =
     (let (known, w1) = withClients x (case session_at sid w of Some s \<Rightarrow> ss_orgs s | None \<Rightarrow> []) w in
      case List.find (\<lambda>o'. om_id o' = orgId) known of
        Some found \<Rightarrow> (found, w1)
      | None \<Rightarrow>
          (let (n, w2) = org_named x orgId w1 in
           (\<lparr>om_id = orgId, om_name = nullish_def_val n ''Client'', om_slug = None,
             om_agencyOrgId = (if truthy agencyOrgId then agencyOrgId else None)\<rparr>, w2)))"

definition selectOrg :: "auth_env \<Rightarrow> string \<Rightarrow> org \<Rightarrow> string \<Rightarrow> (auth_world, org_access) svc" where
  "selectOrg x sid orgId token =
     bindE (grantFor x sid orgId token) (\<lambda>grant.
     case grant of
       None \<Rightarrow> throwE (Unauthorized ''You are not a member of this organisation'')
     | Some g \<Rightarrow>
         bindE (runE (describe_org x sid orgId (grant_agency g))) (\<lambda>summary.
         thenE (modE (remember_in x [(om_id summary, om_name summary)]))
           (retE \<lparr>oa_orgId = orgId, oa_organisation = summary, oa_role = grant_role g,
                  oa_agencyOrgId = (if truthy (grant_agency g) then grant_agency g else None)\<rparr>)))"

definition createOrganisation :: "auth_env \<Rightarrow> string \<Rightarrow> string \<Rightarrow> string \<Rightarrow> (auth_world, org_access) svc" where
  "createOrganisation x sid name token =
     bindE (createOrganization x token name) (\<lambda>created.
     thenE (modE (\<lambda>w. case session_at sid w of
        None \<Rightarrow> w
      | Some s \<Rightarrow> put_session sid
          (s\<lparr>ss_orgs := filter (\<lambda>o'. fst o' \<noteq> fst created) (ss_orgs s) @ [created]\<rparr>) w))
    (thenE (modE (record_grant sid (fst created) \<lparr>og_role = ''owner'', og_agencyOrgId = None\<rparr>))
    (thenE (modE (remember_in x (named_orgs [created])))
       (retE \<lparr>oa_orgId = fst created, oa_organisation = summary_of created, oa_role = Some ''owner'',
              oa_agencyOrgId = None\<rparr>))))"

section \<open>The check in front of a request (auth.middleware.ts)\<close>

record admitted =
  ad_user :: "nat \<times> string"
  ad_sessionId :: string
  ad_token :: string
  ad_org :: "(org \<times> string option \<times> org option) option"

definition user_for :: "sso_claims \<Rightarrow> (auth_world, nat \<times> string) svc" where
  "user_for claims =
     bindE (getE (\<lambda>w. getUserBySsoCache (aw_now w) (cl_sub claims) (w_redis (aw_core w)))) (\<lambda>cached.
     case cached of
       Some user \<Rightarrow> retE user
     | None \<Rightarrow>
         bindE (getE (\<lambda>w. map_of (aw_ssoIds w) (cl_sub claims))) (\<lambda>row.
         case row of
           None \<Rightarrow> throwE (Unauthorized ''User not found'')
         | Some i \<Rightarrow>
             let user = (i, cl_sub claims) in
             thenE (modE (\<lambda>w. with_redis (\<lambda>r. setUserCache (aw_now w) i user
                      (setUserBySsoCache (aw_now w) (cl_sub claims) user r)) w))
               (retE user)))"

text \<open>\<open>orgHeader\<close>: the first header of that name, trimmed, if anything is left.\<close>

definition orgHeader :: "string list \<Rightarrow> org option" where
  "orgHeader raw =
     (case raw of [] \<Rightarrow> None | v # _ \<Rightarrow> (let t = js_trim v in if t = [] then None else Some t))"

definition authenticate :: "auth_env \<Rightarrow> string option \<Rightarrow> string list \<Rightarrow> (auth_world, admitted) svc" where
  "authenticate x authorization org_header =
     (case authorization of
        None \<Rightarrow> throwE (Unauthorized ''No token provided'')
      | Some header \<Rightarrow>
          if take 7 header \<noteq> ''Bearer '' then throwE (Unauthorized ''No token provided'')
          else
            let token = js_trim (drop 7 header) in
            bindE (sso_verify x token) (\<lambda>claims.
            bindE (user_for claims) (\<lambda>user.
            let request = \<lparr>ad_user = user, ad_sessionId = cl_sid claims, ad_token = token, ad_org = None\<rparr> in
            case orgHeader org_header of
              None \<Rightarrow> retE request
            | Some orgId \<Rightarrow>
                bindE (grantFor x (cl_sid claims) orgId token) (\<lambda>grant.
                case grant of
                  None \<Rightarrow> throwE (Forbidden ''You are not a member of this organisation'')
                | Some g \<Rightarrow> retE (request\<lparr>ad_org := Some (orgId, grant_role g, grant_agency g)\<rparr>)))))"

end
