(* ===== verification/Sign_In_Facts.thy ===== *)
theory Sign_In_Facts
  imports Sign_In Svc_Logic
begin

text \<open>
  What holds of sign-in over any sequence of requests: nobody is let into an organisation the
  sign-in service does not list for them and no agency of theirs ever had as a client, but for
  the names every object inherits; and however many forged tokens arrive, the key ring is
  fetched at a bounded rate.
\<close>

section \<open>Sessions in the store\<close>

definition sessions_all :: "(sso_session \<Rightarrow> bool) \<Rightarrow> redis \<Rightarrow> bool" where
  "sessions_all P m = (\<forall>sid s e. m (sessionKey sid) = Some (RSession s, e) \<longrightarrow> P s)"

lemma session_key_apart [simp]:
  "sessionKey a = sessionKey b \<longleftrightarrow> a = b" "orgNameKey i \<noteq> sessionKey a" "userKey n \<noteq> sessionKey a"
  "userSsoKey t \<noteq> sessionKey a" "sessionKey a \<noteq> orgNameKey i" "sessionKey a \<noteq> userKey n" "sessionKey a \<noteq> userSsoKey t"
  by (simp_all add: redis_key_defs)

lemma sessions_all_writes [simp]:
  "sessions_all P m \<Longrightarrow> P s \<Longrightarrow> sessions_all P (setSsoSession now sid s ttl m)"
  "sessions_all P m \<Longrightarrow> sessions_all P (deleteSsoSession sid m)"
  "sessions_all P m \<Longrightarrow> sessions_all P (setOrgName now i n m)"
  "sessions_all P m \<Longrightarrow> sessions_all P (setUserCache now k u m)"
  "sessions_all P m \<Longrightarrow> sessions_all P (setUserBySsoCache now t u m)"
  by (auto simp: sessions_all_def setSsoSession_def deleteSsoSession_def setOrgName_def setUserCache_def
      setUserBySsoCache_def r_set_ex_def r_del_def split: if_splits)

lemma sessions_all_get: "sessions_all P m \<Longrightarrow> getSsoSession now sid m = Some s \<Longrightarrow> P s"
  unfolding sessions_all_def getSsoSession_def r_get_def by (auto split: option.splits rval.splits if_splits; blast)

lemma sessions_all_org_name:
  "sessions_all P (w_redis w) \<Longrightarrow> sessions_all P (w_redis (snd (org_name e i w)))"
  by (auto simp: org_name_def Let_def split: option.split)

lemma sessions_all_fold_names:
  "sessions_all P m \<Longrightarrow> sessions_all P (fold (\<lambda>(i, n). setOrgName now i n) orgs m)"
  by (induction orgs arbitrary: m) auto

lemma sessions_all_remember:
  "sessions_all P (w_redis w) \<Longrightarrow> sessions_all P (w_redis (remember_orgs e orgs w))"
  by (simp add: remember_orgs_def sessions_all_fold_names)

lemma settings_cached [simp]:
  "w_settings (snd (org_name e i w)) = w_settings w" "w_settings (remember_orgs e orgs w) = w_settings w"
  by (auto simp: org_name_def remember_orgs_def Let_def split: option.split)

section \<open>What justifies a grant\<close>

text \<open>\<open>ever c a\<close>: organisation \<open>c\<close> was a client of agency \<open>a\<close> at some time.\<close>

definition justified :: "(org \<Rightarrow> org \<Rightarrow> bool) \<Rightarrow> sso_session \<Rightarrow> org \<Rightarrow> org_grant \<Rightarrow> bool" where
  "justified ever s orgId g =
     ((og_role g = ''member'' \<or> og_role g = ''owner'') \<and> og_agencyOrgId g = None \<and> orgId \<in> fst ` set (ss_orgs s) \<or>
      og_role g = ''agency'' \<and> (\<exists>a. og_agencyOrgId g = Some a \<and> a \<in> fst ` set (ss_orgs s) \<and> ever orgId a))"

definition session_ok :: "(org \<Rightarrow> org \<Rightarrow> bool) \<Rightarrow> sso_session \<Rightarrow> bool" where
  "session_ok ever s = (\<forall>gs p. ss_grants s = Some gs \<longrightarrow> p \<in> set gs \<longrightarrow> justified ever s (fst p) (snd p))"

definition auth_ok :: "(org \<Rightarrow> org \<Rightarrow> bool) \<Rightarrow> auth_world \<Rightarrow> bool" where
  "auth_ok ever w =
     (sessions_all (session_ok ever) (w_redis (aw_core w)) \<and>
      (\<forall>c a. ov_agencyOrgId (settings_get (w_settings (aw_core w)) c) = Some a \<longrightarrow> ever c a))"

lemma session_ok_fresh [simp]: "ss_grants s = Some [] \<Longrightarrow> session_ok ever s"
  by (simp add: session_ok_def)

lemma justified_mono:
  "justified ever s orgId g \<Longrightarrow> fst ` set (ss_orgs s) \<subseteq> fst ` set (ss_orgs s') \<Longrightarrow> justified ever s' orgId g"
  unfolding justified_def by blast

lemma justified_grants [simp]: "justified ever (s\<lparr>ss_grants := gs\<rparr>) = justified ever s"
  by (simp add: justified_def fun_eq_iff)

lemma session_ok_granted:
  assumes "session_ok ever s" "justified ever s orgId g"
  shows "session_ok ever (s\<lparr>ss_grants := Some (put_grant orgId g (ss_grants s))\<rparr>)"
proof -
  have "justified ever s (fst p) (snd p)" if "p \<in> set (put_grant orgId g (ss_grants s))" for p
    using that assms by (cases "ss_grants s") (auto simp: session_ok_def put_grant_def)
  then show ?thesis by (simp add: session_ok_def)
qed

lemma session_ok_joined:
  assumes "session_ok ever s"
  shows "session_ok ever (s\<lparr>ss_orgs := filter (\<lambda>o'. fst o' \<noteq> fst new) (ss_orgs s) @ [new]\<rparr>)"
proof -
  let ?s = "s\<lparr>ss_orgs := filter (\<lambda>o'. fst o' \<noteq> fst new) (ss_orgs s) @ [new]\<rparr>"
  have "fst ` set (ss_orgs s) \<subseteq> fst ` set (ss_orgs ?s)" by force
  then have "justified ever s orgId g \<Longrightarrow> justified ever ?s orgId g" for orgId g
    using justified_mono by blast
  with assms show ?thesis by (simp add: session_ok_def)
qed

lemma justified_resolved:
  assumes "resolve_grant rows (ss_orgs s) orgId = Some g"
    and "\<And>a. ov_agencyOrgId (settings_get rows orgId) = Some a \<Longrightarrow> ever orgId a"
  shows "justified ever s orgId g"
proof (cases "list_ex (\<lambda>o'. fst o' = orgId) (ss_orgs s)")
  case True
  with assms(1) show ?thesis by (auto simp: resolve_grant_def justified_def list_ex_iff)
next
  case False
  with assms(1) obtain a where a: "ov_agencyOrgId (settings_get rows orgId) = Some a"
    "list_ex (\<lambda>o'. fst o' = a) (ss_orgs s)" "g = \<lparr>og_role = ''agency'', og_agencyOrgId = Some a\<rparr>"
    by (auto simp: resolve_grant_def Let_def truthy_def split: if_splits option.splits)
  then show ?thesis using assms(2) by (auto simp: justified_def list_ex_iff)
qed

lemma auth_ok_cong [simp]:
  "auth_ok ever (w\<lparr>aw_ring := r\<rparr>) = auth_ok ever w" "auth_ok ever (w\<lparr>aw_now := t\<rparr>) = auth_ok ever w"
  "auth_ok ever (w\<lparr>aw_ssoIds := ids\<rparr>) = auth_ok ever w"
  by (simp_all add: auth_ok_def)

lemma auth_ok_put:
  "auth_ok ever w \<Longrightarrow> session_ok ever s \<Longrightarrow> auth_ok ever (put_session sid s w)"
  by (simp add: auth_ok_def put_session_def with_redis_def)

lemma session_at_put [simp]: "session_at sid (put_session sid s w) = Some s"
  by (simp add: session_at_def put_session_def with_redis_def getSsoSession_def setSsoSession_def
      r_set_ex_def r_get_def SESSION_TTL_def)

lemma session_at_ok: "auth_ok ever w \<Longrightarrow> session_at sid w = Some s \<Longrightarrow> session_ok ever s"
  by (auto simp: auth_ok_def session_at_def intro: sessions_all_get)

lemma auth_ok_record:
  assumes "auth_ok ever w" "\<And>s. session_at sid w = Some s \<Longrightarrow> justified ever s orgId g"
  shows "auth_ok ever (record_grant sid orgId g w)"
proof (cases "session_at sid w")
  case (Some s)
  with assms have "session_ok ever (s\<lparr>ss_grants := Some (put_grant orgId g (ss_grants s))\<rparr>)"
    by (intro session_ok_granted session_at_ok)
  with Some assms(1) show ?thesis by (simp add: record_grant_def auth_ok_put)
qed (simp add: assms(1) record_grant_def)

lemma auth_ok_named: "auth_ok ever w \<Longrightarrow> auth_ok ever (snd (org_named x i w))"
  by (simp add: auth_ok_def org_named_def sessions_all_org_name case_prod_beta Let_def)

lemma auth_ok_remember: "auth_ok ever w \<Longrightarrow> auth_ok ever (remember_in x orgs w)"
  by (simp add: auth_ok_def remember_in_def sessions_all_remember)

lemma auth_ok_client_summaries: "auth_ok ever w \<Longrightarrow> auth_ok ever (snd (client_summaries x a clients w))"
proof (induction x a clients w rule: client_summaries.induct)
  case (2 x agency i label clients w)
  then show ?case using auth_ok_named [of ever w x i] by (auto split: prod.splits)
qed simp

lemma auth_ok_withClients: "auth_ok ever w \<Longrightarrow> auth_ok ever (snd (withClients x orgs w))"
proof -
  assume "auth_ok ever w"
  then have "auth_ok ever (snd (clients_of_all x orgs w))"
  proof (induction x orgs w rule: clients_of_all.induct)
    case (2 x o' orgs w)
    then show ?case
      using auth_ok_client_summaries [of ever w x "fst o'" "clientRoster (w_settings (aw_core w)) (fst o')"]
      by (auto simp: Let_def split: prod.splits if_splits)
  qed simp
  then show ?thesis by (simp add: withClients_def case_prod_beta Let_def)
qed

section \<open>Every method keeps sessions justified\<close>

lemma keeps_runE [keeps_intros]: "(\<And>s. I s \<Longrightarrow> I (snd (f s))) \<Longrightarrow> keeps I (runE f)"
  by (simp add: keeps_def runE_def case_prod_beta)

lemma loadKeys_ring: "\<exists>r. loadKeys x b w = w\<lparr>aw_ring := r\<rparr>"
  by (auto simp: loadKeys_def Let_def intro: exI [of _ "aw_ring w"])

lemma auth_ok_loadKeys [simp]: "auth_ok ever (loadKeys x b w) = auth_ok ever w"
  using loadKeys_ring [of x b w] by auto

lemma keeps_kidOf [keeps_intros]: "keeps I (kidOf x token)"
  by (auto simp: keeps_def kidOf_def split: list.split option.split json.split)

lemma keeps_sso_verify [keeps_intros]: "keeps (auth_ok ever) (sso_verify x token)"
  unfolding sso_verify_def keyFor_def Let_def by (intro keeps_intros) simp_all

lemma keeps_decodeUserInfo [keeps_intros]: "keeps I (decodeUserInfo x token)"
  by (auto simp: keeps_def decodeUserInfo_def Let_def split: list.split)

lemma keeps_user_for [keeps_intros]: "keeps (auth_ok ever) (user_for claims)"
  unfolding user_for_def Let_def
  by (intro keeps_intros) (simp add: auth_ok_def with_redis_def)

lemma session_or_rebuilt_triple:
  "valid (auth_ok ever) (session_or_rebuilt x sid token)
     (\<lambda>s w. auth_ok ever w \<and> session_at sid w = Some s) (\<lambda>_. auth_ok ever)"
proof (rule validI)
  fix w s w' assume "auth_ok ever w" and run: "session_or_rebuilt x sid token w = (Inr s, w')"
  moreover have "snd (decodeUserInfo x token w) = w"
    by (auto simp: decodeUserInfo_def Let_def split: list.split)
  ultimately show "auth_ok ever w' \<and> session_at sid w' = Some s"
    by (auto simp: session_or_rebuilt_def bindE_Inr_iff thenE_Inr_iff Let_def intro!: auth_ok_put split: option.splits)
next
  fix w e w' assume "auth_ok ever w" "session_or_rebuilt x sid token w = (Inl e, w')"
  moreover have "snd (decodeUserInfo x token w) = w"
    by (auto simp: decodeUserInfo_def Let_def split: list.split)
  ultimately show "auth_ok ever w'"
    by (auto simp: session_or_rebuilt_def bindE_Inl_iff Let_def split: option.splits)
qed

definition entered :: "(org \<Rightarrow> org \<Rightarrow> bool) \<Rightarrow> string \<Rightarrow> org \<Rightarrow> found_grant option \<Rightarrow> auth_world \<Rightarrow> bool" where
  "entered ever sid orgId g w =
     (auth_ok ever w \<and>
      (case g of
         None \<Rightarrow> True
       | Some Inherited \<Rightarrow> orgId \<in> set OBJECT_PROTOTYPE
       | Some (Granted r) \<Rightarrow> \<exists>s. session_at sid w = Some s \<and> justified ever s orgId r))"

lemma entered_ok: "entered ever sid orgId g w \<Longrightarrow> auth_ok ever w"
  by (simp add: entered_def)

lemma grantFor_triple:
  "valid (auth_ok ever) (grantFor x sid orgId token) (entered ever sid orgId) (\<lambda>_. auth_ok ever)"
  unfolding grantFor_def
proof (rule valid_bindE [OF session_or_rebuilt_triple])
  fix s
  let ?P = "\<lambda>w. auth_ok ever w \<and> session_at sid w = Some s"
  show "valid ?P (case cached_grant s orgId of Some g \<Rightarrow> retE (Some g) | None \<Rightarrow>
      bindE (getE (\<lambda>w. resolve_grant (w_settings (aw_core w)) (ss_orgs s) orgId)) (\<lambda>g. case g of
        None \<Rightarrow> retE None
      | Some g' \<Rightarrow> thenE (modE (record_grant sid orgId g')) (retE (Some (Granted g')))))
     (entered ever sid orgId) (\<lambda>_. auth_ok ever)"
  proof (cases "cached_grant s orgId")
    case (Some g)
    have "entered ever sid orgId (Some g) w" if "auth_ok ever w" "session_at sid w = Some s" for w
      using Some that session_at_ok [OF that]
      by (auto simp: cached_grant_def entered_def session_ok_def dest!: map_of_SomeD split: option.splits if_splits)
    with Some show ?thesis by (simp add: valid_def)
  next
    case None
    have "entered ever sid orgId (Some (Granted g)) (record_grant sid orgId g w)"
      if w: "auth_ok ever w" "session_at sid w = Some s"
        and g: "resolve_grant (w_settings (aw_core w)) (ss_orgs s) orgId = Some g" for w g
    proof -
      have j: "justified ever s orgId g"
        using justified_resolved [OF g, of ever] w(1) by (simp add: auth_ok_def)
      then have "justified ever (s\<lparr>ss_grants := gs\<rparr>) orgId g" for gs by (simp add: justified_def)
      moreover have "auth_ok ever (record_grant sid orgId g w)"
        using w j by (intro auth_ok_record) simp_all
      ultimately show ?thesis using w(2) by (simp add: entered_def record_grant_def)
    qed
    with None show ?thesis
      by (auto simp: valid_def entered_def split: option.split)
  qed
qed

lemma keeps_grantFor [keeps_intros]: "keeps (auth_ok ever) (grantFor x sid orgId token)"
  by (rule valid_keeps, rule valid_weaken [OF grantFor_triple]) (auto simp: entered_def)

lemma keeps_createOrganization [keeps_intros]: "keeps I (createOrganization x token name)"
  by (auto simp: keeps_def createOrganization_def Let_def split: graph_answer.split option.split)

lemma keeps_exchangeCode [keeps_intros]: "keeps I (exchangeCode x code verifier)"
  by (auto simp: keeps_def exchangeCode_def split: graph_answer.split option.split)

lemma auth_ok_found_user: "auth_ok ever w \<Longrightarrow> auth_ok ever (snd (findOrCreateBySsoId t a b c w))"
  by (auto simp: auth_ok_def findOrCreateBySsoId_def Let_def split: option.split)

lemma keeps_handleCallback: "keeps (auth_ok ever) (handleCallback x code verifier)"
  unfolding handleCallback_def Let_def
  by (intro keeps_intros auth_ok_found_user auth_ok_remember auth_ok_withClients auth_ok_put) simp_all

lemma keeps_selectOrg: "keeps (auth_ok ever) (selectOrg x sid orgId token)"
proof -
  have "auth_ok ever (snd (describe_org x sid orgId a w))" if "auth_ok ever w" for w a
    using auth_ok_withClients [OF that] auth_ok_named
    by (auto simp: describe_org_def Let_def split: prod.split option.split dest!: arg_cong [of _ _ snd])
  then show ?thesis unfolding selectOrg_def
    by (intro keeps_intros auth_ok_remember) simp_all
qed

lemma auth_ok_logout: "auth_ok ever w \<Longrightarrow> auth_ok ever (auth_logout sid w)"
  by (simp add: auth_ok_def auth_logout_def with_redis_def)

lemma keeps_createOrganisation: "keeps (auth_ok ever) (createOrganisation x sid name token)"
  unfolding createOrganisation_def
proof (rule valid_keeps, rule valid_bindE [where R = "\<lambda>_. auth_ok ever"])
  show "valid (auth_ok ever) (createOrganization x token name) (\<lambda>_. auth_ok ever) (\<lambda>_. auth_ok ever)"
    by (rule keeps_valid) (rule keeps_createOrganization)
next
  fix created
  let ?join = "\<lambda>w. case session_at sid w of None \<Rightarrow> w
     | Some s \<Rightarrow> put_session sid
         (s\<lparr>ss_orgs := filter (\<lambda>o'. fst o' \<noteq> fst created) (ss_orgs s) @ [created]\<rparr>) w"
  let ?owner = "\<lparr>og_role = ''owner'', og_agencyOrgId = None\<rparr>"
  let ?M = "\<lambda>w. auth_ok ever w \<and> (\<forall>s. session_at sid w = Some s \<longrightarrow> justified ever s (fst created) ?owner)"
  have join: "?M (?join w)" if w: "auth_ok ever w" for w
  proof (cases "session_at sid w")
    case (Some s)
    then show ?thesis using w session_at_ok [OF w Some]
      by (simp add: auth_ok_put session_ok_joined) (simp add: justified_def)
  qed (simp add: w)
  show "valid (auth_ok ever)
     (thenE (modE ?join) (thenE (modE (record_grant sid (fst created) ?owner))
       (thenE (modE (remember_in x (named_orgs [created])))
         (retE \<lparr>oa_orgId = fst created, oa_organisation = summary_of created, oa_role = Some ''owner'',
                oa_agencyOrgId = None\<rparr>))))
     (\<lambda>_. auth_ok ever) (\<lambda>_. auth_ok ever)"
    by (rule valid_thenE [where R = ?M], rule valid_basic(4), erule join,
        rule valid_thenE [where R = "auth_ok ever"], rule valid_basic(4), rule auth_ok_record, simp, simp,
        rule keeps_valid) (intro keeps_intros auth_ok_remember)
qed

lemma authenticate_triple:
  "valid (auth_ok ever) (authenticate x authorization org_header)
     (\<lambda>r w. auth_ok ever w \<and> (\<forall>orgId role agency. ad_org r = Some (orgId, role, agency) \<longrightarrow>
        (\<exists>g. role = grant_role g \<and> agency = grant_agency g \<and> entered ever (ad_sessionId r) orgId (Some g) w)))
     (\<lambda>_. auth_ok ever)"
proof -
  let ?Q = "\<lambda>r w. auth_ok ever w \<and> (\<forall>orgId role agency. ad_org r = Some (orgId, role, agency) \<longrightarrow>
        (\<exists>g. role = grant_role g \<and> agency = grant_agency g \<and> entered ever (ad_sessionId r) orgId (Some g) w))"
  let ?E = "\<lambda>_ :: http_exn. auth_ok ever"
  let ?plain = "\<lambda>claims user token. \<lparr>ad_user = user, ad_sessionId = cl_sid claims, ad_token = token, ad_org = None\<rparr>"
  have enter: "valid (auth_ok ever) (bindE (grantFor x (cl_sid claims) orgId token) (\<lambda>grant. case grant of
      None \<Rightarrow> throwE (Forbidden ''You are not a member of this organisation'')
    | Some g \<Rightarrow> retE ((?plain claims user token)\<lparr>ad_org := Some (orgId, grant_role g, grant_agency g)\<rparr>))) ?Q ?E"
    for claims user orgId token
    by (rule valid_bindE [OF grantFor_triple]) (auto simp: valid_def entered_ok split: option.split)
  have "valid (auth_ok ever) (case orgHeader org_header of None \<Rightarrow> retE (?plain claims user token)
      | Some orgId \<Rightarrow> bindE (grantFor x (cl_sid claims) orgId token) (\<lambda>grant. case grant of
          None \<Rightarrow> throwE (Forbidden ''You are not a member of this organisation'')
        | Some g \<Rightarrow> retE ((?plain claims user token)\<lparr>ad_org := Some (orgId, grant_role g, grant_agency g)\<rparr>))) ?Q ?E"
    for claims user token
    using enter by (cases "orgHeader org_header") (simp_all add: valid_def)
  note body = this [THEN valid_bindE [OF keeps_valid [OF keeps_user_for]], THEN valid_bindE [OF keeps_valid [OF keeps_sso_verify]]]
  show ?thesis unfolding authenticate_def Let_def
    by (cases authorization) (simp_all add: valid_def [of _ "throwE _"] body)
qed

section \<open>Any sequence of requests\<close>

text \<open>\<open>reorganises\<close> is whatever the agency service does to the settings, as long as every client
  it has at some time is one \<open>ever\<close> knows of.\<close>

inductive auth_step :: "(org \<Rightarrow> org \<Rightarrow> bool) \<Rightarrow> auth_world \<Rightarrow> auth_world \<Rightarrow> bool" for ever where
  signs_in: "auth_step ever w (snd (handleCallback x code verifier w))"
| asks: "auth_step ever w (snd (authenticate x authorization org_header w))"
| selects: "auth_step ever w (snd (selectOrg x sid orgId token w))"
| founds: "auth_step ever w (snd (createOrganisation x sid name token w))"
| lists: "auth_step ever w (snd (listOrganisations x sid token w))"
| signs_out: "auth_step ever w (auth_logout sid w)"
| reorganises: "(\<And>c a. ov_agencyOrgId (settings_get rows c) = Some a \<Longrightarrow> ever c a) \<Longrightarrow>
     auth_step ever w (w\<lparr>aw_core := (aw_core w)\<lparr>w_settings := rows\<rparr>\<rparr>)"
| waits: "0 \<le> d \<Longrightarrow> auth_step ever w (w\<lparr>aw_now := aw_now w + d\<rparr>)"

lemma auth_ok_step:
  assumes "auth_step ever w w'" "auth_ok ever w"
  shows "auth_ok ever w'"
  using assms(1)
proof (cases rule: auth_step.cases)
  case (asks x authorization org_header)
  have "keeps (auth_ok ever) (authenticate x authorization org_header)"
    by (rule valid_keeps, rule valid_weaken [OF authenticate_triple]) simp_all
  then show ?thesis using asks assms(2) by (simp add: keeps_def)
next
  case (reorganises rows)
  then show ?thesis using assms(2) by (auto simp: auth_ok_def)
qed (use assms(2) keeps_handleCallback keeps_selectOrg keeps_createOrganisation auth_ok_logout auth_ok_withClients in
    \<open>simp_all add: keeps_def listOrganisations_def\<close>)


section \<open>A small sign-in service\<close>

definition sample_payload :: json where
  "sample_payload = JObj [(''sub'', JStr ''user_1''), (''email'', JStr ''a@b''), (''sid'', JStr ''s1'')]"

definition sample_auth :: auth_env where
  "sample_auth =
     \<lparr>ax_core = sample_env,
      ax_organizations = (\<lambda>_. GraphOk (Some (JObj [(''data'', JArr [JObj [(''id'', JStr ''acme''), (''name'', JStr ''Acme'')]])]))),
      ax_create = (\<lambda>_ _ _. GraphLost ''''), ax_profile = (\<lambda>_. GraphLost ''''),
      ax_exchange = (\<lambda>_ _. GraphOk (Some (JObj [(''data'', JObj [(''accessToken'', JStr ''h.p.s''),
        (''refreshToken'', JStr ''r''), (''expiresIn'', JNum 600)])]))),
      ax_jwks = GraphOk (Some (JObj [(''keys'', JArr [JObj [(''kty'', JStr ''RSA''), (''kid'', JStr ''k1'')]])])),
      ax_decoded = (\<lambda>t. if t = ''p'' then Some sample_payload
        else Some (JObj [(''alg'', JStr ''RS256''), (''kid'', JStr (if t = ''h'' then ''k1'' else ''k2''))])),
      ax_public = (\<lambda>_. Some ''pem''), ax_jwt = (\<lambda>_ _ _ _ _. Some sample_payload),
      ax_issuer = ''sso'', ax_audience = ''wa''\<rparr>"

text \<open>Acme is an agency with one client.\<close>

definition agency_rows :: "org_settings list" where
  "agency_rows = [(blank_settings ''acme'')\<lparr>os_isAgency := True\<rparr>,
     (blank_settings ''client'')\<lparr>os_agencyOrgId := Some ''acme''\<rparr>]"

definition cold_start :: auth_world where
  "cold_start =
     \<lparr>aw_core = empty_world\<lparr>w_settings := agency_rows\<rparr>, aw_ssoIds = [],
      aw_ring = \<lparr>kr_keys = [], kr_loadedAt = 0, kr_rotationCheckedAt = 0, kr_fetches = []\<rparr>, aw_now = 100000\<rparr>"

definition signed_in :: auth_world where
  "signed_in = snd (handleCallback sample_auth ''code'' ''verifier'' cold_start)"

definition asking_for :: "org \<Rightarrow> (auth_world, admitted) svc" where
  "asking_for orgId = authenticate sample_auth (Some ''Bearer h.p.s'') [orgId]"


text \<open>The names every object inherits: a person of any organisation is let in under one of them,
  with no role at all.\<close>

lemma inherited_name_lets_in:
  "map_option fst (ad_org (projr (fst (asking_for ''constructor'' signed_in)))) = Some ''constructor''"
  "fst (asking_for ''beta'' signed_in) = Inl (Forbidden ''You are not a member of this organisation'')"
  by code_simp+

text \<open>A grant outlives the client it was for: the agency lets the client go and still enters it,
  for as long as the session's record lives.\<close>

lemma released_client_still_entered:
  "map_option fst (ad_org (projr (fst (asking_for ''client''
     (let w = snd (asking_for ''client'' signed_in) in
      w\<lparr>aw_core := (aw_core w)\<lparr>w_settings := [(blank_settings ''acme'')\<lparr>os_isAgency := True\<rparr>]\<rparr>\<rparr>))))) = Some ''client''"
  by code_simp

section \<open>How often the ring of keys is asked for\<close>

definition fetch_gap :: "bool \<Rightarrow> int" where
  "fetch_gap rotation = (if rotation then 30000 else 5000)"

definition fetches_spaced :: "key_ring \<Rightarrow> bool" where
  "fetches_spaced r =
     (sorted_wrt (\<lambda>a b. snd a = snd b \<longrightarrow> fst a + fetch_gap (snd a) \<le> fst b) (kr_fetches r) \<and>
      (\<forall>p \<in> set (kr_fetches r). fst p \<le> (if snd p then kr_rotationCheckedAt r else kr_loadedAt r)))"

definition ring_ok :: "auth_world \<Rightarrow> bool" where "ring_ok w = fetches_spaced (aw_ring w)"

lemma ring_ok_loadKeys: "ring_ok w \<Longrightarrow> ring_ok (loadKeys x rotation w)"
  by (fastforce simp: ring_ok_def fetches_spaced_def loadKeys_def Let_def sorted_wrt_append fetch_gap_def
      ROTATION_COOLDOWN_MS_def EMPTY_RING_COOLDOWN_MS_def)

lemma ring_ok_cong [simp]:
  "ring_ok (w\<lparr>aw_core := c\<rparr>) = ring_ok w" "ring_ok (w\<lparr>aw_now := n\<rparr>) = ring_ok w"
  "ring_ok (w\<lparr>aw_ssoIds := ids\<rparr>) = ring_ok w" "ring_ok (put_session sid s w) = ring_ok w"
  "ring_ok (record_grant sid orgId g w) = ring_ok w" "ring_ok (auth_logout sid w) = ring_ok w"
  "ring_ok (remember_in x orgs w) = ring_ok w" "ring_ok (with_redis f w) = ring_ok w"
  "ring_ok (snd (org_named x i w)) = ring_ok w" "ring_ok (snd (findOrCreateBySsoId t a b d w)) = ring_ok w"
  by (simp_all add: ring_ok_def put_session_def with_redis_def record_grant_def auth_logout_def remember_in_def
      org_named_def findOrCreateBySsoId_def Let_def case_prod_beta split: option.split)

lemma ring_ok_client_summaries [simp]: "ring_ok (snd (client_summaries x a clients w)) = ring_ok w"
proof (induction clients arbitrary: w)
  case (Cons c clients)
  then show ?case by (cases c) (simp add: case_prod_beta Let_def)
qed simp

lemma ring_ok_withClients [simp]: "ring_ok (snd (withClients x orgs w)) = ring_ok w"
proof -
  have "ring_ok (snd (clients_of_all x orgs w)) = ring_ok w"
  proof (induction orgs arbitrary: w)
    case (Cons o' orgs)
    then show ?case by (simp add: case_prod_beta Let_def)
  qed simp
  then show ?thesis by (simp add: withClients_def case_prod_beta Let_def)
qed

lemma ring_ok_verify: "keeps ring_ok (sso_verify x token)"
  unfolding sso_verify_def keyFor_def Let_def by (intro keeps_intros) (simp_all add: ring_ok_loadKeys)

lemma ring_ok_grantFor: "keeps ring_ok (grantFor x sid orgId token)"
  unfolding grantFor_def session_or_rebuilt_def Let_def
  by (intro keeps_intros) (simp_all add: keeps_def split: option.split)

lemma ring_ok_step:
  assumes "auth_step ever w w'" "ring_ok w"
  shows "ring_ok w'"
proof -
  have "keeps ring_ok (handleCallback x code verifier)" for x code verifier
    unfolding handleCallback_def Let_def by (intro keeps_intros ring_ok_verify) simp_all
  moreover have "keeps ring_ok (user_for claims)" for claims
    unfolding user_for_def Let_def by (intro keeps_intros) simp
  then have "keeps ring_ok (authenticate x authorization org_header)" for x authorization org_header
    unfolding authenticate_def Let_def
    by (intro keeps_intros ring_ok_verify ring_ok_grantFor) simp_all
  moreover have "ring_ok (snd (describe_org x sid orgId a w)) = ring_ok w" for x sid orgId a w
    by (simp add: describe_org_def case_prod_beta Let_def split: option.split)
  then have "keeps ring_ok (selectOrg x sid orgId token)" for x sid orgId token
    unfolding selectOrg_def Let_def by (intro keeps_intros ring_ok_grantFor) simp_all
  moreover have "keeps ring_ok (createOrganisation x sid name token)" for x sid name token
    unfolding createOrganisation_def by (intro keeps_intros) (simp_all split: option.split)
  ultimately show ?thesis using assms(2)
    by (cases rule: auth_step.cases [OF assms(1)]) (simp_all add: keeps_def listOrganisations_def)
qed

text \<open>C38: however many tokens arrive that name keys nobody publishes, and whatever the sign-in
  service answers, the ring is fetched for an unknown key at most once in thirty seconds, and
  while it is empty at most once in five.\<close>
theorem key_fetches_bounded:
  assumes "(auth_step ever)\<^sup>*\<^sup>* w\<^sub>0 w" "kr_fetches (aw_ring w\<^sub>0) = []"
    and "F = kr_fetches (aw_ring w)" "i < j" "j < length F" "snd (F ! i) = snd (F ! j)"
  shows "fst (F ! i) + (if snd (F ! i) then 30000 else 5000) \<le> fst (F ! j)"
proof -
  have "ring_ok w\<^sub>0" using assms(2) by (simp add: ring_ok_def fetches_spaced_def)
  with assms(1) have "ring_ok w" by (induction) (auto intro: ring_ok_step)
  then show ?thesis using assms(3-6)
    by (auto simp: ring_ok_def fetches_spaced_def fetch_gap_def dest: sorted_wrt_nth_less)
qed

text \<open>Three tokens of an unknown key, the second too soon after the first to be asked for.\<close>

definition forged :: "auth_world \<Rightarrow> auth_world" where
  "forged w = snd (authenticate sample_auth (Some ''Bearer x.p.s'') [] w)"

definition later :: "int \<Rightarrow> auth_world \<Rightarrow> auth_world" where
  "later d w = w\<lparr>aw_now := aw_now w + d\<rparr>"

theorem key_fetches_bounded_witness:
  "kr_fetches (aw_ring (forged (later 21000 (forged (later 10000 (forged (later 40000 signed_in))))))) =
     [(100000, False), (140000, True), (171000, True)] \<and>
   fst ([(100000, False), (140000, True), (171000, True)] ! 1 :: int \<times> bool) + 30000 \<le> 171000"
proof -
  let ?w = "forged (later 21000 (forged (later 10000 (forged (later 40000 signed_in)))))"
  let ?F = "[(100000, False), (140000, True), (171000, True)] :: (int \<times> bool) list"
  have F: "?F = kr_fetches (aw_ring ?w)" by code_simp
  have ask: "auth_step (\<lambda>_ _. True) w (forged w)" for w unfolding forged_def by (rule auth_step.asks)
  have wait: "auth_step (\<lambda>_ _. True) w (later d w)" if "0 \<le> d" for w d
    unfolding later_def using that by (rule auth_step.waits)
  note after = rtranclp.rtrancl_into_rtrancl
  have "(auth_step (\<lambda>_ _. True))\<^sup>*\<^sup>* cold_start signed_in"
    unfolding signed_in_def by (rule r_into_rtranclp) (rule auth_step.signs_in)
  from after [OF this wait] have "(auth_step (\<lambda>_ _. True))\<^sup>*\<^sup>* cold_start (later 40000 signed_in)" by simp
  from after [OF after [OF this ask] wait]
  have "(auth_step (\<lambda>_ _. True))\<^sup>*\<^sup>* cold_start (later 10000 (forged (later 40000 signed_in)))" by simp
  from after [OF after [OF this ask] wait]
  have "(auth_step (\<lambda>_ _. True))\<^sup>*\<^sup>* cold_start (later 21000 (forged (later 10000 (forged (later 40000 signed_in)))))"
    by simp
  from after [OF this ask] have "(auth_step (\<lambda>_ _. True))\<^sup>*\<^sup>* cold_start ?w" .
  then have "fst (?F ! 1) + (if snd (?F ! 1) then 30000 else 5000) \<le> fst (?F ! 2)"
    by (rule key_fetches_bounded [OF _ _ F]) (simp_all add: cold_start_def)
  then show ?thesis using F [symmetric] by simp
qed

end
