(* ===== verification/Refresh.thy ===== *)
theory Refresh
  imports Sign_In
begin

text \<open>
  Keeping a session alive: the refresh token's cookie (\<open>src/auth/refresh-cookie.ts\<close>), the
  endpoint that trades it (\<open>auth.controller.ts\<close>) and \<open>AuthService.refresh\<close>, await by await,
  because several callers holding one token run it at once. The sign-in service reads a second
  presentation of a token it has accepted as theft. \<open>new URL(s).hostname\<close> is a parameter.
\<close>

section \<open>The cookie (refresh-cookie.ts)\<close>

datatype same_site = Lax | SameSiteNone

record cookie_config =
  cc_sameSite :: "string option"
  cc_secure :: "bool option"
  cc_domain :: "string option"

text \<open>What the cookie reads of a request; \<open>cq_hostname\<close> is \<open>new URL(s).hostname\<close>, \<open>None\<close> where it throws.\<close>

record cookie_request =
  cq_origin :: "string option"
  cq_host :: "string option"
  cq_cookie :: "string option"
  cq_hostname :: "string \<Rightarrow> string option"

definition REFRESH_COOKIE :: string where "REFRESH_COOKIE = ''dl_wa_refresh''"

definition COOKIE_PATH :: string where "COOKIE_PATH = ''/auth''"

definition hostnameOf :: "cookie_request \<Rightarrow> string \<Rightarrow> string" where
  "hostnameOf req host = nullish_def_val (cq_hostname req (''http://'' @ host)) host"

definition isSameSiteRequest :: "cookie_request \<Rightarrow> bool" where
  "isSameSiteRequest req =
     (if \<not> truthy (cq_origin req) then True
      else if \<not> truthy (cq_host req) then False
      else case cq_hostname req (the (cq_origin req)) of
             None \<Rightarrow> False
           | Some h \<Rightarrow> h = hostnameOf req (the (cq_host req)))"

definition resolveSameSite :: "cookie_config \<Rightarrow> cookie_request \<Rightarrow> same_site" where
  "resolveSameSite config req =
     (if cc_sameSite config = Some ''none'' then SameSiteNone
      else if cc_sameSite config = Some ''lax'' then Lax
      else if isSameSiteRequest req then Lax else SameSiteNone)"

record cookie_options =
  co_httpOnly :: bool
  co_secure :: bool
  co_sameSite :: same_site
  co_path :: string
  co_domain :: "string option"

definition refreshCookieOptions :: "cookie_config \<Rightarrow> cookie_request \<Rightarrow> cookie_options" where
  "refreshCookieOptions config req =
     (let sameSite = resolveSameSite config req in
      \<lparr>co_httpOnly = True, co_secure = (sameSite = SameSiteNone \<or> cc_secure config \<noteq> Some False),
       co_sameSite = sameSite, co_path = COOKIE_PATH,
       co_domain = (if truthy (cc_domain config) then cc_domain config else None)\<rparr>)"

text \<open>What a response does to the cookie: set it to a token for so many milliseconds, or clear it.\<close>

datatype cookie_write = SetCookie string string cookie_options int | ClearCookie string cookie_options

definition setRefreshCookie :: "cookie_config \<Rightarrow> cookie_request \<Rightarrow> string \<Rightarrow> int \<Rightarrow> cookie_write" where
  "setRefreshCookie config req token maxAgeSeconds =
     SetCookie REFRESH_COOKIE token (refreshCookieOptions config req) (maxAgeSeconds * 1000)"

definition clearRefreshCookie :: "cookie_config \<Rightarrow> cookie_request \<Rightarrow> cookie_write" where
  "clearRefreshCookie config req = ClearCookie REFRESH_COOKIE (refreshCookieOptions config req)"

definition readRefreshToken :: "cookie_request \<Rightarrow> string option \<Rightarrow> string option" where
  "readRefreshToken req fromBody =
     (if truthy (cq_cookie req) then cq_cookie req else if truthy fromBody then fromBody else None)"

section \<open>The sign-in service's answer (SsoService.refreshTokens)\<close>

definition refresh_answer :: "graph_answer \<Rightarrow> http_exn + token_data" where
  "refresh_answer answer =
     (let unavailable = ServiceUnavailable ''The sign-in service is unavailable'' in
      case answer of
        GraphOk data \<Rightarrow>
          (case token_data_of data of
             None \<Rightarrow> Inl (RuntimeError ''Cannot read the token answer'')
           | Some t \<Rightarrow> Inr t)
      | GraphRefused status _ _ \<Rightarrow>
          if 500 \<le> status then Inl unavailable
          else Inl (Unauthorized (refusal_text answer ''Could not refresh the session''))
      | GraphLost _ \<Rightarrow> Inl unavailable)"

text \<open>A pair as the store keeps it.\<close>

definition pair_json :: "token_data \<Rightarrow> json" where
  "pair_json t = JObj ([(''accessToken'', JStr (td_accessToken t)), (''refreshToken'', JStr (td_refreshToken t)),
     (''expiresIn'', JNum (td_expiresIn t))] @
     (case td_tokenType t of None \<Rightarrow> [] | Some k \<Rightarrow> [(''tokenType'', JStr k)]))"

section \<open>AuthService.refresh, await by await\<close>

definition REFRESH_WAIT_MS :: int where "REFRESH_WAIT_MS = 2000"

definition LOCK_SECONDS :: int where "LOCK_SECONDS = 10"

definition RESULT_SECONDS :: int where "RESULT_SECONDS = 60"

text \<open>Where a caller of \<open>refresh\<close> is: it read no pair and is about to take the lock, it asks the
  sign-in service, it waits for the caller who does, or it is done. The text is the hash of its
  token.\<close>

datatype refresh_phase =
    Outside
  | Missed string ms
  | Asking string ms
  | Polling string ms
  | Got string
  | Threw http_exn

text \<open>What the sign-in service sees: a token presented, and what came of it.\<close>

datatype refresh_event = Presented string ms | Accepted string ms | Failed string ms

record refresh_world =
  rw_redis :: redis
  rw_now :: ms
  rw_callers :: "nat \<Rightarrow> refresh_phase"
  rw_log :: "refresh_event list"

definition set_phase :: "nat \<Rightarrow> refresh_phase \<Rightarrow> refresh_world \<Rightarrow> refresh_world" where
  "set_phase i p w = w\<lparr>rw_callers := (rw_callers w)(i := p)\<rparr>"

definition read_result :: "string \<Rightarrow> refresh_world \<Rightarrow> string option" where
  "read_result h w = getRefreshResult (rw_now w) h (rw_redis w)"

text \<open>The pair somebody else got, or on to the lock.\<close>

definition refresh_start :: "nat \<Rightarrow> string \<Rightarrow> refresh_world \<Rightarrow> refresh_world" where
  "refresh_start i h w =
     set_phase i (case read_result h w of Some pair \<Rightarrow> Got pair | None \<Rightarrow> Missed h (rw_now w)) w"

definition refresh_lock :: "nat \<Rightarrow> string \<Rightarrow> refresh_world \<Rightarrow> refresh_world" where
  "refresh_lock i h w =
     (let (taken, r) = takeRefreshLock (rw_now w) h LOCK_SECONDS (rw_redis w); w' = w\<lparr>rw_redis := r\<rparr> in
      if taken then set_phase i (Asking h (rw_now w)) (w'\<lparr>rw_log := rw_log w @ [Presented h (rw_now w)]\<rparr>)
      else set_phase i (Polling h (rw_now w + REFRESH_WAIT_MS)) w')"

text \<open>The answer: the pair is kept for whoever else holds the token, or the lock is released.\<close>

definition refresh_answered :: "nat \<Rightarrow> string \<Rightarrow> graph_answer \<Rightarrow> refresh_world \<Rightarrow> refresh_world" where
  "refresh_answered i h answer w =
     (case refresh_answer answer of
        Inr t \<Rightarrow>
          set_phase i (Got (stringify (pair_json t)))
            (w\<lparr>rw_redis := setRefreshResult (rw_now w) h (stringify (pair_json t)) RESULT_SECONDS (rw_redis w),
               rw_log := rw_log w @ [Accepted h (rw_now w)]\<rparr>)
      | Inl err \<Rightarrow>
          set_phase i (Threw err)
            (w\<lparr>rw_redis := releaseRefreshLock h (rw_redis w), rw_log := rw_log w @ [Failed h (rw_now w)]\<rparr>))"

text \<open>One poll of \<open>waitForRefresh\<close>: losing the race is no refusal.\<close>

definition refresh_poll :: "nat \<Rightarrow> string \<Rightarrow> ms \<Rightarrow> refresh_world \<Rightarrow> refresh_world" where
  "refresh_poll i h deadline w =
     (case read_result h w of
        Some pair \<Rightarrow> set_phase i (Got pair) w
      | None \<Rightarrow>
          if rw_now w < deadline then w
          else set_phase i (Threw (ServiceUnavailable ''Could not refresh the session'')) w)"

text \<open>\<open>POST /auth/refresh\<close>, once the service has answered: the cookie is replaced, cleared or left
  alone.\<close>

definition refresh_response ::
  "cookie_config \<Rightarrow> cookie_request \<Rightarrow> int \<Rightarrow> http_exn + session_tokens \<Rightarrow> cookie_write list" where
  "refresh_response config req ttl outcome =
     (case outcome of
        Inr t \<Rightarrow> [setRefreshCookie config req (st_refreshToken t) ttl]
      | Inl (Unauthorized _) \<Rightarrow> [clearRefreshCookie config req]
      | Inl _ \<Rightarrow> [])"

end
