(* ===== verification/Refresh_Facts.thy ===== *)
theory Refresh_Facts
  imports Refresh
begin

text \<open>
  Any number of callers refreshing at once, with time passing between their awaits: a token is
  presented to the sign-in service a second time only after it was not accepted, or a minute
  after it was.
\<close>

section \<open>Runs\<close>

definition event_hash :: "refresh_event \<Rightarrow> string" where
  "event_hash e = (case e of Presented h _ \<Rightarrow> h | Accepted h _ \<Rightarrow> h | Failed h _ \<Rightarrow> h)"

definition last_about :: "string \<Rightarrow> refresh_event list \<Rightarrow> refresh_event option" where
  "last_about h log = List.find (\<lambda>e. event_hash e = h) (rev log)"

lemma last_about_simps [simp]:
  "last_about h [] = None" "last_about h (log @ [e]) = (if event_hash e = h then Some e else last_about h log)"
  by (simp_all add: last_about_def)

definition busy :: "refresh_phase \<Rightarrow> bool" where
  "busy p = (case p of Missed _ _ \<Rightarrow> True | Asking _ _ \<Rightarrow> True | Polling _ _ \<Rightarrow> True | _ \<Rightarrow> False)"

text \<open>The sign-in service answers within \<open>A\<close> milliseconds, and the lock is tried at most \<open>B\<close> after the
  cache was read.\<close>

definition in_time :: "ms \<Rightarrow> ms \<Rightarrow> ms \<Rightarrow> refresh_phase \<Rightarrow> bool" where
  "in_time A B now p = (case p of Missed _ t \<Rightarrow> now \<le> t + B | Asking _ t \<Rightarrow> now \<le> t + A | _ \<Rightarrow> True)"

inductive refresh_step :: "ms \<Rightarrow> ms \<Rightarrow> refresh_world \<Rightarrow> refresh_world \<Rightarrow> bool" for A B where
  starts: "\<not> busy (rw_callers w i) \<Longrightarrow> refresh_step A B w (refresh_start i h w)"
| locks: "rw_callers w i = Missed h t \<Longrightarrow> refresh_step A B w (refresh_lock i h w)"
| answers: "rw_callers w i = Asking h t \<Longrightarrow> refresh_step A B w (refresh_answered i h answer w)"
| polls: "rw_callers w i = Polling h deadline \<Longrightarrow> refresh_step A B w (refresh_poll i h deadline w)"
| waits: "0 \<le> d \<Longrightarrow> (\<And>i. in_time A B (rw_now w + d) (rw_callers w i)) \<Longrightarrow>
     refresh_step A B w (w\<lparr>rw_now := rw_now w + d\<rparr>)"
| elsewhere: "(\<And>h. r (refreshKey h) = rw_redis w (refreshKey h)) \<Longrightarrow>
     (\<And>h. r (refreshLockKey h) = rw_redis w (refreshLockKey h)) \<Longrightarrow> refresh_step A B w (w\<lparr>rw_redis := r\<rparr>)"

section \<open>The invariant\<close>

text \<open>When may a token be presented, by what was last heard of it?\<close>

definition may_present :: "ms \<Rightarrow> refresh_event option \<Rightarrow> bool" where
  "may_present t e =
     (case e of
        None \<Rightarrow> True
      | Some (Presented _ _) \<Rightarrow> False
      | Some (Accepted _ t') \<Rightarrow> t' + 60000 \<le> t
      | Some (Failed _ _) \<Rightarrow> True)"

definition fair_log :: "refresh_event list \<Rightarrow> bool" where
  "fair_log log = (\<forall>k < length log. \<forall>h t. log ! k = Presented h t \<longrightarrow> may_present t (last_about h (take k log)))"

lemma fair_log_snoc:
  "fair_log (log @ [e]) \<longleftrightarrow> fair_log log \<and> (\<forall>h t. e = Presented h t \<longrightarrow> may_present t (last_about h log))"
  by (auto simp: fair_log_def nth_append less_Suc_eq)

definition hash_ok :: "ms \<Rightarrow> string \<Rightarrow> refresh_world \<Rightarrow> bool" where
  "hash_ok B h w =
     ((\<forall>i t. rw_callers w i = Asking h t \<longrightarrow> last_about h (rw_log w) = Some (Presented h t)) \<and>
      (\<forall>i t. rw_callers w i = Missed h t \<longrightarrow> t \<le> rw_now w) \<and>
      (\<forall>t. last_about h (rw_log w) = Some (Presented h t) \<longrightarrow>
         rw_redis w (refreshLockKey h) = Some (RText ''1'', Some (t + 10000)) \<and> t \<le> rw_now w \<and>
         (\<exists>i. rw_callers w i = Asking h t \<and> (\<forall>j t'. rw_callers w j = Asking h t' \<longrightarrow> j = i))) \<and>
      (\<forall>t. last_about h (rw_log w) = Some (Accepted h t) \<longrightarrow>
         (\<exists>d. rw_redis w (refreshKey h) = Some (RPair d, Some (t + 60000))) \<and>
         (\<forall>i tm. rw_callers w i = Missed h tm \<longrightarrow> t + 60000 \<le> tm \<or>
            (\<exists>v tp. rw_redis w (refreshLockKey h) = Some (v, Some (tp + 10000)) \<and> tm + B < tp + 10000))))"

definition refresh_ok :: "ms \<Rightarrow> ms \<Rightarrow> refresh_world \<Rightarrow> bool" where
  "refresh_ok A B w =
     ((\<forall>h. hash_ok B h w) \<and> (\<forall>i. in_time A B (rw_now w) (rw_callers w i)) \<and> fair_log (rw_log w))"

lemma refresh_keys_apart [simp]:
  "refreshKey a = refreshKey b \<longleftrightarrow> a = b" "refreshLockKey a = refreshLockKey b \<longleftrightarrow> a = b"
  "refreshKey a \<noteq> refreshLockKey b" "refreshLockKey b \<noteq> refreshKey a"
  by (simp_all add: redis_key_defs)

lemma last_about_hash: "last_about h log = Some e \<Longrightarrow> event_hash e = h"
  by (auto simp: last_about_def dest: find_SomeD)

section \<open>Each step keeps it\<close>

lemma hash_ok_same:
  assumes ok: "hash_ok B h w" and "last_about h (rw_log w') = last_about h (rw_log w)" "rw_now w' = rw_now w"
    and "rw_redis w' (refreshKey h) = rw_redis w (refreshKey h)"
    and "rw_redis w' (refreshLockKey h) = rw_redis w (refreshLockKey h)"
    and "\<And>j t. rw_callers w' j = Asking h t \<longleftrightarrow> rw_callers w j = Asking h t"
    and missed: "\<And>j t. rw_callers w' j = Missed h t \<Longrightarrow> rw_callers w j = Missed h t \<or>
      t = rw_now w \<and> (\<forall>t'. last_about h (rw_log w) = Some (Accepted h t') \<longrightarrow> t' + 60000 \<le> t)"
  shows "hash_ok B h w'"
proof -
  have "t \<le> rw_now w" if "rw_callers w' j = Missed h t" for j t
    using missed [OF that] ok by (auto simp: hash_ok_def)
  moreover have "t + 60000 \<le> tm \<or>
      (\<exists>v tp. rw_redis w (refreshLockKey h) = Some (v, Some (tp + 10000)) \<and> tm + B < tp + 10000)"
    if "last_about h (rw_log w) = Some (Accepted h t)" "rw_callers w' j = Missed h tm" for j t tm
    using missed [OF that(2)] that(1) ok unfolding hash_ok_def by blast
  ultimately show ?thesis using ok unfolding hash_ok_def by (simp add: assms(2-6))
qed

lemma ok_start:
  assumes ok: "refresh_ok A B w" and idle: "\<not> busy (rw_callers w i)" and "0 \<le> B"
  shows "refresh_ok A B (refresh_start i h w)"
proof -
  define q where "q = (case read_result h w of Some pair \<Rightarrow> Got pair | None \<Rightarrow> Missed h (rw_now w))"
  have w': "refresh_start i h w = w\<lparr>rw_callers := (rw_callers w)(i := q)\<rparr>"
    by (simp add: refresh_start_def set_phase_def q_def)
  have q: "q \<noteq> Asking x t" "q = Missed x t \<Longrightarrow> x = h \<and> t = rw_now w \<and> read_result h w = None" for x t
    by (auto simp: q_def split: option.splits)
  have old: "rw_callers w i \<noteq> Asking x t" for x t using idle by (auto simp: busy_def)
  have expired: "t' + 60000 \<le> rw_now w"
    if "last_about h (rw_log w) = Some (Accepted h t')" "read_result h w = None" for t'
  proof -
    have "hash_ok B h w" using ok by (simp add: refresh_ok_def)
    with that(1) obtain d where "rw_redis w (refreshKey h) = Some (RPair d, Some (t' + 60000))"
      by (auto simp: hash_ok_def)
    with that(2) show ?thesis by (auto simp: read_result_def getRefreshResult_def r_get_def split: if_splits)
  qed
  have "hash_ok B x (refresh_start i h w)" for x
  proof (rule hash_ok_same)
    show "hash_ok B x w" using ok by (simp add: refresh_ok_def)
    show "rw_callers (refresh_start i h w) j = Missed x t \<Longrightarrow> rw_callers w j = Missed x t \<or>
        t = rw_now w \<and> (\<forall>t'. last_about x (rw_log w) = Some (Accepted x t') \<longrightarrow> t' + 60000 \<le> t)" for j t
      using q(2) expired by (cases "j = i") (auto simp: w')
  qed (use q(1) old in \<open>auto simp: w'\<close>)
  moreover have "in_time A B (rw_now w) q" using assms(3) by (auto simp: q_def in_time_def split: option.split)
  then have "in_time A B (rw_now w) (((rw_callers w)(i := q)) j)" for j
    using ok by (simp add: refresh_ok_def)
  ultimately show ?thesis using ok by (simp add: refresh_ok_def w')
qed

lemma refresh_okD:
  assumes "refresh_ok A B w"
  shows "hash_ok B h w" "in_time A B (rw_now w) (rw_callers w i)" "fair_log (rw_log w)"
  using assms by (simp_all add: refresh_ok_def)

text \<open>A caller that leaves its phase for one that claims nothing.\<close>

lemma ok_set_phase:
  assumes ok: "refresh_ok A B w" and "\<And>h t. rw_callers w i \<noteq> Asking h t"
    and "\<And>h t. p \<noteq> Asking h t" "\<And>h t. p \<noteq> Missed h t"
  shows "refresh_ok A B (set_phase i p w)"
proof -
  have "hash_ok B h (set_phase i p w)" for h
    by (rule hash_ok_same [OF refresh_okD(1) [OF ok]])
      (use assms(2-4) in \<open>auto simp: set_phase_def split: if_splits\<close>)
  moreover have "in_time A B (rw_now w) p"
    using assms(3,4) by (simp add: in_time_def split: refresh_phase.split)
  ultimately show ?thesis using refresh_okD [OF ok] by (simp add: refresh_ok_def set_phase_def)
qed

lemma ok_poll:
  assumes "refresh_ok A B w" "rw_callers w i = Polling h deadline"
  shows "refresh_ok A B (refresh_poll i h deadline w)"
  using assms by (auto simp: refresh_poll_def intro!: ok_set_phase split: option.split)

lemma ok_waits:
  assumes "refresh_ok A B w" "0 \<le> d" "\<And>i. in_time A B (rw_now w + d) (rw_callers w i)"
  shows "refresh_ok A B (w\<lparr>rw_now := rw_now w + d\<rparr>)"
proof -
  have "hash_ok B h (w\<lparr>rw_now := rw_now w + d\<rparr>)" for h
    using refresh_okD(1) [OF assms(1), of h] assms(2) unfolding hash_ok_def by fastforce
  then show ?thesis using assms by (simp add: refresh_ok_def)
qed

lemma ok_elsewhere:
  assumes "refresh_ok A B w" "\<And>h. r (refreshKey h) = rw_redis w (refreshKey h)"
    "\<And>h. r (refreshLockKey h) = rw_redis w (refreshLockKey h)"
  shows "refresh_ok A B (w\<lparr>rw_redis := r\<rparr>)"
proof -
  have "hash_ok B h (w\<lparr>rw_redis := r\<rparr>)" for h
    by (rule hash_ok_same [OF refresh_okD(1) [OF assms(1)]]) (simp_all add: assms(2,3))
  then show ?thesis using assms(1) by (simp add: refresh_ok_def)
qed

lemma asking_facts:
  assumes "refresh_ok A B w" "rw_callers w i = Asking h t"
  shows "last_about h (rw_log w) = Some (Presented h t)" "t \<le> rw_now w" "rw_now w \<le> t + A"
    "rw_redis w (refreshLockKey h) = Some (RText ''1'', Some (t + 10000))"
    "rw_callers w j = Asking h t' \<Longrightarrow> j = i"
proof -
  note h = refresh_okD(1) [OF assms(1), of h]
  from h assms(2) show last: "last_about h (rw_log w) = Some (Presented h t)" unfolding hash_ok_def by blast
  from h last show "t \<le> rw_now w" "rw_redis w (refreshLockKey h) = Some (RText ''1'', Some (t + 10000))"
    unfolding hash_ok_def by blast+
  show "rw_now w \<le> t + A" using refresh_okD(2) [OF assms(1), of i] assms(2) by (simp add: in_time_def)
  from h last obtain k where "\<forall>j t'. rw_callers w j = Asking h t' \<longrightarrow> j = k" unfolding hash_ok_def by blast
  with assms(2) show "rw_callers w j = Asking h t' \<Longrightarrow> j = i" by blast
qed

lemma ok_answered:
  assumes ok: "refresh_ok A B w" and asking: "rw_callers w i = Asking h t" and "A + B < 10000"
  shows "refresh_ok A B (refresh_answered i h answer w)"
proof -
  note facts = asking_facts [OF ok asking]
  let ?w = "refresh_answered i h answer w"
  have other: "hash_ok B x ?w" if "x \<noteq> h" for x
    by (rule hash_ok_same [OF refresh_okD(1) [OF ok]])
      (use that asking in \<open>auto simp: refresh_answered_def set_phase_def event_hash_def setRefreshResult_def
        releaseRefreshLock_def r_set_ex_def r_del_def split: sum.splits if_splits\<close>)
  have missed: "tm \<le> rw_now w" if "rw_callers w j = Missed h tm" for j tm
    using refresh_okD(1) [OF ok, of h] that unfolding hash_ok_def by blast
  have soon: "tm + B < t + 10000" if "rw_callers w j = Missed h tm" for j tm
    using missed [OF that] facts(3) assms(3) by simp
  have "hash_ok B h ?w"
  proof (cases "refresh_answer answer")
    case (Inl err)
    then have w': "?w = w\<lparr>rw_redis := releaseRefreshLock h (rw_redis w), rw_log := rw_log w @ [Failed h (rw_now w)],
        rw_callers := (rw_callers w)(i := Threw err)\<rparr>"
      by (simp add: refresh_answered_def set_phase_def)
    show ?thesis unfolding hash_ok_def w' using facts(5) missed by (auto simp: event_hash_def)
  next
    case (Inr pair)
    then have w': "?w = w\<lparr>rw_redis := setRefreshResult (rw_now w) h (stringify (pair_json pair)) RESULT_SECONDS (rw_redis w),
        rw_log := rw_log w @ [Accepted h (rw_now w)],
        rw_callers := (rw_callers w)(i := Got (stringify (pair_json pair)))\<rparr>"
      by (simp add: refresh_answered_def set_phase_def)
    have "\<exists>v tp. rw_redis w (refreshLockKey h) = Some (v, Some (tp + 10000)) \<and> tm + B < tp + 10000"
      if "rw_callers w j = Missed h tm" for j tm
      using soon [OF that] facts(4) by blast
    then show ?thesis unfolding hash_ok_def w' using facts(5) missed
      by (auto simp: event_hash_def setRefreshResult_def r_set_ex_def RESULT_SECONDS_def)
  qed
  with other have "hash_ok B x ?w" for x by (cases "x = h") auto
  moreover have "in_time A B (rw_now w) (rw_callers ?w j)" "rw_now ?w = rw_now w" for j
    using refresh_okD(2) [OF ok]
    by (auto simp: refresh_answered_def set_phase_def in_time_def split: sum.split)
  moreover have "fair_log (rw_log ?w)" using refresh_okD(3) [OF ok]
    by (auto simp: refresh_answered_def set_phase_def fair_log_snoc split: sum.split)
  ultimately show ?thesis by (simp add: refresh_ok_def)
qed

lemma ok_lock:
  assumes ok: "refresh_ok A B w" and missed: "rw_callers w i = Missed h t" and "A + B < 10000" "0 \<le> A" "0 \<le> B"
  shows "refresh_ok A B (refresh_lock i h w)"
proof (cases "r_get (rw_now w) (refreshLockKey h) (rw_redis w) = None")
  case False
  then have "refresh_lock i h w = set_phase i (Polling h (rw_now w + REFRESH_WAIT_MS)) w"
    by (auto simp: refresh_lock_def takeRefreshLock_def r_set_ex_nx_def)
  then show ?thesis using ok missed by (simp add: ok_set_phase)
next
  case free: True
  let ?lock = "(RText ''1'', Some (rw_now w + 10000))"
  have w': "refresh_lock i h w = w\<lparr>rw_redis := (rw_redis w)(refreshLockKey h \<mapsto> ?lock),
      rw_log := rw_log w @ [Presented h (rw_now w)], rw_callers := (rw_callers w)(i := Asking h (rw_now w))\<rparr>"
    using free by (simp add: refresh_lock_def takeRefreshLock_def r_set_ex_nx_def r_set_ex_def set_phase_def LOCK_SECONDS_def)
  have nobody: "rw_callers w j \<noteq> Asking h t'" for j t'
  proof
    assume "rw_callers w j = Asking h t'"
    from asking_facts(3,4) [OF ok this] free assms(3-5) show False by (auto simp: r_get_def split: if_splits)
  qed
  note hash = refresh_okD(1) [OF ok, of h]
  have now: "rw_now w \<le> t + B" "t \<le> rw_now w"
    using refresh_okD(2) [OF ok, of i] hash missed by (auto simp: in_time_def hash_ok_def)
  have "may_present (rw_now w) (last_about h (rw_log w))"
  proof (cases "last_about h (rw_log w)")
    case (Some e)
    show ?thesis
    proof (cases e)
      case (Presented h' t')
      then have "last_about h (rw_log w) = Some (Presented h t')"
        using Some last_about_hash [OF Some] by (simp add: event_hash_def)
      then have "\<exists>j. rw_callers w j = Asking h t'" using hash unfolding hash_ok_def by blast
      then show ?thesis using nobody by blast
    next
      case (Accepted h' ta)
      then have "last_about h (rw_log w) = Some (Accepted h ta)"
        using Some last_about_hash [OF Some] by (simp add: event_hash_def)
      then have "ta + 60000 \<le> t \<or>
          (\<exists>v tp. rw_redis w (refreshLockKey h) = Some (v, Some (tp + 10000)) \<and> t + B < tp + 10000)"
        using hash missed unfolding hash_ok_def by blast
      then have "ta + 60000 \<le> t" using free now(1) by (auto simp: r_get_def split: if_splits)
      then show ?thesis using Some Accepted now(2) by (simp add: may_present_def)
    qed (simp add: Some may_present_def)
  qed (simp add: may_present_def)
  then have fair: "fair_log (rw_log (refresh_lock i h w))"
    using refresh_okD(3) [OF ok] by (simp add: w' fair_log_snoc)
  have "tm \<le> rw_now w" if "rw_callers w j = Missed h tm" for j tm
    using hash that unfolding hash_ok_def by blast
  then have "hash_ok B h (refresh_lock i h w)"
    unfolding hash_ok_def w' using nobody by (auto simp: event_hash_def)
  moreover have "hash_ok B x (refresh_lock i h w)" if "x \<noteq> h" for x
    by (rule hash_ok_same [OF refresh_okD(1) [OF ok]])
      (use that missed in \<open>auto simp: w' event_hash_def split: if_splits\<close>)
  ultimately have "hash_ok B x (refresh_lock i h w)" for x by (cases "x = h") auto
  moreover have "in_time A B (rw_now w) (Asking h (rw_now w))" using assms(4) by (simp add: in_time_def)
  ultimately show ?thesis using fair refresh_okD(2) [OF ok] by (simp add: refresh_ok_def w')
qed

lemma refresh_ok_step:
  assumes "refresh_step A B w w'" "refresh_ok A B w" "A + B < 10000" "0 \<le> A" "0 \<le> B"
  shows "refresh_ok A B w'"
  using assms(1)
proof (cases rule: refresh_step.cases)
  case (starts i h)
  then show ?thesis using ok_start [OF assms(2) _ assms(5)] by simp
next
  case (locks i h t)
  then show ?thesis using ok_lock [OF assms(2) _ assms(3-5)] by simp
next
  case (answers i h t answer)
  then show ?thesis using ok_answered [OF assms(2) _ assms(3)] by simp
next
  case (polls i h deadline)
  then show ?thesis using ok_poll [OF assms(2)] by simp
next
  case (waits d)
  then show ?thesis using ok_waits [OF assms(2)] by simp
next
  case (elsewhere r)
  then show ?thesis using ok_elsewhere [OF assms(2)] by simp
qed


text \<open>Two tabs at once: the second waits and is handed the first one's pair.\<close>

definition quiet :: refresh_world where
  "quiet = \<lparr>rw_redis = Map.empty, rw_now = 0, rw_callers = (\<lambda>_. Outside), rw_log = []\<rparr>"

definition fresh_pair :: graph_answer where
  "fresh_pair = GraphOk (Some (JObj [(''data'', JObj [(''accessToken'', JStr ''a''), (''refreshToken'', JStr ''r''),
     (''expiresIn'', JNum 600)])]))"

definition two_tabs :: refresh_world where
  "two_tabs = refresh_poll 2 ''h'' 2000 (refresh_answered 1 ''h'' fresh_pair (refresh_lock 2 ''h'' (refresh_lock 1 ''h''
     (refresh_start 2 ''h'' (refresh_start 1 ''h'' quiet)))))"


end
