(* ===== verification/Agency.thy ===== *)
theory Agency
  imports Sign_In Agency_Billing Plan_Limits
begin

text \<open>
  \<open>src/agency/agency.service.ts\<close>: agencies and the organisations they pay for. Who converted
  an organisation and when, and when a row was made, are columns the model does not keep: the
  rows of a table are in the order they were made.
\<close>

section \<open>The first of the month\<close>

definition startOfMonth :: "ms \<Rightarrow> ms" where
  "startOfMonth now =
     (let d = now div ms_per_day; y = year_from_day d in
      (DayFromYear y + month_start (in_leap_year y) (month_from_day d)) * ms_per_day)"

section \<open>What the roster shows\<close>

record client_summary =
  cs_ssoOrgId :: org
  cs_name :: string
  cs_wabas :: nat
  cs_phoneNumbers :: nat
  cs_contacts :: nat
  cs_messagesThisMonth :: nat
  cs_planCode :: "string option"
  cs_planName :: "string option"
  cs_status :: "sub_status option"

definition owned_wabas :: "org \<Rightarrow> world \<Rightarrow> string list" where
  "owned_wabas ssoOrgId w = map wo_wabaId (filter (\<lambda>r. wo_org r = ssoOrgId) (w_wabaOrgs w))"

definition numbers_of :: "string \<Rightarrow> world \<Rightarrow> nat" where
  "numbers_of wabaId w = count_rows (\<lambda>n. pn_wabaId n = wabaId) (w_numbers w)"

text \<open>One row of the roster; the name may be looked up, which fills the cache.\<close>

definition summarise_one :: "menv \<Rightarrow> mworld \<Rightarrow> org \<times> string option \<Rightarrow> world \<Rightarrow> client_summary \<times> world" where
  "summarise_one v m row c =
     (let (i, label) = row; core = m_core m; owned = owned_wabas i core;
          sub = org_subscription i core;
          plan = Option.bind sub (plan_of_sub (w_plans core));
          (named, c') = (if label = None then org_name (core_env v m) (Some i) c else (label, c))
      in (\<lparr>cs_ssoOrgId = i, cs_name = nullish_def_val named ''Client'', cs_wabas = length owned,
           cs_phoneNumbers = sum_list (map (\<lambda>a. numbers_of a core) owned),
           cs_contacts = count_rows (\<lambda>r. ct_org r = i) (w_contacts core),
           cs_messagesThisMonth =
             count_rows (\<lambda>g. mg_org g = i \<and> startOfMonth (mnow m) \<le> mg_createdAt g) (m_messages m),
           cs_planCode = map_option pl_code plan, cs_planName = map_option pl_name plan,
           cs_status = map_option sub_status sub\<rparr>, c'))"

fun summarise_from ::
  "menv \<Rightarrow> mworld \<Rightarrow> (org \<times> string option) list \<Rightarrow> world \<Rightarrow> client_summary list \<times> world" where
  "summarise_from v m [] c = ([], c)"
| "summarise_from v m (row # rows) c =
     (let (s, c1) = summarise_one v m row c; (rest, c2) = summarise_from v m rows c1 in (s # rest, c2))"

definition summarise :: "menv \<Rightarrow> (org \<times> string option) list \<Rightarrow> (mworld, client_summary list) svc" where
  "summarise v rows m = (let (s, c) = summarise_from v m rows (m_core m) in (Inr s, m\<lparr>m_core := c\<rparr>))"

section \<open>Who is an agency and whose client\<close>

definition settings_of :: "mworld \<Rightarrow> org_settings list" where
  "settings_of m = w_settings (m_core m)"

definition write_settings :: "(org_settings list \<Rightarrow> org_settings list) \<Rightarrow> (mworld, unit) svc" where
  "write_settings f = modE (\<lambda>m. m\<lparr>m_core := (m_core m)\<lparr>w_settings := f (settings_of m)\<rparr>\<rparr>)"

definition assertAgency :: "org \<Rightarrow> (mworld, unit) svc" where
  "assertAgency ssoOrgId =
     bindE (getE (\<lambda>m. ov_isAgency (settings_get (settings_of m) ssoOrgId))) (\<lambda>agency.
       refuse_if (\<not> agency) (Forbidden ''This organisation does not manage clients''))"

definition agency_convert :: "org \<Rightarrow> bool \<Rightarrow> (mworld, org \<times> bool) svc" where
  "agency_convert ssoOrgId isAgency =
     bindE (getE (\<lambda>m. settings_get (settings_of m) ssoOrgId)) (\<lambda>current.
     thenE (refuse_if (isAgency \<and> truthy (ov_agencyOrgId current))
       (BadRequest ''This organisation is a client of another agency. Detach it first.''))
    (bindE (getE (\<lambda>m. clientsOf (settings_of m) ssoOrgId)) (\<lambda>clients.
     thenE (refuse_if (\<not> isAgency \<and> clients \<noteq> [])
       (BadRequest (''This agency still has '' @ nat_str (length clients) @ '' client'' @
          (if length clients = 1 then '''' else ''s'') @ ''. Detach them before demoting it.'')))
    (thenE (write_settings (upsert_settings ssoOrgId
       (\<lambda>r. r\<lparr>os_isAgency := isAgency\<rparr>)
       (\<lambda>r. r\<lparr>os_isAgency := isAgency, os_payerVersion := os_payerVersion r + 1\<rparr>)))
     (retE (ssoOrgId, isAgency))))))"

text \<open>A place on the roster.\<close>

definition assert_place :: "menv \<Rightarrow> org \<Rightarrow> (mworld, unit) svc" where
  "assert_place v agencyOrgId m =
     (let w = m_core m; lims = limits_forOrg w agencyOrgId;
          held = count_rows (\<lambda>r. os_agencyOrgId r = Some agencyOrgId) (w_settings w)
      in in_core (assertWithin (core_env v m) lims (el_includedClients lims) (int held) ''client''
           (Some IncludedClients)) m)"

definition attachClient :: "menv \<Rightarrow> org \<Rightarrow> org \<Rightarrow> string option \<Rightarrow> (mworld, client_summary) svc" where
  "attachClient v agencyOrgId ssoOrgId clientName =
     thenE (refuse_if (agencyOrgId = ssoOrgId) (BadRequest ''An organisation cannot be its own client.''))
    (bindE (getE (\<lambda>m. settings_get (settings_of m) agencyOrgId)) (\<lambda>agency.
     thenE (refuse_if (\<not> ov_isAgency agency) (BadRequest (agencyOrgId @ '' is not an agency.'')))
    (bindE (getE (\<lambda>m. settings_get (settings_of m) ssoOrgId)) (\<lambda>client.
     thenE (refuse_if (ov_isAgency client) (BadRequest ''An agency cannot be taken on as a client. Demote it first.''))
    (thenE (refuse_if (truthy (ov_agencyOrgId client) \<and> ov_agencyOrgId client \<noteq> Some agencyOrgId)
       (BadRequest ''This organisation already belongs to another agency. Detach it first.''))
    (thenE (if ov_agencyOrgId client \<noteq> Some agencyOrgId then assert_place v agencyOrgId else retE ())
    (let name = nullish clientName (ov_clientName client) in
     thenE (write_settings (upsert_settings ssoOrgId
       (\<lambda>r. r\<lparr>os_agencyOrgId := Some agencyOrgId, os_clientName := clientName\<rparr>)
       (\<lambda>r. r\<lparr>os_agencyOrgId := Some agencyOrgId, os_clientName := name, os_payerVersion := os_payerVersion r + 1\<rparr>)))
    (bindE (summarise v [(ssoOrgId, name)]) (\<lambda>summaries. retE (hd summaries))))))))))"

record client_subscribed =
  csb_ssoOrgId :: org
  csb_name :: string
  csb_planCode :: string
  csb_planName :: string
  csb_status :: sub_status
  csb_currentEnd :: "ms option"
  csb_authorisation :: "(string \<times> string option) option"

definition subscribe_in :: "menv \<Rightarrow> org \<Rightarrow> org \<Rightarrow> string \<Rightarrow> nat \<Rightarrow> (mworld, client_result) svc" where
  "subscribe_in v agencyOrgId ssoOrgId planCode userId m =
     in_core (subscribeClient (core_env v m) agencyOrgId ssoOrgId planCode userId) m"

definition createClient ::
  "menv \<Rightarrow> auth_env \<Rightarrow> org \<Rightarrow> string \<Rightarrow> string \<Rightarrow> nat \<Rightarrow> string \<Rightarrow> (mworld, client_subscribed) svc" where
  "createClient v x agencyOrgId name planCode userId ssoAccessToken =
     thenE (assertAgency agencyOrgId)
    (thenE (assert_place v agencyOrgId)
    (bindE (createOrganization x ssoAccessToken name) (\<lambda>created.
     thenE (write_settings (upsert_settings (fst created)
       (\<lambda>r. r\<lparr>os_agencyOrgId := Some agencyOrgId, os_clientName := Some name\<rparr>)
       (\<lambda>r. r\<lparr>os_agencyOrgId := Some agencyOrgId, os_clientName := Some name, os_payerVersion := os_payerVersion r + 1\<rparr>)))
    (bindE (subscribe_in v agencyOrgId (fst created) planCode userId) (\<lambda>s.
     retE \<lparr>csb_ssoOrgId = fst created, csb_name = name, csb_planCode = cr_planCode s,
           csb_planName = cr_planName s, csb_status = cr_status s, csb_currentEnd = cr_currentEnd s,
           csb_authorisation = cr_authorisation s\<rparr>)))))"

text \<open>Whatever \<open>releaseClient\<close> throws is logged.\<close>

definition release_in :: "menv \<Rightarrow> org \<Rightarrow> org \<Rightarrow> (mworld, unit) svc" where
  "release_in v agencyOrgId ssoOrgId m = in_core (releaseClient (core_env v m) agencyOrgId ssoOrgId) m"

definition own_client :: "org \<Rightarrow> org \<Rightarrow> (mworld, unit) svc" where
  "own_client agencyOrgId ssoOrgId =
     bindE (getE (\<lambda>m. ov_agencyOrgId (settings_get (settings_of m) ssoOrgId))) (\<lambda>of_agency.
       refuse_if (of_agency \<noteq> Some agencyOrgId) (NotFound (ssoOrgId @ '' is not a client of '' @ agencyOrgId)))"

definition detachClient :: "menv \<Rightarrow> org \<Rightarrow> org \<Rightarrow> (mworld, unit) svc" where
  "detachClient v agencyOrgId ssoOrgId =
     thenE (own_client agencyOrgId ssoOrgId)
    (thenE (catchE (release_in v agencyOrgId ssoOrgId) (\<lambda>_. retE ()))
       (write_settings (update_rows (\<lambda>r. os_org r = ssoOrgId)
          (\<lambda>r. r\<lparr>os_agencyOrgId := None, os_payerVersion := os_payerVersion r + 1\<rparr>))))"

definition renameClient :: "org \<Rightarrow> org \<Rightarrow> string \<Rightarrow> (mworld, org \<times> string) svc" where
  "renameClient agencyOrgId ssoOrgId clientName =
     thenE (own_client agencyOrgId ssoOrgId)
    (thenE (write_settings (update_rows (\<lambda>r. os_org r = ssoOrgId) (\<lambda>r. r\<lparr>os_clientName := Some clientName\<rparr>)))
       (retE (ssoOrgId, clientName)))"

section \<open>Reading\<close>

record roster_dto =
  ar_clients :: "client_summary list"
  ar_wabas :: nat
  ar_phoneNumbers :: nat
  ar_includedClients :: "int option"
  ar_includedWabas :: "int option"
  ar_planName :: "string option"

definition agency_roster :: "menv \<Rightarrow> org \<Rightarrow> (mworld, roster_dto) svc" where
  "agency_roster v agencyOrgId =
     thenE (assertAgency agencyOrgId)
    (bindE (getE (\<lambda>m. clientRoster (settings_of m) agencyOrgId)) (\<lambda>rows.
     bindE (summarise v rows) (\<lambda>clients.
     bindE (getE (\<lambda>m. limits_forOrg (m_core m) agencyOrgId)) (\<lambda>lims.
     retE \<lparr>ar_clients = clients, ar_wabas = sum_list (map cs_wabas clients),
           ar_phoneNumbers = sum_list (map cs_phoneNumbers clients),
           ar_includedClients = el_includedClients lims, ar_includedWabas = el_includedWabas lims,
           ar_planName = el_planName lims\<rparr>))))"

record agency_mandate =
  am_planCode :: "string option"
  am_planName :: "string option"
  am_clients :: int
  am_pricePerClient :: "paise option"
  am_monthly :: "paise option"
  am_currency :: "string option"
  am_status :: sub_status
  am_currentEnd :: "ms option"
  am_cancelAtCycleEnd :: bool
  am_authorisationUrl :: "string option"

definition mandate_of :: "billing_group \<times> plan_row option \<Rightarrow> agency_mandate" where
  "mandate_of gp =
     (let (g, plan) = gp; price = Option.bind plan pl_price in
      \<lparr>am_planCode = map_option pl_code plan, am_planName = map_option pl_name plan, am_clients = bg_quantity g,
       am_pricePerClient = price, am_monthly = map_option (\<lambda>p. p * bg_quantity g) price,
       am_currency = map_option pl_currency plan, am_status = bg_status g, am_currentEnd = bg_currentEnd g,
       am_cancelAtCycleEnd = bg_cancelAtCycleEnd g,
       am_authorisationUrl = (if bg_status g = Created then bg_shortUrl g else None)\<rparr>)"

definition agency_mandates :: "org \<Rightarrow> (mworld, agency_mandate list) svc" where
  "agency_mandates agencyOrgId =
     thenE (assertAgency agencyOrgId) (getE (\<lambda>m. map mandate_of (groupsFor agencyOrgId (m_core m))))"

definition agency_invoices :: "org \<Rightarrow> (mworld, invoice_dto list) svc" where
  "agency_invoices agencyOrgId =
     thenE (assertAgency agencyOrgId) (getE (\<lambda>m.
       map invoice_toDto (invoices_listForAgency agencyOrgId (clientsOf (settings_of m) agencyOrgId) 120 (m_core m))))"

definition agency_invoice :: "org \<Rightarrow> string \<Rightarrow> (mworld, invoice_row) svc" where
  "agency_invoice agencyOrgId number =
     thenE (assertAgency agencyOrgId)
    (thenE (refuse_if (\<not> isInvoiceNumber number) (NotFound (''No invoice '' @ number)))
    (bindE (getE (\<lambda>m. invoice_findAddressedTo (agencyOrgId # clientsOf (settings_of m) agencyOrgId) number (m_core m)))
       (\<lambda>found. case found of None \<Rightarrow> throwE (NotFound (''No invoice '' @ number)) | Some i \<Rightarrow> retE i)))"

end
