(* ===== verification/Agency_Facts.thy ===== *)
theory Agency_Facts
  imports Agency Sign_In_Facts Billing_Rules
begin

text \<open>
  Agencies are one level deep: whatever converts, attachments, creations, detachments and
  renames there have been, who pays for an organisation is a lookup and not a walk, and the
  organisations one mandate answers for are a class of their own. The lemmas follow the two
  columns that say so (\<open>agencyOrgId\<close>, \<open>isAgency\<close>) through every operation, the subscription
  and the release that the billing side does included.
\<close>

section \<open>Who belongs to whom\<close>

definition tie :: "org_settings list \<Rightarrow> org \<Rightarrow> org option \<times> bool" where
  "tie rows x = (ov_agencyOrgId (settings_get rows x), ov_isAgency (settings_get rows x))"

definition one_level :: "(org \<Rightarrow> org option \<times> bool) \<Rightarrow> bool" where
  "one_level T =
     (\<forall>x. (snd (T x) \<longrightarrow> x \<noteq> []) \<and> (\<forall>a. fst (T x) = Some a \<longrightarrow> \<not> snd (T x) \<and> T a = (None, True)))"

lemma settings_row_mem:
  "settings_key_ok rows \<Longrightarrow> r \<in> set rows \<Longrightarrow> settings_row rows (os_org r) = Some r"
  by (induction rows) (auto simp: settings_key_ok_def settings_row_def)

lemma settings_row_SomeD: "settings_row rows x = Some r \<Longrightarrow> r \<in> set rows \<and> os_org r = x"
  unfolding settings_row_def by (auto dest: find_SomeD)

lemma tie_row: "tie rows x =
    (case settings_row rows x of None \<Rightarrow> (None, False) | Some r \<Rightarrow> (os_agencyOrgId r, os_isAgency r))"
  by (simp add: tie_def settings_get_def DEFAULTS_def split: option.splits)

definition row_placed :: "org_settings list \<Rightarrow> org_settings \<Rightarrow> bool" where
  "row_placed rows r =
     ((os_isAgency r \<longrightarrow> os_org r \<noteq> []) \<and>
      (case os_agencyOrgId r of None \<Rightarrow> True | Some a \<Rightarrow> \<not> os_isAgency r \<and> tie rows a = (None, True)))"

definition agency_tree :: "org_settings list \<Rightarrow> bool" where
  "agency_tree rows = (settings_key_ok rows \<and> (\<forall>r \<in> set rows. row_placed rows r))"

lemma row_placed_iff:
  "tie rows (os_org r) = (os_agencyOrgId r, os_isAgency r) \<Longrightarrow>
   row_placed rows r \<longleftrightarrow> (snd (tie rows (os_org r)) \<longrightarrow> os_org r \<noteq> []) \<and>
     (\<forall>a. fst (tie rows (os_org r)) = Some a \<longrightarrow> \<not> snd (tie rows (os_org r)) \<and> tie rows a = (None, True))"
  by (simp add: row_placed_def split: option.split)

lemma one_level_rows:
  assumes "settings_key_ok rows"
  shows "one_level (tie rows) \<longleftrightarrow> (\<forall>r \<in> set rows. row_placed rows r)"
proof
  assume l: "one_level (tie rows)"
  show "\<forall>r \<in> set rows. row_placed rows r"
  proof
    fix r
    assume "r \<in> set rows"
    then have "settings_row rows (os_org r) = Some r" using assms by (rule settings_row_mem [rotated])
    then have "tie rows (os_org r) = (os_agencyOrgId r, os_isAgency r)" by (simp add: tie_row)
    then show "row_placed rows r" using l row_placed_iff unfolding one_level_def by blast
  qed
next
  assume r: "\<forall>r \<in> set rows. row_placed rows r"
  have "(snd (tie rows x) \<longrightarrow> x \<noteq> []) \<and>
      (\<forall>a. fst (tie rows x) = Some a \<longrightarrow> \<not> snd (tie rows x) \<and> tie rows a = (None, True))" for x
  proof (cases "settings_row rows x")
    case None
    then show ?thesis by (simp add: tie_row)
  next
    case (Some q)
    then have "tie rows x = (os_agencyOrgId q, os_isAgency q)" "os_org q = x" "q \<in> set rows"
      using settings_row_SomeD by (simp_all add: tie_row)
    with r row_placed_iff [of rows q] show ?thesis by auto
  qed
  then show "one_level (tie rows)" unfolding one_level_def by blast
qed

lemma agency_tree_iff: "agency_tree rows \<longleftrightarrow> settings_key_ok rows \<and> one_level (tie rows)"
  by (auto simp: agency_tree_def one_level_rows)

lemma clientsOf_iff:
  "settings_key_ok rows \<Longrightarrow> x \<in> set (clientsOf rows a) \<longleftrightarrow> fst (tie rows x) = Some a"
proof
  assume k: "settings_key_ok rows" and "x \<in> set (clientsOf rows a)"
  then obtain r where "r \<in> set rows" "os_agencyOrgId r = Some a" "os_org r = x" by (auto simp: clientsOf_def)
  with settings_row_mem [OF k] show "fst (tie rows x) = Some a" by (auto simp: tie_row)
next
  assume "fst (tie rows x) = Some a"
  then show "x \<in> set (clientsOf rows a)"
    by (force simp: tie_row clientsOf_def split: option.splits dest: settings_row_SomeD)
qed

lemma tie_upsert:
  assumes "\<And>r. os_org (create r) = os_org r" "\<And>r. os_org (upd r) = os_org r"
  shows "tie (upsert_settings k create upd rows) =
     (tie rows)(k := (let r = case settings_row rows k of None \<Rightarrow> create (blank_settings k) | Some r \<Rightarrow> upd r
                      in (os_agencyOrgId r, os_isAgency r)))"
  by (rule ext) (simp add: tie_row settings_row_upsert [OF assms] Let_def)

lemma tie_update:
  assumes "\<And>r. os_org (upd r) = os_org r"
  shows "tie (update_rows (\<lambda>r. os_org r = k) upd rows) =
     (tie rows)(k := (case settings_row rows k of None \<Rightarrow> (None, False)
                      | Some r \<Rightarrow> (os_agencyOrgId (upd r), os_isAgency (upd r))))"
proof
  fix x
  have "settings_row (update_rows (\<lambda>r. os_org r = k) upd rows) x =
      map_option (\<lambda>r. if os_org r = k then upd r else r) (settings_row rows x)"
    unfolding settings_row_def by (rule find_update_rows) (simp add: assms)
  then show "tie (update_rows (\<lambda>r. os_org r = k) upd rows) x = ((tie rows)(k :=
      (case settings_row rows k of None \<Rightarrow> (None, False) | Some r \<Rightarrow> (os_agencyOrgId (upd r), os_isAgency (upd r))))) x"
    by (auto simp: tie_row dest: settings_row_SomeD split: option.splits)
qed

lemma settings_key_update:
  "settings_key_ok rows \<Longrightarrow> (\<And>r. os_org (upd r) = os_org r) \<Longrightarrow>
   settings_key_ok (update_rows p upd rows)"
  by (simp add: settings_key_ok_def map_key_update_rows)

section \<open>What the billing side does to the settings\<close>

definition ties_are :: "(org \<Rightarrow> org option \<times> bool) \<Rightarrow> world \<Rightarrow> bool" where
  "ties_are T w = (settings_key_ok (w_settings w) \<and> tie (w_settings w) = T)"

lemma tie_bump: "tie (bumpPayerVersion False x rows) = tie rows"
  by (rule ext) (simp add: tie_def settings_get_bump)

lemma ties_bump [simp]:
  "ties_are T w \<Longrightarrow> ties_are T (invalidatePayer e x w)"
  by (cases "e_db_raises e bump_label")
    (simp_all add: ties_are_def invalidatePayer_def tie_bump bumpPayerVersion_def [of True],
     simp add: bumpPayerVersion_def settings_key_upsert)

lemma keeps_ties_same: "(\<And>w. w_settings (snd (m w)) = w_settings w) \<Longrightarrow> keeps (ties_are T) m"
  by (simp add: keeps_def ties_are_def)

lemma ties_asked: "asked_only w w' \<Longrightarrow> w_settings w' = w_settings w"
  by (simp add: asked_only_eq)

lemma keeps_ties [keeps_intros]:
  "keeps (ties_are T) (write_subs f)" "keeps (ties_are T) (write_groups g)"
  "keeps (ties_are T) (insert_sub row)" "keeps (ties_are T) (insert_group grp)"
  "keeps (ties_are T) (update_group i h)" "keeps (ties_are T) (sellableToAgency p a)"
  "keeps (ties_are T) (as_status t)"
  by (rule keeps_ties_same,
      simp add: write_subs_def write_groups_def update_group_def insert_sub_def insert_group_def
        sellableToAgency_def as_status_def Let_def split: option.splits)+

lemma keeps_ties_asks [keeps_intros]:
  "keeps (ties_are T) (createCustomer e n m ns)" "keeps (ties_are T) (createSubscription e c p st q ns)"
  "keeps (ties_are T) (cancelSubscription e s b)" "keeps (ties_are T) (safely (setSubscriptionQuantity e s k b))"
  by (rule keeps_ties_same, rule ties_asked, (unfold snd_safely)?, rule Razorpay.asks)+

lemma keeps_ties_safely [keeps_intros]:
  "keeps (ties_are T) m \<Longrightarrow> keeps (ties_are T) (safely (\<lambda>w. ((), snd (m w))))"
  by (simp add: keeps_def)

lemma keeps_ties_customer [keeps_intros]: "keeps (ties_are T) (customerFor e a u)"
  by (rule keeps_ties_same, rule ties_asked) (simp add: customerFor_def Let_def Razorpay.asks)

lemma keeps_ties_replace [keeps_intros]: "keeps (ties_are T) (replaceUnauthorised e g p u)"
  unfolding replaceUnauthorised_def Let_def by (intro keeps_intros)

lemma keeps_ties_group [keeps_intros]: "keeps (ties_are T) (groupFor e a p u)"
  unfolding groupFor_def Let_def by (intro keeps_intros)

lemma keeps_ties_subscribe: "keeps (ties_are T) (subscribeClient e a x p u)"
  unfolding subscribeClient_def by (intro keeps_intros) simp_all

lemma keeps_ties_release: "keeps (ties_are T) (releaseClient e a x)"
  unfolding releaseClient_def Let_def by (intro keeps_intros) simp_all

section \<open>The agency's own operations\<close>

definition tied :: "(org \<Rightarrow> org option \<times> bool) \<Rightarrow> mworld \<Rightarrow> bool" where
  "tied T m = ties_are T (m_core m)"

definition placed :: "mworld \<Rightarrow> bool" where
  "placed m = (\<exists>T. one_level T \<and> tied T m)"

lemma placed_iff: "placed m \<longleftrightarrow> agency_tree (settings_of m)"
  by (auto simp: placed_def tied_def ties_are_def agency_tree_iff settings_of_def)

lemma keeps_tied_core: "keeps (ties_are T) f \<Longrightarrow> keeps (tied T) (in_core f)"
  by (simp add: keeps_def tied_def in_core_def case_prod_beta)

lemma keeps_same_core: "(\<And>m. settings_of (snd (f m)) = settings_of m) \<Longrightarrow> keeps (tied T) f"
  by (simp add: keeps_def tied_def ties_are_def settings_of_def)

lemma keeps_assertAgency [keeps_intros]: "keeps (tied T) (assertAgency a)"
  unfolding assertAgency_def by (intro keeps_intros)

lemma keeps_assert_place [keeps_intros]: "keeps (tied T) (assert_place v a)"
  by (rule keeps_same_core)
    (simp add: assert_place_def in_core_def assertWithin_def settings_of_def Let_def case_prod_beta split: option.splits)

lemma settings_summarise_one: "w_settings (snd (summarise_one v m row c)) = w_settings c"
  using cached_only_org_name [of c "core_env v m" "Some (fst row)"]
  by (auto simp: summarise_one_def Let_def case_prod_beta cached_only_def)

lemma settings_summarise_from: "w_settings (snd (summarise_from v m rows c)) = w_settings c"
  by (induction rows arbitrary: c) (simp_all add: Let_def case_prod_beta settings_summarise_one)

lemma keeps_summarise [keeps_intros]: "keeps (tied T) (summarise v rows)"
  by (rule keeps_same_core) (simp add: summarise_def settings_of_def case_prod_beta settings_summarise_from)

lemma keeps_subscribe_in [keeps_intros]: "keeps (tied T) (subscribe_in v a x p u)"
  unfolding subscribe_in_def using keeps_tied_core [OF keeps_ties_subscribe] by (simp add: keeps_def)

lemma keeps_release_in [keeps_intros]: "keeps (tied T) (release_in v a x)"
  unfolding release_in_def using keeps_tied_core [OF keeps_ties_release] by (simp add: keeps_def)

text \<open>How a method that reads who belongs to whom, refuses, and writes once is followed.\<close>

definition places :: "(org \<Rightarrow> org option \<times> bool) \<Rightarrow> (mworld, 'a) svc \<Rightarrow> bool" where
  "places T f = (\<forall>m. tied T m \<longrightarrow> placed (snd (f m)))"

lemma placedI: "one_level T \<Longrightarrow> tied T m \<Longrightarrow> placed m"
  by (auto simp: placed_def)

lemma places_kept: "keeps (tied T) f \<Longrightarrow> one_level T \<Longrightarrow> places T f"
  by (auto simp: keeps_def places_def intro: placedI)

lemma places_bind_out:
  assumes "keeps (tied T) f" "one_level T" "\<And>m x. tied T m \<Longrightarrow> fst (f m) = Inr x \<Longrightarrow> places T (g x)"
  shows "places T (bindE f g)"
  unfolding places_def
proof (intro allI impI)
  fix m
  assume m: "tied T m"
  with assms(1) have "tied T (snd (f m))" by (simp add: keeps_def)
  with assms(3) [OF m] placedI [OF assms(2)] show "placed (snd (bindE f g m))"
    by (cases "f m"; cases "fst (f m)") (simp_all add: bindE_def places_def)
qed

lemma places_bind:
  "keeps (tied T) f \<Longrightarrow> one_level T \<Longrightarrow> (\<And>x. places T (g x)) \<Longrightarrow> places T (bindE f g)"
  by (rule places_bind_out)

lemma places_then:
  "keeps (tied T) f \<Longrightarrow> one_level T \<Longrightarrow> places T g \<Longrightarrow> places T (thenE f g)"
  unfolding thenE_def by (rule places_bind)

lemma places_refuse:
  "one_level T \<Longrightarrow> (\<not> c \<Longrightarrow> places T g) \<Longrightarrow> places T (thenE (refuse_if c e) g)"
  using placedI by (cases c) (simp_all add: places_def thenE_def bindE_def)

lemma places_read:
  "(\<And>m. tied T m \<Longrightarrow> places T (g (h m))) \<Longrightarrow> places T (bindE (getE h) g)"
  by (simp add: places_def bindE_def)

lemma tied_get:
  "tied T m \<Longrightarrow> ov_agencyOrgId (settings_get (settings_of m) a) = fst (T a) \<and>
     ov_isAgency (settings_get (settings_of m) a) = snd (T a)"
  by (auto simp: tied_def ties_are_def tie_def settings_of_def)

lemma tied_clients: "tied T m \<Longrightarrow> clientsOf (settings_of m) a = [] \<longleftrightarrow> (\<forall>y. fst (T y) \<noteq> Some a)"
  using clientsOf_iff [of "settings_of m" _ a]
  by (auto simp: tied_def ties_are_def settings_of_def) (metis list.set_intros(1) neq_Nil_conv)

lemma tied_row: "tied T m \<Longrightarrow> settings_row (settings_of m) a = Some r \<Longrightarrow>
    T a = (os_agencyOrgId r, os_isAgency r)"
  by (auto simp: tied_def ties_are_def tie_row settings_of_def)

lemma places_agency:
  assumes "one_level T" "snd (T a) \<Longrightarrow> places T g"
  shows "places T (thenE (assertAgency a) g)"
  unfolding places_def
proof (intro allI impI)
  fix m
  assume m: "tied T m"
  show "placed (snd (thenE (assertAgency a) g m))"
    using tied_get [OF m, of a] assms(2) m placedI [OF assms(1) m]
    by (cases "snd (T a)") (simp_all add: assertAgency_def thenE_def bindE_def places_def)
qed

lemma places_write:
  assumes "\<And>m. tied T m \<Longrightarrow> settings_key_ok (f (settings_of m)) \<and> tie (f (settings_of m)) = T'" "places T' g"
  shows "places T (thenE (write_settings f) g)"
  using assms by (simp add: places_def thenE_def bindE_def write_settings_def tied_def ties_are_def)

lemma tied_upsert:
  assumes "tied T m" "\<And>r. os_org (create r) = os_org r" "\<And>r. os_org (upd r) = os_org r"
    and "settings_row (settings_of m) x = None \<Longrightarrow>
      (os_agencyOrgId (create (blank_settings x)), os_isAgency (create (blank_settings x))) = t"
    and "\<And>r. T x = (os_agencyOrgId r, os_isAgency r) \<Longrightarrow> (os_agencyOrgId (upd r), os_isAgency (upd r)) = t"
  shows "settings_key_ok (upsert_settings x create upd (settings_of m)) \<and>
    tie (upsert_settings x create upd (settings_of m)) = T(x := t)"
proof
  have T: "settings_key_ok (settings_of m)" "tie (settings_of m) = T"
    using assms(1) by (auto simp: tied_def ties_are_def settings_of_def)
  show "settings_key_ok (upsert_settings x create upd (settings_of m))"
    using T(1) assms(2,3) by (rule settings_key_upsert)
  show "tie (upsert_settings x create upd (settings_of m)) = T(x := t)"
    using assms(4,5) tied_row [OF assms(1), of x]
    by (simp add: tie_upsert [OF assms(2,3)] T(2) Let_def split: option.split)
qed

lemma tied_update:
  assumes "tied T m" "\<And>r. os_org (upd r) = os_org r"
    and "\<And>r. T x = (os_agencyOrgId r, os_isAgency r) \<Longrightarrow> (os_agencyOrgId (upd r), os_isAgency (upd r)) = t"
    and "settings_row (settings_of m) x = None \<Longrightarrow> t = (None, False)"
  shows "settings_key_ok (update_rows (\<lambda>r. os_org r = x) upd (settings_of m)) \<and>
    tie (update_rows (\<lambda>r. os_org r = x) upd (settings_of m)) = T(x := t)"
proof
  have T: "settings_key_ok (settings_of m)" "tie (settings_of m) = T"
    using assms(1) by (auto simp: tied_def ties_are_def settings_of_def)
  show "settings_key_ok (update_rows (\<lambda>r. os_org r = x) upd (settings_of m))"
    using T(1) assms(2) by (rule settings_key_update)
  show "tie (update_rows (\<lambda>r. os_org r = x) upd (settings_of m)) = T(x := t)"
    using assms(3,4) tied_row [OF assms(1), of x]
    by (simp add: tie_update [OF assms(2)] T(2) split: option.split)
qed

lemma one_level_status:
  assumes "one_level T" "x \<noteq> []" "b \<longrightarrow> \<not> truthy (fst (T x))" "b \<or> (\<forall>y. fst (T y) \<noteq> Some x)"
  shows "one_level (T(x := (fst (T x), b)))"
proof -
  have "fst (T x) = None" if b
    using that assms(1,3) by (cases "fst (T x)") (auto simp: one_level_def truthy_def)
  with assms show ?thesis unfolding one_level_def by (auto split: if_splits)
qed

lemma one_level_attach:
  assumes "one_level T" "a \<noteq> x" "snd (T a)" "\<not> snd (T x)"
  shows "one_level (T(x := (Some a, False)))"
proof -
  have "fst (T y) \<noteq> Some x" for y using assms(1,4) by (auto simp: one_level_def)
  moreover have "fst (T a) = None"
    using assms(1,3) unfolding one_level_def by (metis not_None_eq)
  then have "T a = (None, True)" using assms(3) by (simp add: prod_eq_iff)
  ultimately show ?thesis using assms(1,2) by (auto simp: one_level_def)
qed

lemma one_level_detach:
  assumes "one_level T" "fst (T x) = Some a"
  shows "one_level (T(x := (None, False)))"
proof -
  have "fst (T y) \<noteq> Some x" for y using assms by (force simp: one_level_def)
  then show ?thesis using assms(1) by (auto simp: one_level_def)
qed

lemma places_convert:
  assumes "one_level T" "x \<noteq> []"
  shows "places T (agency_convert x b)"
  unfolding agency_convert_def
proof (intro places_read places_refuse assms(1))
  fix m m'
  assume m: "tied T m" and m': "tied T m'"
    and client: "\<not> (b \<and> truthy (ov_agencyOrgId (settings_get (settings_of m) x)))"
    and clients: "\<not> (\<not> b \<and> clientsOf (settings_of m') x \<noteq> [])"
  have ok: "one_level (T(x := (fst (T x), b)))"
    using client clients tied_get [OF m, of x] tied_clients [OF m', of x]
    by (intro one_level_status assms) auto
  have "fst (T x) = None" if "settings_row (settings_of q) x = None" "tied T q" for q
    using that by (auto simp: tied_def ties_are_def tie_row settings_of_def)
  then show "places T (thenE (write_settings (upsert_settings x (\<lambda>r. r\<lparr>os_isAgency := b\<rparr>)
      (\<lambda>r. r\<lparr>os_isAgency := b, os_payerVersion := os_payerVersion r + 1\<rparr>))) (retE (x, b)))"
    by (intro places_write [where T' = "T(x := (fst (T x), b))"] tied_upsert places_kept [OF _ ok])
      (simp_all add: blank_settings_def keeps_basic)
qed

lemma places_attach:
  assumes "one_level T"
  shows "places T (attachClient v a x n)"
  unfolding attachClient_def Let_def
proof (intro places_read places_refuse assms)
  fix m m'
  assume "a \<noteq> x" "tied T m" "tied T m'" "\<not> \<not> ov_isAgency (settings_get (settings_of m) a)"
    "\<not> ov_isAgency (settings_get (settings_of m') x)"
  then have ok: "one_level (T(x := (Some a, False)))" and x: "\<not> snd (T x)"
    using tied_get by (auto intro: one_level_attach [OF assms])
  show "places T (thenE (if ov_agencyOrgId (settings_get (settings_of m') x) \<noteq> Some a then assert_place v a else retE ())
      (thenE (write_settings (upsert_settings x
         (\<lambda>r. r\<lparr>os_agencyOrgId := Some a, os_clientName := n\<rparr>)
         (\<lambda>r. r\<lparr>os_agencyOrgId := Some a,
                os_clientName := nullish n (ov_clientName (settings_get (settings_of m') x)),
                os_payerVersion := os_payerVersion r + 1\<rparr>)))
      (bindE (summarise v [(x, nullish n (ov_clientName (settings_get (settings_of m') x)))])
         (\<lambda>summaries. retE (hd summaries)))))"
    using x
    by (intro places_then assms places_write [where T' = "T(x := (Some a, False))"] tied_upsert
        places_kept [OF _ ok] keeps_intros) (simp_all add: blank_settings_def)
qed

lemma places_create:
  assumes "one_level T"
    and fresh: "\<And>m c. tied T m \<Longrightarrow> fst (createOrganization env tok n m) = Inr c \<Longrightarrow> T (fst c) = (None, False)"
  shows "places T (createClient v env a n p u tok)"
  unfolding createClient_def
proof (rule places_agency [OF assms(1)], rule places_then [OF keeps_assert_place assms(1)],
    rule places_bind_out [OF _ assms(1)])
  show "keeps (tied T) (createOrganization env tok n)"
    by (rule keeps_same_core) (simp add: createOrganization_def Let_def split: graph_answer.splits option.splits)
  fix m c
  assume a: "snd (T a)" and "tied T m" "fst (createOrganization env tok n m) = Inr c"
  then have i: "T (fst c) = (None, False)" using fresh by blast
  then have "a \<noteq> fst c" using a by auto
  with i a have ok: "one_level (T(fst c := (Some a, False)))"
    by (intro one_level_attach [OF assms(1)]) simp_all
  show "places T (thenE (write_settings (upsert_settings (fst c)
       (\<lambda>r. r\<lparr>os_agencyOrgId := Some a, os_clientName := Some n\<rparr>)
       (\<lambda>r. r\<lparr>os_agencyOrgId := Some a, os_clientName := Some n, os_payerVersion := os_payerVersion r + 1\<rparr>)))
     (bindE (subscribe_in v a (fst c) p u) (\<lambda>s.
      retE \<lparr>csb_ssoOrgId = fst c, csb_name = n, csb_planCode = cr_planCode s,
            csb_planName = cr_planName s, csb_status = cr_status s, csb_currentEnd = cr_currentEnd s,
            csb_authorisation = cr_authorisation s\<rparr>)))"
    using i by (intro places_write [where T' = "T(fst c := (Some a, False))"] tied_upsert
        places_kept [OF _ ok] keeps_intros) (simp_all add: blank_settings_def)
qed

lemma places_own_client:
  assumes "one_level T" "fst (T x) = Some a \<Longrightarrow> places T g"
  shows "places T (thenE (own_client a x) g)"
  unfolding thenE_def
proof (rule places_bind_out [OF _ assms(1)])
  show "keeps (tied T) (own_client a x)" unfolding own_client_def by (intro keeps_intros)
next
  fix m y
  assume "tied T m" "fst (own_client a x m) = Inr y"
  then have "fst (T x) = Some a" using tied_get [of T m x]
    by (simp add: own_client_def bindE_def refuse_if_def split: if_splits)
  then show "places T g" by (rule assms(2))
qed

lemma keeps_caught: "keeps I f \<Longrightarrow> keeps I (catchE f (\<lambda>_. retE ()))"
  by (intro keeps_intros)

lemma write_last: "places T (thenE (write_settings f) (retE ())) \<Longrightarrow> places T (write_settings f)"
  by (simp add: places_def thenE_def bindE_def write_settings_def)

lemma places_detach:
  assumes "one_level T"
  shows "places T (detachClient v a x)"
  unfolding detachClient_def
proof (intro places_own_client places_then assms keeps_caught keeps_release_in)
  assume x: "fst (T x) = Some a"
  then have ok: "one_level (T(x := (None, False)))" by (rule one_level_detach [OF assms])
  have flat: "\<not> snd (T x)" using x assms by (auto simp: one_level_def)
  show "places T (write_settings (update_rows (\<lambda>r. os_org r = x)
      (\<lambda>r. r\<lparr>os_agencyOrgId := None, os_payerVersion := os_payerVersion r + 1\<rparr>)))"
    using flat
    by (intro write_last places_write [where T' = "T(x := (None, False))"] tied_update
        places_kept [OF _ ok] keeps_basic) simp_all
qed

lemma places_rename:
  assumes "one_level T"
  shows "places T (renameClient a x n)"
  unfolding renameClient_def
proof (intro places_own_client assms)
  assume x: "fst (T x) = Some a"
  have "fst (T x) = None" if "settings_row (settings_of m) x = None" "tied T m" for m
    using that by (auto simp: tied_def ties_are_def tie_row settings_of_def)
  with x have row: "settings_row (settings_of m) x \<noteq> None" if "tied T m" for m using that by auto
  show "places T (thenE (write_settings (update_rows (\<lambda>r. os_org r = x) (\<lambda>r. r\<lparr>os_clientName := Some n\<rparr>)))
      (retE (x, n)))"
    using row
    by (intro places_write [where T' = "T(x := T x)"] tied_update)
      (use row in \<open>force simp: places_kept assms keeps_basic\<close>)+
qed

lemma places_roster: "one_level T \<Longrightarrow> places T (agency_roster v a)"
  unfolding agency_roster_def by (intro places_kept keeps_intros)

section \<open>Deployments\<close>

text \<open>
  Every write of the agency service, a reading that fills the cache, and everything else that
  writes the table without moving anybody: a payer's version, tax details, a billing step.
  The DTO of a conversion refuses the empty organisation, and an organisation the SSO has just
  created belongs to nobody here.
\<close>

inductive agency_step :: "mworld \<Rightarrow> mworld \<Rightarrow> bool" where
  converts: "x \<noteq> [] \<Longrightarrow> agency_step m (snd (agency_convert x b m))"
| attaches: "agency_step m (snd (attachClient v a x n m))"
| creates: "(\<And>c. fst (createOrganization env tok n m) = Inr c \<Longrightarrow> tie (settings_of m) (fst c) = (None, False)) \<Longrightarrow>
    agency_step m (snd (createClient v env a n p u tok m))"
| detaches: "agency_step m (snd (detachClient v a x m))"
| renames: "agency_step m (snd (renameClient a x n m))"
| shows_roster: "agency_step m (snd (agency_roster v a m))"
| elsewhere: "settings_key_ok (settings_of m') \<Longrightarrow> tie (settings_of m') = tie (settings_of m) \<Longrightarrow> agency_step m m'"

inductive agency_reachable :: "mworld \<Rightarrow> bool" where
  start: "settings_of m = [] \<Longrightarrow> agency_reachable m"
| onward: "agency_reachable m \<Longrightarrow> agency_step m m' \<Longrightarrow> agency_reachable m'"

lemma placed_step:
  assumes "agency_step m m'" "placed m"
  shows "placed m'"
proof -
  obtain T where T: "one_level T" "tied T m" using assms(2) by (auto simp: placed_def)
  note run = places_def [THEN iffD1, rule_format, OF _ T(2)]
  from assms(1) show ?thesis
  proof (cases rule: agency_step.cases)
    case (converts x b)
    then show ?thesis using run [OF places_convert [OF T(1)]] by blast
  next
    case (attaches v a x n)
    then show ?thesis using run [OF places_attach [OF T(1)]] by blast
  next
    case (creates env tok n v a p u)
    have same: "fst (createOrganization env tok n q) = fst (createOrganization env tok n m)" for q :: mworld
      by (simp add: createOrganization_def Let_def split: graph_answer.splits option.splits)
    have "T = tie (settings_of m)" using T(2) by (simp add: tied_def ties_are_def settings_of_def)
    then have "T (fst c) = (None, False)" if "fst (createOrganization env tok n q) = Inr c" for q :: mworld and c
      using that creates(2) [of c] same [of q] by simp
    then show ?thesis unfolding creates(1) by (intro run [OF places_create [OF T(1)]])
  next
    case (detaches v a x)
    then show ?thesis using run [OF places_detach [OF T(1)]] by blast
  next
    case (renames a x n)
    then show ?thesis using run [OF places_rename [OF T(1)]] by blast
  next
    case (shows_roster v a)
    then show ?thesis using run [OF places_roster [OF T(1)]] by blast
  next
    case elsewhere
    then have "tied T m'" using T(2) by (simp add: tied_def ties_are_def settings_of_def)
    with T(1) show ?thesis by (rule placedI)
  qed
qed

lemma placed_reachable: "agency_reachable m \<Longrightarrow> placed m"
proof (induction rule: agency_reachable.induct)
  case (start m)
  have "agency_tree []" by (simp add: agency_tree_def settings_key_ok_def)
  with start show ?case by (simp add: placed_iff)
qed (rule placed_step)

lemma agency_step_bump: "agency_reachable m \<Longrightarrow>
    agency_step m (m\<lparr>m_core := invalidatePayer e x (m_core m)\<rparr>)"
  using placed_reachable [of m] ties_bump [of "tie (settings_of m)" "m_core m" e x]
  by (intro agency_step.elsewhere) (auto simp: placed_def tied_def ties_are_def settings_of_def)

section \<open>Who pays is a lookup\<close>

text \<open>C40: agencies are one level deep. Whatever conversions, attachments, creations, detachments
  and renames a deployment has seen, the organisation that pays for an organisation pays for
  itself (so one lookup answers it), an organisation somebody else pays for is paid for by an
  agency, the version its cached answers are keyed on is the payer's, and the organisations one
  bill covers are exactly those with the same payer.\<close>
theorem agencies_one_level:
  assumes "agency_reachable m"
  shows "billingOrgFor (settings_of m) (billingOrgFor (settings_of m) x) = billingOrgFor (settings_of m) x \<and>
    (billingOrgFor (settings_of m) x = x \<or>
     ov_isAgency (settings_get (settings_of m) (billingOrgFor (settings_of m) x))) \<and>
    cacheVersionFor (settings_of m) x =
      ov_payerVersion (settings_get (settings_of m) (billingOrgFor (settings_of m) x)) \<and>
    set (billingScope (settings_of m) x) =
      {y. billingOrgFor (settings_of m) y = billingOrgFor (settings_of m) x}"
proof -
  let ?rows = "settings_of m"
  have k: "settings_key_ok ?rows" and l: "one_level (tie ?rows)"
    using placed_reachable [OF assms] by (simp_all add: placed_iff agency_tree_iff)
  have payer: "billingOrgFor ?rows y = (case fst (tie ?rows y) of None \<Rightarrow> y | Some a \<Rightarrow> a)" for y
    by (simp add: billingOrgFor_def tie_def nullish_def_val_def)
  have up: "tie ?rows a = (None, True) \<and> a \<noteq> []" if "fst (tie ?rows y) = Some a" for y a
    using l that unfolding one_level_def by (metis snd_conv)
  have root: "billingOrgFor ?rows (billingOrgFor ?rows y) = billingOrgFor ?rows y" for y
    using up [of y] by (auto simp: payer split: option.splits)
  have scope: "y \<in> set (billingScope ?rows x) \<longleftrightarrow> billingOrgFor ?rows y = billingOrgFor ?rows x" for y
    using root [of x] payer [of "billingOrgFor ?rows x"]
    by (auto simp: billingScope_def Let_def clientsOf_iff [OF k] payer [of y] split: option.splits)
  have "cacheVersionFor ?rows x = ov_payerVersion (settings_get ?rows (billingOrgFor ?rows x))"
    using up [of x] by (auto simp: cacheVersionFor_def Let_def billingOrgFor_def tie_def nullish_def_val_def
        truthy_def split: option.splits)
  moreover have "billingOrgFor ?rows x = x \<or> ov_isAgency (settings_get ?rows (billingOrgFor ?rows x))"
    using up [of x] by (auto simp: payer tie_def split: option.splits)
  ultimately show ?thesis using root [of x] scope by auto
qed

text \<open>One agency made and one client attached to it.\<close>

definition no_orgs :: mworld where
  "no_orgs = messaging_world\<lparr>m_core := sample_world
     \<lparr>w_plans := [sample_plan\<lparr>pl_includedClients := Some 5\<rparr>], w_settings := []\<rparr>\<rparr>"

definition one_agency :: mworld where
  "one_agency = snd (agency_convert ''acme'' True no_orgs)"

definition one_client :: mworld where
  "one_client = snd (attachClient sample_menv ''acme'' ''client'' (Some ''Client Ltd'') one_agency)"

lemma one_client_reachable: "agency_reachable one_client"
proof -
  have "agency_reachable no_orgs"
    by (rule agency_reachable.start) (simp add: no_orgs_def settings_of_def)
  then have "agency_reachable one_agency" unfolding one_agency_def
    by (rule agency_reachable.onward) (simp add: agency_step.converts)
  then show ?thesis unfolding one_client_def
    by (rule agency_reachable.onward) (rule agency_step.attaches)
qed

lemma one_client_payer: "billingOrgFor (settings_of one_client) ''client'' = ''acme''"
  by code_simp

theorem agencies_one_level_witness:
  "billingOrgFor (settings_of one_client) ''client'' = ''acme'' \<and>
   set (billingScope (settings_of one_client) ''client'') =
     {y. billingOrgFor (settings_of one_client) y = ''acme''}"
  using agencies_one_level [OF one_client_reachable, of "''client''"] by (simp add: one_client_payer)

section \<open>What the edges leave behind\<close>

text \<open>
  The cached answers of a client are keyed on its agency's version from the moment it is
  attached, and the bump of its own version that goes with the attachment is of a counter
  nobody reads any more: an answer cached under its own version is read again whenever the two
  counters happen to agree.
\<close>

definition refused_once :: mworld where
  "refused_once = one_agency\<lparr>m_core := snd (hasAccess sample_env ''client'' ''waba1'' (m_core one_agency))\<rparr>"

definition attached_after :: world where
  "attached_after = m_core (snd (attachClient sample_menv ''acme'' ''client'' None refused_once))"

lemma attachment_reads_stale_answer:
  "\<not> fst (hasAccess sample_env ''client'' ''waba1'' attached_after)"
  "fst (hasAccess sample_env ''client'' ''waba1'' (attached_after\<lparr>w_redis := Map.empty\<rparr>))"
  by code_simp+

text \<open>
  Nor does moving the agency's version help: where the client had reached a higher version of
  its own, the next move brings the agency to a version the client was refused under.
\<close>

definition refused_later :: mworld where
  "refused_later = one_agency\<lparr>m_core := snd (hasAccess sample_env ''client'' ''waba1''
     (invalidatePayer sample_env ''client'' (m_core one_agency)))\<rparr>"

definition attached_later :: world where
  "attached_later = m_core (snd (attachClient sample_menv ''acme'' ''client'' None refused_later))"

lemma attachment_revives_answer:
  "cacheVersionFor (w_settings attached_later) ''client'' <
   cacheVersionFor (w_settings (m_core refused_later)) ''client''"
  "\<not> fst (hasAccess sample_env ''client'' ''waba1'' (invalidatePayer sample_env ''acme'' attached_later))"
  "fst (hasAccess sample_env ''client'' ''waba1''
     ((invalidatePayer sample_env ''acme'' attached_later)\<lparr>w_redis := Map.empty\<rparr>))"
  by code_simp+

text \<open>
  A release that failed at the provider is swallowed like one with nothing to release: the client
  is detached and the mandate goes on charging for it.
\<close>

definition paying_client :: mworld where
  "paying_client = snd (subscribe_in
     (sample_menv\<lparr>mv_core := sample_env\<lparr>e_api := plain_api\<lparr>api_subscription := (\<lambda>_ _. Inr
        \<lparr>rz_id = ''sub_9'', rz_plan_id = ''plan_starter'', rz_status = ''active'', rz_current_start = None,
         rz_current_end = None, rz_short_url = None, rz_notes = []\<rparr>)\<rparr>\<rparr>\<rparr>)
     ''acme'' ''client'' ''starter'' 1 one_client)"

definition refusing_menv :: menv where
  "refusing_menv = sample_menv\<lparr>mv_core := sample_env\<lparr>e_api := plain_api\<lparr>api_subscription := (\<lambda>_ _. Inl
     \<lparr>rze_description = Some ''server error'', rze_message = ''500''\<rparr>)\<rparr>\<rparr>\<rparr>"

lemma detached_while_charged:
  "\<not> isl (fst (detachClient refusing_menv ''acme'' ''client'' paying_client))"
  "clientsOf (settings_of (snd (detachClient refusing_menv ''acme'' ''client'' paying_client))) ''acme'' = []"
  "map bg_quantity (w_groups (m_core (snd (detachClient refusing_menv ''acme'' ''client'' paying_client)))) = [1]"
  "map bg_cancelAtCycleEnd (w_groups (m_core (snd (detachClient refusing_menv ''acme'' ''client'' paying_client)))) = [False]"
  by code_simp+

text \<open>
  The place on the roster is checked before anything is created; the plan is not, and a plan
  nobody sells leaves an organisation in the SSO and on the roster.
\<close>

definition creating_auth :: auth_env where
  "creating_auth = sample_auth\<lparr>ax_create := (\<lambda>_ _ _. GraphOk (Some (JObj [(''id'', JStr ''org_new'')])))\<rparr>"

lemma unsold_plan_leaves_orphan:
  "isl (fst (createClient sample_menv creating_auth ''acme'' ''New Ltd'' ''no-such-plan'' 1 ''t'' one_agency))"
  "clientsOf (settings_of (snd (createClient sample_menv creating_auth ''acme'' ''New Ltd'' ''no-such-plan'' 1 ''t'' one_agency)))
     ''acme'' = [''org_new'']"
  by code_simp+

end
